(* ===== verification/Prelude.thy ===== *)
theory Prelude
  imports Main "HOL-Library.Word"
begin

text \<open>
  Shared vocabulary of the development: Go integers and strings, error values with a gRPC
  status code, and the generic list, option and sum lemmas the component theories use.

  Go \<^emph>\<open>strings\<close> are byte sequences and become Isabelle strings; \<open>int64\<close> is a
  64 bit word read through \<^const>\<open>sint\<close>. A Go \<^emph>\<open>error\<close> is a status code together with
  the text of \<open>err.Error()\<close>: \<open>status.Code\<close> looks through the wrappers that
  \<open>fmt.Errorf\<close> builds with \<open>%w\<close>, so wrapping changes the text and keeps the code, and an
  error made by \<open>fmt.Errorf\<close> alone has the code \<open>Unknown\<close>.
\<close>

named_theorems go_str \<open>equations of the string functions\<close>
named_theorems effects \<open>what an operation does to the stored documents\<close>

section \<open>Integers\<close>

type_synonym int64 = "64 word"

lemma sint_inc64: "sint (a :: int64) < sint (b :: int64) \<Longrightarrow> sint (a + 1) = sint a + 1"
proof -
  assume lt: "sint a < sint b"
  have "sint b < 2 ^ 63" using sint_range_size[of b] by (simp add: word_size)
  with lt have "sint a + 1 < 2 ^ 63" by simp
  moreover have "- (2 ^ 63) \<le> sint a" using sint_range_size[of a] by (simp add: word_size)
  ultimately show ?thesis by (simp add: sint_word_ariths(1) signed_take_bit_int_eq_self)
qed

lemma sint_dec64: "0 < sint (a :: int64) \<Longrightarrow> sint (a - 1) = sint a - 1"
proof -
  assume pos: "0 < sint a"
  have "sint a < 2 ^ 63" using sint_range_size[of a] by (simp add: word_size)
  with pos show ?thesis by (simp add: sint_word_ariths(2) signed_take_bit_int_eq_self)
qed

section \<open>Strings\<close>

definition dquote :: char where "dquote = CHR 0x22"
definition backslash :: char where "backslash = CHR 0x5C"
definition newline :: char where "newline = CHR 0x0A"

text \<open>\<open>strings.HasPrefix\<close>, \<open>TrimPrefix\<close>, \<open>HasSuffix\<close> and \<open>TrimSuffix\<close>.\<close>

fun has_prefix :: "string \<Rightarrow> string \<Rightarrow> bool" where
  "has_prefix s [] = True"
| "has_prefix [] (p # ps) = False"
| "has_prefix (c # cs) (p # ps) = (c = p \<and> has_prefix cs ps)"

definition trim_prefix :: "string \<Rightarrow> string \<Rightarrow> string" where
  "trim_prefix s p = (if has_prefix s p then drop (length p) s else s)"

definition has_suffix :: "string \<Rightarrow> string \<Rightarrow> bool" where
  "has_suffix s p = has_prefix (rev s) (rev p)"

definition trim_suffix :: "string \<Rightarrow> string \<Rightarrow> string" where
  "trim_suffix s p = (if has_suffix s p then take (length s - length p) s else s)"

text \<open>\<open>strings.Split\<close> at a one-character separator, and \<open>strings.Join\<close>.\<close>

fun split_on :: "char \<Rightarrow> string \<Rightarrow> string list" where
  "split_on sep [] = [[]]"
| "split_on sep (c # cs) =
     (if c = sep then [] # split_on sep cs
      else (case split_on sep cs of [] \<Rightarrow> [[c]] | p # ps \<Rightarrow> (c # p) # ps))"

fun join :: "string \<Rightarrow> string list \<Rightarrow> string" where
  "join sep [] = []"
| "join sep [x] = x"
| "join sep (x # y # ys) = x @ sep @ join sep (y # ys)"

text \<open>
  \<open>strings.ReplaceAll(s, old, new)\<close> for a non-empty \<open>old\<close>: occurrences are found from the
  left and do not overlap. The scan never looks at replaced text again.
\<close>

function replace_all :: "string \<Rightarrow> string \<Rightarrow> string \<Rightarrow> string" where
  "replace_all s old new =
     (if old = [] then s
      else if has_prefix s old then new @ replace_all (drop (length old) s) old new
      else (case s of [] \<Rightarrow> [] | c # cs \<Rightarrow> c # replace_all cs old new))"
  by pat_completeness auto
termination
proof (relation "measure (\<lambda>(s, old, new). length s)", goal_cases)
  case 1 then show ?case by simp
next
  case (2 s old new)
  then have "s \<noteq> []" by (cases s; cases old) auto
  with 2 show ?case by auto
next
  case (3 s old new c cs) then show ?case by simp
qed

declare replace_all.simps [simp del]

text \<open>The verb \<open>%q\<close> on strings of printable characters.\<close>

definition go_quote :: "string \<Rightarrow> string" where
  "go_quote s = dquote # concat (map (\<lambda>c. if c = dquote \<or> c = backslash then [backslash, c]
     else if c = newline then [backslash, CHR ''n''] else [c]) s) @ [dquote]"

text \<open>A decimal number, \<open>strconv.Itoa\<close> and the verb \<open>%d\<close>.\<close>

fun nat_text :: "nat \<Rightarrow> string" where
  "nat_text n = (if n < 10 then [char_of (48 + n)] else nat_text (n div 10) @ [char_of (48 + n mod 10)])"

declare nat_text.simps [simp del]

definition int_text :: "int \<Rightarrow> string" where
  "int_text i = (if i < 0 then CHR ''-'' # nat_text (nat (- i)) else nat_text (nat i))"

lemma has_prefix_iff [go_str]: "has_prefix s p \<longleftrightarrow> (\<exists>r. s = p @ r)"
  by (induction s p rule: has_prefix.induct) auto

lemma has_prefix_append [simp]: "has_prefix (p @ r) p"
  by (simp add: has_prefix_iff)

lemma trim_prefix_append [simp]: "trim_prefix (p @ r) p = r"
  by (simp add: trim_prefix_def)

lemma split_on_nonempty [simp]: "split_on sep s \<noteq> []"
  by (induction s) (auto split: list.split)

lemma split_on_no_sep: "sep \<notin> set s \<Longrightarrow> split_on sep s = [s]"
  by (induction s) auto

lemma split_on_append: "sep \<notin> set p \<Longrightarrow> split_on sep (p @ sep # s) = p # split_on sep s"
  by (induction p) auto

lemma split_on_parts: "p \<in> set (split_on sep s) \<Longrightarrow> sep \<notin> set p"
  by (induction s arbitrary: p) (auto split: if_splits list.splits)

text \<open>Joining with a separator that occurs in no part loses nothing.\<close>

lemma split_on_join:
  "ps \<noteq> [] \<Longrightarrow> \<forall>p\<in>set ps. sep \<notin> set p \<Longrightarrow> split_on sep (join [sep] ps) = ps"
  by (induction "[sep]" ps rule: join.induct) (auto simp: split_on_no_sep split_on_append)

lemma join_Cons: "ps \<noteq> [] \<Longrightarrow> join sep (p # ps) = p @ sep @ join sep ps"
  by (cases ps) auto

lemma join_Cons_Cons: "join sep ((c # p) # ps) = c # join sep (p # ps)"
  by (cases ps) auto

lemma join_split_on: "join [sep] (split_on sep s) = s"
proof (induction s)
  case Nil
  then show ?case by simp
next
  case (Cons c cs)
  obtain p ps where ps: "split_on sep cs = p # ps"
    using split_on_nonempty[of sep cs] by (cases "split_on sep cs") auto
  show ?case
    using Cons ps by (cases "c = sep") (simp_all add: join_Cons join_Cons_Cons)
qed

lemma sep_append_inject:
  "sep \<notin> set p \<Longrightarrow> sep \<notin> set q \<Longrightarrow> p @ sep # r = q @ sep # s \<longleftrightarrow> p = q \<and> r = s"
proof (induction p arbitrary: q)
  case Nil
  then show ?case by (cases q) auto
next
  case (Cons a p)
  then show ?case by (cases q) auto
qed

section \<open>Errors\<close>

datatype rpc_code =
    Canceled | Unknown | InvalidArgument | DeadlineExceeded | NotFound | AlreadyExists
  | PermissionDenied | ResourceExhausted | FailedPrecondition | Aborted | OutOfRange
  | Unimplemented | Internal | Unavailable | DataLoss | Unauthenticated

fun code_name :: "rpc_code \<Rightarrow> string" where
  "code_name Canceled = ''Canceled''"
| "code_name Unknown = ''Unknown''"
| "code_name InvalidArgument = ''InvalidArgument''"
| "code_name DeadlineExceeded = ''DeadlineExceeded''"
| "code_name NotFound = ''NotFound''"
| "code_name AlreadyExists = ''AlreadyExists''"
| "code_name PermissionDenied = ''PermissionDenied''"
| "code_name ResourceExhausted = ''ResourceExhausted''"
| "code_name FailedPrecondition = ''FailedPrecondition''"
| "code_name Aborted = ''Aborted''"
| "code_name OutOfRange = ''OutOfRange''"
| "code_name Unimplemented = ''Unimplemented''"
| "code_name Internal = ''Internal''"
| "code_name Unavailable = ''Unavailable''"
| "code_name DataLoss = ''DataLoss''"
| "code_name Unauthenticated = ''Unauthenticated''"

datatype gerr = GErr (err_code: rpc_code) (err_text: string)

text \<open>\<open>fmt.Errorf\<close> without and with \<open>%w\<close>, and \<open>status.Error\<close>.\<close>

definition errorf :: "string \<Rightarrow> gerr" where
  "errorf msg = GErr Unknown msg"

definition wrap_err :: "string \<Rightarrow> gerr \<Rightarrow> gerr" where
  "wrap_err pre e = GErr (err_code e) (pre @ err_text e)"

definition status_error :: "rpc_code \<Rightarrow> string \<Rightarrow> gerr" where
  "status_error c msg = GErr c (''rpc error: code = '' @ code_name c @ '' desc = '' @ msg)"

lemma err_code_simps [simp]:
  "err_code (errorf m) = Unknown"
  "err_code (wrap_err p e) = err_code e"
  "err_code (status_error c m) = c"
  by (simp_all add: errorf_def wrap_err_def status_error_def)

section \<open>Results and association lists\<close>

text \<open>A call returns its result, or its error, and the state it leaves behind.\<close>

type_synonym ('w, 'a) ret = "(gerr + 'a) \<times> 'w"

lemma case_ret_okE:
  assumes "case x of (Inl e, w) \<Rightarrow> False | (Inr y, w) \<Rightarrow> P y w"
  obtains y w where "x = (Inr y, w)" "P y w"
  using assms by (auto split: prod.splits sum.splits)

lemma case_ret_errE:
  assumes "case x of (Inl e, w) \<Rightarrow> P e w | (Inr y, w) \<Rightarrow> False"
  obtains e w where "x = (Inl e, w)" "P e w"
  using assms by (auto split: prod.splits sum.splits)

fun get_field :: "string \<Rightarrow> (string \<times> 'a) list \<Rightarrow> 'a option" where
  "get_field k [] = None"
| "get_field k ((k', v) # fs) = (if k' = k then Some v else get_field k fs)"

lemma get_field_append:
  "get_field k (xs @ ys) = (case get_field k xs of Some v \<Rightarrow> Some v | None \<Rightarrow> get_field k ys)"
  by (induction xs) auto

lemma get_field_None: "get_field k fs = None \<longleftrightarrow> k \<notin> fst ` set fs"
  by (induction k fs rule: get_field.induct) auto

lemma get_field_Some: "distinct (map fst fs) \<Longrightarrow> get_field k fs = Some v \<longleftrightarrow> (k, v) \<in> set fs"
  by (induction k fs rule: get_field.induct) (auto simp: rev_image_eqI)

end
