(* ===== verification/Json.thy ===== *)
theory Json
  imports Prelude "HOL-Library.Char_ord" "HOL-Library.List_Lexorder"
begin

text \<open>
  What the program uses of \<open>encoding/json\<close>: the text format, the reading of an object into a
  struct by field name, and the normal form in which Go keeps an object as a
  \<open>map[string]any\<close> (no duplicate keys, the last one wins, and printed in key order).

  Numbers are kept as the literal that was written. Strings are byte strings that are assumed
  to be valid UTF-8, so bytes from 128 on pass through in both directions. The parser takes
  fuel; \<open>json_parse\<close> starts it with twice the length of the text, and \<open>p_val_enough\<close> says that
  more fuel never changes the answer. Go's limit of 10000 nested values is not modelled.
\<close>

datatype json =
    JNull
  | JBool bool
  | JNum string
  | JStr string
  | JArr "json list"
  | JObj "(string \<times> json) list"

section \<open>Printing\<close>

definition hex_digits :: string where "hex_digits = ''0123456789abcdef''"

definition hex_digit :: "nat \<Rightarrow> char" where "hex_digit n = hex_digits ! n"

definition byte :: "char \<Rightarrow> nat" where "byte c = of_char c"

text \<open>The escapes of \<open>json.Marshal\<close>, which also escapes the HTML characters.\<close>

definition esc :: "char \<Rightarrow> string" where
  "esc c =
     (if c = dquote \<or> c = backslash then [backslash, c]
      else if c = CHR 0x08 then [backslash, CHR ''b'']
      else if c = CHR 0x0C then [backslash, CHR ''f'']
      else if c = CHR 0x0A then [backslash, CHR ''n'']
      else if c = CHR 0x0D then [backslash, CHR ''r'']
      else if c = CHR 0x09 then [backslash, CHR ''t'']
      else if byte c < 32 \<or> c = CHR ''<'' \<or> c = CHR ''>'' \<or> c = CHR ''&''
        then [backslash, CHR ''u'', CHR ''0'', CHR ''0'', hex_digit (byte c div 16), hex_digit (byte c mod 16)]
      else [c])"

definition print_str :: "string \<Rightarrow> string" where
  "print_str s = dquote # concat (map esc s) @ [dquote]"

fun json_print :: "json \<Rightarrow> string"
and print_elems :: "json list \<Rightarrow> string"
and print_members :: "(string \<times> json) list \<Rightarrow> string" where
  "json_print JNull = ''null''"
| "json_print (JBool b) = (if b then ''true'' else ''false'')"
| "json_print (JNum n) = n"
| "json_print (JStr s) = print_str s"
| "json_print (JArr xs) = CHR ''['' # print_elems xs"
| "json_print (JObj fs) = CHR ''{'' # print_members fs"
| "print_elems [] = '']''"
| "print_elems (x # xs) = json_print x @ (if xs = [] then '']'' else CHR '','' # print_elems xs)"
| "print_members [] = ''}''"
| "print_members ((k, v) # fs) =
     print_str k @ CHR '':'' # json_print v @ (if fs = [] then ''}'' else CHR '','' # print_members fs)"

section \<open>Parsing\<close>

definition is_ws :: "char \<Rightarrow> bool" where
  "is_ws c = (c = CHR '' '' \<or> c = CHR 0x09 \<or> c = CHR 0x0A \<or> c = CHR 0x0D)"

definition skip_ws :: "string \<Rightarrow> string" where "skip_ws s = dropWhile is_ws s"

definition is_digit :: "char \<Rightarrow> bool" where "is_digit c = (48 \<le> byte c \<and> byte c \<le> 57)"

definition num_char :: "char \<Rightarrow> bool" where
  "num_char c = (is_digit c \<or> c = CHR ''-'' \<or> c = CHR ''+'' \<or> c = CHR ''.'' \<or> c = CHR ''e'' \<or> c = CHR ''E'')"

definition exp_ok :: "string \<Rightarrow> bool" where
  "exp_ok s = (case s of [] \<Rightarrow> True
     | c # cs \<Rightarrow> (c = CHR ''e'' \<or> c = CHR ''E'') \<and>
         (let ds = (case cs of [] \<Rightarrow> [] | d # ds' \<Rightarrow> if d = CHR ''+'' \<or> d = CHR ''-'' then ds' else cs)
          in ds \<noteq> [] \<and> list_all is_digit ds))"

definition frac_ok :: "string \<Rightarrow> bool" where
  "frac_ok s = (case s of [] \<Rightarrow> True
     | c # cs \<Rightarrow> if c = CHR ''.'' then cs \<noteq> [] \<and> is_digit (hd cs) \<and> exp_ok (dropWhile is_digit cs)
                 else exp_ok s)"

text \<open>The number grammar: sign, integer part without leading zeros, fraction, exponent.\<close>

definition num_lit :: "string \<Rightarrow> bool" where
  "num_lit s = (list_all num_char s \<and>
     (case (case s of [] \<Rightarrow> [] | c # cs \<Rightarrow> if c = CHR ''-'' then cs else s) of
        [] \<Rightarrow> False
      | c # cs \<Rightarrow> if c = CHR ''0'' then frac_ok cs
                  else is_digit c \<and> frac_ok (dropWhile is_digit cs)))"

definition hex_val :: "char \<Rightarrow> nat option" where
  "hex_val c =
     (if is_digit c then Some (byte c - 48)
      else if 97 \<le> byte c \<and> byte c \<le> 102 then Some (byte c - 87)
      else if 65 \<le> byte c \<and> byte c \<le> 70 then Some (byte c - 55)
      else None)"

definition hex4 :: "char \<Rightarrow> char \<Rightarrow> char \<Rightarrow> char \<Rightarrow> nat option" where
  "hex4 a b c d = (case (hex_val a, hex_val b, hex_val c, hex_val d) of
     (Some i, Some j, Some k, Some l) \<Rightarrow> Some (4096 * i + 256 * j + 16 * k + l)
   | _ \<Rightarrow> None)"

definition utf8 :: "nat \<Rightarrow> string" where
  "utf8 k = map char_of
     (if k < 128 then [k]
      else if k < 2048 then [192 + k div 64, 128 + k mod 64]
      else if k < 65536 then [224 + k div 4096, 128 + k div 64 mod 64, 128 + k mod 64]
      else [240 + k div 262144, 128 + k div 4096 mod 64, 128 + k div 64 mod 64, 128 + k mod 64])"

text \<open>A surrogate pair of two escapes is one character; a surrogate alone reads as U+FFFD.\<close>

definition surrogate :: "nat \<Rightarrow> string \<Rightarrow> nat \<times> string" where
  "surrogate k r =
     (if 0xD800 \<le> k \<and> k < 0xDC00 then
        (case r of
           b # u # p # q # x # y # r' \<Rightarrow>
             (if b = backslash \<and> u = CHR ''u'' then
                (case hex4 p q x y of
                   Some l \<Rightarrow> if 0xDC00 \<le> l \<and> l < 0xE000
                      then (0x10000 + (k - 0xD800) * 0x400 + (l - 0xDC00), r') else (0xFFFD, r)
                 | None \<Rightarrow> (0xFFFD, r))
              else (0xFFFD, r))
         | _ \<Rightarrow> (0xFFFD, r))
      else if 0xDC00 \<le> k \<and> k < 0xE000 then (0xFFFD, r)
      else (k, r))"

lemma surrogate_length: "length (snd (surrogate k r)) \<le> length r"
  by (auto simp: surrogate_def split: list.split option.split)

definition simple_escape :: "char \<Rightarrow> char option" where
  "simple_escape c =
     (if c = dquote \<or> c = backslash \<or> c = CHR ''/'' then Some c
      else if c = CHR ''b'' then Some (CHR 0x08)
      else if c = CHR ''f'' then Some (CHR 0x0C)
      else if c = CHR ''n'' then Some (CHR 0x0A)
      else if c = CHR ''r'' then Some (CHR 0x0D)
      else if c = CHR ''t'' then Some (CHR 0x09)
      else None)"

text \<open>The rest of a string after its opening quote.\<close>

function p_str :: "string \<Rightarrow> (string \<times> string) option" where
  "p_str [] = None"
| "p_str (c # cs) =
     (if c = dquote then Some ([], cs)
      else if c = backslash then
        (case cs of
           [] \<Rightarrow> None
         | e # es \<Rightarrow>
             if e = CHR ''u'' then
               (case es of
                  p # q # x # y # r \<Rightarrow>
                    (case hex4 p q x y of
                       None \<Rightarrow> None
                     | Some k \<Rightarrow> map_option (apfst (append (utf8 (fst (surrogate k r)))))
                         (p_str (snd (surrogate k r))))
                | _ \<Rightarrow> None)
             else
               (case simple_escape e of
                  None \<Rightarrow> None
                | Some ch \<Rightarrow> map_option (apfst (Cons ch)) (p_str es)))
      else if byte c < 32 then None
      else map_option (apfst (Cons c)) (p_str cs))"
  by pat_completeness auto
termination
  by (relation "measure length") (auto simp: le_imp_less_Suc surrogate_length
      intro!: le_imp_less_Suc le_SucI[OF surrogate_length] le_SucI)

text \<open>The values that are no string, array or object.\<close>

definition p_lit :: "string \<Rightarrow> (json \<times> string) option" where
  "p_lit s =
     (if has_prefix s ''null'' then Some (JNull, drop 4 s)
      else if has_prefix s ''true'' then Some (JBool True, drop 4 s)
      else if has_prefix s ''false'' then Some (JBool False, drop 5 s)
      else if num_lit (takeWhile num_char s)
        then Some (JNum (takeWhile num_char s), dropWhile num_char s)
      else None)"

fun p_val :: "nat \<Rightarrow> string \<Rightarrow> (json \<times> string) option"
and p_elems :: "nat \<Rightarrow> string \<Rightarrow> (json list \<times> string) option"
and p_members :: "nat \<Rightarrow> string \<Rightarrow> ((string \<times> json) list \<times> string) option" where
  "p_val 0 s = None"
| "p_val (Suc n) s =
     (case skip_ws s of
        [] \<Rightarrow> None
      | c # cs \<Rightarrow>
          if c = dquote then map_option (apfst JStr) (p_str cs)
          else if c = CHR ''['' then
            (case skip_ws cs of
               [] \<Rightarrow> None
             | d # ds \<Rightarrow> if d = CHR '']'' then Some (JArr [], ds)
                         else map_option (apfst JArr) (p_elems n cs))
          else if c = CHR ''{'' then
            (case skip_ws cs of
               [] \<Rightarrow> None
             | d # ds \<Rightarrow> if d = CHR ''}'' then Some (JObj [], ds)
                         else map_option (apfst JObj) (p_members n cs))
          else p_lit (c # cs))"
| "p_elems 0 s = None"
| "p_elems (Suc n) s =
     (case p_val n s of
        None \<Rightarrow> None
      | Some (x, r) \<Rightarrow>
          (case skip_ws r of
             [] \<Rightarrow> None
           | d # ds \<Rightarrow>
               if d = CHR '','' then map_option (apfst (Cons x)) (p_elems n ds)
               else if d = CHR '']'' then Some ([x], ds)
               else None))"
| "p_members 0 s = None"
| "p_members (Suc n) s =
     (case skip_ws s of
        [] \<Rightarrow> None
      | c # cs \<Rightarrow>
          if c = dquote then
            (case p_str cs of
               None \<Rightarrow> None
             | Some (k, r) \<Rightarrow>
                 (case skip_ws r of
                    [] \<Rightarrow> None
                  | d # ds \<Rightarrow>
                      if d = CHR '':'' then
                        (case p_val n ds of
                           None \<Rightarrow> None
                         | Some (v, r') \<Rightarrow>
                             (case skip_ws r' of
                                [] \<Rightarrow> None
                              | e # es \<Rightarrow>
                                  if e = CHR '','' then map_option (apfst (Cons (k, v))) (p_members n es)
                                  else if e = CHR ''}'' then Some ([(k, v)], es)
                                  else None))
                      else None))
          else None)"

definition json_fuel :: "string \<Rightarrow> nat" where "json_fuel s = 2 * length s + 2"

text \<open>
  \<open>json.Unmarshal\<close> wants one value and nothing but white space after it;
  \<open>Decoder.Decode\<close> reads one value and leaves the rest of the stream alone.
\<close>

definition json_parse :: "string \<Rightarrow> json option" where
  "json_parse s = (case p_val (json_fuel s) s of
     Some (j, r) \<Rightarrow> if skip_ws r = [] then Some j else None
   | None \<Rightarrow> None)"

definition json_decode :: "string \<Rightarrow> json option" where
  "json_decode s = map_option fst (p_val (json_fuel s) s)"

section \<open>Parsing what was printed\<close>

fun wf_json :: "json \<Rightarrow> bool" where
  "wf_json (JNum n) = num_lit n"
| "wf_json (JArr xs) = list_all wf_json xs"
| "wf_json (JObj fs) = list_all (\<lambda>(k, v). wf_json v) fs"
| "wf_json j = True"

lemma hex_val_digit: "k < 16 \<Longrightarrow> hex_val (hex_digit k) = Some k"
proof -
  assume "k < 16"
  moreover have "list_all (\<lambda>k. hex_val (hex_digit k) = Some k) [0..<16]" by code_simp
  ultimately show ?thesis by (simp add: list_all_iff)
qed

lemma byte_less: "byte c < 256" by (simp add: byte_def)

lemma utf8_byte: "byte c < 128 \<Longrightarrow> utf8 (byte c) = [c]"
  by (simp add: utf8_def byte_def)

lemma hex_val_0 [simp]: "hex_val (CHR ''0'') = Some 0" by code_simp

lemma p_str_unicode: "byte c < 128 \<Longrightarrow>
    p_str ([backslash, CHR ''u'', CHR ''0'', CHR ''0'', hex_digit (byte c div 16), hex_digit (byte c mod 16)] @ r)
      = map_option (apfst (Cons c)) (p_str r)"
proof -
  assume c: "byte c < 128"
  then have "hex4 (CHR ''0'') (CHR ''0'') (hex_digit (byte c div 16)) (hex_digit (byte c mod 16)) = Some (byte c)"
    by (simp add: hex4_def hex_val_digit)
  moreover have "append [c] = Cons c" by (simp add: fun_eq_iff)
  ultimately show ?thesis using c
    by (simp add: surrogate_def utf8_byte backslash_def dquote_def)
qed

definition escaped_char :: "char \<Rightarrow> bool" where
  "escaped_char c = (c = dquote \<or> c = backslash \<or> c = CHR 0x08 \<or> c = CHR 0x0C \<or> c = CHR 0x0A \<or>
     c = CHR 0x0D \<or> c = CHR 0x09)"

lemma p_str_esc: "p_str (esc c @ r) = map_option (apfst (Cons c)) (p_str r)"
proof (cases "escaped_char c")
  case True
  then show ?thesis
    by (auto simp: escaped_char_def esc_def simple_escape_def backslash_def dquote_def)
next
  case False
  show ?thesis
  proof (cases "byte c < 32 \<or> c = CHR ''<'' \<or> c = CHR ''>'' \<or> c = CHR ''&''")
    case True
    then have "byte c < 128" by (auto simp: byte_def)
    moreover have "esc c = [backslash, CHR ''u'', CHR ''0'', CHR ''0'', hex_digit (byte c div 16), hex_digit (byte c mod 16)]"
      using True False by (simp add: esc_def escaped_char_def)
    ultimately show ?thesis by (simp only: p_str_unicode)
  next
    case no: False
    with False have "esc c = [c]" "c \<noteq> dquote" "c \<noteq> backslash"
      by (simp_all add: esc_def escaped_char_def)
    with no show ?thesis by simp
  qed
qed

lemma p_str_print: "p_str (concat (map esc s) @ dquote # r) = Some (s, r)"
  by (induction s) (simp_all add: p_str_esc)

definition delim :: "string \<Rightarrow> bool" where
  "delim r = (case r of [] \<Rightarrow> True | c # cs \<Rightarrow> \<not> num_char c)"

lemma delim_simps [simp]: "delim []" "delim (CHR '','' # r)" "delim (CHR '']'' # r)" "delim (CHR ''}'' # r)"
  by (simp_all add: delim_def num_char_def is_digit_def byte_def)

lemma num_lit_head:
  assumes "num_lit n"
  obtains c cs where "n = c # cs" "is_digit c \<or> c = CHR ''-''"
  using assms by (cases n) (auto simp: num_lit_def is_digit_def byte_def split: if_splits)

lemma takeWhile_num: "num_lit n \<Longrightarrow> delim r \<Longrightarrow> takeWhile num_char (n @ r) = n \<and> dropWhile num_char (n @ r) = r"
  by (cases r) (auto simp: num_lit_def delim_def takeWhile_append list_all_iff dropWhile_append)

lemma skip_ws_char [simp]: "\<not> is_ws c \<Longrightarrow> skip_ws (c # cs) = c # cs"
  by (simp add: skip_ws_def)

lemma not_ws [simp]: "\<not> is_ws dquote" "\<not> is_ws (CHR ''['')" "\<not> is_ws (CHR ''{'')" "\<not> is_ws (CHR '']'')"
  "\<not> is_ws (CHR ''}'')" "\<not> is_ws (CHR '','')" "\<not> is_ws (CHR '':'')" "\<not> is_ws (CHR ''n'')"
  "\<not> is_ws (CHR ''t'')" "\<not> is_ws (CHR ''f'')" "\<not> is_ws (CHR ''-'')" "is_digit c \<Longrightarrow> \<not> is_ws c"
  by (auto simp: is_ws_def dquote_def is_digit_def byte_def)

lemma p_val_num: "num_lit n \<Longrightarrow> delim r \<Longrightarrow> p_val (Suc k) (n @ r) = Some (JNum n, r)"
proof -
  assume n: "num_lit n" "delim r"
  from n(1) obtain c cs where c: "n = c # cs" "is_digit c \<or> c = CHR ''-''" by (rule num_lit_head)
  then have ws: "skip_ws (n @ r) = c # (cs @ r)" by auto
  have "c \<noteq> dquote" "c \<noteq> CHR ''[''" "c \<noteq> CHR ''{''" "c \<noteq> CHR ''n''" "c \<noteq> CHR ''t''" "c \<noteq> CHR ''f''"
    using c(2) by (auto simp: is_digit_def byte_def dquote_def)
  with ws n takeWhile_num[OF n] c(1) show ?thesis by (simp add: p_lit_def)
qed

lemma json_print_head: "wf_json j \<Longrightarrow>
    \<exists>c cs. json_print j = c # cs \<and> \<not> is_ws c \<and> c \<noteq> CHR '']'' \<and> c \<noteq> CHR ''}''"
proof (cases j)
  case (JNum n)
  assume "wf_json j"
  with JNum have "num_lit n" by simp
  then obtain c cs where "n = c # cs" "is_digit c \<or> c = CHR ''-''" by (rule num_lit_head)
  moreover then have "\<not> is_ws c" "c \<noteq> CHR '']''" "c \<noteq> CHR ''}''" by (auto simp: is_digit_def byte_def)
  ultimately show ?thesis by (simp add: JNum)
qed (auto simp: print_str_def dquote_def is_ws_def)

lemma p_val_null: "p_val (Suc n) (''null'' @ r) = Some (JNull, r)"
  by (simp add: dquote_def p_lit_def)

lemma p_val_true: "p_val (Suc n) (''true'' @ r) = Some (JBool True, r)"
  by (simp add: dquote_def p_lit_def)

lemma p_val_false: "p_val (Suc n) (''false'' @ r) = Some (JBool False, r)"
  by (simp add: dquote_def p_lit_def)

lemma p_val_array: "wf_json x \<Longrightarrow>
    p_val (Suc n) (CHR ''['' # print_elems (x # xs) @ r) = map_option (apfst JArr) (p_elems n (print_elems (x # xs) @ r))"
  using json_print_head[of x] by (auto simp: dquote_def)

lemma p_val_object:
    "p_val (Suc n) (CHR ''{'' # print_members ((k, v) # fs) @ r) =
     map_option (apfst JObj) (p_members n (print_members ((k, v) # fs) @ r))"
  by (auto simp: print_str_def) (auto simp: dquote_def)

declare p_val.simps(2) [simp del]

lemma parse_printed:
  "wf_json j \<Longrightarrow> delim r \<Longrightarrow> 2 * length (json_print j) \<le> n \<Longrightarrow> p_val n (json_print j @ r) = Some (j, r)"
  "list_all wf_json xs \<Longrightarrow> xs \<noteq> [] \<Longrightarrow> 2 * length (print_elems xs) \<le> n \<Longrightarrow>
     p_elems n (print_elems xs @ r) = Some (xs, r)"
  "list_all (\<lambda>(k, v). wf_json v) fs \<Longrightarrow> fs \<noteq> [] \<Longrightarrow> 2 * length (print_members fs) \<le> n \<Longrightarrow>
     p_members n (print_members fs @ r) = Some (fs, r)"
proof (induction j and xs and fs arbitrary: n r and n r and n r
    rule: json_print_print_elems_print_members.induct)
  case 1
  then show ?case using p_val_null by (cases n) auto
next
  case (2 b)
  then show ?case using p_val_true p_val_false by (cases n; cases b) auto
next
  case (3 m)
  then obtain k where "n = Suc k" by (cases n) (auto elim: num_lit_head)
  with 3 show ?case by (simp add: p_val_num)
next
  case (4 s)
  then obtain k where "n = Suc k" by (cases n) (auto simp: print_str_def)
  then show ?case by (simp add: p_val.simps(2) print_str_def p_str_print)
next
  case (5 xs)
  then obtain k where k: "n = Suc k" "2 * length (print_elems xs) \<le> k" by (cases n) auto
  show ?case
  proof (cases xs)
    case Nil
    with k show ?thesis by (simp add: p_val.simps(2) dquote_def)
  next
    case (Cons x ys)
    from 5 k Cons have "p_elems k (print_elems xs @ r) = Some (xs, r)" "wf_json x" by simp_all
    with k Cons p_val_array[of x k ys r] show ?thesis by (simp del: print_elems.simps)
  qed
next
  case (6 fs)
  then obtain k where k: "n = Suc k" "2 * length (print_members fs) \<le> k" by (cases n) auto
  show ?case
  proof (cases fs)
    case Nil
    with k show ?thesis by (simp add: p_val.simps(2) dquote_def)
  next
    case (Cons f gs)
    obtain a v where "f = (a, v)" by force
    with 6 k Cons p_val_object[of k a v gs r] show ?thesis by simp
  qed
next
  case 7
  then show ?case by simp
next
  case (8 x xs)
  then obtain k where k: "n = Suc k" by (cases n) (auto split: if_splits)
  show ?case
  proof (cases "xs = []")
    case True
    with 8 k have "p_val k (json_print x @ CHR '']'' # r) = Some (x, CHR '']'' # r)" by simp
    with True k show ?thesis by simp
  next
    case False
    with 8 k have "p_val k (json_print x @ CHR '','' # print_elems xs @ r) = Some (x, CHR '','' # print_elems xs @ r)"
        "p_elems k (print_elems xs @ r) = Some (xs, r)" by simp_all
    with False k show ?thesis by simp
  qed
next
  case 9
  then show ?case by simp
next
  case (10 a v fs)
  then obtain k where k: "n = Suc k" by (cases n) auto
  have key: "p_members (Suc k) (print_str a @ CHR '':'' # s) = (case p_val k s of
      None \<Rightarrow> None
    | Some (v, r') \<Rightarrow> (case skip_ws r' of [] \<Rightarrow> None | e # es \<Rightarrow>
        if e = CHR '','' then map_option (apfst (Cons (a, v))) (p_members k es)
        else if e = CHR ''}'' then Some ([(a, v)], es) else None))" for s
    by (simp add: print_str_def p_str_print)
  show ?case
  proof (cases "fs = []")
    case True
    with 10 k have "p_val k (json_print v @ CHR ''}'' # r) = Some (v, CHR ''}'' # r)" by simp
    with True k key show ?thesis by simp
  next
    case False
    with 10 k have "p_val k (json_print v @ CHR '','' # print_members fs @ r) = Some (v, CHR '','' # print_members fs @ r)"
        "p_members k (print_members fs @ r) = Some (fs, r)" by simp_all
    with False k key show ?thesis by simp
  qed
qed

lemma json_parse_print: "wf_json j \<Longrightarrow> json_parse (json_print j) = Some j"
  using parse_printed(1)[of j "[]" "json_fuel (json_print j)"]
  by (simp add: json_parse_def json_fuel_def skip_ws_def)

lemma json_decode_print: "wf_json j \<Longrightarrow> delim r \<Longrightarrow> json_decode (json_print j @ r) = Some j"
  using parse_printed(1)[of j r "json_fuel (json_print j @ r)"]
  by (simp add: json_decode_def json_fuel_def)

section \<open>Enough fuel, and what is parsed is well formed\<close>

lemma skip_ws_length: "length (skip_ws s) \<le> length s"
  by (simp add: skip_ws_def length_dropWhile_le)

lemma skip_ws_Cons: "skip_ws s = c # cs \<Longrightarrow> length cs < length s"
  using skip_ws_length[of s] by simp

lemma p_str_length: "p_str s = Some (x, r) \<Longrightarrow> length r < length s"
proof (induction s arbitrary: x r rule: p_str.induct)
  case (2 c cs)
  from 2(4) show ?case
    using 2(1-3) surrogate_length
    by (fastforce split: if_splits list.splits option.splits dest: less_le_trans)
qed simp

lemma num_lit_nonempty: "num_lit (takeWhile num_char s) \<Longrightarrow> length (dropWhile num_char s) < length s"
proof (cases s)
  case Nil
  assume "num_lit (takeWhile num_char s)"
  with Nil show ?thesis by (simp add: num_lit_def)
next
  case (Cons c cs)
  assume "num_lit (takeWhile num_char s)"
  then have "num_char c" using Cons by (simp add: num_lit_def split: if_splits)
  with Cons show ?thesis by (simp add: le_imp_less_Suc length_dropWhile_le)
qed

lemma p_lit_length: "p_lit s = Some (j, r) \<Longrightarrow> length r < length s"
proof -
  assume p: "p_lit s = Some (j, r)"
  have pos: "has_prefix s ''null'' \<or> has_prefix s ''true'' \<or> has_prefix s ''false'' \<Longrightarrow> 4 \<le> length s"
    by (auto simp: has_prefix_iff)
  show ?thesis
  proof (cases "has_prefix s ''null'' \<or> has_prefix s ''true'' \<or> has_prefix s ''false''")
    case True
    with p pos[OF True] show ?thesis by (auto simp: p_lit_def split: if_splits)
  next
    case False
    with p have "num_lit (takeWhile num_char s)" "r = dropWhile num_char s"
      by (auto simp: p_lit_def split: if_splits)
    then show ?thesis by (simp add: num_lit_nonempty)
  qed
qed

lemma p_val_length:
  "p_val n s = Some (j, r) \<Longrightarrow> length r < length s"
  "p_elems n s = Some (js, r) \<Longrightarrow> length r < length s"
  "p_members n s = Some (fs, r) \<Longrightarrow> length r < length s"
proof (induction n s and n s and n s arbitrary: j r and js r and fs r rule: p_val_p_elems_p_members.induct)
  case (2 n s)
  show ?case
  proof (cases "skip_ws s")
    case Nil
    with 2 show ?thesis by (simp add: p_val.simps(2))
  next
    case (Cons c cs)
    have "length r \<le> length cs"
    proof (cases "c = dquote \<or> c \<noteq> CHR ''['' \<and> c \<noteq> CHR ''{''")
      case True
      with 2(3) Cons show ?thesis
        by (auto simp: p_val.simps(2) split: if_splits dest: p_str_length p_lit_length)
    next
      case False
      with 2 Cons show ?thesis
        by (fastforce simp: p_val.simps(2) split: if_splits list.splits dest: skip_ws_Cons)
    qed
    with skip_ws_Cons[OF Cons] show ?thesis by simp
  qed
next
  case (4 n s)
  then show ?case
    by (fastforce split: option.splits list.splits if_splits dest: skip_ws_Cons less_trans)
next
  case (6 n s)
  then show ?case
    by (fastforce split: option.splits list.splits if_splits dest: skip_ws_Cons p_str_length less_trans)
qed simp_all

text \<open>More fuel than \<open>json_fuel\<close> never changes the answer.\<close>

lemma p_val_more:
  "2 * length s \<le> n \<Longrightarrow> p_val (Suc n) s = p_val n s"
  "2 * length s + 1 \<le> n \<Longrightarrow> p_elems (Suc n) s = p_elems n s"
  "2 * length s + 1 \<le> n \<Longrightarrow> p_members (Suc n) s = p_members n s"
proof (induction n s and n s and n s rule: p_val_p_elems_p_members.induct)
  case (1 s)
  then show ?case by (simp add: skip_ws_def p_val.simps(2))
next
  case (2 n s)
  show ?case
  proof (cases "skip_ws s")
    case Nil
    then show ?thesis by (simp add: p_val.simps(2))
  next
    case (Cons c cs)
    with skip_ws_Cons[OF Cons] 2 show ?thesis
      by (auto simp: p_val.simps(2) split: list.split)
  qed
next
  case (4 n s)
  then have v: "p_val (Suc n) s = p_val n s" by simp
  show ?case
  proof (cases "p_val n s")
    case None
    with v show ?thesis by simp
  next
    case (Some xr)
    obtain x r where xr: "xr = (x, r)" by force
    with Some have len: "length r < length s" by (simp add: p_val_length)
    show ?thesis
    proof (cases "skip_ws r")
      case Nil
      with v Some xr show ?thesis by simp
    next
      case (Cons d ds)
      from skip_ws_Cons[OF Cons] len 4(3) have "2 * length ds + 1 \<le> n" by simp
      with 4(2)[OF Some xr[symmetric] Cons] have "d = CHR '','' \<Longrightarrow> p_elems (Suc n) ds = p_elems n ds" by simp
      with v Some xr Cons show ?thesis by simp
    qed
  qed
next
  case (6 n s)
  show ?case
  proof (cases "p_str (tl (skip_ws s))")
    case None
    then show ?thesis by (auto split: list.split)
  next
    case (Some kr)
    obtain k r where kr: "kr = (k, r)" by force
    show ?thesis
    proof (cases "skip_ws s = [] \<or> skip_ws r = []")
      case True
      with Some kr show ?thesis by (auto split: list.split)
    next
      case False
      then obtain c cs d ds where cs: "skip_ws s = c # cs" "skip_ws r = d # ds"
        by (meson list.exhaust)
      with Some kr have str: "p_str cs = Some (k, r)" by simp
      note len = skip_ws_Cons[OF cs(1)] skip_ws_Cons[OF cs(2)] p_str_length[OF str]
      show ?thesis
      proof (cases "c = dquote \<and> d = CHR '':''")
        case False
        with cs str show ?thesis by auto
      next
        case True
        with 6 cs str len have v: "p_val (Suc n) ds = p_val n ds" by simp
        show ?thesis
        proof (cases "p_val n ds")
          case None
          with v cs str show ?thesis by simp
        next
          case (Some vr)
          obtain v' r' where vr: "vr = (v', r')" by force
          with Some have len': "length r' < length ds" by (simp add: p_val_length)
          show ?thesis
          proof (cases "skip_ws r'")
            case Nil
            with v Some vr cs str show ?thesis by simp
          next
            case (Cons e es)
            from skip_ws_Cons[OF Cons] len len' 6(3) have "2 * length es + 1 \<le> n" by simp
            with 6(2) True cs str Some vr Cons
            have "e = CHR '','' \<Longrightarrow> p_members (Suc n) es = p_members n es" by simp
            with v Some vr cs str Cons show ?thesis by simp
          qed
        qed
      qed
    qed
  qed
qed simp_all

lemma p_val_enough: "2 * length s \<le> n \<Longrightarrow> p_val (n + k) s = p_val n s"
  by (induction k) (simp_all add: p_val_more)

lemma json_decode_any_fuel: "2 * length s \<le> n \<Longrightarrow> json_decode s = map_option fst (p_val n s)"
  using p_val_enough[of s "2 * length s" "n - 2 * length s"] p_val_enough[of s "2 * length s" 2]
  by (simp add: json_decode_def json_fuel_def)

text \<open>Everything the parser returns can be printed and parsed again.\<close>

lemma p_lit_wf: "p_lit s = Some (j, r) \<Longrightarrow> wf_json j"
  by (auto simp: p_lit_def split: if_splits)

lemma p_val_wf:
  "p_val n s = Some (j, r) \<Longrightarrow> wf_json j"
  "p_elems n s = Some (js, r) \<Longrightarrow> list_all wf_json js"
  "p_members n s = Some (fs, r) \<Longrightarrow> list_all (\<lambda>(k, v). wf_json v) fs"
proof (induction n s and n s and n s arbitrary: j r and js r and fs r rule: p_val_p_elems_p_members.induct)
  case (2 n s)
  then show ?case
    by (auto simp: p_val.simps(2) split: if_splits list.splits dest: p_lit_wf)
next
  case (4 n s)
  then show ?case by (fastforce split: option.splits list.splits if_splits)
next
  case (6 n s)
  then show ?case by (fastforce split: option.splits list.splits if_splits)
qed simp_all

lemma json_decode_wf: "json_decode s = Some j \<Longrightarrow> wf_json j"
  by (auto simp: json_decode_def dest: p_val_wf)

lemma json_parse_wf: "json_parse s = Some j \<Longrightarrow> wf_json j"
  by (auto simp: json_parse_def split: option.splits if_splits dest: p_val_wf)

section \<open>Objects as Go maps\<close>

text \<open>
  A Go map is kept as the list of its entries in key order, which is the order in which
  \<open>json.Marshal\<close> prints them. A later assignment to a key replaces the earlier one.
\<close>

fun kv_ins :: "string \<Rightarrow> 'a \<Rightarrow> (string \<times> 'a) list \<Rightarrow> (string \<times> 'a) list" where
  "kv_ins k v [] = [(k, v)]"
| "kv_ins k v ((k', v') # m) =
     (if k = k' then (k, v) # m else if k < k' then (k, v) # (k', v') # m
      else (k', v') # kv_ins k v m)"

definition kv_norm :: "(string \<times> 'a) list \<Rightarrow> (string \<times> 'a) list" where
  "kv_norm fs = foldl (\<lambda>m (k, v). kv_ins k v m) [] fs"

abbreviation kv_sorted :: "(string \<times> 'a) list \<Rightarrow> bool" where
  "kv_sorted m \<equiv> sorted_wrt (<) (map fst m)"

lemma kv_ins_keys: "fst ` set (kv_ins k v m) = insert k (fst ` set m)"
  by (induction k v m rule: kv_ins.induct) auto

lemma kv_ins_sorted: "kv_sorted m \<Longrightarrow> kv_sorted (kv_ins k v m)"
proof (induction k v m rule: kv_ins.induct)
  case (2 k v k' v' m)
  consider "k = k'" | "k < k'" | "k' < k" by (rule linorder_cases)
  then show ?case
  proof cases
    case 3
    from 3 2 have m: "kv_sorted (kv_ins k v m)" "\<forall>x\<in>fst ` set m. k' < x" by auto
    from m(2) 3 have "\<forall>x\<in>fst ` set (kv_ins k v m). k' < x" by (simp add: kv_ins_keys)
    with m(1) 3 show ?thesis by (auto dest: less_asym)
  qed (use 2(2) in \<open>auto dest: less_trans\<close>)
qed simp

lemma kv_ins_get: "get_field x (kv_ins k v m) = (if x = k then Some v else get_field x m)"
  by (induction k v m rule: kv_ins.induct) auto

lemma kv_ins_last: "kv_sorted (m @ [(k, v)]) \<Longrightarrow> kv_ins k v m = m @ [(k, v)]"
  by (induction m) (auto simp: sorted_wrt_append)

lemma kv_norm_snoc: "kv_norm (fs @ [(k, v)]) = kv_ins k v (kv_norm fs)"
  by (simp add: kv_norm_def)

lemma kv_norm_Nil [simp]: "kv_norm [] = []"
  by (simp add: kv_norm_def)

lemma kv_norm_sorted [simp]: "kv_sorted (kv_norm fs)"
proof (induction fs rule: rev_induct)
  case (snoc x xs)
  then show ?case by (cases x) (simp add: kv_norm_snoc kv_ins_sorted)
qed simp

lemma kv_norm_id: "kv_sorted fs \<Longrightarrow> kv_norm fs = fs"
proof (induction fs rule: rev_induct)
  case (snoc x xs)
  then show ?case by (cases x) (simp add: kv_norm_snoc kv_ins_last sorted_wrt_append)
qed simp

lemma kv_norm_get: "get_field x (kv_norm fs) = get_field x (rev fs)"
proof (induction fs rule: rev_induct)
  case (snoc y ys)
  then show ?case by (cases y) (simp add: kv_norm_snoc kv_ins_get)
qed simp

lemma kv_norm_set: "(k, v) \<in> set (kv_norm fs) \<Longrightarrow> (k, v) \<in> set fs"
proof (induction fs rule: rev_induct)
  case (snoc y ys)
  have "(k, v) \<in> insert (k', v') (set m)" if "(k, v) \<in> set (kv_ins k' v' m)" for k' v' m
    using that by (induction k' v' m rule: kv_ins.induct) (auto split: if_splits)
  with snoc show ?case by (cases y) (force simp: kv_norm_snoc)
qed simp

section \<open>Reading an object into a struct\<close>

text \<open>
  The decoder goes through the members in their order. It picks the struct field whose name
  equals the key, otherwise the first whose name equals it up to case (of ASCII letters), and
  decodes into the field's current value; members without a field are ignored, and \<open>null\<close>
  changes nothing.
\<close>

definition lower_char :: "char \<Rightarrow> char" where
  "lower_char c = (if 65 \<le> byte c \<and> byte c \<le> 90 then char_of (byte c + 32) else c)"

definition find_field :: "string \<Rightarrow> (string \<times> 'a) list \<Rightarrow> 'a option" where
  "find_field k tbl = (case get_field k tbl of
      Some f \<Rightarrow> Some f
    | None \<Rightarrow> get_field (map lower_char k) (map (apfst (map lower_char)) tbl))"

type_synonym 'a json_decoder = "json \<Rightarrow> 'a \<Rightarrow> 'a option"

fun dec_members ::
    "(string \<times> 't json_decoder) list \<Rightarrow> (string \<times> json) list \<Rightarrow> 't \<Rightarrow> 't option" where
  "dec_members tbl [] x = Some x"
| "dec_members tbl ((k, v) # ms) x =
     (case find_field k tbl of
        None \<Rightarrow> dec_members tbl ms x
      | Some f \<Rightarrow> (case f v x of None \<Rightarrow> None | Some y \<Rightarrow> dec_members tbl ms y))"

fun dec_struct :: "(string \<times> 't json_decoder) list \<Rightarrow> 't json_decoder" where
  "dec_struct tbl JNull x = Some x"
| "dec_struct tbl (JObj ms) x = dec_members tbl ms x"
| "dec_struct tbl _ x = None"

definition jfield ::
    "string \<Rightarrow> ('t \<Rightarrow> 'a) \<Rightarrow> (('a \<Rightarrow> 'a) \<Rightarrow> 't \<Rightarrow> 't) \<Rightarrow> 'a json_decoder \<Rightarrow> string \<times> 't json_decoder" where
  "jfield name get upd dec = (name, \<lambda>j x. map_option (\<lambda>v. upd (\<lambda>_. v) x) (dec j (get x)))"

fun dec_str :: "string json_decoder" where
  "dec_str JNull s = Some s"
| "dec_str (JStr t) s = Some t"
| "dec_str _ s = None"

text \<open>A pointer: \<open>null\<close> makes it nil, anything else is decoded into what it points to.\<close>

definition dec_ptr :: "'a \<Rightarrow> 'a json_decoder \<Rightarrow> 'a option json_decoder" where
  "dec_ptr zero dec j p = (if j = JNull then Some None
     else map_option Some (dec j (case p of None \<Rightarrow> zero | Some x \<Rightarrow> x)))"

fun map_opt :: "('a \<Rightarrow> 'b option) \<Rightarrow> 'a list \<Rightarrow> 'b list option" where
  "map_opt f [] = Some []"
| "map_opt f (x # xs) = (case f x of None \<Rightarrow> None | Some y \<Rightarrow> map_option (Cons y) (map_opt f xs))"

fun dec_list :: "'a \<Rightarrow> 'a json_decoder \<Rightarrow> 'a list json_decoder" where
  "dec_list zero dec JNull xs = Some []"
| "dec_list zero dec (JArr js) xs = map_opt (\<lambda>j. dec j zero) js"
| "dec_list zero dec _ xs = None"

text \<open>
  The members of a printed struct, in the order of its fields; \<open>None\<close> is a field that
  \<open>omitempty\<close> or \<open>omitzero\<close> leaves out.
\<close>

fun members :: "(string \<times> 'a option) list \<Rightarrow> (string \<times> 'a) list" where
  "members [] = []"
| "members ((k, m) # ms) = (case m of None \<Rightarrow> members ms | Some v \<Rightarrow> (k, v) # members ms)"

definition enc_str :: "string \<Rightarrow> json option" where
  "enc_str s = Some (JStr s)"

definition omit_str :: "string \<Rightarrow> json option" where
  "omit_str s = (if s = [] then None else Some (JStr s))"

definition omit_ptr :: "('a \<Rightarrow> json) \<Rightarrow> 'a option \<Rightarrow> json option" where
  "omit_ptr enc p = map_option enc p"

definition omit_list :: "('a \<Rightarrow> json) \<Rightarrow> 'a list \<Rightarrow> json option" where
  "omit_list enc xs = (if xs = [] then None else Some (JArr (map enc xs)))"

lemma map_opt_map: "(\<And>x. x \<in> set xs \<Longrightarrow> f (g x) = Some (h x)) \<Longrightarrow> map_opt f (map g xs) = Some (map h xs)"
  by (induction xs) auto

lemma map_opt_length: "map_opt f xs = Some ys \<Longrightarrow> length ys = length xs"
  by (induction xs arbitrary: ys) (auto split: option.splits)

lemma map_opt_set: "map_opt f xs = Some ys \<Longrightarrow> y \<in> set ys \<Longrightarrow> \<exists>x\<in>set xs. f x = Some y"
  by (induction xs arbitrary: ys) (auto split: option.splits)

text \<open>Leaving out members and sorting them commute.\<close>

lemma members_keys: "fst ` set (members ms) \<subseteq> fst ` set ms"
  by (induction ms rule: members.induct) (auto split: option.splits)

lemma members_kv_ins:
  "k \<notin> fst ` set ms \<Longrightarrow> members (kv_ins k m ms) =
     (case m of None \<Rightarrow> members ms | Some v \<Rightarrow> kv_ins k v (members ms))" if "kv_sorted ms"
  using that
proof (induction ms)
  case Nil
  then show ?case by (simp split: option.split)
next
  case (Cons a ms)
  obtain k' m' where a: "a = (k', m')" by force
  have lt: "members ms = [] \<or> k' < fst (hd (members ms))"
    using Cons.prems a members_keys[of ms] by (cases "members ms") auto
  have low: "kv_ins k v (members ms) = (k, v) # members ms" if "k < k'" for v
    using that lt by (cases "members ms") auto
  show ?case
    using Cons a low by (auto split: option.splits)
qed

lemma members_kv_norm: "distinct (map fst ms) \<Longrightarrow> kv_norm (members ms) = members (kv_norm ms)"
proof (induction ms rule: rev_induct)
  case (snoc x xs)
  obtain k m where x: "x = (k, m)" by force
  have app: "members (xs @ [(k, m)]) = members xs @ (case m of None \<Rightarrow> [] | Some v \<Rightarrow> [(k, v)])"
    by (induction xs rule: members.induct) (auto split: option.split)
  have "k \<notin> fst ` set xs" using snoc.prems x by auto
  then have "k \<notin> fst ` set (kv_norm xs)" by (auto dest: kv_norm_set simp: rev_image_eqI)
  with snoc x app show ?case
    by (auto simp: kv_norm_snoc members_kv_ins split: option.split)
qed simp

text \<open>Decoding one field after the other.\<close>

definition dec_field :: "'a json_decoder \<Rightarrow> 'a \<Rightarrow> json option \<Rightarrow> 'a \<Rightarrow> bool" where
  "dec_field dec zero m v = (case m of None \<Rightarrow> v = zero | Some j \<Rightarrow> dec j zero = Some v)"

lemma get_field_jfield [simp]: "get_field k (jfield n get upd dec # tbl) =
    (if n = k then Some (snd (jfield n get upd dec)) else get_field k tbl)"
  by (simp add: jfield_def)

lemma dec_members_field:
  assumes "dec_field dec z m v" and "get_field k tbl = Some (snd (jfield n get upd dec))"
    and "get x = z" and "upd (\<lambda>_. z) x = x"
  shows "dec_members tbl (members ((k, m) # ms)) x = dec_members tbl (members ms) (upd (\<lambda>_. v) x)"
  using assms by (auto simp: dec_field_def find_field_def jfield_def split: option.splits)

end
