(* ===== verification/Firestore.thy ===== *)
theory Firestore
  imports Json "HOL-Library.AList"
begin

text \<open>
  The services outside the repository that the API server calls: the Firestore databases, the
  UUID and clock sources. They are a parameter of every definition that uses them, the record
  \<open>env\<close> of operations on an abstract state \<open>'w\<close>. The locale \<open>firestore\<close> states the documented
  behaviour the code relies on, as laws about the view \<open>db\<close> of the stored documents:

  \<^item> any call may fail at any time; a failed read changes nothing, a failed write was
    rejected or was applied although the reply got lost, and a write refused with
    \<open>NotFound\<close>, \<open>AlreadyExists\<close> or \<open>FailedPrecondition\<close> changed nothing;
  \<^item> a successful read returns the stored document, a successful write has applied its
    operation with a commit time later than every earlier one;
  \<^item> \<open>RunTransaction\<close> either leaves the documents alone or commits everything its function
    wrote, and reports success only when it committed.

  Each law speaks of one call. The handlers as functions of the state put the calls of one request next
  to each other; \<open>Interleaving\<close> lets the calls of other requests come between them. \<open>firestore_up\<close> adds availability: in a state where the service is up no call
  fails without a reason. The theory \<open>Emulator\<close> gives an executable instance of both, with a
  script of outages and lost replies, on which the witnesses of the other theories run.
\<close>

section \<open>Documents\<close>

type_synonym gotime = nat  \<comment> \<open>an instant; 0 is the zero \<open>time.Time\<close>\<close>

text \<open>
  \<open>metav1.Condition\<close>, the condition entry of a resource status.
\<close>

record condition =
  cond_type :: string
  cond_status :: string
  cond_reason :: string
  cond_message :: string
  cond_time :: gotime
  cond_generation :: int64

text \<open>
  A field value of a document, as \<open>snap.Data()\<close> delivers it. A double is kept as the decimal
  text that denotes it. Lists of conditions are stored and read back as they are.
\<close>

datatype fval =
    FNull
  | FBool bool
  | FInt int64
  | FFloat string
  | FStr string
  | FTime gotime
  | FList "fval list"
  | FMap "(string \<times> fval) list"
  | FConds "condition list"

type_synonym doc = "string \<rightharpoonup> fval"

record docref =
  ref_db :: string
  ref_coll :: string
  ref_id :: string

record stored =
  sd_data :: doc
  sd_update :: gotime
  sd_create :: gotime

type_synonym database = "docref \<rightharpoonup> stored"

record snapshot =
  snap_ref :: docref
  snap_data :: doc
  snap_update :: gotime
  snap_create :: gotime

definition doc_ref :: "string \<Rightarrow> string \<Rightarrow> string \<Rightarrow> docref" where
  "doc_ref d c i = \<lparr>ref_db = d, ref_coll = c, ref_id = i\<rparr>"

definition snap_of :: "docref \<Rightarrow> stored \<Rightarrow> snapshot" where
  "snap_of r d = \<lparr>snap_ref = r, snap_data = sd_data d, snap_update = sd_update d,
     snap_create = sd_create d\<rparr>"

lemma doc_ref_sel [simp]:
  "ref_db (doc_ref d c i) = d" "ref_coll (doc_ref d c i) = c" "ref_id (doc_ref d c i) = i"
  by (simp_all add: doc_ref_def)

lemma doc_ref_eq [simp]: "doc_ref d c i = doc_ref d' c' i' \<longleftrightarrow> d = d' \<and> c = c' \<and> i = i'"
  by (auto simp: doc_ref_def)

lemma doc_ref_collapse: "doc_ref (ref_db r) (ref_coll r) (ref_id r) = r"
  by (simp add: doc_ref_def)

lemma snap_of_sel [simp]:
  "snap_ref (snap_of r d) = r" "snap_data (snap_of r d) = sd_data d"
  "snap_update (snap_of r d) = sd_update d" "snap_create (snap_of r d) = sd_create d"
  by (simp_all add: snap_of_def)

lemma snap_of_eq: "snap_of r d = snap_of r' d' \<longleftrightarrow> r = r' \<and> d = d'"
  by (cases d; cases d') (auto simp: snap_of_def)

section \<open>Writes\<close>

text \<open>
  The four write operations. In an update a field paired with \<open>None\<close> is deleted
  (\<open>firestore.Delete\<close>); the optional instant is the \<open>LastUpdateTime\<close> precondition.
\<close>

datatype wop =
    CreateDoc docref doc
  | SetDoc docref doc
  | UpdateDoc docref "(string \<times> fval option) list" "gotime option"
  | DeleteDoc docref

fun set_fields :: "(string \<times> fval option) list \<Rightarrow> doc \<Rightarrow> doc" where
  "set_fields [] d = d"
| "set_fields ((k, v) # us) d = set_fields us (d(k := v))"

text \<open>A document replaced as a whole keeps the time of its creation.\<close>

definition put_doc :: "docref \<Rightarrow> doc \<Rightarrow> gotime \<Rightarrow> database \<Rightarrow> database" where
  "put_doc r x t D = D(r \<mapsto> \<lparr>sd_data = x, sd_update = t,
     sd_create = (case D r of None \<Rightarrow> t | Some d \<Rightarrow> sd_create d)\<rparr>)"

lemma put_doc_apply: "put_doc r x t D r' =
    (if r' = r then Some \<lparr>sd_data = x, sd_update = t,
       sd_create = (case D r of None \<Rightarrow> t | Some d \<Rightarrow> sd_create d)\<rparr> else D r')"
  by (simp add: put_doc_def)

lemma put_doc_other [simp]: "r' \<noteq> r \<Longrightarrow> put_doc r x t D r' = D r'"
  by (simp add: put_doc_apply)

lemma put_doc_same [simp]: "map_option sd_data (put_doc r x t D r) = Some x"
  by (simp add: put_doc_apply)

text \<open>The documents after a write committed at time \<open>t\<close>; \<open>None\<close> where it must be refused.\<close>

fun apply_wop :: "wop \<Rightarrow> gotime \<Rightarrow> database \<Rightarrow> database option" where
  "apply_wop (CreateDoc r d) t D =
     (case D r of
        None \<Rightarrow> Some (D(r \<mapsto> \<lparr>sd_data = d, sd_update = t, sd_create = t\<rparr>))
      | Some _ \<Rightarrow> None)"
| "apply_wop (SetDoc r d) t D =
     Some (put_doc r d t D)"
| "apply_wop (UpdateDoc r us pre) t D =
     (case D r of
        None \<Rightarrow> None
      | Some o' \<Rightarrow>
          if pre = None \<or> pre = Some (sd_update o')
          then Some (D(r \<mapsto> o'\<lparr>sd_data := set_fields us (sd_data o'), sd_update := t\<rparr>))
          else None)"
| "apply_wop (DeleteDoc r) t D = Some (D(r := None))"

fun wop_ref :: "wop \<Rightarrow> docref" where
  "wop_ref (CreateDoc r d) = r"
| "wop_ref (SetDoc r d) = r"
| "wop_ref (UpdateDoc r us pre) = r"
| "wop_ref (DeleteDoc r) = r"

lemma apply_wop_frame: "apply_wop op t D = Some D' \<Longrightarrow> r \<noteq> wop_ref op \<Longrightarrow> D' r = D r"
  by (cases op) (auto simp: put_doc_def split: option.splits if_splits)

section \<open>The environment\<close>

text \<open>A query filter is a field with the value it must have.\<close>

definition matches :: "(string \<times> fval) option \<Rightarrow> doc \<Rightarrow> bool" where
  "matches f d = (case f of None \<Rightarrow> True | Some (k, v) \<Rightarrow> d k = Some v)"

text \<open>
  \<open>metav1.ObjectMeta\<close>: the fields the program uses by name, and the others as uninterpreted JSON.
\<close>

record objmeta =
  om_name :: string
  om_namespace :: string
  om_labels :: "(string \<times> string) list"
  om_other :: "(string \<times> json) list"

definition zero_meta :: objmeta where
  "zero_meta = \<lparr>om_name = [], om_namespace = [], om_labels = [], om_other = []\<rparr>"

text \<open>
  The calls, and the parts of the runtime and of the Kubernetes types that are outside the
  repository:

  \<^item> \<open>fs_open\<close> makes a client for a database (\<open>firestore.NewClientWithDatabase\<close>), \<open>ps_clients\<close> is the
    part of the process state in which the server keeps the databases it has a client for;
  \<^item> \<open>f64_text\<close> is the text that \<open>json.Marshal\<close> prints for the double nearest to a number literal,
    \<open>None\<close> where it is out of range, and \<open>f64_to_int64\<close> Go's conversion of that double;
  \<^item> \<open>map_order\<close> is the order in which Go walks through a map with the given keys;
  \<^item> the last four are the JSON coding of \<open>metav1.ObjectMeta\<close> and \<open>metav1.Condition\<close>.
\<close>

record 'w env =
  fs_get :: "docref \<Rightarrow> 'w \<Rightarrow> ('w, snapshot) ret"
  fs_query :: "string \<Rightarrow> string \<Rightarrow> (string \<times> fval) option \<Rightarrow> 'w \<Rightarrow> ('w, snapshot list) ret"
  fs_write :: "wop \<Rightarrow> 'w \<Rightarrow> ('w, gotime) ret"
  fs_run_tx :: "('w \<Rightarrow> ('w, string) ret) \<Rightarrow> 'w \<Rightarrow> ('w, string) ret"
  tx_get :: "docref \<Rightarrow> 'w \<Rightarrow> ('w, snapshot) ret"
  tx_query :: "string \<Rightarrow> string \<Rightarrow> 'w \<Rightarrow> ('w, snapshot list) ret"
  tx_write :: "wop \<Rightarrow> 'w \<Rightarrow> ('w, unit) ret"
  fs_open :: "string \<Rightarrow> 'w \<Rightarrow> gerr option \<times> 'w"
  ps_clients :: "'w \<Rightarrow> string list"
  ps_set_clients :: "string list \<Rightarrow> 'w \<Rightarrow> 'w"
  f64_text :: "string \<Rightarrow> string option"
  f64_to_int64 :: "string \<Rightarrow> int64"
  fmt_time :: "gotime \<Rightarrow> string"
  map_order :: "string list \<Rightarrow> string list"
  meta_dec :: "objmeta json_decoder"
  meta_enc :: "objmeta \<Rightarrow> json"
  cond_dec :: "condition json_decoder"
  cond_enc :: "condition \<Rightarrow> json"
  uuid_sha1 :: "string \<Rightarrow> string \<Rightarrow> string"
  uuid_new :: "'w \<Rightarrow> string \<times> 'w"
  now_rfc3339 :: "'w \<Rightarrow> string \<times> 'w"

definition listing :: "string \<Rightarrow> string \<Rightarrow> (string \<times> fval) option \<Rightarrow> database \<Rightarrow> snapshot set" where
  "listing d c f D =
     {snap_of r s | r s. D r = Some s \<and> ref_db r = d \<and> ref_coll r = c \<and> matches f (sd_data s)}"

lemma listing_iff: "s \<in> listing b c f D \<longleftrightarrow>
    (\<exists>i d. D (doc_ref b c i) = Some d \<and> matches f (sd_data d) \<and> s = snap_of (doc_ref b c i) d)"
proof
  assume "s \<in> listing b c f D"
  then obtain r d where r: "D r = Some d" "ref_db r = b" "ref_coll r = c" "matches f (sd_data d)"
      "s = snap_of r d"
    by (auto simp: listing_def)
  then have "r = doc_ref b c (ref_id r)" by (simp add: doc_ref_def)
  with r show "\<exists>i d. D (doc_ref b c i) = Some d \<and> matches f (sd_data d) \<and> s = snap_of (doc_ref b c i) d"
    by metis
next
  assume "\<exists>i d. D (doc_ref b c i) = Some d \<and> matches f (sd_data d) \<and> s = snap_of (doc_ref b c i) d"
  then show "s \<in> listing b c f D"
    unfolding listing_def using doc_ref_sel by blast
qed

definition rejections :: "rpc_code set" where
  "rejections = {NotFound, AlreadyExists, FailedPrecondition}"

locale firestore =
  fixes env :: "'w env" and db :: "'w \<Rightarrow> database"
  assumes get_db [simp]: "db (snd (fs_get env r w)) = db w"
    and get_ok: "fst (fs_get env r w) = Inr s \<Longrightarrow> \<exists>d. db w r = Some d \<and> s = snap_of r d"
    and get_missing: "fst (fs_get env r w) = Inl e \<Longrightarrow> err_code e = NotFound \<Longrightarrow> db w r = None"
    and query_db [simp]: "db (snd (fs_query env b c f w)) = db w"
    and query_ok: "fst (fs_query env b c f w) = Inr ss \<Longrightarrow>
          distinct (map snap_ref ss) \<and> set ss = listing b c f (db w)"
    and write_ok: "fs_write env op w = (Inr t, w') \<Longrightarrow> apply_wop op t (db w) = Some (db w')"
    and write_later: "fs_write env op w = (Inr t, w') \<Longrightarrow> db w r = Some d \<Longrightarrow> sd_update d < t"
    and write_err: "fs_write env op w = (Inl e, w') \<Longrightarrow>
          db w' = db w \<or> err_code e \<notin> rejections \<and> (\<exists>t. apply_wop op t (db w) = Some (db w'))"
    and create_exists: "fs_write env (CreateDoc r x) w = (Inl e, w') \<Longrightarrow>
          err_code e = AlreadyExists \<Longrightarrow> db w r \<noteq> None"
    and update_stale: "fs_write env (UpdateDoc r us (Some t)) w = (Inl e, w') \<Longrightarrow>
          err_code e = FailedPrecondition \<Longrightarrow> \<exists>d. db w r = Some d \<and> sd_update d \<noteq> t"
    and tx_get_db [simp]: "db (snd (tx_get env r w)) = db w"
    and tx_get_ok: "fst (tx_get env r w) = Inr s \<Longrightarrow> \<exists>d. db w r = Some d \<and> s = snap_of r d"
    and tx_get_missing: "fst (tx_get env r w) = Inl e \<Longrightarrow> err_code e = NotFound \<Longrightarrow> db w r = None"
    and tx_query_db [simp]: "db (snd (tx_query env b c w)) = db w"
    and tx_query_ok: "fst (tx_query env b c w) = Inr ss \<Longrightarrow>
          distinct (map snap_ref ss) \<and> set ss = listing b c None (db w)"
    and tx_write_ok: "tx_write env op w = (Inr u, w') \<Longrightarrow>
          \<exists>t. apply_wop op t (db w) = Some (db w')"
    and run_tx_ok: "fs_run_tx env body w = (Inr a, w') \<Longrightarrow>
          \<exists>w0 w1. db w0 = db w \<and> body w0 = (Inr a, w1) \<and> db w' = db w1"
    and run_tx_err: "fs_run_tx env body w = (Inl e, w') \<Longrightarrow>
          db w' = db w \<or> (\<exists>w0 w1 a. db w0 = db w \<and> body w0 = (Inr a, w1) \<and> db w' = db w1)"
    and uuid_db [simp]: "db (snd (uuid_new env w)) = db w"
    and now_db [simp]: "db (snd (now_rfc3339 env w)) = db w"
    and open_db [simp]: "db (snd (fs_open env dbid w)) = db w"
    and clients_db [simp]: "db (ps_set_clients env cs w) = db w"
    and f64_normal: "f64_text env lit = Some n \<Longrightarrow> num_lit n \<and> f64_text env n = Some n"
    and map_order_set: "set (map_order env ks) = set ks"
    and map_order_distinct: "distinct ks \<Longrightarrow> distinct (map_order env ks)"
begin

lemma get_cases [consumes 1, case_names ok err]:
  assumes "fs_get env r w = (res, w')"
  obtains (ok) d where "res = Inr (snap_of r d)" "db w r = Some d" "db w' = db w"
  | (err) e where "res = Inl e" "err_code e = NotFound \<longrightarrow> db w r = None" "db w' = db w"
proof (cases res)
  case (Inl e)
  with assms get_db[of r w] get_missing[of r w e] show ?thesis by (auto intro: err)
next
  case (Inr s)
  with assms get_db[of r w] get_ok[of r w s] show ?thesis by (auto intro: ok)
qed

lemma tx_get_cases [consumes 1, case_names ok err]:
  assumes "tx_get env r w = (res, w')"
  obtains (ok) d where "res = Inr (snap_of r d)" "db w r = Some d" "db w' = db w"
  | (err) e where "res = Inl e" "err_code e = NotFound \<longrightarrow> db w r = None" "db w' = db w"
proof (cases res)
  case (Inl e)
  with assms tx_get_db[of r w] tx_get_missing[of r w e] show ?thesis by (auto intro: err)
next
  case (Inr s)
  with assms tx_get_db[of r w] tx_get_ok[of r w s] show ?thesis by (auto intro: ok)
qed

lemma tx_query_cases [consumes 1, case_names ok err]:
  assumes "tx_query env b c w = (res, w')"
  obtains (ok) ss where "res = Inr ss" "distinct (map snap_ref ss)"
      "set ss = listing b c None (db w)" "db w' = db w"
  | (err) e where "res = Inl e" "db w' = db w"
proof (cases res)
  case (Inl e)
  with assms tx_query_db[of b c w] show ?thesis by (auto intro: err)
next
  case (Inr s)
  with assms tx_query_db[of b c w] tx_query_ok[of b c w s] show ?thesis by (auto intro: ok)
qed

lemma query_cases [consumes 1, case_names ok err]:
  assumes "fs_query env b c f w = (res, w')"
  obtains (ok) ss where "res = Inr ss" "distinct (map snap_ref ss)"
      "set ss = listing b c f (db w)" "db w' = db w"
  | (err) e where "res = Inl e" "db w' = db w"
proof (cases res)
  case (Inl e)
  with assms query_db[of b c f w] show ?thesis by (auto intro: err)
next
  case (Inr s)
  with assms query_db[of b c f w] query_ok[of b c f w s] show ?thesis by (auto intro: ok)
qed

text \<open>The write laws with the new documents on the left.\<close>

lemma write_okD: "fs_write env op w = (Inr t, w') \<Longrightarrow> Some (db w') = apply_wop op t (db w)"
  by (simp add: write_ok)

lemma write_errD: "fs_write env op w = (Inl e, w') \<Longrightarrow>
    db w' = db w \<or> err_code e \<notin> rejections \<and> (\<exists>t. Some (db w') = apply_wop op t (db w))"
  by (drule write_err) metis

lemma tx_write_okD: "tx_write env op w = (Inr u, w') \<Longrightarrow> \<exists>t. Some (db w') = apply_wop op t (db w)"
  by (drule tx_write_ok) metis

text \<open>Whatever a write returns, only its own document can differ afterwards.\<close>

lemma write_frame: "fs_write env op w = (res, w') \<Longrightarrow> r \<noteq> wop_ref op \<Longrightarrow> db w' r = db w r"
  by (cases res) (auto dest!: write_ok write_err dest: apply_wop_frame)

end

text \<open>
  Availability. In a state that is \<open>up\<close> a call fails only for the reason its code names, and
  leaves the service up.
\<close>

locale firestore_up = firestore +
  fixes up :: "'w \<Rightarrow> bool"
  assumes get_up: "up w \<Longrightarrow> up (snd (fs_get env r w)) \<and>
        (case db w r of
           Some d \<Rightarrow> fst (fs_get env r w) = Inr (snap_of r d)
         | None \<Rightarrow> \<exists>e. fst (fs_get env r w) = Inl e \<and> err_code e = NotFound)"
    and query_up: "up w \<Longrightarrow> up (snd (fs_query env b c f w)) \<and> (\<exists>ss. fst (fs_query env b c f w) = Inr ss)"
    and write_up: "up w \<Longrightarrow> up (snd (fs_write env op w)) \<and>
        ((\<exists>t D'. apply_wop op t (db w) = Some D') \<longrightarrow> (\<exists>t. fst (fs_write env op w) = Inr t))"
    and write_refused: "up w \<Longrightarrow> \<forall>t. apply_wop op t (db w) = None \<Longrightarrow>
        \<exists>e. fst (fs_write env op w) = Inl e \<and> err_code e = (case op of
            CreateDoc r x \<Rightarrow> AlreadyExists
          | UpdateDoc r us pre \<Rightarrow> if db w r = None then NotFound else FailedPrecondition
          | _ \<Rightarrow> Unknown)"
    and run_tx_up: "up w \<Longrightarrow> \<exists>w0. up w0 \<and> db w0 = db w \<and>
        fst (fs_run_tx env body w) = fst (body w0) \<and>
        (up (snd (body w0)) \<longrightarrow> up (snd (fs_run_tx env body w)))"
    and tx_get_up: "up w \<Longrightarrow> up (snd (tx_get env r w)) \<and>
        (case db w r of
           Some d \<Rightarrow> fst (tx_get env r w) = Inr (snap_of r d)
         | None \<Rightarrow> \<exists>e. fst (tx_get env r w) = Inl e \<and> err_code e = NotFound)"
    and tx_query_up: "up w \<Longrightarrow> up (snd (tx_query env b c w)) \<and> (\<exists>ss. fst (tx_query env b c w) = Inr ss)"
    and tx_write_up: "up w \<Longrightarrow> up (snd (tx_write env op w)) \<and>
        ((\<exists>t D'. apply_wop op t (db w) = Some D') \<longrightarrow> fst (tx_write env op w) = Inr ())"
    and uuid_up: "up w \<Longrightarrow> up (snd (uuid_new env w))"
    and now_up: "up w \<Longrightarrow> up (snd (now_rfc3339 env w))"
    and open_up: "up w \<Longrightarrow> fst (fs_open env dbid w) = None \<and> up (snd (fs_open env dbid w))"
    and clients_up: "up w \<Longrightarrow> up (ps_set_clients env cs w)"
begin

lemma get_present: "up w \<Longrightarrow> db w r = Some d \<Longrightarrow> \<exists>w'. fs_get env r w = (Inr (snap_of r d), w') \<and> up w'"
  using get_up[of w r] by (cases "fs_get env r w") auto

lemma get_absent: "up w \<Longrightarrow> db w r = None \<Longrightarrow>
    \<exists>e w'. fs_get env r w = (Inl e, w') \<and> err_code e = NotFound \<and> up w'"
  using get_up[of w r] by (cases "fs_get env r w") auto

lemma write_possible: "up w \<Longrightarrow> apply_wop op t0 (db w) = Some D' \<Longrightarrow>
    \<exists>t w'. fs_write env op w = (Inr t, w') \<and> up w'"
  using write_up[of w op] by (cases "fs_write env op w") auto

end

end
