(* ===== verification/Emulator.thy ===== *)
theory Emulator
  imports Firestore
begin

text \<open>
  An executable Firestore: the documents in an association list, a commit clock, and a script
  that says how each coming call fails, if it does. It interprets \<open>firestore\<close>, whatever the
  script holds, and \<open>firestore_up\<close> for the states whose script is empty, so it discharges the
  laws that the properties of the other theories assume.
\<close>

datatype fault =
    Outage       \<comment> \<open>the call fails and does nothing\<close>
  | Lost_reply   \<comment> \<open>a write is applied, and still reported as failed\<close>

record emu =
  em_docs :: "(docref \<times> stored) list"
  em_clock :: gotime
  em_faults :: "fault option list"
  em_uuids :: "string list"
  em_clients :: "string list"

definition emu_db :: "emu \<Rightarrow> database" where
  "emu_db m = map_of (em_docs m)"

definition unavailable :: gerr where
  "unavailable = status_error Unavailable ''transport is closing''"

definition emu_fault :: "emu \<Rightarrow> fault option \<times> emu" where
  "emu_fault m = (case em_faults m of [] \<Rightarrow> (None, m) | f # fs \<Rightarrow> (f, m\<lparr>em_faults := fs\<rparr>))"

definition emu_next :: "emu \<Rightarrow> gotime" where
  "emu_next m = Suc (fold max (map (\<lambda>x. sd_update (snd x)) (em_docs m)) (em_clock m))"

definition emu_get :: "docref \<Rightarrow> emu \<Rightarrow> (emu, snapshot) ret" where
  "emu_get r m = (case emu_fault m of
     (Some _, m1) \<Rightarrow> (Inl unavailable, m1)
   | (None, m1) \<Rightarrow> (case emu_db m1 r of
        None \<Rightarrow> (Inl (status_error NotFound (ref_id r @ '' not found'')), m1)
      | Some d \<Rightarrow> (Inr (snap_of r d), m1)))"

definition emu_query ::
    "string \<Rightarrow> string \<Rightarrow> (string \<times> fval) option \<Rightarrow> emu \<Rightarrow> (emu, snapshot list) ret" where
  "emu_query b c f m = (case emu_fault m of
     (Some _, m1) \<Rightarrow> (Inl unavailable, m1)
   | (None, m1) \<Rightarrow> (Inr (map (\<lambda>(r, s). snap_of r s)
        (filter (\<lambda>(r, s). ref_db r = b \<and> ref_coll r = c \<and> matches f (sd_data s))
          (AList.clearjunk (em_docs m1)))), m1))"

fun emu_apply :: "wop \<Rightarrow> gotime \<Rightarrow> (docref \<times> stored) list \<Rightarrow> (docref \<times> stored) list option" where
  "emu_apply (CreateDoc r x) t ds =
     (case map_of ds r of
        None \<Rightarrow> Some (AList.update r \<lparr>sd_data = x, sd_update = t, sd_create = t\<rparr> ds)
      | Some _ \<Rightarrow> None)"
| "emu_apply (SetDoc r x) t ds =
     Some (AList.update r \<lparr>sd_data = x, sd_update = t,
        sd_create = (case map_of ds r of None \<Rightarrow> t | Some d \<Rightarrow> sd_create d)\<rparr> ds)"
| "emu_apply (UpdateDoc r us pre) t ds =
     (case map_of ds r of
        None \<Rightarrow> None
      | Some d \<Rightarrow>
          if pre = None \<or> pre = Some (sd_update d)
          then Some (AList.update r (d\<lparr>sd_data := set_fields us (sd_data d), sd_update := t\<rparr>) ds)
          else None)"
| "emu_apply (DeleteDoc r) t ds = Some (AList.delete r ds)"

definition emu_refusal :: "wop \<Rightarrow> emu \<Rightarrow> gerr" where
  "emu_refusal op m = status_error (case op of
      CreateDoc r x \<Rightarrow> AlreadyExists
    | UpdateDoc r us pre \<Rightarrow> if emu_db m r = None then NotFound else FailedPrecondition
    | _ \<Rightarrow> Unknown) (ref_id (wop_ref op))"

definition emu_write :: "wop \<Rightarrow> emu \<Rightarrow> (emu, gotime) ret" where
  "emu_write op m = (case emu_fault m of
     (Some Outage, m1) \<Rightarrow> (Inl unavailable, m1)
   | (f, m1) \<Rightarrow> (case emu_apply op (emu_next m1) (em_docs m1) of
        None \<Rightarrow> (Inl (emu_refusal op m1), m1)
      | Some ds \<Rightarrow> (if f = None then Inr (emu_next m1) else Inl unavailable,
          m1\<lparr>em_docs := ds, em_clock := emu_next m1\<rparr>)))"

definition emu_tx_write :: "wop \<Rightarrow> emu \<Rightarrow> (emu, unit) ret" where
  "emu_tx_write op m = (case emu_apply op (emu_next m) (em_docs m) of
      None \<Rightarrow> (Inl (emu_refusal op m), m)
    | Some ds \<Rightarrow> (Inr (), m\<lparr>em_docs := ds, em_clock := emu_next m\<rparr>))"

definition emu_run_tx :: "(emu \<Rightarrow> (emu, string) ret) \<Rightarrow> emu \<Rightarrow> (emu, string) ret" where
  "emu_run_tx body m = (case emu_fault m of
     (Some Outage, m1) \<Rightarrow> (Inl unavailable, m1)
   | (f, m1) \<Rightarrow> (case body m1 of
        (Inl e, m2) \<Rightarrow> (Inl e, m2\<lparr>em_docs := em_docs m1\<rparr>)
      | (Inr a, m2) \<Rightarrow> (if f = None then Inr a else Inl unavailable, m2)))"

definition emu_uuid :: "emu \<Rightarrow> string \<times> emu" where
  "emu_uuid m = (case em_uuids m of
     [] \<Rightarrow> (''00000000-0000-4000-8000-000000000000'', m)
   | u # us \<Rightarrow> (u, m\<lparr>em_uuids := us\<rparr>))"

definition emu_open :: "string \<Rightarrow> emu \<Rightarrow> gerr option \<times> emu" where
  "emu_open i m = (case emu_fault m of
     (Some _, m1) \<Rightarrow> (Some unavailable, m1)
   | (None, m1) \<Rightarrow> (None, m1))"

text \<open>
  The emulator takes every number literal for its own double, keeps the order of map keys, and
  codes only the name and the namespace of object metadata and the type and status of conditions.
\<close>

definition emu_meta_dec :: "objmeta json_decoder" where
  "emu_meta_dec = dec_struct [jfield ''name'' om_name om_name_update dec_str,
     jfield ''namespace'' om_namespace om_namespace_update dec_str]"

definition emu_meta_enc :: "objmeta \<Rightarrow> json" where
  "emu_meta_enc m = JObj (members [(''name'', omit_str (om_name m)), (''namespace'', omit_str (om_namespace m))])"

definition emu_cond_dec :: "condition json_decoder" where
  "emu_cond_dec = dec_struct [jfield ''type'' cond_type cond_type_update dec_str,
     jfield ''status'' cond_status cond_status_update dec_str]"

definition emu_cond_enc :: "condition \<Rightarrow> json" where
  "emu_cond_enc c = JObj [(''status'', JStr (cond_status c)), (''type'', JStr (cond_type c))]"

definition emu_env :: "emu env" where
  "emu_env = \<lparr>fs_get = emu_get, fs_query = emu_query, fs_write = emu_write,
     fs_run_tx = emu_run_tx, tx_get = emu_get, tx_query = (\<lambda>b c. emu_query b c None),
     tx_write = emu_tx_write, fs_open = emu_open, ps_clients = em_clients,
     ps_set_clients = (\<lambda>cs m. m\<lparr>em_clients := cs\<rparr>),
     f64_text = (\<lambda>x. if num_lit x then Some x else None), f64_to_int64 = (\<lambda>s. if s = ''37'' then 37 else 0),
     fmt_time = (\<lambda>t. ''1970-01-01T00:00:00Z''), map_order = (\<lambda>ks. ks), meta_dec = emu_meta_dec,
     meta_enc = emu_meta_enc, cond_dec = emu_cond_dec, cond_enc = emu_cond_enc,
     uuid_sha1 = (\<lambda>ns s. s), uuid_new = emu_uuid,
     now_rfc3339 = (\<lambda>m. (''2026-01-01T00:00:00Z'', m))\<rparr>"

lemma emu_env_sel [simp]:
  "fs_get emu_env = emu_get" "fs_query emu_env = emu_query" "fs_write emu_env = emu_write"
  "fs_run_tx emu_env = emu_run_tx" "tx_get emu_env = emu_get"
  "tx_query emu_env = (\<lambda>b c. emu_query b c None)" "tx_write emu_env = emu_tx_write"
  "fs_open emu_env = emu_open" "ps_clients emu_env = em_clients"
  "ps_set_clients emu_env = (\<lambda>cs m. m\<lparr>em_clients := cs\<rparr>)"
  "f64_text emu_env = (\<lambda>x. if num_lit x then Some x else None)" "map_order emu_env = (\<lambda>ks. ks)"
  "meta_dec emu_env = emu_meta_dec" "meta_enc emu_env = emu_meta_enc"
  "cond_dec emu_env = emu_cond_dec" "cond_enc emu_env = emu_cond_enc"
  "uuid_sha1 emu_env = (\<lambda>ns s. s)" "uuid_new emu_env = emu_uuid"
  "now_rfc3339 emu_env = (\<lambda>m. (''2026-01-01T00:00:00Z'', m))"
  by (simp_all add: emu_env_def)

section \<open>The laws hold\<close>

lemma emu_fault_db [simp]: "emu_fault m = (f, m1) \<Longrightarrow> emu_db m1 = emu_db m"
  by (auto simp: emu_fault_def emu_db_def split: list.splits)

lemma emu_apply_db: "map_option map_of (emu_apply op t ds) = apply_wop op t (map_of ds)"
  by (cases op) (auto simp: put_doc_def update_conv' delete_conv' split: option.splits)

lemma emu_apply_Some: "emu_apply op t ds = Some ds' \<Longrightarrow> apply_wop op t (map_of ds) = Some (map_of ds')"
  by (simp add: emu_apply_db[symmetric])

lemma emu_apply_None: "emu_apply op t ds = None \<Longrightarrow> apply_wop op t (map_of ds) = None"
  by (simp add: emu_apply_db[symmetric])

lemma fold_max_ge: "(x :: nat) \<le> fold max xs x \<and> (\<forall>y\<in>set xs. y \<le> fold max xs x)"
proof (induction xs arbitrary: x)
  case Nil
  then show ?case by simp
next
  case (Cons a xs)
  from Cons[of "max a x"] show ?case by auto
qed

lemma emu_next_later: "emu_db m r = Some d \<Longrightarrow> sd_update d < emu_next m"
proof -
  assume "emu_db m r = Some d"
  then have "(r, d) \<in> set (em_docs m)" by (simp add: emu_db_def map_of_SomeD)
  then have "sd_update d \<in> set (map (\<lambda>x. sd_update (snd x)) (em_docs m))" by force
  with fold_max_ge show ?thesis by (auto simp: emu_next_def less_Suc_eq_le)
qed

lemma emu_get_db: "emu_db (snd (emu_get r m)) = emu_db m"
  by (auto simp: emu_get_def split: prod.split option.split)

lemma emu_query_db: "emu_db (snd (emu_query b c f m)) = emu_db m"
  by (auto simp: emu_query_def split: prod.split option.split)

lemma emu_query_ok: "fst (emu_query b c f m) = Inr ss \<Longrightarrow>
    distinct (map snap_ref ss) \<and> set ss = listing b c f (emu_db m)"
proof -
  assume ok: "fst (emu_query b c f m) = Inr ss"
  obtain m1 where m1: "emu_fault m = (None, m1)"
    using ok by (cases "emu_fault m") (auto simp: emu_query_def split: option.splits)
  let ?P = "\<lambda>(r, s). ref_db r = b \<and> ref_coll r = c \<and> matches f (sd_data s)"
  let ?ds = "AList.clearjunk (em_docs m1)"
  have ss: "ss = map (\<lambda>(r, s). snap_of r s) (filter ?P ?ds)"
    using ok m1 by (simp add: emu_query_def)
  have "map snap_ref ss = map fst (filter ?P ?ds)"
    by (simp add: ss case_prod_unfold)
  then have "distinct (map snap_ref ss)"
    by (simp add: distinct_map_filter distinct_clearjunk)
  moreover have "(r, s) \<in> set ?ds \<longleftrightarrow> emu_db m r = Some s" for r s
    using emu_fault_db[OF m1] by (simp add: emu_db_def map_of_eq_Some_iff[symmetric] distinct_clearjunk map_of_clearjunk)
  then have "set ss = listing b c f (emu_db m)"
    by (auto simp: ss listing_def)
  ultimately show ?thesis by simp
qed

lemma emu_write_cases:
  assumes "emu_write op m = (res, m')"
  obtains t where "res = Inr t" "apply_wop op t (emu_db m) = Some (emu_db m')"
      "\<And>r d. emu_db m r = Some d \<Longrightarrow> sd_update d < t"
  | "res = Inl unavailable" "emu_db m' = emu_db m"
  | t where "res = Inl unavailable" "apply_wop op t (emu_db m) = Some (emu_db m')"
  | e t where "res = Inl e" "emu_db m' = emu_db m" "apply_wop op t (emu_db m) = None"
      "e = emu_refusal op m"
proof -
  obtain f m1 where f: "emu_fault m = (f, m1)" by force
  then have m1: "emu_db m1 = emu_db m" by simp
  show ?thesis
  proof (cases "f = Some Outage")
    case True
    with assms f m1 that(2) show ?thesis by (simp add: emu_write_def)
  next
    case False
    then have w: "emu_write op m = (case emu_apply op (emu_next m1) (em_docs m1) of
        None \<Rightarrow> (Inl (emu_refusal op m1), m1)
      | Some ds \<Rightarrow> (if f = None then Inr (emu_next m1) else Inl unavailable,
          m1\<lparr>em_docs := ds, em_clock := emu_next m1\<rparr>))"
      using f by (auto simp: emu_write_def split: option.split fault.split)
    have refusal: "emu_refusal op m1 = emu_refusal op m"
      using m1 by (simp add: emu_refusal_def split: wop.split)
    show ?thesis
    proof (cases "emu_apply op (emu_next m1) (em_docs m1)")
      case None
      with assms w m1 refusal that(4) emu_apply_None[OF None] show ?thesis
        by (auto simp: emu_db_def)
    next
      case (Some ds)
      with assms w m1 that(1,3) emu_apply_Some[OF Some] emu_next_later[of m1] show ?thesis
        by (auto simp: emu_db_def split: if_splits)
    qed
  qed
qed

lemma emu_run_tx_ok: "emu_run_tx body m = (Inr a, m') \<Longrightarrow>
    \<exists>w0 w1. emu_db w0 = emu_db m \<and> body w0 = (Inr a, w1) \<and> emu_db m' = emu_db w1"
  by (auto simp: emu_run_tx_def split: prod.splits option.splits fault.splits sum.splits if_splits
      intro: emu_fault_db) 

lemma emu_run_tx_err: "emu_run_tx body m = (Inl e, m') \<Longrightarrow>
    emu_db m' = emu_db m \<or>
    (\<exists>w0 w1 a. emu_db w0 = emu_db m \<and> body w0 = (Inr a, w1) \<and> emu_db m' = emu_db w1)"
proof -
  assume tx: "emu_run_tx body m = (Inl e, m')"
  obtain f m1 where f: "emu_fault m = (f, m1)" by force
  obtain res m2 where body: "body m1 = (res, m2)" by force
  show ?thesis
  proof (cases "f = Some Outage")
    case True
    with tx f show ?thesis by (simp add: emu_run_tx_def)
  next
    case False
    show ?thesis
    proof (cases res)
      case (Inl e')
      with False tx f body have "m' = m2\<lparr>em_docs := em_docs m1\<rparr>"
        by (auto simp: emu_run_tx_def split: option.splits fault.splits)
      then have "emu_db m' = emu_db m1" by (simp add: emu_db_def)
      with f show ?thesis by simp
    next
      case (Inr a)
      with False tx f body have "m' = m2"
        by (auto simp: emu_run_tx_def split: option.splits fault.splits)
      with Inr body f show ?thesis by (metis emu_fault_db)
    qed
  qed
qed

interpretation emulator: firestore emu_env emu_db
proof (unfold_locales, goal_cases)
  case (2 r w s)
  then show ?case by (auto simp: emu_get_def split: prod.splits option.splits)
next
  case (3 r w e)
  then show ?case
    by (auto simp: emu_get_def unavailable_def split: prod.splits option.splits)
next
  case (6 op w t w')
  then show ?case by (auto elim: emu_write_cases simp: unavailable_def)
next
  case (7 op w t w' r d)
  then show ?case by (auto elim!: emu_write_cases simp: unavailable_def)
next
  case (8 op w e w')
  then show ?case
    by (auto elim!: emu_write_cases simp: unavailable_def rejections_def)
next
  case (9 r x w e w')
  then show ?case
    by (auto elim!: emu_write_cases simp: unavailable_def emu_refusal_def split: option.splits)
next
  case (10 r us t w e w')
  then show ?case
    by (auto elim!: emu_write_cases simp: unavailable_def emu_refusal_def
        split: option.splits if_splits)
next
  case (12 r w s)
  then show ?case by (auto simp: emu_get_def split: prod.splits option.splits)
next
  case (13 r w e)
  then show ?case
    by (auto simp: emu_get_def unavailable_def split: prod.splits option.splits)
next
  case (16 op w u w')
  then show ?case
    by (auto simp: emu_tx_write_def emu_db_def split: option.splits dest!: emu_apply_Some)
next
  case (17 body w a w')
  then show ?case by (intro emu_run_tx_ok) simp
next
  case (18 body w e w')
  then show ?case by (intro emu_run_tx_err) simp
next
  case (19 w)
  then show ?case by (simp add: emu_uuid_def emu_db_def split: list.split)
next
  case (21 dbid w)
  then show ?case by (auto simp: emu_open_def split: prod.split option.split)
next
  case (22 cs w)
  then show ?case by (simp add: emu_db_def)
next
  case (23 lit n)
  then show ?case by (simp split: if_splits)
qed (simp_all add: emu_get_db emu_query_db emu_query_ok)

text \<open>The emulator is up while no fault is scheduled.\<close>

definition emu_up :: "emu \<Rightarrow> bool" where
  "emu_up m = (em_faults m = [])"

lemma emu_fault_up: "emu_up m \<Longrightarrow> emu_fault m = (None, m)"
  by (simp add: emu_up_def emu_fault_def)

lemma emu_up_updates [simp]:
  "emu_up (m\<lparr>em_docs := ds\<rparr>) = emu_up m"
  "emu_up (m\<lparr>em_clock := t\<rparr>) = emu_up m"
  "emu_up (m\<lparr>em_uuids := us\<rparr>) = emu_up m"
  "emu_up (m\<lparr>em_clients := cs\<rparr>) = emu_up m"
  by (simp_all add: emu_up_def)

lemma emu_apply_possible: "(emu_apply op t ds = None) = (apply_wop op t' (map_of ds) = None)"
proof -
  have "(emu_apply op t ds = None) = (apply_wop op t (map_of ds) = None)"
    by (metis emu_apply_db map_option_is_None)
  then show ?thesis by (cases op) (auto split: option.splits)
qed

lemma emu_apply_refused: "emu_apply op t (em_docs m) = None \<Longrightarrow> apply_wop op t' (emu_db m) = None"
  using emu_apply_possible[of op t "em_docs m" t'] by (simp add: emu_db_def)

lemma emu_write_up: "emu_up m \<Longrightarrow> emu_up (snd (emu_write op m)) \<and>
    ((\<exists>t D'. apply_wop op t (emu_db m) = Some D') \<longrightarrow> (\<exists>t. fst (emu_write op m) = Inr t))"
  by (cases "emu_apply op (emu_next m) (em_docs m)")
    (auto simp: emu_write_def emu_fault_up emu_apply_refused)

lemma emu_write_refused: "emu_up m \<Longrightarrow> apply_wop op t (emu_db m) = None \<Longrightarrow>
    fst (emu_write op m) = Inl (emu_refusal op m)"
  using emu_apply_possible[of op _ "em_docs m" t]
  by (auto simp: emu_write_def emu_fault_up emu_db_def split: option.split)

interpretation emulator_up: firestore_up emu_env emu_db emu_up
proof (unfold_locales, goal_cases)
  case (1 w r)
  then show ?case by (simp add: emu_get_def emu_fault_up split: option.split)
next
  case (2 w b c f)
  then show ?case by (simp add: emu_query_def emu_fault_up)
next
  case (3 w op)
  then show ?case by (simp add: emu_write_up)
next
  case (4 w op)
  then show ?case
    using emu_write_refused[of w op 0] by (auto simp: emu_refusal_def split: wop.split)
next
  case (5 w body)
  then show ?case
    by (intro exI[of _ w]) (auto simp: emu_run_tx_def emu_fault_up split: prod.splits sum.splits)
next
  case (6 w r)
  then show ?case by (simp add: emu_get_def emu_fault_up split: option.split)
next
  case (7 w b c)
  then show ?case by (simp add: emu_query_def emu_fault_up)
next
  case (8 w op)
  then show ?case
    by (cases "emu_apply op (emu_next w) (em_docs w)")
      (auto simp: emu_tx_write_def emu_apply_refused)
next
  case (9 w)
  then show ?case by (simp add: emu_uuid_def split: list.split)
next
  case (11 w dbid)
  then show ?case by (simp add: emu_open_def emu_fault_up)
qed simp_all

end
