(* ===== verification/Placement.thy ===== *)
theory Placement
  imports Emulator
begin

text \<open>
  \<open>internal/placement\<close>: which management cluster hosts a cluster. The collection
  \<open>managementclusters\<close> of the placement database holds one document per management cluster
  with its capacity and allocated count; \<open>clustermap\<close> holds one document per hosted cluster,
  under the ID \<open>namespace:name\<close>. The argument \<open>b\<close> is the placement database of the client.

  The lemmas say what \<open>allocate\<close> and \<open>release\<close> do to a count, that counts stay between zero
  and the capacity whatever fails, and that the cluster map is a map.
\<close>

section \<open>The client\<close>

definition collectionMgmtClusters :: string where "collectionMgmtClusters = ''managementclusters''"
definition collectionClusterMap :: string where "collectionClusterMap = ''clustermap''"
definition fieldCapacity :: string where "fieldCapacity = ''capacity''"
definition fieldAllocated :: string where "fieldAllocated = ''allocated''"
definition fieldMgmtCluster :: string where "fieldMgmtCluster = ''managementCluster''"

lemmas placement_names = collectionMgmtClusters_def collectionClusterMap_def fieldCapacity_def
  fieldAllocated_def fieldMgmtCluster_def

record cluster_mapping =
  cm_namespace :: string
  cm_name :: string
  cm_managementCluster :: string

text \<open>The type switch on a field value; a missing field is the nil value of \<open>any\<close>.\<close>

definition toInt64 :: "'w env \<Rightarrow> fval option \<Rightarrow> int64 \<times> bool" where
  "toInt64 env v = (case v of
      Some (FInt n) \<Rightarrow> (n, True)
    | Some (FFloat x) \<Rightarrow> (f64_to_int64 env x, True)
    | _ \<Rightarrow> (0, False))"

record mc_doc =
  mc_ref :: docref
  mc_capacity :: int64
  mc_allocated :: int64

text \<open>The loop of \<open>Allocate\<close> over the snapshots, with the best candidate so far.\<close>

fun pick_mc :: "'w env \<Rightarrow> snapshot list \<Rightarrow> mc_doc option \<Rightarrow> mc_doc option" where
  "pick_mc env [] best = best"
| "pick_mc env (snap # snaps) best =
     (let cap = fst (toInt64 env (snap_data snap fieldCapacity));
          alloc = fst (toInt64 env (snap_data snap fieldAllocated));
          cand = \<lparr>mc_ref = snap_ref snap, mc_capacity = cap, mc_allocated = alloc\<rparr>
      in if sint cap \<le> sint alloc then pick_mc env snaps best
         else (case best of
            None \<Rightarrow> pick_mc env snaps (Some cand)
          | Some m \<Rightarrow>
              if sint alloc < sint (mc_allocated m) then pick_mc env snaps (Some cand)
              else pick_mc env snaps best))"

definition allocate_body :: "'w env \<Rightarrow> string \<Rightarrow> 'w \<Rightarrow> ('w, string) ret" where
  "allocate_body env b w = (case tx_query env b collectionMgmtClusters w of
     (Inl e, w1) \<Rightarrow> (Inl (wrap_err ''list management clusters: '' e), w1)
   | (Inr allSnaps, w1) \<Rightarrow>
       if allSnaps = [] then (Inl (errorf ''no management clusters configured''), w1)
       else (case pick_mc env allSnaps None of
          None \<Rightarrow> (Inl (errorf ''no management cluster capacity available''), w1)
        | Some best \<Rightarrow>
            (case tx_write env (UpdateDoc (mc_ref best)
                [(fieldAllocated, Some (FInt (mc_allocated best + 1)))] None) w1 of
               (Inl e, w2) \<Rightarrow> (Inl (wrap_err ''increment allocated: '' e), w2)
             | (Inr _, w2) \<Rightarrow> (Inr (ref_id (mc_ref best)), w2))))"

definition allocate :: "'w env \<Rightarrow> string \<Rightarrow> 'w \<Rightarrow> ('w, string) ret" where
  "allocate env b w = (case fs_run_tx env (allocate_body env b) w of
     (Inl e, w1) \<Rightarrow> (Inl (wrap_err ''placement allocate: '' e), w1)
   | (Inr chosen, w1) \<Rightarrow> (Inr chosen, w1))"

definition release_body :: "'w env \<Rightarrow> string \<Rightarrow> string \<Rightarrow> 'w \<Rightarrow> ('w, string) ret" where
  "release_body env b managementCluster w =
     (let ref = doc_ref b collectionMgmtClusters managementCluster
      in case tx_get env ref w of
        (Inl e, w1) \<Rightarrow>
          (Inl (wrap_err (''get management cluster '' @ managementCluster @ '': '') e), w1)
      | (Inr snap, w1) \<Rightarrow>
          (let alloc = fst (toInt64 env (snap_data snap fieldAllocated))
           in if sint alloc \<le> 0 then (Inr [], w1)
              else (case tx_write env (UpdateDoc ref
                    [(fieldAllocated, Some (FInt (alloc - 1)))] None) w1 of
                  (Inl e, w2) \<Rightarrow> (Inl e, w2)
                | (Inr _, w2) \<Rightarrow> (Inr [], w2))))"

definition release :: "'w env \<Rightarrow> string \<Rightarrow> string \<Rightarrow> 'w \<Rightarrow> ('w, unit) ret" where
  "release env b managementCluster w =
     (case fs_run_tx env (release_body env b managementCluster) w of
        (Inl e, w1) \<Rightarrow> (Inl (wrap_err ''placement release: '' e), w1)
      | (Inr _, w1) \<Rightarrow> (Inr (), w1))"

definition clusterMapDocID :: "string \<Rightarrow> string \<Rightarrow> string" where
  "clusterMapDocID namespace name = namespace @ '':'' @ name"

definition mapping_doc :: "string \<Rightarrow> string \<Rightarrow> string \<Rightarrow> doc" where
  "mapping_doc namespace name managementCluster =
     [fieldMgmtCluster \<mapsto> FStr managementCluster, ''namespace'' \<mapsto> FStr namespace,
      ''name'' \<mapsto> FStr name]"

definition setClusterMapping ::
    "'w env \<Rightarrow> string \<Rightarrow> string \<Rightarrow> string \<Rightarrow> string \<Rightarrow> 'w \<Rightarrow> ('w, unit) ret" where
  "setClusterMapping env b namespace name managementCluster w =
     (let docID = clusterMapDocID namespace name
      in case fs_write env (SetDoc (doc_ref b collectionClusterMap docID)
            (mapping_doc namespace name managementCluster)) w of
        (Inl e, w1) \<Rightarrow> (Inl (wrap_err (''set cluster mapping '' @ docID @ '': '') e), w1)
      | (Inr _, w1) \<Rightarrow> (Inr (), w1))"

definition getClusterMapping :: "'w env \<Rightarrow> string \<Rightarrow> string \<Rightarrow> string \<Rightarrow> 'w \<Rightarrow> ('w, string) ret" where
  "getClusterMapping env b namespace name w =
     (let docID = clusterMapDocID namespace name
      in case fs_get env (doc_ref b collectionClusterMap docID) w of
        (Inl e, w1) \<Rightarrow>
          (if err_code e = NotFound
           then (Inl (status_error NotFound (''cluster mapping '' @ docID @ '' not found'')), w1)
           else (Inl (wrap_err (''get cluster mapping '' @ docID @ '': '') e), w1))
      | (Inr snap, w1) \<Rightarrow>
          (case snap_data snap fieldMgmtCluster of
             Some (FStr mc) \<Rightarrow> (Inr mc, w1)
           | _ \<Rightarrow> (Inl (errorf (''cluster mapping '' @ docID @
               '': missing managementCluster field'')), w1)))"

definition deleteClusterMapping ::
    "'w env \<Rightarrow> string \<Rightarrow> string \<Rightarrow> string \<Rightarrow> 'w \<Rightarrow> ('w, unit) ret" where
  "deleteClusterMapping env b namespace name w =
     (let docID = clusterMapDocID namespace name
      in case fs_write env (DeleteDoc (doc_ref b collectionClusterMap docID)) w of
        (Inl e, w1) \<Rightarrow> (Inl (wrap_err (''delete cluster mapping '' @ docID @ '': '') e), w1)
      | (Inr _, w1) \<Rightarrow> (Inr (), w1))"

definition str_field :: "doc \<Rightarrow> string \<Rightarrow> string" where
  "str_field d k = (case d k of Some (FStr s) \<Rightarrow> s | _ \<Rightarrow> [])"

definition mapping_of :: "string \<Rightarrow> snapshot \<Rightarrow> cluster_mapping" where
  "mapping_of namespace snap = \<lparr>cm_namespace = namespace,
     cm_name = str_field (snap_data snap) ''name'',
     cm_managementCluster = str_field (snap_data snap) fieldMgmtCluster\<rparr>"

definition listClusterMappings ::
    "'w env \<Rightarrow> string \<Rightarrow> string \<Rightarrow> 'w \<Rightarrow> ('w, cluster_mapping list) ret" where
  "listClusterMappings env b namespace w =
     (case fs_query env b collectionClusterMap (Some (''namespace'', FStr namespace)) w of
        (Inl e, w1) \<Rightarrow> (Inl (wrap_err (''list cluster mappings for '' @ namespace @ '': '') e), w1)
      | (Inr snaps, w1) \<Rightarrow>
          (Inr (map (mapping_of namespace) snaps), w1))"

section \<open>Counts\<close>

text \<open>The counts of a stored management cluster, and what one allocation does to the documents.\<close>

definition mcRef :: "string \<Rightarrow> string \<Rightarrow> docref" where
  "mcRef b mc = doc_ref b collectionMgmtClusters mc"

definition mapRef :: "string \<Rightarrow> string \<Rightarrow> string \<Rightarrow> docref" where
  "mapRef b namespace name = doc_ref b collectionClusterMap (clusterMapDocID namespace name)"

definition loadOf :: "'w env \<Rightarrow> doc \<Rightarrow> int" where
  "loadOf env d = sint (fst (toInt64 env (d fieldAllocated)))"

definition capOf :: "'w env \<Rightarrow> doc \<Rightarrow> int" where
  "capOf env d = sint (fst (toInt64 env (d fieldCapacity)))"

definition set_load :: "int64 \<Rightarrow> gotime \<Rightarrow> stored \<Rightarrow> stored" where
  "set_load n t d = d\<lparr>sd_data := (sd_data d)(fieldAllocated \<mapsto> FInt n), sd_update := t\<rparr>"

definition least_loaded :: "'w env \<Rightarrow> string \<Rightarrow> database \<Rightarrow> int \<Rightarrow> bool" where
  "least_loaded env b D n = (\<forall>mc d. D (mcRef b mc) = Some d \<longrightarrow>
     loadOf env (sd_data d) < capOf env (sd_data d) \<longrightarrow> n \<le> loadOf env (sd_data d))"

definition alloc_step :: "'w env \<Rightarrow> string \<Rightarrow> string \<Rightarrow> database \<Rightarrow> database \<Rightarrow> bool" where
  "alloc_step env b mc D D' = (\<exists>d n t. D (mcRef b mc) = Some d \<and> sint n = loadOf env (sd_data d) + 1 \<and>
     loadOf env (sd_data d) < capOf env (sd_data d) \<and>
     least_loaded env b D (loadOf env (sd_data d)) \<and>
     D' = D(mcRef b mc \<mapsto> set_load n t d))"

definition release_step :: "'w env \<Rightarrow> string \<Rightarrow> string \<Rightarrow> database \<Rightarrow> database \<Rightarrow> bool" where
  "release_step env b mc D D' = (\<exists>d. D (mcRef b mc) = Some d \<and>
     (if loadOf env (sd_data d) \<le> 0 then D' = D
      else \<exists>n t. sint n = loadOf env (sd_data d) - 1 \<and> D' = D(mcRef b mc \<mapsto> set_load n t d)))"

definition within_capacity :: "'w env \<Rightarrow> string \<Rightarrow> database \<Rightarrow> bool" where
  "within_capacity env b D = (\<forall>mc d. D (mcRef b mc) = Some d \<longrightarrow>
     0 \<le> loadOf env (sd_data d) \<and> loadOf env (sd_data d) \<le> capOf env (sd_data d))"

lemma mcRef_sel [simp]:
  "ref_db (mcRef b mc) = b" "ref_coll (mcRef b mc) = collectionMgmtClusters" "ref_id (mcRef b mc) = mc"
  by (simp_all add: mcRef_def)

lemma mcRef_eq [simp]: "mcRef b mc = mcRef b' mc' \<longleftrightarrow> b = b' \<and> mc = mc'"
  by (simp add: mcRef_def)

lemma mapRef_sel [simp]:
  "ref_db (mapRef b ns n) = b" "ref_coll (mapRef b ns n) = collectionClusterMap"
  "ref_id (mapRef b ns n) = clusterMapDocID ns n"
  by (simp_all add: mapRef_def)

lemma mapRef_eq: "mapRef b ns n = mapRef b' ns' n' \<longleftrightarrow>
    b = b' \<and> clusterMapDocID ns n = clusterMapDocID ns' n'"
  by (simp add: mapRef_def)

lemma mapRef_mcRef [simp]: "mapRef b ns n \<noteq> mcRef b' mc" "mcRef b' mc \<noteq> mapRef b ns n"
  by (simp_all add: mapRef_def mcRef_def placement_names)

lemma set_load_sel [simp]:
  "loadOf env (sd_data (set_load n t d)) = sint n"
  "capOf env (sd_data (set_load n t d)) = capOf env (sd_data d)"
  by (simp_all add: set_load_def loadOf_def capOf_def toInt64_def placement_names)

definition candidate :: "'w env \<Rightarrow> snapshot \<Rightarrow> mc_doc" where
  "candidate env s = \<lparr>mc_ref = snap_ref s, mc_capacity = fst (toInt64 env (snap_data s fieldCapacity)),
     mc_allocated = fst (toInt64 env (snap_data s fieldAllocated))\<rparr>"

definition available :: "'w env \<Rightarrow> doc \<Rightarrow> bool" where
  "available env d = (loadOf env d < capOf env d)"

lemma candidate_sel [simp]:
  "mc_ref (candidate env s) = snap_ref s" "sint (mc_allocated (candidate env s)) = loadOf env (snap_data s)"
  by (simp_all add: candidate_def loadOf_def)

lemma pick_mc_Cons: "pick_mc env (s # ss) best =
    (if \<not> available env (snap_data s) then pick_mc env ss best
     else case best of None \<Rightarrow> pick_mc env ss (Some (candidate env s))
        | Some m \<Rightarrow> if loadOf env (snap_data s) < sint (mc_allocated m)
                     then pick_mc env ss (Some (candidate env s)) else pick_mc env ss best)"
  by (auto simp: Let_def available_def loadOf_def capOf_def candidate_def not_less split: option.split)

declare pick_mc.simps(2) [simp del] pick_mc_Cons [simp]

lemma pick_mc_origin: "pick_mc env ss best = Some m \<Longrightarrow>
    best = Some m \<or> (\<exists>s\<in>set ss. m = candidate env s \<and> available env (snap_data s))"
  by (induction ss arbitrary: best) (fastforce split: if_splits option.splits)+

lemma pick_mc_le_best: "pick_mc env ss (Some a) = Some m \<Longrightarrow> sint (mc_allocated m) \<le> sint (mc_allocated a)"
  by (induction ss arbitrary: a) (fastforce split: if_splits)+

lemma pick_mc_least: "pick_mc env ss best = Some m \<Longrightarrow> s \<in> set ss \<Longrightarrow> available env (snap_data s) \<Longrightarrow>
    sint (mc_allocated m) \<le> loadOf env (snap_data s)"
proof (induction ss arbitrary: best)
  case Nil
  then show ?case by simp
next
  case (Cons x ss)
  show ?case
  proof (cases "s \<in> set ss")
    case True
    with Cons show ?thesis by (auto split: if_splits option.splits)
  next
    case False
    with Cons.prems show ?thesis
      by (auto split: if_splits option.splits dest!: pick_mc_le_best)
  qed
qed

lemma pick_mc_None: "pick_mc env ss best = None \<longleftrightarrow>
    best = None \<and> (\<forall>s\<in>set ss. \<not> available env (snap_data s))"
  by (induction ss arbitrary: best) (auto split: option.split)

section \<open>What the operations do\<close>

lemma toInt64_load: "sint (fst (toInt64 env (d fieldAllocated))) = loadOf env d"
  by (simp add: loadOf_def)

context firestore
begin

lemma allocate_body_ok:
  assumes "allocate_body env b w = (Inr mc, w')"
  shows "alloc_step env b mc (db w) (db w')"
proof -
  obtain res w1 where q: "tx_query env b collectionMgmtClusters w = (res, w1)" by force
  from q show ?thesis
  proof (cases rule: tx_query_cases)
    case (err e)
    with assms q show ?thesis by (simp add: allocate_body_def)
  next
    case (ok ss)
    with assms q obtain m u where m: "pick_mc env ss None = Some m" "ref_id (mc_ref m) = mc"
        and tw: "tx_write env (UpdateDoc (mc_ref m) [(fieldAllocated, Some (FInt (mc_allocated m + 1)))]
          None) w1 = (Inr u, w')"
      by (auto simp: allocate_body_def split: if_splits option.splits prod.splits sum.splits)
    from pick_mc_origin[OF m(1)] ok obtain i d where d: "m = candidate env (snap_of (mcRef b i) d)"
        "db w (mcRef b i) = Some d" "available env (sd_data d)"
      by (auto simp: listing_iff mcRef_def)
    with m(2) have [simp]: "i = mc" by simp
    have inc: "sint (mc_allocated m + 1) = loadOf env (sd_data d) + 1"
      using d sint_inc64[of "mc_allocated m" "mc_capacity m"]
      by (simp add: candidate_def available_def loadOf_def capOf_def)
    have least: "least_loaded env b (db w) (loadOf env (sd_data d))"
      using pick_mc_least[OF m(1)] ok d
      by (fastforce simp: least_loaded_def available_def listing_iff mcRef_def matches_def)
    from tx_write_okD[OF tw] ok d obtain t where
      "db w' = (db w)(mcRef b mc \<mapsto> set_load (mc_allocated m + 1) t d)"
      by (auto simp: set_load_def)
    with d inc least show ?thesis
      unfolding alloc_step_def available_def by auto
  qed
qed

lemma allocate_ok:
  assumes "allocate env b w = (Inr mc, w')"
  shows "alloc_step env b mc (db w) (db w')"
proof -
  from assms have "fs_run_tx env (allocate_body env b) w = (Inr mc, w')"
    by (auto simp: allocate_def split: prod.splits sum.splits)
  from run_tx_ok[OF this] show ?thesis
    using allocate_body_ok by metis
qed

lemma allocate_err:
  assumes "allocate env b w = (Inl e, w')"
  shows "db w' = db w \<or> (\<exists>mc. alloc_step env b mc (db w) (db w'))"
proof -
  from assms obtain e' where "fs_run_tx env (allocate_body env b) w = (Inl e', w')"
    by (auto simp: allocate_def split: prod.splits sum.splits)
  from run_tx_err[OF this] show ?thesis
    using allocate_body_ok by metis
qed

lemma release_body_ok:
  assumes "release_body env b mc w = (Inr a, w')"
  shows "release_step env b mc (db w) (db w')"
proof -
  obtain res w1 where q: "tx_get env (mcRef b mc) w = (res, w1)" by force
  from q show ?thesis
  proof (cases rule: tx_get_cases)
    case (err e)
    with assms q show ?thesis by (simp add: release_body_def mcRef_def)
  next
    case (ok d)
    show ?thesis
    proof (cases "loadOf env (sd_data d) \<le> 0")
      case True
      with assms q ok show ?thesis
        by (auto simp: release_body_def mcRef_def[symmetric] release_step_def loadOf_def)
    next
      case False
      let ?n = "fst (toInt64 env (sd_data d fieldAllocated))"
      from False assms q ok obtain u where
        "tx_write env (UpdateDoc (mcRef b mc) [(fieldAllocated, Some (FInt (?n - 1)))] None) w1 = (Inr u, w')"
        by (auto simp: release_body_def mcRef_def[symmetric] loadOf_def Let_def
            split: prod.splits sum.splits)
      from tx_write_okD[OF this] ok obtain t where
        "db w' = (db w)(mcRef b mc \<mapsto> set_load (?n - 1) t d)"
        by (auto simp: set_load_def)
      moreover have "sint (?n - 1) = loadOf env (sd_data d) - 1"
        using False by (simp add: sint_dec64 loadOf_def)
      ultimately show ?thesis
        using False ok unfolding release_step_def by auto
    qed
  qed
qed

lemma release_ok:
  assumes "release env b mc w = (Inr u, w')"
  shows "release_step env b mc (db w) (db w')"
proof -
  from assms obtain a where "fs_run_tx env (release_body env b mc) w = (Inr a, w')"
    by (auto simp: release_def split: prod.splits sum.splits)
  from run_tx_ok[OF this] show ?thesis
    using release_body_ok by metis
qed

lemma release_err:
  assumes "release env b mc w = (Inl e, w')"
  shows "db w' = db w \<or> release_step env b mc (db w) (db w')"
proof -
  from assms obtain e' where "fs_run_tx env (release_body env b mc) w = (Inl e', w')"
    by (auto simp: release_def split: prod.splits sum.splits)
  from run_tx_err[OF this] show ?thesis
    using release_body_ok by metis
qed

lemma allocate_effect:
  "db (snd (allocate env b w)) = db w \<or> (\<exists>mc. alloc_step env b mc (db w) (db (snd (allocate env b w))))"
  using allocate_ok[of b w] allocate_err[of b w]
  by (cases "allocate env b w"; cases "fst (allocate env b w)") auto

lemma release_effect:
  "db (snd (release env b mc w)) = db w \<or> release_step env b mc (db w) (db (snd (release env b mc w)))"
  using release_ok[of b mc w] release_err[of b mc w]
  by (cases "release env b mc w"; cases "fst (release env b mc w)") auto

lemma setClusterMapping_ok:
  assumes "setClusterMapping env b ns n mc w = (Inr u, w')"
  shows "\<exists>t. db w' = put_doc (mapRef b ns n) (mapping_doc ns n mc) t (db w)"
  using assms
  by (auto simp: setClusterMapping_def mapRef_def Let_def split: prod.splits sum.splits dest!: write_okD)

lemma setClusterMapping_err:
  assumes "setClusterMapping env b ns n mc w = (Inl e, w')"
  shows "db w' = db w \<or> (\<exists>t. db w' = put_doc (mapRef b ns n) (mapping_doc ns n mc) t (db w))"
  using assms
  by (fastforce simp: setClusterMapping_def mapRef_def Let_def split: prod.splits sum.splits dest!: write_errD)

lemma deleteClusterMapping_ok:
  assumes "deleteClusterMapping env b ns n w = (Inr u, w')"
  shows "db w' = (db w)(mapRef b ns n := None)"
  using assms
  by (auto simp: deleteClusterMapping_def mapRef_def Let_def split: prod.splits sum.splits dest!: write_okD)

lemma deleteClusterMapping_err:
  assumes "deleteClusterMapping env b ns n w = (Inl e, w')"
  shows "db w' = db w \<or> db w' = (db w)(mapRef b ns n := None)"
  using assms
  by (fastforce simp: deleteClusterMapping_def mapRef_def Let_def split: prod.splits sum.splits dest!: write_errD)

end

section \<open>Properties\<close>

text \<open>A placement database with two management clusters, for the witnesses.\<close>

definition demo_mc :: "int64 \<Rightarrow> int64 \<Rightarrow> stored" where
  "demo_mc cap alloc = \<lparr>sd_data = [fieldCapacity \<mapsto> FInt cap, fieldAllocated \<mapsto> FInt alloc],
     sd_update = 1, sd_create = 1\<rparr>"

definition demo_placement :: emu where
  "demo_placement = \<lparr>em_docs = [(mcRef ''placement'' ''mc-01'', demo_mc 2 1),
     (mcRef ''placement'' ''mc-02'', demo_mc 2 0)], em_clock = 1, em_faults = [], em_uuids = [], em_clients = []\<rparr>"

lemma demo_placement_up: "emu_up demo_placement"
  by (simp add: emu_up_def demo_placement_def)

lemma demo_placement_within: "within_capacity emu_env ''placement'' (emu_db demo_placement)"
  by (auto simp: within_capacity_def emu_db_def demo_placement_def demo_mc_def loadOf_def
      capOf_def toInt64_def placement_names)

text \<open>C25: a successful allocation takes a management cluster that has room and whose count is
  least among those with room, adds one to its count without wrapping around and without passing
  its capacity, and changes no other document.\<close>

theorem allocate_least_loaded:
  assumes "firestore env db" and "allocate env b w = (Inr mc, w')"
  shows "\<exists>d n t. db w (mcRef b mc) = Some d \<and> loadOf env (sd_data d) < capOf env (sd_data d) \<and>
     least_loaded env b (db w) (loadOf env (sd_data d)) \<and>
     sint n = loadOf env (sd_data d) + 1 \<and> sint n \<le> capOf env (sd_data d) \<and>
     db w' = (db w)(mcRef b mc \<mapsto> set_load n t d)"
proof -
  from firestore.allocate_ok[OF assms] obtain d n t where
    "db w (mcRef b mc) = Some d" "sint n = loadOf env (sd_data d) + 1"
    "loadOf env (sd_data d) < capOf env (sd_data d)"
    "least_loaded env b (db w) (loadOf env (sd_data d))"
    "db w' = (db w)(mcRef b mc \<mapsto> set_load n t d)"
    unfolding alloc_step_def by blast
  then show ?thesis by (intro exI[of _ d] exI[of _ n] exI[of _ t]) simp
qed

theorem allocate_least_loaded_witness:
  "fst (allocate emu_env ''placement'' demo_placement) = Inr ''mc-02'' \<and>
   (\<exists>d. emu_db demo_placement (mcRef ''placement'' ''mc-02'') = Some d \<and>
      least_loaded emu_env ''placement'' (emu_db demo_placement) (loadOf emu_env (sd_data d)))"
proof -
  have r: "fst (allocate emu_env ''placement'' demo_placement) = Inr ''mc-02''" by code_simp
  then obtain w' where "allocate emu_env ''placement'' demo_placement = (Inr ''mc-02'', w')"
    by (cases "allocate emu_env ''placement'' demo_placement") auto
  from allocate_least_loaded[OF emulator.firestore_axioms this] r show ?thesis by blast
qed

text \<open>C26: when every management cluster is full, allocation fails and changes nothing.\<close>

theorem allocate_exhausted:
  assumes "firestore env db"
    and "\<And>mc d. db w (mcRef b mc) = Some d \<Longrightarrow> capOf env (sd_data d) \<le> loadOf env (sd_data d)"
  shows "\<exists>e w'. allocate env b w = (Inl e, w') \<and> db w' = db w"
proof -
  have no: "\<not> alloc_step env b mc (db w) D" for mc D
    unfolding alloc_step_def using assms(2) by (meson not_less)
  obtain res w' where r: "allocate env b w = (res, w')" by force
  with no firestore.allocate_ok[OF assms(1)] firestore.allocate_err[OF assms(1)] show ?thesis
    by (cases res) blast+
qed

theorem allocate_exhausted_witness:
  "\<exists>e w'. allocate emu_env ''placement'' (demo_placement\<lparr>em_docs := []\<rparr>) = (Inl e, w') \<and>
     emu_db w' = emu_db (demo_placement\<lparr>em_docs := []\<rparr>)"
  by (rule allocate_exhausted[OF emulator.firestore_axioms]) (simp add: emu_db_def)

lemma alloc_step_within: "alloc_step env b mc D D' \<Longrightarrow> within_capacity env b D \<Longrightarrow> within_capacity env b D'"
  by (fastforce simp: alloc_step_def within_capacity_def split: if_splits)

lemma release_step_within: "release_step env b mc D D' \<Longrightarrow> within_capacity env b D \<Longrightarrow> within_capacity env b D'"
  by (fastforce simp: release_step_def within_capacity_def split: if_splits)

text \<open>counts stay between zero and the capacity through allocations and releases, whether
  they succeed, fail, or fail with the reply lost.\<close>

theorem counts_within_capacity:
  assumes "firestore env db" and "within_capacity env b (db w)"
  shows "within_capacity env b (db (snd (allocate env b w))) \<and>
    within_capacity env b (db (snd (release env b mc w)))"
proof
  show "within_capacity env b (db (snd (allocate env b w)))"
    using firestore.allocate_effect[OF assms(1), of b w] assms(2) alloc_step_within by metis
next
  show "within_capacity env b (db (snd (release env b mc w)))"
    using firestore.release_effect[OF assms(1), of b mc w] assms(2) release_step_within by metis
qed

theorem counts_within_capacity_witness:
  "within_capacity emu_env ''placement'' (emu_db demo_placement) \<and>
   within_capacity emu_env ''placement'' (emu_db (snd (release emu_env ''placement'' ''mc-02''
     demo_placement)))"
  using counts_within_capacity[OF emulator.firestore_axioms demo_placement_within]
    demo_placement_within by blast

text \<open>releasing the management cluster that was just allocated restores every count, and no
  other document changes.\<close>

theorem release_undoes_allocate:
  assumes "firestore env db" and "within_capacity env b (db w)"
    and "allocate env b w = (Inr mc, w1)" and "release env b mc w1 = (Inr u, w2)"
  shows "map_option (\<lambda>d. loadOf env (sd_data d)) (db w2 (mcRef b i)) =
           map_option (\<lambda>d. loadOf env (sd_data d)) (db w (mcRef b i)) \<and>
         (r \<noteq> mcRef b mc \<longrightarrow> db w2 r = db w r)"
proof -
  from firestore.allocate_ok[OF assms(1,3)] obtain d n t where
    d: "db w (mcRef b mc) = Some d" "sint n = loadOf env (sd_data d) + 1"
      "db w1 = (db w)(mcRef b mc \<mapsto> set_load n t d)"
    unfolding alloc_step_def by blast
  have "0 \<le> loadOf env (sd_data d)" using assms(2) d by (auto simp: within_capacity_def)
  with firestore.release_ok[OF assms(1,4)] d show ?thesis
    by (auto simp: release_step_def)
qed

theorem release_undoes_allocate_witness:
  "map_option (\<lambda>d. loadOf emu_env (sd_data d)) (emu_db (snd (release emu_env ''placement'' ''mc-02''
      (snd (allocate emu_env ''placement'' demo_placement)))) (mcRef ''placement'' ''mc-02'')) = Some 0"
proof -
  let ?w1 = "snd (allocate emu_env ''placement'' demo_placement)"
  let ?w2 = "snd (release emu_env ''placement'' ''mc-02'' ?w1)"
  have "fst (allocate emu_env ''placement'' demo_placement) = Inr ''mc-02''" by code_simp
  then have a: "allocate emu_env ''placement'' demo_placement = (Inr ''mc-02'', ?w1)"
    by (simp add: prod_eq_iff)
  have "fst (release emu_env ''placement'' ''mc-02'' ?w1) = Inr ()" by code_simp
  then have r: "release emu_env ''placement'' ''mc-02'' ?w1 = (Inr (), ?w2)"
    by (simp add: prod_eq_iff)
  have "within_capacity emu_env ''placement'' (emu_db demo_placement)"
    by (rule demo_placement_within)
  from release_undoes_allocate[OF emulator.firestore_axioms this a r, of "''mc-02''"]
  show ?thesis
    by (simp add: emu_db_def demo_placement_def demo_mc_def loadOf_def toInt64_def placement_names)
qed

text \<open>while the service is up, a mapping that was set is what a lookup returns, a deleted one
  is reported as not found, and neither touches the mapping of another document ID.\<close>

theorem cluster_map_lookup:
  assumes "firestore_up env db up" and "up w"
  shows "\<exists>w1 w2 w3 w4 e. setClusterMapping env b ns n mc w = (Inr (), w1) \<and>
     getClusterMapping env b ns n w1 = (Inr mc, w2) \<and>
     deleteClusterMapping env b ns n w2 = (Inr (), w3) \<and>
     getClusterMapping env b ns n w3 = (Inl e, w4) \<and> err_code e = NotFound \<and>
     (\<forall>ns' n'. clusterMapDocID ns' n' \<noteq> clusterMapDocID ns n \<longrightarrow>
        db w1 (mapRef b ns' n') = db w (mapRef b ns' n') \<and>
        db w3 (mapRef b ns' n') = db w (mapRef b ns' n'))"
proof -
  note fs = firestore_up.axioms(1)[OF assms(1)]
  let ?r = "mapRef b ns n"
  have "apply_wop (SetDoc ?r (mapping_doc ns n mc)) 0 (db w) = Some (put_doc ?r (mapping_doc ns n mc) 0 (db w))"
    by simp
  from firestore_up.write_possible[OF assms this] obtain t w1 where
    w1: "fs_write env (SetDoc ?r (mapping_doc ns n mc)) w = (Inr t, w1)" "up w1" by blast
  from firestore.write_okD[OF fs w1(1)] have db1: "db w1 = put_doc ?r (mapping_doc ns n mc) t (db w)"
    by simp
  then obtain d where d: "db w1 ?r = Some d" "sd_data d = mapping_doc ns n mc"
    by (simp add: put_doc_apply)
  from firestore_up.get_present[OF assms(1) w1(2) d(1)] obtain w2 where
    w2: "fs_get env ?r w1 = (Inr (snap_of ?r d), w2)" "up w2" by blast
  then have db2: "db w2 = db w1" using firestore.get_db[OF fs, of ?r w1] by simp
  have "apply_wop (DeleteDoc ?r) 0 (db w2) = Some ((db w2)(?r := None))" by simp
  from firestore_up.write_possible[OF assms(1) w2(2) this] obtain t3 w3 where
    w3: "fs_write env (DeleteDoc ?r) w2 = (Inr t3, w3)" "up w3" by blast
  from firestore.write_okD[OF fs w3(1)] have db3: "db w3 = (db w2)(?r := None)" by simp
  then have "db w3 ?r = None" by simp
  from firestore_up.get_absent[OF assms(1) w3(2) this] obtain e w4 where
    w4: "fs_get env ?r w3 = (Inl e, w4)" "err_code e = NotFound" by blast
  have "setClusterMapping env b ns n mc w = (Inr (), w1)"
    using w1 by (simp add: setClusterMapping_def mapRef_def)
  moreover have "getClusterMapping env b ns n w1 = (Inr mc, w2)"
    using w2 d by (simp add: getClusterMapping_def mapRef_def mapping_doc_def placement_names)
  moreover have "deleteClusterMapping env b ns n w2 = (Inr (), w3)"
    using w3 by (simp add: deleteClusterMapping_def mapRef_def)
  moreover have "\<exists>e'. getClusterMapping env b ns n w3 = (Inl e', w4) \<and> err_code e' = NotFound"
    using w4 by (simp add: getClusterMapping_def mapRef_def)
  ultimately show ?thesis using db1 db2 db3 by (auto simp: mapRef_eq put_doc_apply)
qed

theorem cluster_map_lookup_witness:
  "\<exists>w1 w2. setClusterMapping emu_env ''placement'' ''ns'' ''c1'' ''mc-01'' demo_placement = (Inr (), w1) \<and>
     getClusterMapping emu_env ''placement'' ''ns'' ''c1'' w1 = (Inr ''mc-01'', w2)"
  using cluster_map_lookup[OF emulator_up.firestore_up_axioms demo_placement_up,
      of "''placement''" "''ns''" "''c1''" "''mc-01''"] by blast

text \<open>the document ID of a mapping determines namespace and name as long as no namespace
  contains the separator.\<close>

theorem clusterMapDocID_injective:
  assumes "CHR '':'' \<notin> set ns" and "CHR '':'' \<notin> set ns'"
  shows "clusterMapDocID ns n = clusterMapDocID ns' n' \<longleftrightarrow> ns = ns' \<and> n = n'"
  using assms by (simp add: clusterMapDocID_def sep_append_inject)

theorem clusterMapDocID_injective_witness:
  "clusterMapDocID ''team-a'' ''x:y'' \<noteq> clusterMapDocID ''team-b'' ''x:y''"
  using clusterMapDocID_injective[of "''team-a''" "''team-b''" "''x:y''" "''x:y''"] by simp

text \<open>Without that restriction two clusters can share one mapping document.\<close>

lemma clusterMapDocID_collision: "clusterMapDocID ''a'' ''b:c'' = clusterMapDocID ''a:b'' ''c''"
  by (simp add: clusterMapDocID_def)

text \<open>The mapping documents are the ones \<open>SetClusterMapping\<close> writes.\<close>

definition map_wf :: "string \<Rightarrow> database \<Rightarrow> bool" where
  "map_wf b D = (\<forall>i d. D (doc_ref b collectionClusterMap i) = Some d \<longrightarrow>
     (\<exists>ns n mc. i = clusterMapDocID ns n \<and> sd_data d = mapping_doc ns n mc))"

lemma mapping_doc_sel [simp]:
  "mapping_doc ns n mc fieldMgmtCluster = Some (FStr mc)"
  "mapping_doc ns n mc ''namespace'' = Some (FStr ns)"
  "mapping_doc ns n mc ''name'' = Some (FStr n)"
  by (simp_all add: mapping_doc_def placement_names)

lemma map_wf_put [intro]: "map_wf b D \<Longrightarrow> map_wf b (put_doc (mapRef b ns n) (mapping_doc ns n mc) t D)"
  by (auto simp: map_wf_def put_doc_apply mapRef_def)

lemma map_wf_del [intro]: "map_wf b D \<Longrightarrow> map_wf b (D(mapRef b ns n := None))"
  by (auto simp: map_wf_def)

lemma mapping_of_snap: "sd_data d = mapping_doc ns n mc \<Longrightarrow> mapping_of ns (snap_of r d) =
    \<lparr>cm_namespace = ns, cm_name = n, cm_managementCluster = mc\<rparr>"
  by (simp add: mapping_of_def str_field_def)

definition mapping_snaps :: "string \<Rightarrow> string \<Rightarrow> database \<Rightarrow> snapshot set" where
  "mapping_snaps b ns D = {snap_of (mapRef b ns n) d | n mc d.
     D (mapRef b ns n) = Some d \<and> sd_data d = mapping_doc ns n mc}"

lemma listing_mappings:
  assumes "map_wf b D"
  shows "listing b collectionClusterMap (Some (''namespace'', FStr ns)) D = mapping_snaps b ns D"
proof (rule set_eqI, rule iffI)
  fix s assume "s \<in> listing b collectionClusterMap (Some (''namespace'', FStr ns)) D"
  then obtain i d where d: "D (doc_ref b collectionClusterMap i) = Some d"
      "sd_data d ''namespace'' = Some (FStr ns)" "s = snap_of (doc_ref b collectionClusterMap i) d"
    by (auto simp: listing_iff matches_def)
  with assms obtain ns' n mc where "i = clusterMapDocID ns' n" "sd_data d = mapping_doc ns' n mc"
    unfolding map_wf_def by blast
  with d have "D (mapRef b ns n) = Some d" "sd_data d = mapping_doc ns n mc" "s = snap_of (mapRef b ns n) d"
    by (simp_all add: mapRef_def)
  then show "s \<in> mapping_snaps b ns D" unfolding mapping_snaps_def by blast
next
  fix s assume "s \<in> mapping_snaps b ns D"
  then obtain n mc d where d: "D (mapRef b ns n) = Some d" "sd_data d = mapping_doc ns n mc"
      "s = snap_of (mapRef b ns n) d" by (auto simp: mapping_snaps_def)
  then have "matches (Some (''namespace'', FStr ns)) (sd_data d)" by (simp add: matches_def)
  with d show "s \<in> listing b collectionClusterMap (Some (''namespace'', FStr ns)) D"
    unfolding listing_iff mapRef_def by blast
qed

lemma mapping_of_inj: "inj_on (mapping_of ns) (mapping_snaps b ns D)"
  by (rule inj_onI) (auto simp: mapping_snaps_def mapping_of_snap)

lemma mapping_of_image: "mapping_of ns ` mapping_snaps b ns D =
    {\<lparr>cm_namespace = ns, cm_name = n, cm_managementCluster = mc\<rparr> | n mc.
       map_option sd_data (D (mapRef b ns n)) = Some (mapping_doc ns n mc)}"
  by (auto simp: mapping_snaps_def mapping_of_snap image_iff) (metis mapping_of_snap)

text \<open>C28: listing a namespace returns exactly its mappings, each once.\<close>

theorem listClusterMappings_exact:
  assumes "firestore env db" and "map_wf b (db w)"
    and "listClusterMappings env b ns w = (Inr ms, w')"
  shows "distinct ms \<and> set ms = {\<lparr>cm_namespace = ns, cm_name = n, cm_managementCluster = mc\<rparr> | n mc.
     map_option sd_data (db w (mapRef b ns n)) = Some (mapping_doc ns n mc)}"
proof -
  obtain ss where ss: "fst (fs_query env b collectionClusterMap (Some (''namespace'', FStr ns)) w) = Inr ss"
      "ms = map (mapping_of ns) ss"
    using assms(3) by (auto simp: listClusterMappings_def split: prod.splits sum.splits)
  from firestore.query_ok[OF assms(1) ss(1)] assms(2)
  have "distinct (map snap_ref ss)" "set ss = mapping_snaps b ns (db w)"
    by (simp_all add: listing_mappings)
  then show ?thesis
    by (simp add: ss(2) distinct_map mapping_of_inj mapping_of_image)
qed

theorem listClusterMappings_exact_witness:
  "fst (listClusterMappings emu_env ''placement'' ''ns'' demo_placement) = Inr [] \<and>
   {n. \<exists>mc. map_option sd_data (emu_db demo_placement (mapRef ''placement'' ''ns'' n)) =
      Some (mapping_doc ''ns'' n mc)} = {}"
proof -
  have wf: "map_wf ''placement'' (emu_db demo_placement)"
    by (auto simp: map_wf_def emu_db_def demo_placement_def mcRef_def placement_names)
  have r: "fst (listClusterMappings emu_env ''placement'' ''ns'' demo_placement) = Inr []" by code_simp
  then obtain w' where "listClusterMappings emu_env ''placement'' ''ns'' demo_placement = (Inr [], w')"
    by (cases "listClusterMappings emu_env ''placement'' ''ns'' demo_placement") auto
  from listClusterMappings_exact[OF emulator.firestore_axioms wf this] r show ?thesis by auto
qed

end
