(* ===== verification/Values.thy ===== *)
theory Values
  imports Emulator
begin

text \<open>
  JSON values in Firestore documents, \<open>internal/desires/codec.go\<close> without its accessors: what
  \<open>json.Unmarshal\<close> into a \<open>map[string]any\<close> makes of a text, how Firestore stores that, and the
  text that \<open>json.Marshal\<close> makes of what is read back. The lemmas show that one passage through
  this coding normalises a value (numbers become doubles, keys are sorted, the last of two equal
  keys wins) and that a second passage changes nothing.
\<close>

section \<open>Values of type any\<close>

fun json_fval :: "'w env \<Rightarrow> json \<Rightarrow> fval option"
and json_fvals :: "'w env \<Rightarrow> json list \<Rightarrow> fval list option"
and json_fmap :: "'w env \<Rightarrow> (string \<times> json) list \<Rightarrow> (string \<times> fval) list option" where
  "json_fval env JNull = Some FNull"
| "json_fval env (JBool b) = Some (FBool b)"
| "json_fval env (JNum n) = map_option FFloat (f64_text env n)"
| "json_fval env (JStr s) = Some (FStr s)"
| "json_fval env (JArr xs) = map_option FList (json_fvals env xs)"
| "json_fval env (JObj ms) = map_option (\<lambda>m. FMap (kv_norm m)) (json_fmap env ms)"
| "json_fvals env [] = Some []"
| "json_fvals env (x # xs) = (case json_fval env x of
      None \<Rightarrow> None
    | Some v \<Rightarrow> map_option (Cons v) (json_fvals env xs))"
| "json_fmap env [] = Some []"
| "json_fmap env ((k, x) # ms) = (case json_fval env x of
      None \<Rightarrow> None
    | Some v \<Rightarrow> map_option (Cons (k, v)) (json_fmap env ms))"

text \<open>The other direction. A double that is infinite or no number cannot be marshalled.\<close>

fun fval_json :: "'w env \<Rightarrow> fval \<Rightarrow> json option"
and fvals_json :: "'w env \<Rightarrow> fval list \<Rightarrow> json list option"
and fmap_json :: "'w env \<Rightarrow> (string \<times> fval) list \<Rightarrow> (string \<times> json) list option" where
  "fval_json env FNull = Some JNull"
| "fval_json env (FBool b) = Some (JBool b)"
| "fval_json env (FInt n) = Some (JNum (int_text (sint n)))"
| "fval_json env (FFloat n) = map_option JNum (f64_text env n)"
| "fval_json env (FStr s) = Some (JStr s)"
| "fval_json env (FTime t) = Some (JStr (fmt_time env t))"
| "fval_json env (FConds cs) = Some (JArr (map (cond_enc env) cs))"
| "fval_json env (FList xs) = map_option JArr (fvals_json env xs)"
| "fval_json env (FMap m) = map_option (\<lambda>ms. JObj (kv_norm ms)) (fmap_json env m)"
| "fvals_json env [] = Some []"
| "fvals_json env (x # xs) = (case fval_json env x of
      None \<Rightarrow> None
    | Some v \<Rightarrow> map_option (Cons v) (fvals_json env xs))"
| "fmap_json env [] = Some []"
| "fmap_json env ((k, x) # ms) = (case fval_json env x of
      None \<Rightarrow> None
    | Some v \<Rightarrow> map_option (Cons (k, v)) (fmap_json env ms))"

text \<open>The values that come out of \<open>json_fval\<close>.\<close>

fun plain :: "'w env \<Rightarrow> fval \<Rightarrow> bool" where
  "plain env FNull = True"
| "plain env (FBool b) = True"
| "plain env (FFloat n) = (f64_text env n = Some n \<and> num_lit n)"
| "plain env (FStr s) = True"
| "plain env (FList xs) = list_all (plain env) xs"
| "plain env (FMap m) = (kv_sorted m \<and> list_all (\<lambda>(k, v). plain env v) m)"
| "plain env v = False"

lemma list_all_kv_norm: "list_all (\<lambda>(k, v). P v) m \<Longrightarrow> list_all (\<lambda>(k, v). P v) (kv_norm m)"
  by (auto simp: list_all_iff dest: kv_norm_set)

text \<open>What is read back from a plain value is the value itself and prints as JSON.\<close>

lemma plain_json:
  "plain env v \<Longrightarrow> \<exists>j. fval_json env v = Some j \<and> json_fval env j = Some v \<and> wf_json j"
  "list_all (plain env) vs \<Longrightarrow>
     \<exists>js. fvals_json env vs = Some js \<and> json_fvals env js = Some vs \<and> list_all wf_json js"
  "list_all (\<lambda>(k, v). plain env v) m \<Longrightarrow>
     \<exists>ms. fmap_json env m = Some ms \<and> json_fmap env ms = Some m \<and> map fst ms = map fst m \<and>
        list_all (\<lambda>(k, v). wf_json v) ms"
proof (induction env v and env vs and env m rule: fval_json_fvals_json_fmap_json.induct)
  case (9 env m)
  then obtain ms where "fmap_json env m = Some ms" "json_fmap env ms = Some m" "map fst ms = map fst m"
      "list_all (\<lambda>(k, v). wf_json v) ms" by auto
  with 9 show ?case by (simp add: kv_norm_id)
qed auto

lemma json_fval_plain:
  "\<forall>n z. f64_text env n = Some z \<longrightarrow> num_lit z \<and> f64_text env z = Some z \<Longrightarrow>
     json_fval env j = Some v \<Longrightarrow> plain env v"
  "\<forall>n z. f64_text env n = Some z \<longrightarrow> num_lit z \<and> f64_text env z = Some z \<Longrightarrow>
     json_fvals env js = Some vs \<Longrightarrow> list_all (plain env) vs"
  "\<forall>n z. f64_text env n = Some z \<longrightarrow> num_lit z \<and> f64_text env z = Some z \<Longrightarrow>
     json_fmap env ms = Some m \<Longrightarrow> list_all (\<lambda>(k, v). plain env v) m"
  by (induction env j and env js and env ms arbitrary: v and vs and m
      rule: json_fval_json_fvals_json_fmap.induct)
    (auto simp: list_all_kv_norm split: option.splits)

context firestore
begin

text \<open>The first passage normalises, the second changes nothing.\<close>

lemma json_fval_stable: "json_fval env j = Some v \<Longrightarrow>
    \<exists>j'. fval_json env v = Some j' \<and> json_fval env j' = Some v \<and> wf_json j'"
  using json_fval_plain(1)[of env j v] f64_normal plain_json(1) by blast

end

section \<open>Raw extensions\<close>

text \<open>
  A \<open>*runtime.RawExtension\<close> is nil or a text. A nil map is stored as the null value. The wording
  of the errors of the JSON package is not modelled.
\<close>

type_synonym raw_ext = "string option"

definition json_error :: gerr where "json_error = errorf ''invalid JSON''"

definition rawExtToMap :: "'w env \<Rightarrow> raw_ext \<Rightarrow> gerr + fval" where
  "rawExtToMap env ext = (case ext of
      None \<Rightarrow> Inr FNull
    | Some raw \<Rightarrow>
        if raw = [] then Inr FNull
        else (case json_parse raw of
            Some JNull \<Rightarrow> Inr FNull
          | Some (JObj ms) \<Rightarrow> (case json_fval env (JObj ms) of
                Some v \<Rightarrow> Inr v
              | None \<Rightarrow> Inl (wrap_err ''unmarshal RawExtension: '' json_error))
          | _ \<Rightarrow> Inl (wrap_err ''unmarshal RawExtension: '' json_error)))"

definition mapToRawExt :: "'w env \<Rightarrow> fval \<Rightarrow> gerr + raw_ext" where
  "mapToRawExt env v =
     (if v = FNull then Inr None
      else (case fval_json env v of
          None \<Rightarrow> Inl (wrap_err ''marshal RawExtension: '' json_error)
        | Some j \<Rightarrow> Inr (Some (json_print j))))"

text \<open>What a raw extension reads back as.\<close>

definition kube_norm :: "'w env \<Rightarrow> raw_ext \<Rightarrow> raw_ext" where
  "kube_norm env ext = (case rawExtToMap env ext of
      Inl e \<Rightarrow> None
    | Inr v \<Rightarrow> (case mapToRawExt env v of Inl e \<Rightarrow> None | Inr x \<Rightarrow> x))"

lemma kube_norm_None [simp]: "kube_norm env None = None"
  by (simp add: kube_norm_def rawExtToMap_def mapToRawExt_def)

lemma rawExtToMap_cases:
  assumes "rawExtToMap env ext = Inr v"
  obtains "v = FNull" | raw ms where "ext = Some raw" "json_parse raw = Some (JObj ms)"
      "json_fval env (JObj ms) = Some v"
  using assms by (auto simp: rawExtToMap_def split: option.splits if_splits json.splits)

context firestore
begin

lemma mapToRawExt_stored:
  assumes "rawExtToMap env ext = Inr v"
  shows "mapToRawExt env v = Inr (kube_norm env ext)"
proof (rule rawExtToMap_cases[OF assms])
  assume "v = FNull"
  with assms show ?thesis by (simp add: kube_norm_def mapToRawExt_def)
next
  fix raw ms assume "json_fval env (JObj ms) = Some v"
  then obtain j where "fval_json env v = Some j" using json_fval_stable by blast
  with assms show ?thesis by (auto simp: kube_norm_def mapToRawExt_def)
qed

lemma kube_norm_stable:
  assumes "rawExtToMap env ext = Inr v"
  shows "rawExtToMap env (kube_norm env ext) = Inr v"
proof (rule rawExtToMap_cases[OF assms])
  assume "v = FNull"
  with assms show ?thesis by (simp add: kube_norm_def mapToRawExt_def rawExtToMap_def)
next
  fix raw ms assume ms: "ext = Some raw" "json_parse raw = Some (JObj ms)" "json_fval env (JObj ms) = Some v"
  then obtain m j where j: "v = FMap m" "fval_json env v = Some j" "json_fval env j = Some v" "wf_json j"
    using json_fval_stable[of "JObj ms" v] by (auto simp del: fval_json.simps)
  then obtain ms' where ms': "j = JObj ms'" by auto
  have "v \<noteq> FNull" by (simp add: j(1))
  with j(2) have "kube_norm env ext = Some (json_print j)"
    unfolding kube_norm_def assms mapToRawExt_def by simp
  moreover have "json_print j \<noteq> []" using ms' by simp
  ultimately show ?thesis using j json_parse_print[OF j(4)] ms' by (auto simp: rawExtToMap_def)
qed

end

section \<open>Structs in documents\<close>

text \<open>
  A struct that is printed, stored and read back passes through \<open>renorm\<close>; \<open>survives\<close> says that
  decoding then returns the value it was printed from.
\<close>

definition renorm :: "'w env \<Rightarrow> json \<Rightarrow> json option" where
  "renorm env j = (case json_fval env j of None \<Rightarrow> None | Some v \<Rightarrow> fval_json env v)"

definition survives :: "'w env \<Rightarrow> 'a json_decoder \<Rightarrow> 'a \<Rightarrow> json \<Rightarrow> 'a \<Rightarrow> bool" where
  "survives env dec zero j x \<longleftrightarrow> wf_json j \<and>
     (\<exists>j'. renorm env j = Some j' \<and> j' \<noteq> JNull \<and> dec j' zero = Some x)"

definition norm_ok :: "'w env \<Rightarrow> json option \<Rightarrow> bool" where
  "norm_ok env m = (case m of None \<Rightarrow> True | Some j \<Rightarrow> wf_json j \<and> renorm env j \<noteq> None)"

definition nrm :: "'w env \<Rightarrow> json option \<Rightarrow> json option" where
  "nrm env m = (case m of None \<Rightarrow> None | Some j \<Rightarrow> renorm env j)"

lemma json_fmap_members:
  "list_all (\<lambda>(k, m). norm_ok env m) kms \<Longrightarrow>
    \<exists>vs. json_fmap env (members kms) = Some vs \<and>
      fmap_json env vs = Some (members (map (apsnd (nrm env)) kms))"
proof (induction kms)
  case (Cons x kms)
  obtain k m where x: "x = (k, m)" by force
  with Cons obtain vs where "norm_ok env m" "json_fmap env (members kms) = Some vs"
      "fmap_json env vs = Some (members (map (apsnd (nrm env)) kms))" by auto
  moreover have "nrm env None = None" "nrm env (Some j) = renorm env j" for j
    by (simp_all add: nrm_def)
  ultimately show ?case using x by (auto simp: norm_ok_def renorm_def split: option.splits)
qed simp

lemma fmap_json_append: "fmap_json env (xs @ ys) = (case fmap_json env xs of
    None \<Rightarrow> None | Some a \<Rightarrow> map_option (append a) (fmap_json env ys))"
  by (induction xs) (auto split: option.splits simp: map_option_case)

lemma fmap_json_kv_ins: "fmap_json env m = Some ms \<Longrightarrow> fval_json env v = Some j \<Longrightarrow>
    fmap_json env (kv_ins k v m) = Some (kv_ins k j ms)"
  by (induction k v m arbitrary: ms rule: kv_ins.induct) (auto split: option.splits)

lemma fmap_json_kv_norm: "fmap_json env m = Some ms \<Longrightarrow> fmap_json env (kv_norm m) = Some (kv_norm ms)"
proof (induction m arbitrary: ms rule: rev_induct)
  case (snoc x m)
  obtain k v where x: "x = (k, v)" by force
  with snoc.prems obtain ms0 j where "fmap_json env m = Some ms0" "fval_json env v = Some j" "ms = ms0 @ [(k, j)]"
    by (auto simp: fmap_json_append split: option.splits)
  with snoc.IH x show ?case by (simp add: kv_norm_snoc fmap_json_kv_ins)
qed simp

lemma renorm_struct:
  assumes "list_all (\<lambda>(k, m). norm_ok env m) kms" and "distinct (map fst kms)"
  shows "renorm env (JObj (members kms)) = Some (JObj (members (kv_norm (map (apsnd (nrm env)) kms))))"
proof -
  let ?kms = "map (apsnd (nrm env)) kms"
  have keys: "map fst ?kms = map fst kms" by (induction kms) auto
  from json_fmap_members[OF assms(1)] obtain vs where
    "json_fmap env (members kms) = Some vs" "fmap_json env vs = Some (members ?kms)" by blast
  then have "renorm env (JObj (members kms)) = Some (JObj (kv_norm (kv_norm (members ?kms))))"
    by (simp add: renorm_def fmap_json_kv_norm)
  also have "kv_norm (kv_norm (members ?kms)) = members (kv_norm ?kms)"
    using assms(2) unfolding keys[symmetric] by (simp add: kv_norm_id flip: members_kv_norm)
  finally show ?thesis .
qed

lemma json_fvals_map: "(\<And>x. x \<in> set xs \<Longrightarrow> renorm env (enc x) = Some (g x)) \<Longrightarrow>
    \<exists>vs. json_fvals env (map enc xs) = Some vs \<and> fvals_json env vs = Some (map g xs)"
proof (induction xs)
  case (Cons a xs)
  from Cons.prems[of a] obtain v where "json_fval env (enc a) = Some v" "fval_json env v = Some (g a)"
    by (auto simp: renorm_def split: option.splits)
  with Cons show ?case by auto
qed simp

lemma survives_str: "survives env dec_str zero (JStr s) s"
  by (simp add: survives_def renorm_def)

lemma survives_list:
  assumes "\<And>x. x \<in> set xs \<Longrightarrow> survives env dec zero (enc x) x"
  shows "survives env (dec_list zero dec) old (JArr (map enc xs)) xs"
proof -
  define g where "g x = the (renorm env (enc x))" for x
  have g: "renorm env (enc x) = Some (g x) \<and> dec (g x) zero = Some x" if "x \<in> set xs" for x
    using assms[OF that] by (auto simp: survives_def g_def)
  from json_fvals_map[of xs env enc g] g obtain vs where
    "json_fvals env (map enc xs) = Some vs" "fvals_json env vs = Some (map g xs)" by blast
  moreover have "map_opt (\<lambda>j. dec j zero) (map g xs) = Some (map (\<lambda>x. x) xs)"
    by (rule map_opt_map) (use g in simp)
  moreover have "list_all wf_json (map enc xs)"
    using assms by (auto simp: survives_def list_all_iff)
  ultimately show ?thesis by (simp add: survives_def renorm_def)
qed

text \<open>A struct survives when its fields do.\<close>

lemma survives_struct:
  assumes "list_all (\<lambda>(k, m). norm_ok env m) kms" and "distinct (map fst kms)"
    and "dec_members tbl (members (kv_norm (map (apsnd (nrm env)) kms))) zero = Some x"
  shows "survives env (dec_struct tbl) zero (JObj (members kms)) x"
proof -
  have "list_all (\<lambda>(k, v). wf_json v) (members kms)"
    using assms(1) by (induction kms rule: members.induct) (auto simp: norm_ok_def split: option.splits)
  with renorm_struct[OF assms(1,2)] assms(3) show ?thesis
    by (simp add: survives_def)
qed

text \<open>The fields that a type with \<open>survives\<close> can have: the value itself, a pointer, a slice.\<close>

lemma survives_field: "survives env dec zero j x \<Longrightarrow>
    norm_ok env (Some j) \<and> dec_field dec zero (nrm env (Some j)) x"
  by (auto simp: survives_def norm_ok_def nrm_def dec_field_def)

lemma type_fields:
  assumes "\<And>x. survives env dec zero (enc x) x"
  shows "norm_ok env (Some (enc x))" "norm_ok env (omit_ptr enc p)" "norm_ok env (omit_list enc xs)"
    "dec_field dec zero (nrm env (Some (enc x))) x"
    "dec_field (dec_ptr zero dec) None (nrm env (omit_ptr enc p)) p"
    "dec_field (dec_list zero dec) [] (nrm env (omit_list enc xs)) xs"
proof -
  note one = survives_field[OF assms]
  then show "norm_ok env (Some (enc x))" "dec_field dec zero (nrm env (Some (enc x))) x" by blast+
  have "survives env (dec_list zero dec) [] (JArr (map enc xs)) xs" by (rule survives_list[OF assms])
  from survives_field[OF this]
  show "norm_ok env (omit_list enc xs)" "dec_field (dec_list zero dec) [] (nrm env (omit_list enc xs)) xs"
    by (auto simp: omit_list_def norm_ok_def nrm_def dec_field_def)
  have "survives env (dec_ptr zero dec) None (enc y) (Some y)" for y
    using assms[of y] by (auto simp: survives_def dec_ptr_def)
  from survives_field[OF this]
  show "norm_ok env (omit_ptr enc p)" "dec_field (dec_ptr zero dec) None (nrm env (omit_ptr enc p)) p"
    by (cases p, auto simp: omit_ptr_def norm_ok_def nrm_def dec_field_def)+
qed

lemma str_fields:
  "norm_ok env (enc_str s)" "norm_ok env (omit_str s)"
  "dec_field dec_str z (nrm env (enc_str s)) s" "dec_field dec_str [] (nrm env (omit_str s)) s"
  by (simp_all add: enc_str_def omit_str_def norm_ok_def nrm_def renorm_def dec_field_def)

named_theorems struct_codec \<open>fields of structs that pass through Firestore\<close>

lemmas str_codec [struct_codec] = str_fields(1,2) str_fields(3,4)[THEN dec_members_field]
  type_fields(3)[OF survives_str] type_fields(6)[OF survives_str, THEN dec_members_field]

end
