(* ===== verification/Desires.thy ===== *)
theory Desires
  imports Values "HOL-Library.Monad_Syntax"
begin

text \<open>
  \<open>internal/desires\<close>: the desire documents through which the API server and the agents on the
  management clusters talk, and the generic operations on a collection of them. The Go generics
  \<open>firestoreCRUD[T, PT]\<close> become operations over a record of accessors (\<open>desire_ops\<close>), of which
  the three desire types are instances; the interface \<open>ResourceCRUD[T]\<close> becomes a record of
  operations. A pointer to a desire is the desire, as \<open>DeepCopy\<close> keeps callers from sharing one.

  The locale \<open>desire_type\<close> states what an instance of the accessors must satisfy, \<open>desire_crud\<close>
  proves what the operations do to the documents for every such instance, and
  \<open>resource_crud\<close> is the contract of the interface, over a view of a collection as a map from
  document IDs to desires, with the optimistic concurrency that \<open>Replace\<close> gives its callers.
\<close>

section \<open>Types\<close>

record fs_metadata =
  md_documentID :: string
  md_updateTime :: gotime
  md_createTime :: gotime

record resource_ref =
  rr_group :: string
  rr_version :: string
  rr_resource :: string
  rr_namespace :: string
  rr_name :: string

record target_spec =
  sp_managementCluster :: string
  sp_clusterID :: string
  sp_nodePoolName :: string
  sp_targetItem :: resource_ref

record apply_spec = target_spec +
  sp_kubeContent :: raw_ext

record desire_status =
  st_conditions :: "condition list"
  st_observedDesireUpdateTime :: gotime

record apply_status = desire_status +
  st_appliedResourceGeneration :: int64

record read_status = desire_status +
  st_kubeContent :: raw_ext

record apply_desire =
  ad_meta :: fs_metadata
  ad_spec :: apply_spec
  ad_status :: apply_status

record delete_desire =
  dd_meta :: fs_metadata
  dd_spec :: target_spec
  dd_status :: desire_status

record read_desire =
  rd_meta :: fs_metadata
  rd_spec :: target_spec
  rd_status :: read_status

definition zero_metadata :: fs_metadata where
  "zero_metadata = \<lparr>md_documentID = [], md_updateTime = 0, md_createTime = 0\<rparr>"

definition zero_ref :: resource_ref where
  "zero_ref = \<lparr>rr_group = [], rr_version = [], rr_resource = [], rr_namespace = [], rr_name = []\<rparr>"

definition zero_desire_status :: desire_status where
  "zero_desire_status = \<lparr>st_conditions = [], st_observedDesireUpdateTime = 0\<rparr>"

definition zero_apply_status :: apply_status where
  "zero_apply_status = \<lparr>st_conditions = [], st_observedDesireUpdateTime = 0,
     st_appliedResourceGeneration = 0\<rparr>"

definition zero_read_status :: read_status where
  "zero_read_status = \<lparr>st_conditions = [], st_observedDesireUpdateTime = 0, st_kubeContent = None\<rparr>"

section \<open>The struct tags\<close>

text \<open>How Firestore stores the specs and statuses; a field tagged \<open>omitempty\<close> is left out when zero.\<close>

definition omit_fstr :: "string \<Rightarrow> string \<Rightarrow> (string \<times> fval) list" where
  "omit_fstr k s = (if s = [] then [] else [(k, FStr s)])"

definition enc_ref :: "resource_ref \<Rightarrow> fval" where
  "enc_ref r = FMap ([(''group'', FStr (rr_group r)), (''version'', FStr (rr_version r)),
     (''resource'', FStr (rr_resource r))] @ omit_fstr ''namespace'' (rr_namespace r) @
     [(''name'', FStr (rr_name r))])"

definition enc_spec :: "'a target_spec_scheme \<Rightarrow> fval" where
  "enc_spec s = FMap ([(''managementCluster'', FStr (sp_managementCluster s)),
     (''clusterID'', FStr (sp_clusterID s))] @ omit_fstr ''nodePoolName'' (sp_nodePoolName s) @
     [(''targetItem'', enc_ref (sp_targetItem s))])"

definition enc_status_fields :: "'a desire_status_scheme \<Rightarrow> (string \<times> fval) list" where
  "enc_status_fields s =
     (if st_conditions s = [] then [] else [(''conditions'', FConds (st_conditions s))]) @
     (if st_observedDesireUpdateTime s = 0 then []
      else [(''observedDesireUpdateTime'', FTime (st_observedDesireUpdateTime s))])"

definition enc_status :: "'a desire_status_scheme \<Rightarrow> fval" where
  "enc_status s = FMap (enc_status_fields s)"

definition enc_apply_status :: "'a apply_status_scheme \<Rightarrow> fval" where
  "enc_apply_status s = FMap (enc_status_fields s @
     (if st_appliedResourceGeneration s = 0 then []
      else [(''appliedResourceGeneration'', FInt (st_appliedResourceGeneration s))]))"

text \<open>\<open>DataTo\<close>: a missing field or a null leaves the zero value, another type is an error.\<close>

fun fs_str :: "fval option \<Rightarrow> string option" where
  "fs_str None = Some []"
| "fs_str (Some FNull) = Some []"
| "fs_str (Some (FStr s)) = Some s"
| "fs_str _ = None"

fun fs_time :: "fval option \<Rightarrow> gotime option" where
  "fs_time None = Some 0"
| "fs_time (Some FNull) = Some 0"
| "fs_time (Some (FTime t)) = Some t"
| "fs_time _ = None"

fun fs_int64 :: "'w env \<Rightarrow> fval option \<Rightarrow> int64 option" where
  "fs_int64 env None = Some 0"
| "fs_int64 env (Some FNull) = Some 0"
| "fs_int64 env (Some (FInt n)) = Some n"
| "fs_int64 env (Some (FFloat x)) =
     (if f64_text env x \<noteq> None \<and> f64_text env (int_text (sint (f64_to_int64 env x))) = f64_text env x
      then Some (f64_to_int64 env x) else None)"
| "fs_int64 env _ = None"

fun fs_conds :: "fval option \<Rightarrow> condition list option" where
  "fs_conds None = Some []"
| "fs_conds (Some FNull) = Some []"
| "fs_conds (Some (FConds cs)) = Some cs"
| "fs_conds (Some (FList [])) = Some []"
| "fs_conds _ = None"

fun fs_map :: "fval option \<Rightarrow> (string \<times> fval) list option" where
  "fs_map None = Some []"
| "fs_map (Some FNull) = Some []"
| "fs_map (Some (FMap m)) = Some m"
| "fs_map _ = None"

definition dec_ref :: "fval option \<Rightarrow> resource_ref option" where
  "dec_ref v = do {
     m \<leftarrow> fs_map v;
     g \<leftarrow> fs_str (get_field ''group'' m);
     ve \<leftarrow> fs_str (get_field ''version'' m);
     re \<leftarrow> fs_str (get_field ''resource'' m);
     ns \<leftarrow> fs_str (get_field ''namespace'' m);
     n \<leftarrow> fs_str (get_field ''name'' m);
     Some \<lparr>rr_group = g, rr_version = ve, rr_resource = re, rr_namespace = ns, rr_name = n\<rparr> }"

definition dec_spec :: "fval option \<Rightarrow> target_spec option" where
  "dec_spec v = do {
     m \<leftarrow> fs_map v;
     mc \<leftarrow> fs_str (get_field ''managementCluster'' m);
     cid \<leftarrow> fs_str (get_field ''clusterID'' m);
     np \<leftarrow> fs_str (get_field ''nodePoolName'' m);
     t \<leftarrow> dec_ref (get_field ''targetItem'' m);
     Some \<lparr>sp_managementCluster = mc, sp_clusterID = cid, sp_nodePoolName = np, sp_targetItem = t\<rparr> }"

definition dec_status :: "fval option \<Rightarrow> desire_status option" where
  "dec_status v = do {
     m \<leftarrow> fs_map v;
     cs \<leftarrow> fs_conds (get_field ''conditions'' m);
     t \<leftarrow> fs_time (get_field ''observedDesireUpdateTime'' m);
     Some \<lparr>st_conditions = cs, st_observedDesireUpdateTime = t\<rparr> }"

definition dec_generation :: "'w env \<Rightarrow> fval option \<Rightarrow> int64 option" where
  "dec_generation env v = do {
     m \<leftarrow> fs_map v;
     fs_int64 env (get_field ''appliedResourceGeneration'' m) }"

definition dec_apply :: "'w env \<Rightarrow> doc \<Rightarrow> apply_desire option" where
  "dec_apply env d = do {
     s \<leftarrow> dec_spec (d ''spec'');
     t \<leftarrow> dec_status (d ''status'');
     g \<leftarrow> dec_generation env (d ''status'');
     Some \<lparr>ad_meta = zero_metadata,
       ad_spec = target_spec.extend s (apply_spec.fields None),
       ad_status = desire_status.extend t (apply_status.fields g)\<rparr> }"

definition dec_delete :: "'w env \<Rightarrow> doc \<Rightarrow> delete_desire option" where
  "dec_delete env d = do {
     s \<leftarrow> dec_spec (d ''spec'');
     t \<leftarrow> dec_status (d ''status'');
     Some \<lparr>dd_meta = zero_metadata, dd_spec = s, dd_status = t\<rparr> }"

definition dec_read :: "'w env \<Rightarrow> doc \<Rightarrow> read_desire option" where
  "dec_read env d = do {
     s \<leftarrow> dec_spec (d ''spec'');
     t \<leftarrow> dec_status (d ''status'');
     Some \<lparr>rd_meta = zero_metadata, rd_spec = s,
       rd_status = desire_status.extend t (read_status.fields None)\<rparr> }"

lemma dec_enc_ref: "dec_ref (Some (enc_ref r)) = Some r"
  by (simp add: dec_ref_def enc_ref_def omit_fstr_def)

lemma dec_enc_spec: "dec_spec (Some (enc_spec s)) = Some (target_spec.truncate s)"
  by (simp add: dec_spec_def enc_spec_def omit_fstr_def dec_enc_ref target_spec.defs)

lemma dec_enc_status: "dec_status (Some (enc_status s)) = Some (desire_status.truncate s)"
  by (simp add: dec_status_def enc_status_def enc_status_fields_def desire_status.defs)

lemma dec_enc_apply_status:
  "dec_status (Some (enc_apply_status s)) = Some (desire_status.truncate s)"
  "dec_generation env (Some (enc_apply_status s)) = Some (st_appliedResourceGeneration s)"
  by (simp_all add: dec_status_def dec_generation_def enc_apply_status_def enc_status_fields_def
      desire_status.defs)

section \<open>Accessors\<close>

text \<open>
  The interfaces \<open>FirestoreMetadataAccessor\<close>, \<open>SpecStatusAccessor\<close> and \<open>KubeContentAccessor\<close> in
  one record. \<open>GetSpec\<close> and \<open>GetStatus\<close> return the value as it is stored; a type without kube
  content returns nil and ignores the setter.
\<close>

record ('w, 't) desire_ops =
  d_GetDocumentID :: "'t \<Rightarrow> string"
  d_GetUpdateTime :: "'t \<Rightarrow> gotime"
  d_GetCreateTime :: "'t \<Rightarrow> gotime"
  d_SetDocumentID :: "string \<Rightarrow> 't \<Rightarrow> 't"
  d_SetUpdateTime :: "gotime \<Rightarrow> 't \<Rightarrow> 't"
  d_SetCreateTime :: "gotime \<Rightarrow> 't \<Rightarrow> 't"
  d_GetSpec :: "'t \<Rightarrow> fval"
  d_GetStatus :: "'t \<Rightarrow> fval"
  d_GetSpecKubeContent :: "'t \<Rightarrow> raw_ext"
  d_SetSpecKubeContent :: "raw_ext \<Rightarrow> 't \<Rightarrow> 't"
  d_GetStatusKubeContent :: "'t \<Rightarrow> raw_ext"
  d_SetStatusKubeContent :: "raw_ext \<Rightarrow> 't \<Rightarrow> 't"
  d_DataTo :: "'w env \<Rightarrow> doc \<Rightarrow> 't option"

definition apply_ops :: "('w, apply_desire) desire_ops" where
  "apply_ops = \<lparr>
     d_GetDocumentID = (\<lambda>d. md_documentID (ad_meta d)),
     d_GetUpdateTime = (\<lambda>d. md_updateTime (ad_meta d)),
     d_GetCreateTime = (\<lambda>d. md_createTime (ad_meta d)),
     d_SetDocumentID = (\<lambda>i. ad_meta_update (md_documentID_update (\<lambda>_. i))),
     d_SetUpdateTime = (\<lambda>t. ad_meta_update (md_updateTime_update (\<lambda>_. t))),
     d_SetCreateTime = (\<lambda>t. ad_meta_update (md_createTime_update (\<lambda>_. t))),
     d_GetSpec = (\<lambda>d. enc_spec (ad_spec d)),
     d_GetStatus = (\<lambda>d. enc_apply_status (ad_status d)),
     d_GetSpecKubeContent = (\<lambda>d. sp_kubeContent (ad_spec d)),
     d_SetSpecKubeContent = (\<lambda>e. ad_spec_update (sp_kubeContent_update (\<lambda>_. e))),
     d_GetStatusKubeContent = (\<lambda>d. None),
     d_SetStatusKubeContent = (\<lambda>e d. d),
     d_DataTo = dec_apply\<rparr>"

definition delete_ops :: "('w, delete_desire) desire_ops" where
  "delete_ops = \<lparr>
     d_GetDocumentID = (\<lambda>d. md_documentID (dd_meta d)),
     d_GetUpdateTime = (\<lambda>d. md_updateTime (dd_meta d)),
     d_GetCreateTime = (\<lambda>d. md_createTime (dd_meta d)),
     d_SetDocumentID = (\<lambda>i. dd_meta_update (md_documentID_update (\<lambda>_. i))),
     d_SetUpdateTime = (\<lambda>t. dd_meta_update (md_updateTime_update (\<lambda>_. t))),
     d_SetCreateTime = (\<lambda>t. dd_meta_update (md_createTime_update (\<lambda>_. t))),
     d_GetSpec = (\<lambda>d. enc_spec (dd_spec d)),
     d_GetStatus = (\<lambda>d. enc_status (dd_status d)),
     d_GetSpecKubeContent = (\<lambda>d. None),
     d_SetSpecKubeContent = (\<lambda>e d. d),
     d_GetStatusKubeContent = (\<lambda>d. None),
     d_SetStatusKubeContent = (\<lambda>e d. d),
     d_DataTo = dec_delete\<rparr>"

definition read_ops :: "('w, read_desire) desire_ops" where
  "read_ops = \<lparr>
     d_GetDocumentID = (\<lambda>d. md_documentID (rd_meta d)),
     d_GetUpdateTime = (\<lambda>d. md_updateTime (rd_meta d)),
     d_GetCreateTime = (\<lambda>d. md_createTime (rd_meta d)),
     d_SetDocumentID = (\<lambda>i. rd_meta_update (md_documentID_update (\<lambda>_. i))),
     d_SetUpdateTime = (\<lambda>t. rd_meta_update (md_updateTime_update (\<lambda>_. t))),
     d_SetCreateTime = (\<lambda>t. rd_meta_update (md_createTime_update (\<lambda>_. t))),
     d_GetSpec = (\<lambda>d. enc_spec (rd_spec d)),
     d_GetStatus = (\<lambda>d. enc_status (rd_status d)),
     d_GetSpecKubeContent = (\<lambda>d. None),
     d_SetSpecKubeContent = (\<lambda>e d. d),
     d_GetStatusKubeContent = (\<lambda>d. st_kubeContent (rd_status d)),
     d_SetStatusKubeContent = (\<lambda>e. rd_status_update (st_kubeContent_update (\<lambda>_. e))),
     d_DataTo = dec_read\<rparr>"

section \<open>Kube content\<close>

definition rawExtFieldSpecKubeContent :: string where
  "rawExtFieldSpecKubeContent = ''spec_kubeContent''"

definition rawExtFieldStatusKubeContent :: string where
  "rawExtFieldStatusKubeContent = ''status_kubeContent''"

lemmas kube_fields = rawExtFieldSpecKubeContent_def rawExtFieldStatusKubeContent_def

definition kubeContentWriteUpdates ::
    "'w env \<Rightarrow> ('w, 't) desire_ops \<Rightarrow> 't \<Rightarrow> gerr + (string \<times> fval option) list" where
  "kubeContentWriteUpdates env D x =
     (let status_part = \<lambda>us. case d_GetStatusKubeContent D x of
          Some raw \<Rightarrow> (case rawExtToMap env (Some raw) of
              Inl e \<Rightarrow> Inl e
            | Inr m \<Rightarrow> Inr (us @ [(rawExtFieldStatusKubeContent, Some m)]))
        | None \<Rightarrow> Inr (us @ [(rawExtFieldStatusKubeContent, None)])
      in case d_GetSpecKubeContent D x of
          Some raw \<Rightarrow> (case rawExtToMap env (Some raw) of
              Inl e \<Rightarrow> Inl e
            | Inr m \<Rightarrow> status_part [(rawExtFieldSpecKubeContent, Some m)])
        | None \<Rightarrow> status_part [(rawExtFieldSpecKubeContent, None)])"

definition kubeContentWriteMap :: "'w env \<Rightarrow> ('w, 't) desire_ops \<Rightarrow> 't \<Rightarrow> gerr + doc" where
  "kubeContentWriteMap env D x =
     (let status_part = \<lambda>result. case d_GetStatusKubeContent D x of
          Some raw \<Rightarrow> (case rawExtToMap env (Some raw) of
              Inl e \<Rightarrow> Inl e
            | Inr m \<Rightarrow> Inr (result(rawExtFieldStatusKubeContent \<mapsto> m)))
        | None \<Rightarrow> Inr result
      in case d_GetSpecKubeContent D x of
          Some raw \<Rightarrow> (case rawExtToMap env (Some raw) of
              Inl e \<Rightarrow> Inl e
            | Inr m \<Rightarrow> status_part [rawExtFieldSpecKubeContent \<mapsto> m])
        | None \<Rightarrow> status_part Map.empty)"

definition kubeContentReadFromSnapshot ::
    "'w env \<Rightarrow> ('w, 't) desire_ops \<Rightarrow> 't \<Rightarrow> doc \<Rightarrow> gerr + 't" where
  "kubeContentReadFromSnapshot env D x data =
     (let status_part = \<lambda>y. case data rawExtFieldStatusKubeContent of
          Some v \<Rightarrow> (case mapToRawExt env v of
              Inl e \<Rightarrow> Inl (wrap_err (''read '' @ rawExtFieldStatusKubeContent @ '': '') e)
            | Inr ext \<Rightarrow> Inr (d_SetStatusKubeContent D ext y))
        | None \<Rightarrow> Inr y
      in case data rawExtFieldSpecKubeContent of
          Some v \<Rightarrow> (case mapToRawExt env v of
              Inl e \<Rightarrow> Inl (wrap_err (''read '' @ rawExtFieldSpecKubeContent @ '': '') e)
            | Inr ext \<Rightarrow> status_part (d_SetSpecKubeContent D ext x))
        | None \<Rightarrow> status_part x)"

section \<open>Errors\<close>

definition IsNotFoundError :: "gerr \<Rightarrow> bool" where
  "IsNotFoundError e = (err_code e = NotFound)"

definition IsAlreadyExistsError :: "gerr \<Rightarrow> bool" where
  "IsAlreadyExistsError e = (err_code e = AlreadyExists)"

definition IsPreconditionFailedError :: "gerr \<Rightarrow> bool" where
  "IsPreconditionFailedError e = (err_code e = FailedPrecondition)"

definition NewNotFoundError :: gerr where
  "NewNotFoundError = status_error NotFound ''not found''"

definition NewPreconditionFailedError :: gerr where
  "NewPreconditionFailedError = status_error FailedPrecondition ''precondition failed''"

lemmas error_kinds = IsNotFoundError_def IsAlreadyExistsError_def IsPreconditionFailedError_def
  NewNotFoundError_def NewPreconditionFailedError_def

section \<open>Operations on a collection\<close>

definition toFirestoreMap :: "'w env \<Rightarrow> ('w, 't) desire_ops \<Rightarrow> 't \<Rightarrow> gerr + doc" where
  "toFirestoreMap env D x = (case kubeContentWriteMap env D x of
      Inl e \<Rightarrow> Inl e
    | Inr kubeFields \<Rightarrow>
        Inr ([''spec'' \<mapsto> d_GetSpec D x, ''status'' \<mapsto> d_GetStatus D x] ++ kubeFields))"

definition snapshotToDesire :: "'w env \<Rightarrow> ('w, 't) desire_ops \<Rightarrow> snapshot \<Rightarrow> gerr + 't" where
  "snapshotToDesire env D snap = (case d_DataTo D env (snap_data snap) of
      None \<Rightarrow> Inl (errorf (''deserialize '' @ ref_id (snap_ref snap)))
    | Some x \<Rightarrow>
        (let y = d_SetCreateTime D (snap_create snap) (d_SetUpdateTime D (snap_update snap)
               (d_SetDocumentID D (ref_id (snap_ref snap)) x))
         in case kubeContentReadFromSnapshot env D y (snap_data snap) of
             Inl e \<Rightarrow> Inl (wrap_err (''deserialize kubeContent '' @ ref_id (snap_ref snap) @ '': '') e)
           | Inr z \<Rightarrow> Inr z))"

definition crud_get :: "'w env \<Rightarrow> ('w, 't) desire_ops \<Rightarrow> string \<Rightarrow> string \<Rightarrow> string \<Rightarrow> 'w \<Rightarrow> ('w, 't) ret" where
  "crud_get env D b c documentID w = (case fs_get env (doc_ref b c documentID) w of
      (Inl e, w1) \<Rightarrow>
        (if err_code e = NotFound then (Inl NewNotFoundError, w1)
         else (Inl (wrap_err (''firestore get '' @ c @ ''/'' @ documentID @ '': '') e), w1))
    | (Inr snap, w1) \<Rightarrow> (snapshotToDesire env D snap, w1))"

fun convert_all :: "'w env \<Rightarrow> ('w, 't) desire_ops \<Rightarrow> string \<Rightarrow> snapshot list \<Rightarrow> gerr + 't list" where
  "convert_all env D c [] = Inr []"
| "convert_all env D c (snap # snaps) = (case snapshotToDesire env D snap of
      Inl e \<Rightarrow> Inl (wrap_err (''firestore list '' @ c @ '': convert '' @ ref_id (snap_ref snap) @ '': '') e)
    | Inr x \<Rightarrow> (case convert_all env D c snaps of Inl e \<Rightarrow> Inl e | Inr xs \<Rightarrow> Inr (x # xs)))"

definition crud_list :: "'w env \<Rightarrow> ('w, 't) desire_ops \<Rightarrow> string \<Rightarrow> string \<Rightarrow> 'w \<Rightarrow> ('w, 't list) ret" where
  "crud_list env D b c w = (case fs_query env b c None w of
      (Inl e, w1) \<Rightarrow> (Inl (wrap_err (''firestore list '' @ c @ '': '') e), w1)
    | (Inr snaps, w1) \<Rightarrow> (convert_all env D c snaps, w1))"

definition crud_create :: "'w env \<Rightarrow> ('w, 't) desire_ops \<Rightarrow> string \<Rightarrow> string \<Rightarrow> 't \<Rightarrow> 'w \<Rightarrow> ('w, 't) ret" where
  "crud_create env D b c x w =
     (let docID = d_GetDocumentID D x
      in if docID = [] then (Inl (errorf (''firestore create '' @ c @ '': DocumentID is empty'')), w)
         else (case toFirestoreMap env D x of
           Inl e \<Rightarrow> (Inl (wrap_err (''firestore create '' @ c @ ''/'' @ docID @ '': '') e), w)
         | Inr data \<Rightarrow> (case fs_write env (CreateDoc (doc_ref b c docID) data) w of
               (Inl e, w1) \<Rightarrow>
                 (if err_code e = AlreadyExists
                  then (Inl (status_error AlreadyExists
                      (''document '' @ c @ ''/'' @ docID @ '' already exists'')), w1)
                  else (Inl (wrap_err (''firestore create '' @ c @ ''/'' @ docID @ '': '') e), w1))
             | (Inr t, w1) \<Rightarrow>
                 (Inr (d_SetCreateTime D t (d_SetUpdateTime D t (d_SetDocumentID D docID x))), w1))))"

definition crud_replace :: "'w env \<Rightarrow> ('w, 't) desire_ops \<Rightarrow> string \<Rightarrow> string \<Rightarrow> 't \<Rightarrow> 'w \<Rightarrow> ('w, 't) ret" where
  "crud_replace env D b c x w =
     (let docID = d_GetDocumentID D x
      in case kubeContentWriteUpdates env D x of
        Inl e \<Rightarrow> (Inl (wrap_err (''firestore replace '' @ c @ ''/'' @ docID @ '': '') e), w)
      | Inr kubeUpdates \<Rightarrow> (case fs_write env (UpdateDoc (doc_ref b c docID)
            ([(''spec'', Some (d_GetSpec D x)), (''status'', Some (d_GetStatus D x))] @ kubeUpdates)
            (Some (d_GetUpdateTime D x))) w of
            (Inl e, w1) \<Rightarrow>
              (if err_code e = FailedPrecondition then (Inl NewPreconditionFailedError, w1)
               else if err_code e = NotFound then (Inl NewNotFoundError, w1)
               else (Inl (wrap_err (''firestore replace '' @ c @ ''/'' @ docID @ '': '') e), w1))
          | (Inr t, w1) \<Rightarrow> (Inr (d_SetUpdateTime D t x), w1)))"

definition crud_delete :: "'w env \<Rightarrow> string \<Rightarrow> string \<Rightarrow> string \<Rightarrow> 'w \<Rightarrow> ('w, unit) ret" where
  "crud_delete env b c documentID w = (case fs_write env (DeleteDoc (doc_ref b c documentID)) w of
      (Inl e, w1) \<Rightarrow> (Inl (wrap_err (''firestore delete '' @ c @ ''/'' @ documentID @ '': '') e), w1)
    | (Inr _, w1) \<Rightarrow> (Inr (), w1))"

text \<open>The interface \<open>ResourceCRUD[T]\<close> and the three collections of a \<open>DBClient\<close> for database \<open>b\<close>.\<close>

record ('w, 't) resource_ops =
  rc_Get :: "string \<Rightarrow> 'w \<Rightarrow> ('w, 't) ret"
  rc_List :: "'w \<Rightarrow> ('w, 't list) ret"
  rc_Create :: "'t \<Rightarrow> 'w \<Rightarrow> ('w, 't) ret"
  rc_Replace :: "'t \<Rightarrow> 'w \<Rightarrow> ('w, 't) ret"
  rc_Delete :: "string \<Rightarrow> 'w \<Rightarrow> ('w, unit) ret"

definition firestoreCRUD :: "'w env \<Rightarrow> ('w, 't) desire_ops \<Rightarrow> string \<Rightarrow> string \<Rightarrow> ('w, 't) resource_ops" where
  "firestoreCRUD env D b c = \<lparr>rc_Get = crud_get env D b c, rc_List = crud_list env D b c,
     rc_Create = crud_create env D b c, rc_Replace = crud_replace env D b c,
     rc_Delete = crud_delete env b c\<rparr>"

definition CollectionApplyDesires :: string where "CollectionApplyDesires = ''applydesires''"
definition CollectionDeleteDesires :: string where "CollectionDeleteDesires = ''deletedesires''"
definition CollectionReadDesires :: string where "CollectionReadDesires = ''readdesires''"

lemmas desire_collections = CollectionApplyDesires_def CollectionDeleteDesires_def
  CollectionReadDesires_def

definition ApplyDesires :: "'w env \<Rightarrow> string \<Rightarrow> ('w, apply_desire) resource_ops" where
  "ApplyDesires env b = firestoreCRUD env apply_ops b CollectionApplyDesires"

definition DeleteDesires :: "'w env \<Rightarrow> string \<Rightarrow> ('w, delete_desire) resource_ops" where
  "DeleteDesires env b = firestoreCRUD env delete_ops b CollectionDeleteDesires"

definition ReadDesires :: "'w env \<Rightarrow> string \<Rightarrow> ('w, read_desire) resource_ops" where
  "ReadDesires env b = firestoreCRUD env read_ops b CollectionReadDesires"

section \<open>Document IDs\<close>

definition TaskKey :: string where "TaskKey = ''hyperkube-apiserver''"

definition namespaceUUID :: string where
  "namespaceUUID = ''a3f1b2c4-d5e6-4f7a-8b9c-0d1e2f3a4b5c''"

definition doc_id_input ::
    "string \<Rightarrow> string \<Rightarrow> string \<Rightarrow> string \<Rightarrow> string \<Rightarrow> string \<Rightarrow> string" where
  "doc_id_input taskKey grp version resource namespace name =
     taskKey @ ''/'' @ grp @ ''/'' @ version @ ''/'' @ resource @ ''/'' @ namespace @ ''/'' @ name"

definition NewDocumentID ::
    "'w env \<Rightarrow> string \<Rightarrow> string \<Rightarrow> string \<Rightarrow> string \<Rightarrow> string \<Rightarrow> string \<Rightarrow> string" where
  "NewDocumentID env taskKey grp version resource namespace name =
     uuid_sha1 env namespaceUUID (doc_id_input taskKey grp version resource namespace name)"

end
