(* ===== verification/DesireStore.thy ===== *)
theory DesireStore
  imports Desires
begin

text \<open>
  What the collection operations of \<open>Desires\<close> do. \<open>doc_of\<close> says that a document holds a desire,
  \<open>desire_type\<close> what a desire type's accessors satisfy, \<open>desire_crud\<close> proves the effect of each
  operation on the documents for every desire type, and \<open>resource_crud\<close> is the contract of the
  interface \<open>ResourceCRUD\<close>, with the facts its callers need.
\<close>

section \<open>Laws of the accessors\<close>

text \<open>A desire with the server-managed metadata and the kube content set.\<close>

definition dress ::
    "('w, 't) desire_ops \<Rightarrow> string \<Rightarrow> gotime \<Rightarrow> gotime \<Rightarrow> raw_ext \<Rightarrow> raw_ext \<Rightarrow> 't \<Rightarrow> 't" where
  "dress D i u c k1 k2 x = d_SetStatusKubeContent D k2 (d_SetSpecKubeContent D k1
     (d_SetCreateTime D c (d_SetUpdateTime D u (d_SetDocumentID D i x))))"

locale desire_type =
  fixes D :: "('w, 't) desire_ops"
  assumes dress_self: "dress D (d_GetDocumentID D x) (d_GetUpdateTime D x) (d_GetCreateTime D x)
          (d_GetSpecKubeContent D x) (d_GetStatusKubeContent D x) x = x"
    and set_dress [simp]:
      "d_SetDocumentID D i' (dress D i u c k1 k2 x) = dress D i' u c k1 k2 x"
      "d_SetUpdateTime D u' (dress D i u c k1 k2 x) = dress D i u' c k1 k2 x"
      "d_SetCreateTime D c' (dress D i u c k1 k2 x) = dress D i u c' k1 k2 x"
      "d_SetSpecKubeContent D k (dress D i u c k1 k2 x) = dress D i u c k k2 x"
      "d_SetStatusKubeContent D k (dress D i u c k1 k2 x) = dress D i u c k1 k x"
    and get_dress [simp]:
      "d_GetDocumentID D (dress D i u c k1 k2 x) = i"
      "d_GetUpdateTime D (dress D i u c k1 k2 x) = u"
      "d_GetCreateTime D (dress D i u c k1 k2 x) = c"
      "d_GetSpec D (dress D i u c k1 k2 x) = d_GetSpec D x"
      "d_GetStatus D (dress D i u c k1 k2 x) = d_GetStatus D x"
    and data_to: "d ''spec'' = Some (d_GetSpec D x) \<Longrightarrow> d ''status'' = Some (d_GetStatus D x) \<Longrightarrow>
          d_DataTo D env d = Some (dress D [] 0 0 None None x)"
begin

lemma set_desire:
  "d_SetDocumentID D i x = dress D i (d_GetUpdateTime D x) (d_GetCreateTime D x)
     (d_GetSpecKubeContent D x) (d_GetStatusKubeContent D x) x"
  "d_SetUpdateTime D u x = dress D (d_GetDocumentID D x) u (d_GetCreateTime D x)
     (d_GetSpecKubeContent D x) (d_GetStatusKubeContent D x) x"
  using set_dress(1,2)[of _ "d_GetDocumentID D x" "d_GetUpdateTime D x" "d_GetCreateTime D x"
      "d_GetSpecKubeContent D x" "d_GetStatusKubeContent D x" x]
  by (simp_all add: dress_self)

end

lemma enc_spec_kube [simp]: "enc_spec (s\<lparr>sp_kubeContent := k\<rparr>) = enc_spec s"
  by (simp add: enc_spec_def)

lemma enc_status_kube [simp]: "enc_status (t\<lparr>st_kubeContent := k\<rparr>) = enc_status t"
  by (simp add: enc_status_def enc_status_fields_def)

interpretation apply_type: desire_type apply_ops
  by unfold_locales
    (auto simp: dress_def apply_ops_def dec_apply_def dec_enc_spec dec_enc_apply_status
      target_spec.defs apply_spec.defs desire_status.defs apply_status.defs zero_metadata_def)

interpretation delete_type: desire_type delete_ops
  by unfold_locales
    (auto simp: dress_def delete_ops_def dec_delete_def dec_enc_spec dec_enc_status
      target_spec.defs desire_status.defs zero_metadata_def)

interpretation read_type: desire_type read_ops
  by unfold_locales
    (auto simp: dress_def read_ops_def dec_read_def dec_enc_spec dec_enc_status
      target_spec.defs desire_status.defs read_status.defs zero_metadata_def)

section \<open>Documents that hold a desire\<close>

definition kube_field :: "'w env \<Rightarrow> raw_ext \<Rightarrow> fval option \<Rightarrow> bool" where
  "kube_field env ext v = (case ext of
      None \<Rightarrow> v = None
    | Some raw \<Rightarrow> (case rawExtToMap env ext of Inl e \<Rightarrow> False | Inr m \<Rightarrow> v = Some m))"

definition doc_of :: "'w env \<Rightarrow> ('w, 't) desire_ops \<Rightarrow> 't \<Rightarrow> doc \<Rightarrow> bool" where
  "doc_of env D x d \<longleftrightarrow> d ''spec'' = Some (d_GetSpec D x) \<and> d ''status'' = Some (d_GetStatus D x) \<and>
     kube_field env (d_GetSpecKubeContent D x) (d rawExtFieldSpecKubeContent) \<and>
     kube_field env (d_GetStatusKubeContent D x) (d rawExtFieldStatusKubeContent)"

definition desire_keys :: "string set" where
  "desire_keys = {''spec'', ''status'', rawExtFieldSpecKubeContent, rawExtFieldStatusKubeContent}"

text \<open>What such a document reads back as.\<close>

definition read_back :: "'w env \<Rightarrow> ('w, 't) desire_ops \<Rightarrow> string \<Rightarrow> stored \<Rightarrow> 't \<Rightarrow> 't" where
  "read_back env D i d x = dress D i (sd_update d) (sd_create d)
     (kube_norm env (d_GetSpecKubeContent D x)) (kube_norm env (d_GetStatusKubeContent D x)) x"

lemma toFirestoreMap_doc_of: "toFirestoreMap env D x = Inr d \<Longrightarrow> doc_of env D x d"
  by (auto simp: toFirestoreMap_def kubeContentWriteMap_def doc_of_def kube_field_def kube_fields
      Let_def split: option.splits sum.splits)

lemma write_updates_doc_of:
  assumes "kubeContentWriteUpdates env D x = Inr us"
  shows "doc_of env D x (set_fields
      ([(''spec'', Some (d_GetSpec D x)), (''status'', Some (d_GetStatus D x))] @ us) d)"
  using assms
  by (auto simp: kubeContentWriteUpdates_def doc_of_def kube_field_def kube_fields
      Let_def split: option.splits sum.splits)

lemma write_updates_frame:
  assumes "kubeContentWriteUpdates env D x = Inr us" and "k \<notin> desire_keys"
  shows "set_fields ([(''spec'', Some (d_GetSpec D x)), (''status'', Some (d_GetStatus D x))] @ us) d k = d k"
  using assms
  by (auto simp: kubeContentWriteUpdates_def desire_keys_def Let_def split: option.splits sum.splits)

text \<open>The four functions that code kube content fail together.\<close>

definition kube_ok :: "'w env \<Rightarrow> ('w, 't) desire_ops \<Rightarrow> 't \<Rightarrow> bool" where
  "kube_ok env D x \<longleftrightarrow>
     (\<exists>m. rawExtToMap env (d_GetSpecKubeContent D x) = Inr m) \<and>
     (\<exists>m. rawExtToMap env (d_GetStatusKubeContent D x) = Inr m)"

lemma toFirestoreMap_ok: "(\<exists>d. toFirestoreMap env D x = Inr d) \<longleftrightarrow> kube_ok env D x"
  by (auto simp: toFirestoreMap_def kubeContentWriteMap_def kube_ok_def rawExtToMap_def[of env None]
      Let_def split: option.splits sum.splits)

lemma kubeContentWriteUpdates_ok: "(\<exists>us. kubeContentWriteUpdates env D x = Inr us) \<longleftrightarrow> kube_ok env D x"
  by (auto simp: kubeContentWriteUpdates_def kube_ok_def rawExtToMap_def[of env None]
      Let_def split: option.splits sum.splits)

lemma toFirestoreMap_err: "toFirestoreMap env D x = Inl e \<Longrightarrow> err_code e = Unknown"
  by (auto simp: toFirestoreMap_def kubeContentWriteMap_def rawExtToMap_def json_error_def Let_def
      split: option.splits sum.splits json.splits if_splits)

lemma kubeContentWriteUpdates_err: "kubeContentWriteUpdates env D x = Inl e \<Longrightarrow> err_code e = Unknown"
  by (auto simp: kubeContentWriteUpdates_def rawExtToMap_def json_error_def Let_def
      split: option.splits sum.splits json.splits if_splits)

lemma snapshotToDesire_err: "snapshotToDesire env D s = Inl e \<Longrightarrow> err_code e = Unknown"
  by (auto simp: snapshotToDesire_def kubeContentReadFromSnapshot_def mapToRawExt_def json_error_def Let_def
      split: option.splits sum.splits if_splits)

locale desire_crud = firestore env db + desire_type D
  for env :: "'w env" and db :: "'w \<Rightarrow> database" and D :: "('w, 't) desire_ops"
begin

lemma kube_field_read: "kube_field env ext v \<Longrightarrow>
    (case v of None \<Rightarrow> ext = None | Some m \<Rightarrow> mapToRawExt env m = Inr (kube_norm env ext))"
  by (auto simp: kube_field_def mapToRawExt_stored split: option.splits sum.splits)

lemma snapshot_doc_of:
  assumes "doc_of env D x (sd_data d)"
  shows "snapshotToDesire env D (snap_of r d) = Inr (read_back env D (ref_id r) d x)"
proof -
  let ?s = "sd_data d rawExtFieldSpecKubeContent" and ?t = "sd_data d rawExtFieldStatusKubeContent"
  from assms have D: "d_DataTo D env (sd_data d) = Some (dress D [] 0 0 None None x)"
    by (intro data_to) (simp_all add: doc_of_def)
  from assms have s: "case ?s of None \<Rightarrow> d_GetSpecKubeContent D x = None
        | Some m \<Rightarrow> mapToRawExt env m = Inr (kube_norm env (d_GetSpecKubeContent D x))"
    and t: "case ?t of None \<Rightarrow> d_GetStatusKubeContent D x = None
        | Some m \<Rightarrow> mapToRawExt env m = Inr (kube_norm env (d_GetStatusKubeContent D x))"
    by (auto simp: doc_of_def intro: kube_field_read)
  show ?thesis
    using D s t by (auto simp: snapshotToDesire_def kubeContentReadFromSnapshot_def read_back_def Let_def
        split: option.splits)
qed

text \<open>\<open>read_back\<close> is what \<open>DataTo\<close> and the kube content reader make of the document.\<close>

lemma read_back_again: "doc_of env D x d0 \<Longrightarrow>
    d_GetSpec D (read_back env D i d x) = d_GetSpec D x \<and>
    d_GetStatus D (read_back env D i d x) = d_GetStatus D x \<and>
    d_GetDocumentID D (read_back env D i d x) = i \<and>
    d_GetUpdateTime D (read_back env D i d x) = sd_update d"
  by (simp add: read_back_def)

lemma crud_get_db [simp]: "db (snd (crud_get env D b c i w)) = db w"
  using get_db[of "doc_ref b c i" w]
  by (cases "fs_get env (doc_ref b c i) w") (auto simp: crud_get_def split: sum.split)

lemma crud_get_ok:
  assumes "crud_get env D b c i w = (Inr x, w')"
  obtains d where "db w (doc_ref b c i) = Some d"
    "snapshotToDesire env D (snap_of (doc_ref b c i) d) = Inr x" "db w' = db w"
proof -
  obtain res w1 where g: "fs_get env (doc_ref b c i) w = (res, w1)" by force
  then show thesis
    using g assms that by (cases rule: get_cases) (auto simp: crud_get_def split: if_splits)
qed

lemma crud_get_missing:
  assumes "crud_get env D b c i w = (Inl e, w')" and "err_code e = NotFound"
  shows "db w (doc_ref b c i) = None"
proof -
  obtain res w1 where g: "fs_get env (doc_ref b c i) w = (res, w1)" by force
  then show ?thesis
    using g assms by (cases rule: get_cases)
      (auto simp: crud_get_def error_kinds split: if_splits dest: snapshotToDesire_err)
qed

lemma crud_create_ok:
  assumes "crud_create env D b c x w = (Inr y, w')"
  obtains d where "db w (doc_ref b c (d_GetDocumentID D x)) = None" "d_GetDocumentID D x \<noteq> []"
    "db w' = (db w)(doc_ref b c (d_GetDocumentID D x) \<mapsto> d)" "doc_of env D x (sd_data d)"
    "sd_create d = sd_update d" "y = dress D (d_GetDocumentID D x) (sd_update d) (sd_update d)
       (d_GetSpecKubeContent D x) (d_GetStatusKubeContent D x) x"
proof -
  let ?i = "d_GetDocumentID D x"
  from assms obtain data t where i: "?i \<noteq> []" and data: "toFirestoreMap env D x = Inr data"
      and wr: "fs_write env (CreateDoc (doc_ref b c ?i) data) w = (Inr t, w')"
      and y: "y = d_SetCreateTime D t (d_SetUpdateTime D t (d_SetDocumentID D ?i x))"
    by (auto simp: crud_create_def Let_def split: if_splits sum.splits prod.splits)
  from write_okD[OF wr] have none: "db w (doc_ref b c ?i) = None"
      and db': "db w' = (db w)(doc_ref b c ?i \<mapsto> \<lparr>sd_data = data, sd_update = t, sd_create = t\<rparr>)"
    by (auto split: option.splits)
  show thesis
    using toFirestoreMap_doc_of[OF data] y by (intro that[OF none i db']) (simp_all add: set_desire(1))
qed

lemma crud_create_err:
  assumes "crud_create env D b c x w = (Inl e, w')"
  shows "db w' = db w \<and> (err_code e = AlreadyExists \<longrightarrow> db w (doc_ref b c (d_GetDocumentID D x)) \<noteq> None) \<or>
    err_code e \<notin> rejections \<and> db w (doc_ref b c (d_GetDocumentID D x)) = None \<and>
    (\<exists>d. db w' = (db w)(doc_ref b c (d_GetDocumentID D x) \<mapsto> d) \<and> doc_of env D x (sd_data d))"
proof (cases "\<exists>data. toFirestoreMap env D x = Inr data \<and> d_GetDocumentID D x \<noteq> []")
  case False
  then have "w' = w \<and> err_code e = Unknown"
    using assms by (auto simp: crud_create_def Let_def
        split: if_splits sum.splits prod.splits dest: toFirestoreMap_err)
  then show ?thesis by simp
next
  case True
  then obtain data where data: "toFirestoreMap env D x = Inr data" "d_GetDocumentID D x \<noteq> []" by blast
  with assms obtain e0 where wr:
      "fs_write env (CreateDoc (doc_ref b c (d_GetDocumentID D x)) data) w = (Inl e0, w')"
      "err_code e = err_code e0"
    by (auto simp: crud_create_def Let_def split: if_splits sum.splits prod.splits)
  from write_err[OF wr(1)] create_exists[OF wr(1)] wr(2) show ?thesis
    using toFirestoreMap_doc_of[OF data(1)]
    by (auto simp: rejections_def split: option.splits dest!: sym[of _ "db w'"])
qed

lemma crud_replace_ok:
  assumes "crud_replace env D b c x w = (Inr y, w')"
  obtains old d where "db w (doc_ref b c (d_GetDocumentID D x)) = Some old"
    "sd_update old = d_GetUpdateTime D x" "sd_update old < sd_update d" "sd_create d = sd_create old"
    "db w' = (db w)(doc_ref b c (d_GetDocumentID D x) \<mapsto> d)" "doc_of env D x (sd_data d)"
    "\<And>k. k \<notin> desire_keys \<Longrightarrow> sd_data d k = sd_data old k" "y = d_SetUpdateTime D (sd_update d) x"
proof -
  let ?r = "doc_ref b c (d_GetDocumentID D x)"
  let ?us = "\<lambda>us. [(''spec'', Some (d_GetSpec D x)), (''status'', Some (d_GetStatus D x))] @ us"
  from assms obtain us t where us: "kubeContentWriteUpdates env D x = Inr us"
      and wr: "fs_write env (UpdateDoc ?r (?us us) (Some (d_GetUpdateTime D x))) w = (Inr t, w')"
      and y: "y = d_SetUpdateTime D t x"
    by (auto simp: crud_replace_def Let_def split: if_splits sum.splits prod.splits)
  from write_okD[OF wr] obtain old where old: "db w ?r = Some old" "sd_update old = d_GetUpdateTime D x"
      and db': "db w' = (db w)(?r \<mapsto> old\<lparr>sd_data := set_fields (?us us) (sd_data old), sd_update := t\<rparr>)"
    by (auto split: option.splits if_splits)
  from write_later[OF wr old(1)] have lt: "sd_update old < t" .
  show thesis
    by (rule that[OF old _ _ db'])
      (use lt y write_updates_doc_of[OF us] write_updates_frame[OF us] in simp_all)
qed

lemma crud_replace_err:
  assumes "crud_replace env D b c x w = (Inl e, w')"
  shows "db w' = db w \<or> err_code e \<notin> rejections \<and>
    (\<exists>old d. db w (doc_ref b c (d_GetDocumentID D x)) = Some old \<and> sd_update old = d_GetUpdateTime D x \<and>
       db w' = (db w)(doc_ref b c (d_GetDocumentID D x) \<mapsto> d) \<and> doc_of env D x (sd_data d))"
proof (cases "kubeContentWriteUpdates env D x")
  case (Inl e0)
  with assms show ?thesis by (auto simp: crud_replace_def)
next
  case (Inr us)
  let ?us = "[(''spec'', Some (d_GetSpec D x)), (''status'', Some (d_GetStatus D x))] @ us"
  from Inr assms obtain e0 where wr: "fs_write env (UpdateDoc (doc_ref b c (d_GetDocumentID D x)) ?us
        (Some (d_GetUpdateTime D x))) w = (Inl e0, w')" "err_code e = err_code e0"
    by (auto simp: crud_replace_def Let_def error_kinds split: if_splits sum.splits prod.splits)
  from write_errD[OF wr(1)] wr(2) write_updates_doc_of[OF Inr] show ?thesis
    by (fastforce split: option.splits if_splits)
qed

lemma crud_replace_stale:
  assumes "crud_replace env D b c x w = (res, w')"
    and "db w (doc_ref b c (d_GetDocumentID D x)) = Some old" "sd_update old \<noteq> d_GetUpdateTime D x"
  shows "\<exists>e. res = Inl e \<and> db w' = db w"
proof (cases res)
  case (Inl e)
  from crud_replace_err[OF assms(1)[unfolded Inl]] assms(2,3) Inl show ?thesis by auto
next
  case (Inr y)
  from crud_replace_ok[OF assms(1)[unfolded Inr]] assms(2,3) show ?thesis by auto
qed

lemma crud_delete_ok: "crud_delete env b c i w = (Inr u, w') \<Longrightarrow> db w' = (db w)(doc_ref b c i := None)"
  by (auto simp: crud_delete_def split: sum.splits prod.splits dest: write_okD)

lemma crud_delete_err: "crud_delete env b c i w = (Inl e, w') \<Longrightarrow>
    db w' = db w \<or> db w' = (db w)(doc_ref b c i := None)"
  by (auto simp: crud_delete_def split: sum.splits prod.splits dest!: write_errD)

lemma convert_all_ok: "convert_all env D c snaps = Inr xs \<Longrightarrow>
    list_all2 (\<lambda>s x. snapshotToDesire env D s = Inr x) snaps xs"
  by (induction snaps arbitrary: xs) (auto split: sum.splits)

lemma crud_list_ok:
  assumes "crud_list env D b c w = (Inr xs, w')"
  shows "db w' = db w \<and> (\<exists>ss. distinct (map snap_ref ss) \<and> set ss = listing b c None (db w) \<and>
    list_all2 (\<lambda>s x. snapshotToDesire env D s = Inr x) ss xs)"
proof -
  obtain res w1 where q: "fs_query env b c None w = (res, w1)" by force
  then show ?thesis
    using q assms by (cases rule: query_cases)
      (auto simp: crud_list_def split: sum.splits dest!: convert_all_ok)
qed

end

end
