(* ===== verification/DesireContract.thy ===== *)
theory DesireContract
  imports DesireStore
begin

text \<open>
  The contract of \<open>ResourceCRUD\<close> as a locale, over two views of a collection: the desire and the
  update time under each document ID. The collection operations satisfy it for every desire type
  on every Firestore, and its facts are what callers rely on, above all that of two writers who
  read the same version at most one can replace it.
\<close>

locale resource_crud =
  fixes ops :: "('w, 't) resource_ops"
    and tab :: "'w \<Rightarrow> string \<Rightarrow> 't option" and ver :: "'w \<Rightarrow> string \<Rightarrow> gotime option"
    and ident :: "'t \<Rightarrow> string" and stamp :: "'t \<Rightarrow> gotime" and content :: "'t \<Rightarrow> 'c"
  assumes Get_ok: "rc_Get ops i w = (Inr x, w') \<Longrightarrow> tab w i = Some x \<and> ver w i = Some (stamp x) \<and> ident x = i"
    and Get_frame: "rc_Get ops i w = (r, w') \<Longrightarrow> tab w' = tab w \<and> ver w' = ver w"
    and Create_ok: "rc_Create ops x w = (Inr y, w') \<Longrightarrow> ver w (ident x) = None \<and>
          ver w' = (ver w)(ident x \<mapsto> stamp y) \<and> ident y = ident x \<and>
          (\<exists>z. tab w' = (tab w)(ident x \<mapsto> z) \<and> content z = content x \<and> stamp z = stamp y)"
    and Create_exists: "rc_Create ops x w = (r', w') \<Longrightarrow> ver w (ident x) \<noteq> None \<Longrightarrow>
          (\<exists>e. r' = Inl e) \<and> tab w' = tab w \<and> ver w' = ver w"
    and Replace_ok: "rc_Replace ops x w = (Inr y, w') \<Longrightarrow> ver w (ident x) = Some (stamp x) \<and>
          stamp x < stamp y \<and> ident y = ident x \<and> ver w' = (ver w)(ident x \<mapsto> stamp y) \<and>
          (\<exists>z. tab w' = (tab w)(ident x \<mapsto> z) \<and> content z = content x \<and> stamp z = stamp y)"
    and Replace_stale: "rc_Replace ops x w = (r', w') \<Longrightarrow> ver w (ident x) = Some t \<Longrightarrow> t \<noteq> stamp x \<Longrightarrow>
          (\<exists>e. r' = Inl e) \<and> tab w' = tab w \<and> ver w' = ver w"
    and Delete_ok: "rc_Delete ops i w = (Inr u, w') \<Longrightarrow> tab w' = (tab w)(i := None) \<and> ver w' = (ver w)(i := None)"
begin

lemma get_after_create:
  assumes "rc_Create ops x w = (Inr y, w1)" and "rc_Get ops (ident x) w1 = (Inr z, w2)"
  shows "content z = content x \<and> stamp z = stamp y \<and> ident z = ident x"
  using Create_ok[OF assms(1)] Get_ok[OF assms(2)] by auto

lemma get_after_delete:
  assumes "rc_Delete ops i w = (Inr u, w1)"
  shows "\<exists>e. fst (rc_Get ops i w1) = Inl e"
proof (cases "rc_Get ops i w1")
  case (Pair r w2)
  then show ?thesis
    using Delete_ok[OF assms] Get_ok[of i w1 _ w2] by (cases r) auto
qed

text \<open>Two writers that hold the same version: after the first succeeded the second is refused.\<close>

lemma no_lost_update:
  assumes "rc_Replace ops x1 w1 = (Inr y, w2)" and "rc_Replace ops x2 w2 = (r, w3)"
    and "ident x2 = ident x1" and "stamp x2 = stamp x1"
  shows "(\<exists>e. r = Inl e) \<and> tab w3 = tab w2 \<and> ver w3 = ver w2"
proof -
  from Replace_ok[OF assms(1)] have "ver w2 (ident x2) = Some (stamp y)" "stamp y \<noteq> stamp x2"
    using assms(3,4) by auto
  from Replace_stale[OF assms(2) this] show ?thesis .
qed

lemma read_modify_write:
  assumes "rc_Get ops i w = (Inr x, w1)" and "rc_Replace ops x' w1 = (Inr y, w2)"
    and "ident x' = i" and "stamp x' = stamp x"
  shows "ver w1 i = Some (stamp x) \<and> (\<exists>z. tab w2 i = Some z \<and> content z = content x')"
  using Get_ok[OF assms(1)] Get_frame[OF assms(1)] Replace_ok[OF assms(2)] assms(3,4) by auto

end

definition tab_of ::
    "'w env \<Rightarrow> ('w \<Rightarrow> database) \<Rightarrow> ('w, 't) desire_ops \<Rightarrow> string \<Rightarrow> string \<Rightarrow> 'w \<Rightarrow> string \<Rightarrow> 't option" where
  "tab_of env db D b c w i = (case db w (doc_ref b c i) of
      None \<Rightarrow> None
    | Some d \<Rightarrow> (case snapshotToDesire env D (snap_of (doc_ref b c i) d) of Inl _ \<Rightarrow> None | Inr x \<Rightarrow> Some x))"

definition ver_of :: "('w \<Rightarrow> database) \<Rightarrow> string \<Rightarrow> string \<Rightarrow> 'w \<Rightarrow> string \<Rightarrow> gotime option" where
  "ver_of db b c w i = map_option sd_update (db w (doc_ref b c i))"

definition content_of :: "('w, 't) desire_ops \<Rightarrow> 't \<Rightarrow> fval \<times> fval" where
  "content_of D x = (d_GetSpec D x, d_GetStatus D x)"

lemma views_upd:
  "db w' = (db w)(doc_ref b c i \<mapsto> d) \<Longrightarrow> ver_of db b c w' = (ver_of db b c w)(i \<mapsto> sd_update d)"
  "db w' = (db w)(doc_ref b c i \<mapsto> d) \<Longrightarrow> snapshotToDesire env D (snap_of (doc_ref b c i) d) = Inr x \<Longrightarrow>
     tab_of env db D b c w' = (tab_of env db D b c w)(i \<mapsto> x)"
  "db w' = (db w)(doc_ref b c i := None) \<Longrightarrow> ver_of db b c w' = (ver_of db b c w)(i := None)"
  "db w' = (db w)(doc_ref b c i := None) \<Longrightarrow> tab_of env db D b c w' = (tab_of env db D b c w)(i := None)"
  by (auto simp: ver_of_def tab_of_def fun_eq_iff)

lemma views_same: "db w' = db w \<Longrightarrow>
    ver_of db b c w' = ver_of db b c w \<and> tab_of env db D b c w' = tab_of env db D b c w"
  by (auto simp: ver_of_def tab_of_def fun_eq_iff)

context desire_crud
begin

lemma snapshotToDesire_ident:
  assumes "snapshotToDesire env D s = Inr x" 
  shows "d_GetDocumentID D x = ref_id (snap_ref s) \<and> d_GetUpdateTime D x = snap_update s"
proof -
  from assms obtain y z where z: "kubeContentReadFromSnapshot env D z (snap_data s) = Inr x"
      and y: "z = d_SetCreateTime D (snap_create s) (d_SetUpdateTime D (snap_update s)
               (d_SetDocumentID D (ref_id (snap_ref s)) y))"
    by (auto simp: snapshotToDesire_def Let_def split: option.splits sum.splits)
  have "z = dress D (ref_id (snap_ref s)) (snap_update s) (snap_create s)
      (d_GetSpecKubeContent D y) (d_GetStatusKubeContent D y) y"
    unfolding y set_desire(1) by simp
  with z show ?thesis
    by (auto simp: kubeContentReadFromSnapshot_def Let_def split: option.splits sum.splits)
qed

end

sublocale desire_crud \<subseteq> crud: resource_crud "firestoreCRUD env D b c" "tab_of env db D b c"
    "ver_of db b c" "d_GetDocumentID D" "d_GetUpdateTime D" "content_of D"
  for b c
proof (unfold_locales, goal_cases)
  case (1 i w x w')
  from 1 show ?case
    by (auto simp: firestoreCRUD_def tab_of_def ver_of_def elim!: crud_get_ok
        dest: snapshotToDesire_ident)
next
  case (2 i w r w')
  then have "db w' = db w" using crud_get_db[of b c i w] by (simp add: firestoreCRUD_def)
  with views_same[of db] show ?case by blast
next
  case (3 x w y w')
  then have "crud_create env D b c x w = (Inr y, w')" by (simp add: firestoreCRUD_def)
  then obtain d where d: "db w (doc_ref b c (d_GetDocumentID D x)) = None"
    "db w' = (db w)(doc_ref b c (d_GetDocumentID D x) \<mapsto> d)" "doc_of env D x (sd_data d)"
    "y = dress D (d_GetDocumentID D x) (sd_update d) (sd_update d)
       (d_GetSpecKubeContent D x) (d_GetStatusKubeContent D x) x"
    by (rule crud_create_ok)
  from views_upd(1)[OF d(2)] views_upd(2)[OF d(2) snapshot_doc_of[OF d(3)]] d(1,4) show ?case
    by (auto simp: ver_of_def read_back_def content_of_def)
next
  case (4 x w r w')
  then have cr: "crud_create env D b c x w = (r, w')" "db w (doc_ref b c (d_GetDocumentID D x)) \<noteq> None"
    by (simp_all add: firestoreCRUD_def ver_of_def)
  show ?case
  proof (cases r)
    case (Inl e)
    from crud_create_err[OF cr(1)[unfolded Inl]] cr(2) have "db w' = db w" by auto
    with views_same[of db] Inl show ?thesis by blast
  next
    case (Inr y)
    from cr Inr show ?thesis by (auto elim: crud_create_ok)
  qed
next
  case (5 x w y w')
  then have "crud_replace env D b c x w = (Inr y, w')" by (simp add: firestoreCRUD_def)
  then obtain old d where d: "db w (doc_ref b c (d_GetDocumentID D x)) = Some old"
    "sd_update old = d_GetUpdateTime D x" "sd_update old < sd_update d"
    "db w' = (db w)(doc_ref b c (d_GetDocumentID D x) \<mapsto> d)" "doc_of env D x (sd_data d)"
    "y = d_SetUpdateTime D (sd_update d) x"
    by (rule crud_replace_ok)
  from views_upd(1)[OF d(4)] views_upd(2)[OF d(4) snapshot_doc_of[OF d(5)]] d(1,2,3,6) show ?case
    by (auto simp: ver_of_def read_back_def content_of_def set_desire(2))
next
  case (6 x w r w' t)
  then obtain old where "crud_replace env D b c x w = (r, w')"
      "db w (doc_ref b c (d_GetDocumentID D x)) = Some old" "sd_update old \<noteq> d_GetUpdateTime D x"
    by (auto simp: firestoreCRUD_def ver_of_def)
  from crud_replace_stale[OF this] obtain e where "r = Inl e" "db w' = db w" by blast
  with views_same[of db] show ?case by blast
next
  case (7 i w u w')
  then have "db w' = (db w)(doc_ref b c i := None)"
    by (simp add: firestoreCRUD_def crud_delete_ok)
  then show ?case by (simp add: views_upd)
qed

interpretation emulator_apply: desire_crud emu_env emu_db apply_ops
  by (intro desire_crud.intro emulator.firestore_axioms apply_type.desire_type_axioms)

interpretation emulator_read: desire_crud emu_env emu_db read_ops
  by (intro desire_crud.intro emulator.firestore_axioms read_type.desire_type_axioms)

interpretation emulator_delete: desire_crud emu_env emu_db delete_ops
  by (intro desire_crud.intro emulator.firestore_axioms delete_type.desire_type_axioms)

section \<open>Properties\<close>


definition demo_emu :: emu where
  "demo_emu = \<lparr>em_docs = [], em_clock = 0, em_faults = [], em_uuids = [], em_clients = []\<rparr>"

definition demo_apply :: apply_desire where
  "demo_apply = \<lparr>ad_meta = \<lparr>md_documentID = ''id-1'', md_updateTime = 0, md_createTime = 0\<rparr>,
     ad_spec = \<lparr>sp_managementCluster = ''mc-01'', sp_clusterID = ''c'', sp_nodePoolName = [],
       sp_targetItem = zero_ref,
       sp_kubeContent = Some (CHR ''{'' # dquote # ''b'' @ [dquote] @ '':1,'' @ [dquote] @ ''a'' @ [dquote] @ '':null}'')\<rparr>,
     ad_status = zero_apply_status\<rparr>"

lemma demo_emu_up [simp]: "emu_up demo_emu"
  by (simp add: emu_up_def demo_emu_def)

abbreviation emu_ops :: "(emu, apply_desire) desire_ops" where
  "emu_ops \<equiv> apply_ops"

lemma demo_apply_kube_ok: "kube_ok emu_env emu_ops demo_apply"
proof -
  have "(case rawExtToMap emu_env (d_GetSpecKubeContent emu_ops demo_apply) of Inl _ \<Rightarrow> False | Inr _ \<Rightarrow> True)"
    by code_simp
  then show ?thesis
    by (auto simp: kube_ok_def apply_ops_def rawExtToMap_def[of emu_env None] split: sum.splits)
qed


text \<open>\<open>Create\<close> never touches an existing document: it fails and every document stays as it
  is; when Firestore is up the error is \<open>AlreadyExists\<close>.\<close>

theorem create_existing_refused:
  assumes "firestore_up env db up" and "desire_type D"
    and "db w (doc_ref b c (d_GetDocumentID D x)) = Some d"
  shows "\<exists>e w'. crud_create env D b c x w = (Inl e, w') \<and> db w' = db w \<and>
    (up w \<longrightarrow> d_GetDocumentID D x \<noteq> [] \<longrightarrow> kube_ok env D x \<longrightarrow> IsAlreadyExistsError e)"
proof -
  note fs = firestore_up.axioms(1)[OF assms(1)]
  note dc = desire_crud.intro[OF fs assms(2)]
  obtain r w' where cr: "crud_create env D b c x w = (r, w')" by force
  show ?thesis
  proof (cases r)
    case (Inr y)
    from desire_crud.crud_create_ok[OF dc cr[unfolded Inr]] assms(3) show ?thesis by auto
  next
    case (Inl e)
    from desire_crud.crud_create_err[OF dc cr[unfolded Inl]] assms(3) have same: "db w' = db w" by auto
    have "IsAlreadyExistsError e" if up: "up w" and i: "d_GetDocumentID D x \<noteq> []" and k: "kube_ok env D x"
    proof -
      obtain data where data: "toFirestoreMap env D x = Inr data" using k toFirestoreMap_ok[of env D x] by blast
      have "\<exists>e. fst (fs_write env (CreateDoc (doc_ref b c (d_GetDocumentID D x)) data) w) = Inl e \<and>
          err_code e = AlreadyExists"
        using firestore_up.write_refused[OF assms(1) up,
            of "CreateDoc (doc_ref b c (d_GetDocumentID D x)) data"] assms(3) by simp
      with cr Inl data i show ?thesis
        by (auto simp: crud_create_def IsAlreadyExistsError_def Let_def
            split: prod.splits sum.splits if_splits)
    qed
    with cr Inl same show ?thesis by blast
  qed
qed

theorem create_existing_refused_witness:
  "\<exists>e w'. crud_create emu_env emu_ops ''db'' ''applydesires'' demo_apply
      (demo_emu\<lparr>em_docs := [(doc_ref ''db'' ''applydesires'' ''id-1'',
         \<lparr>sd_data = Map.empty, sd_update = 0, sd_create = 0\<rparr>)]\<rparr>) = (Inl e, w') \<and> IsAlreadyExistsError e"
proof -
  let ?m = "demo_emu\<lparr>em_docs := [(doc_ref ''db'' ''applydesires'' ''id-1'',
         \<lparr>sd_data = Map.empty, sd_update = 0, sd_create = 0\<rparr>)]\<rparr>"
  have i: "d_GetDocumentID emu_ops demo_apply = ''id-1''" by (simp add: apply_ops_def demo_apply_def)
  have d: "emu_db ?m (doc_ref ''db'' ''applydesires'' (d_GetDocumentID emu_ops demo_apply)) =
      Some \<lparr>sd_data = Map.empty, sd_update = 0, sd_create = 0\<rparr>" by (simp add: emu_db_def i)
  have up: "emu_up ?m" by simp
  from create_existing_refused[where w = ?m and D = emu_ops and x = demo_apply,
      OF emulator_up.firestore_up_axioms apply_type.desire_type_axioms d]
  obtain e w' where "crud_create emu_env emu_ops ''db'' ''applydesires'' demo_apply ?m = (Inl e, w')"
      "emu_up ?m \<longrightarrow> d_GetDocumentID emu_ops demo_apply \<noteq> [] \<longrightarrow>
       kube_ok emu_env emu_ops demo_apply \<longrightarrow> IsAlreadyExistsError e" by blast
  moreover from this(2) have "IsAlreadyExistsError e" using demo_apply_kube_ok i up by simp
  ultimately show ?thesis by blast
qed





text \<open>the text that a document ID is computed from determines the task key, group, version,
  resource, namespace and name, as long as the first five contain no slash.\<close>

theorem doc_id_input_injective:
  assumes "\<forall>s\<in>{t, g, v, r, ns, t', g', v', r', ns'}. CHR ''/'' \<notin> set s"
  shows "doc_id_input t g v r ns n = doc_id_input t' g' v' r' ns' n' \<longleftrightarrow>
    t = t' \<and> g = g' \<and> v = v' \<and> r = r' \<and> ns = ns' \<and> n = n'"
  using assms by (simp add: doc_id_input_def sep_append_inject)

theorem doc_id_input_injective_witness:
  "doc_id_input TaskKey ''g'' ''v1'' ''things'' ''ns'' ''a/b'' \<noteq>
   doc_id_input TaskKey ''g'' ''v1'' ''things'' ''ns'' ''a''"
  using doc_id_input_injective[of TaskKey "''g''" "''v1''" "''things''" "''ns''" TaskKey "''g''" "''v1''"
      "''things''" "''ns''" "''a/b''" "''a''"] by (simp add: TaskKey_def)

end
