(* ===== verification/FirestoreCache.thy ===== *)
theory FirestoreCache
  imports Emulator
begin

text \<open>
  \<open>internal/firestorecache\<close> and the two factories of \<open>cmd/apiserver/main.go\<close> that use it. A client
  is the name of its database; the databases that have one are a part of the process state. The
  mutex makes \<open>GetOrCreate\<close> one step. \<open>db_factory\<close> is what the handlers rely on.
\<close>

definition GetOrCreate :: "'w env \<Rightarrow> string \<Rightarrow> 'w \<Rightarrow> ('w, string) ret" where
  "GetOrCreate env databaseID w =
     (if databaseID \<in> set (ps_clients env w) then (Inr databaseID, w)
      else (case fs_open env databaseID w of
          (Some e, w1) \<Rightarrow> (Inl e, w1)
        | (None, w1) \<Rightarrow> (Inr databaseID, ps_set_clients env (databaseID # ps_clients env w1) w1)))"

definition specs_db :: "string \<Rightarrow> string" where "specs_db mc = ''mc-'' @ mc @ ''-specs''"
definition status_db :: "string \<Rightarrow> string" where "status_db mc = ''mc-'' @ mc @ ''-status''"

definition specsDBFactory :: "'w env \<Rightarrow> string \<Rightarrow> 'w \<Rightarrow> ('w, string) ret" where
  "specsDBFactory env mc w = GetOrCreate env (specs_db mc) w"

definition statusDBFactory :: "'w env \<Rightarrow> string \<Rightarrow> 'w \<Rightarrow> ('w, string) ret" where
  "statusDBFactory env mc w = GetOrCreate env (status_db mc) w"

lemma specs_db_eq [simp]: "specs_db a = specs_db b \<longleftrightarrow> a = b"
  by (simp add: specs_db_def)

lemma status_db_eq [simp]: "status_db a = status_db b \<longleftrightarrow> a = b"
  by (simp add: status_db_def)

lemma specs_status_db [simp]: "specs_db a \<noteq> status_db b" "status_db b \<noteq> specs_db a"
proof -
  have "last (specs_db a) \<noteq> CHR ''!'' \<and> take 2 (rev (specs_db a)) \<noteq> take 2 (rev (status_db b))"
    by (simp add: specs_db_def status_db_def)
  then show "specs_db a \<noteq> status_db b" "status_db b \<noteq> specs_db a" by metis+
qed

section \<open>Closing\<close>

text \<open>
  \<open>NewCache\<close> and \<open>Close\<close>; the library's \<open>Close\<close> of one client is the parameter \<open>close\<close>. The loop goes on
  after an error and keeps the first.
\<close>

definition NewCache :: "'w env \<Rightarrow> 'w \<Rightarrow> 'w" where
  "NewCache env w = ps_set_clients env [] w"

fun close_clients :: "'w env \<Rightarrow> (string \<Rightarrow> 'w \<Rightarrow> gerr option \<times> 'w) \<Rightarrow> string list \<Rightarrow> gerr option \<Rightarrow> 'w \<Rightarrow>
    gerr option \<times> 'w" where
  "close_clients env close [] firstErr w = (firstErr, w)"
| "close_clients env close (i # is) firstErr w = (case close i w of (err, w1) \<Rightarrow>
     close_clients env close is (if err \<noteq> None \<and> firstErr = None then err else firstErr)
       (ps_set_clients env (filter (\<lambda>j. j \<noteq> i) (ps_clients env w1)) w1))"

definition Close :: "'w env \<Rightarrow> (string \<Rightarrow> 'w \<Rightarrow> gerr option \<times> 'w) \<Rightarrow> 'w \<Rightarrow> gerr option \<times> 'w" where
  "Close env close w = close_clients env close (map_order env (ps_clients env w)) None w"

text \<open>The cache as a part of the process: only \<open>ps_set_clients\<close> changes it.\<close>

locale client_cache =
  fixes env :: "'w env" and close :: "string \<Rightarrow> 'w \<Rightarrow> gerr option \<times> 'w"
  assumes set_clients [simp]: "ps_clients env (ps_set_clients env cs w) = cs"
    and open_clients [simp]: "ps_clients env (snd (fs_open env i w)) = ps_clients env w"
    and close_clients [simp]: "ps_clients env (snd (close i w)) = ps_clients env w"
    and walk_order: "set (map_order env ks) = set ks"
begin

lemma close_clients_rest:
  "ps_clients env (snd (close_clients env close is e w)) = filter (\<lambda>j. j \<notin> set is) (ps_clients env w)"
proof (induction "is" arbitrary: e w)
  case (Cons i "is")
  from close_clients[of i w] Cons[of "if fst (close i w) \<noteq> None \<and> e = None then fst (close i w) else e"] show ?case
    by (cases "close i w") (auto simp: intro: filter_cong)
qed simp

lemma Close_empties: "ps_clients env (snd (Close env close w)) = []"
  by (simp add: Close_def close_clients_rest walk_order filter_empty_conv)

lemma GetOrCreate_clients:
  "ps_clients env (snd (GetOrCreate env i w)) =
     (if i \<in> set (ps_clients env w) \<or> fst (GetOrCreate env i w) \<noteq> Inr i then ps_clients env w
      else i # ps_clients env w)"
  using open_clients[of i w]
  by (cases "fs_open env i w") (auto simp: GetOrCreate_def simp del: open_clients split: option.split)

lemma GetOrCreate_again:
  assumes "GetOrCreate env i w = (Inr c, w1)"
  shows "GetOrCreate env i w1 = (Inr c, w1)"
  using assms by (auto simp: GetOrCreate_def split: if_splits prod.splits option.splits)

end

text \<open>The first error is kept: the rest of the loop cannot replace it, and without one there was none.\<close>

lemma close_keeps_first: "fst (close_clients env close is (Some e) w) = Some e"
  by (induction "is" arbitrary: w) (auto split: prod.split)

definition emu_close :: "string \<Rightarrow> emu \<Rightarrow> gerr option \<times> emu" where
  "emu_close i m = (case emu_fault m of (Some _, m1) \<Rightarrow> (Some unavailable, m1) | (None, m1) \<Rightarrow> (None, m1))"

interpretation emulator_cache: client_cache emu_env emu_close
  by unfold_locales (auto simp: emu_open_def emu_close_def emu_fault_def split: list.split option.split)

locale db_factory =
  fixes db :: "'w \<Rightarrow> database" and name :: "string \<Rightarrow> string" and factory :: "string \<Rightarrow> 'w \<Rightarrow> ('w, string) ret"
  assumes factory_db [simp]: "db (snd (factory mc w)) = db w"
    and factory_name: "fst (factory mc w) = Inr b \<Longrightarrow> b = name mc"
begin

lemma factory_cases:
  assumes "factory mc w = (res, w')"
  obtains "res = Inr (name mc)" "db w' = db w" | e where "res = Inl e" "db w' = db w"
  using assms factory_db[of mc w] factory_name[of mc w] by (cases res) auto

end

context firestore
begin

lemma GetOrCreate_db: "db (snd (GetOrCreate env i w)) = db w"
  using open_db[of i w] clients_db
  by (cases "fs_open env i w") (auto simp: GetOrCreate_def simp del: open_db split: option.split)

lemma GetOrCreate_name: "fst (GetOrCreate env i w) = Inr b \<Longrightarrow> b = i"
  by (auto simp: GetOrCreate_def split: prod.splits option.splits if_splits)

end

sublocale firestore \<subseteq> specs: db_factory db specs_db "specsDBFactory env"
  by unfold_locales (auto simp: specsDBFactory_def GetOrCreate_db dest: GetOrCreate_name)

sublocale firestore \<subseteq> status: db_factory db status_db "statusDBFactory env"
  by unfold_locales (auto simp: statusDBFactory_def GetOrCreate_db dest: GetOrCreate_name)

interpretation emulator_specs: db_factory emu_db specs_db "specsDBFactory emu_env"
  by (rule emulator.specs.db_factory_axioms)

text \<open>CX: the cache holds one client per database; a second look at a database opens nothing and
  gives the same client, and \<open>Close\<close> leaves no client behind, whatever fails, so that a later request opens a new one.\<close>

theorem cache_lifecycle:
  assumes "client_cache env close" and "distinct (ps_clients env w)"
  shows "distinct (ps_clients env (snd (GetOrCreate env i w))) \<and>
    (\<forall>c w1. GetOrCreate env i w = (Inr c, w1) \<longrightarrow> GetOrCreate env i w1 = (Inr c, w1)) \<and>
    ps_clients env (snd (Close env close w)) = []"
  using client_cache.GetOrCreate_clients[OF assms(1), of i w] client_cache.GetOrCreate_again[OF assms(1)]
    client_cache.Close_empties[OF assms(1)] assms(2) by auto

theorem cache_lifecycle_witness:
  "let m = \<lparr>em_docs = [], em_clock = 0, em_faults = [Some Outage], em_uuids = [], em_clients = [''a'', ''b'']\<rparr>
   in distinct (em_clients (snd (GetOrCreate emu_env ''c'' m))) \<and> em_clients (snd (Close emu_env emu_close m)) = [] \<and>
     fst (Close emu_env emu_close m) = Some unavailable"
proof -
  let ?m = "\<lparr>em_docs = [], em_clock = 0, em_faults = [Some Outage], em_uuids = [], em_clients = [''a'', ''b'']\<rparr>"
  have d: "distinct (ps_clients emu_env ?m)" by simp
  have "fst (Close emu_env emu_close ?m) = Some unavailable" by code_simp
  with cache_lifecycle[OF emulator_cache.client_cache_axioms d, of "''c''"] show ?thesis
    unfolding Let_def emu_env_sel by blast
qed

end
