(* ===== verification/ApiTypes.thy ===== *)
theory ApiTypes
  imports Values
begin

text \<open>
  \<open>api/v1alpha1\<close>: the \<open>ManagedHostedCluster\<close> resource with everything below it, and its JSON
  coding by struct tags. A slice is a list, where nil and empty coincide as all slices are tagged
  \<open>omitempty\<close>; a pointer is an option. \<open>T_tbl\<close> is the table of fields a JSON object is decoded by.

  The lemmas \<open>survives_T\<close> show that a value which is printed, stored in Firestore, read back,
  printed and decoded again comes back unchanged.
\<close>

section \<open>hypershift_types.go\<close>

record ReleaseSpec = rel_Image :: string
record PlatformSpec = plat_Type :: string
record NetworkRange = nr_CIDR :: string

record ClusterNetworkingSpec =
  net_ClusterNetwork :: "NetworkRange list"
  net_ServiceNetwork :: "NetworkRange list"
  net_NetworkType :: string

record ManagedEtcdStorageSpec = mes_Type :: string
record ManagedEtcdSpec = me_Storage :: ManagedEtcdStorageSpec

record EtcdSpec =
  etcd_ManagementType :: string
  etcd_Managed :: "ManagedEtcdSpec option"

record ServicePublishingStrategy = sps_Type :: string

record ServicePublishingStrategyMapping =
  spm_Service :: string
  spm_Strategy :: ServicePublishingStrategy

record SecretReference = sec_Name :: string
record CapabilitiesSpec = cap_Disabled :: "string list"

record ClaimMapping =
  clm_Claim :: string
  clm_Prefix :: string

record ClaimMappings =
  cms_Username :: ClaimMapping
  cms_Groups :: "ClaimMapping option"

record OIDCIssuer =
  iss_IssuerURL :: string
  iss_Audiences :: "string list"

record OIDCProvider =
  oidc_Name :: string
  oidc_Issuer :: OIDCIssuer
  oidc_ClaimMappings :: ClaimMappings

record AuthenticationConfig =
  auth_Type :: string
  auth_OIDCProviders :: "OIDCProvider list"

record ClusterConfiguration = cfg_Authentication :: "AuthenticationConfig option"

record HostedClusterSpec =
  hc_Release :: ReleaseSpec
  hc_InfraID :: string
  hc_Platform :: PlatformSpec
  hc_Networking :: "ClusterNetworkingSpec option"
  hc_Etcd :: "EtcdSpec option"
  hc_Services :: "ServicePublishingStrategyMapping list"
  hc_Channel :: string
  hc_ControllerAvailabilityPolicy :: string
  hc_PullSecret :: "SecretReference option"
  hc_ServiceAccountSigningKey :: "SecretReference option"
  hc_ClusterID :: string
  hc_Capabilities :: "CapabilitiesSpec option"
  hc_Configuration :: "ClusterConfiguration option"

section \<open>managedhostedcluster_types.go\<close>

record VersionStreamReference = vsr_Name :: string
record NameReference = nref_Name :: string

record ManagedHostedClusterSpec =
  mhs_ClusterID :: string
  mhs_VersionStreamRef :: VersionStreamReference
  mhs_UpgradeScheduleRef :: "NameReference option"
  mhs_HostedCluster :: HostedClusterSpec

record ManagedHostedClusterStatus = mst_Conditions :: "condition list"

record TypeMeta =
  tm_Kind :: string
  tm_APIVersion :: string

record ManagedHostedCluster =
  mhc_TypeMeta :: TypeMeta
  mhc_ObjectMeta :: objmeta
  mhc_Spec :: ManagedHostedClusterSpec
  mhc_Status :: ManagedHostedClusterStatus

section \<open>Coding the smaller types\<close>

definition zero_ReleaseSpec :: ReleaseSpec where
  "zero_ReleaseSpec = \<lparr>rel_Image = []\<rparr>"

definition enc_ReleaseSpec :: "ReleaseSpec \<Rightarrow> json" where
  "enc_ReleaseSpec x = JObj (members [
     (''image'', enc_str (rel_Image x))])"

definition dec_ReleaseSpec :: "ReleaseSpec json_decoder" where
  "dec_ReleaseSpec = dec_struct [
     jfield ''image'' rel_Image rel_Image_update dec_str]"

lemma survives_ReleaseSpec: "survives env dec_ReleaseSpec zero_ReleaseSpec (enc_ReleaseSpec x) x"
  unfolding enc_ReleaseSpec_def dec_ReleaseSpec_def zero_ReleaseSpec_def
  by (rule survives_struct) (simp_all add: kv_norm_def struct_codec del: members.simps(2))

lemmas ReleaseSpec_codec [struct_codec] = type_fields(1-3)[OF survives_ReleaseSpec]
  type_fields(4-6)[OF survives_ReleaseSpec, THEN dec_members_field]

definition zero_PlatformSpec :: PlatformSpec where
  "zero_PlatformSpec = \<lparr>plat_Type = []\<rparr>"

definition enc_PlatformSpec :: "PlatformSpec \<Rightarrow> json" where
  "enc_PlatformSpec x = JObj (members [
     (''type'', enc_str (plat_Type x))])"

definition dec_PlatformSpec :: "PlatformSpec json_decoder" where
  "dec_PlatformSpec = dec_struct [
     jfield ''type'' plat_Type plat_Type_update dec_str]"

lemma survives_PlatformSpec: "survives env dec_PlatformSpec zero_PlatformSpec (enc_PlatformSpec x) x"
  unfolding enc_PlatformSpec_def dec_PlatformSpec_def zero_PlatformSpec_def
  by (rule survives_struct) (simp_all add: kv_norm_def struct_codec del: members.simps(2))

lemmas PlatformSpec_codec [struct_codec] = type_fields(1-3)[OF survives_PlatformSpec]
  type_fields(4-6)[OF survives_PlatformSpec, THEN dec_members_field]

definition zero_NetworkRange :: NetworkRange where
  "zero_NetworkRange = \<lparr>nr_CIDR = []\<rparr>"

definition enc_NetworkRange :: "NetworkRange \<Rightarrow> json" where
  "enc_NetworkRange x = JObj (members [
     (''cidr'', enc_str (nr_CIDR x))])"

definition dec_NetworkRange :: "NetworkRange json_decoder" where
  "dec_NetworkRange = dec_struct [
     jfield ''cidr'' nr_CIDR nr_CIDR_update dec_str]"

lemma survives_NetworkRange: "survives env dec_NetworkRange zero_NetworkRange (enc_NetworkRange x) x"
  unfolding enc_NetworkRange_def dec_NetworkRange_def zero_NetworkRange_def
  by (rule survives_struct) (simp_all add: kv_norm_def struct_codec del: members.simps(2))

lemmas NetworkRange_codec [struct_codec] = type_fields(1-3)[OF survives_NetworkRange]
  type_fields(4-6)[OF survives_NetworkRange, THEN dec_members_field]

definition zero_ClusterNetworkingSpec :: ClusterNetworkingSpec where
  "zero_ClusterNetworkingSpec = \<lparr>net_ClusterNetwork = [], net_ServiceNetwork = [], net_NetworkType = []\<rparr>"

definition enc_ClusterNetworkingSpec :: "ClusterNetworkingSpec \<Rightarrow> json" where
  "enc_ClusterNetworkingSpec x = JObj (members [
     (''clusterNetwork'', omit_list enc_NetworkRange (net_ClusterNetwork x)),
     (''serviceNetwork'', omit_list enc_NetworkRange (net_ServiceNetwork x)),
     (''networkType'', omit_str (net_NetworkType x))])"

definition dec_ClusterNetworkingSpec :: "ClusterNetworkingSpec json_decoder" where
  "dec_ClusterNetworkingSpec = dec_struct [
     jfield ''clusterNetwork'' net_ClusterNetwork net_ClusterNetwork_update (dec_list zero_NetworkRange dec_NetworkRange),
     jfield ''serviceNetwork'' net_ServiceNetwork net_ServiceNetwork_update (dec_list zero_NetworkRange dec_NetworkRange),
     jfield ''networkType'' net_NetworkType net_NetworkType_update dec_str]"

lemma survives_ClusterNetworkingSpec: "survives env dec_ClusterNetworkingSpec zero_ClusterNetworkingSpec (enc_ClusterNetworkingSpec x) x"
  unfolding enc_ClusterNetworkingSpec_def dec_ClusterNetworkingSpec_def zero_ClusterNetworkingSpec_def
  by (rule survives_struct) (simp_all add: kv_norm_def struct_codec del: members.simps(2))

lemmas ClusterNetworkingSpec_codec [struct_codec] = type_fields(1-3)[OF survives_ClusterNetworkingSpec]
  type_fields(4-6)[OF survives_ClusterNetworkingSpec, THEN dec_members_field]

definition zero_ManagedEtcdStorageSpec :: ManagedEtcdStorageSpec where
  "zero_ManagedEtcdStorageSpec = \<lparr>mes_Type = []\<rparr>"

definition enc_ManagedEtcdStorageSpec :: "ManagedEtcdStorageSpec \<Rightarrow> json" where
  "enc_ManagedEtcdStorageSpec x = JObj (members [
     (''type'', enc_str (mes_Type x))])"

definition dec_ManagedEtcdStorageSpec :: "ManagedEtcdStorageSpec json_decoder" where
  "dec_ManagedEtcdStorageSpec = dec_struct [
     jfield ''type'' mes_Type mes_Type_update dec_str]"

lemma survives_ManagedEtcdStorageSpec: "survives env dec_ManagedEtcdStorageSpec zero_ManagedEtcdStorageSpec (enc_ManagedEtcdStorageSpec x) x"
  unfolding enc_ManagedEtcdStorageSpec_def dec_ManagedEtcdStorageSpec_def zero_ManagedEtcdStorageSpec_def
  by (rule survives_struct) (simp_all add: kv_norm_def struct_codec del: members.simps(2))

lemmas ManagedEtcdStorageSpec_codec [struct_codec] = type_fields(1-3)[OF survives_ManagedEtcdStorageSpec]
  type_fields(4-6)[OF survives_ManagedEtcdStorageSpec, THEN dec_members_field]

definition zero_ManagedEtcdSpec :: ManagedEtcdSpec where
  "zero_ManagedEtcdSpec = \<lparr>me_Storage = zero_ManagedEtcdStorageSpec\<rparr>"

definition enc_ManagedEtcdSpec :: "ManagedEtcdSpec \<Rightarrow> json" where
  "enc_ManagedEtcdSpec x = JObj (members [
     (''storage'', Some (enc_ManagedEtcdStorageSpec (me_Storage x)))])"

definition dec_ManagedEtcdSpec :: "ManagedEtcdSpec json_decoder" where
  "dec_ManagedEtcdSpec = dec_struct [
     jfield ''storage'' me_Storage me_Storage_update dec_ManagedEtcdStorageSpec]"

lemma survives_ManagedEtcdSpec: "survives env dec_ManagedEtcdSpec zero_ManagedEtcdSpec (enc_ManagedEtcdSpec x) x"
  unfolding enc_ManagedEtcdSpec_def dec_ManagedEtcdSpec_def zero_ManagedEtcdSpec_def
  by (rule survives_struct) (simp_all add: kv_norm_def struct_codec del: members.simps(2))

lemmas ManagedEtcdSpec_codec [struct_codec] = type_fields(1-3)[OF survives_ManagedEtcdSpec]
  type_fields(4-6)[OF survives_ManagedEtcdSpec, THEN dec_members_field]

definition zero_EtcdSpec :: EtcdSpec where
  "zero_EtcdSpec = \<lparr>etcd_ManagementType = [], etcd_Managed = None\<rparr>"

definition enc_EtcdSpec :: "EtcdSpec \<Rightarrow> json" where
  "enc_EtcdSpec x = JObj (members [
     (''managementType'', enc_str (etcd_ManagementType x)),
     (''managed'', omit_ptr enc_ManagedEtcdSpec (etcd_Managed x))])"

definition dec_EtcdSpec :: "EtcdSpec json_decoder" where
  "dec_EtcdSpec = dec_struct [
     jfield ''managementType'' etcd_ManagementType etcd_ManagementType_update dec_str,
     jfield ''managed'' etcd_Managed etcd_Managed_update (dec_ptr zero_ManagedEtcdSpec dec_ManagedEtcdSpec)]"

lemma survives_EtcdSpec: "survives env dec_EtcdSpec zero_EtcdSpec (enc_EtcdSpec x) x"
  unfolding enc_EtcdSpec_def dec_EtcdSpec_def zero_EtcdSpec_def
  by (rule survives_struct) (simp_all add: kv_norm_def struct_codec del: members.simps(2))

lemmas EtcdSpec_codec [struct_codec] = type_fields(1-3)[OF survives_EtcdSpec]
  type_fields(4-6)[OF survives_EtcdSpec, THEN dec_members_field]

definition zero_ServicePublishingStrategy :: ServicePublishingStrategy where
  "zero_ServicePublishingStrategy = \<lparr>sps_Type = []\<rparr>"

definition enc_ServicePublishingStrategy :: "ServicePublishingStrategy \<Rightarrow> json" where
  "enc_ServicePublishingStrategy x = JObj (members [
     (''type'', enc_str (sps_Type x))])"

definition dec_ServicePublishingStrategy :: "ServicePublishingStrategy json_decoder" where
  "dec_ServicePublishingStrategy = dec_struct [
     jfield ''type'' sps_Type sps_Type_update dec_str]"

lemma survives_ServicePublishingStrategy: "survives env dec_ServicePublishingStrategy zero_ServicePublishingStrategy (enc_ServicePublishingStrategy x) x"
  unfolding enc_ServicePublishingStrategy_def dec_ServicePublishingStrategy_def zero_ServicePublishingStrategy_def
  by (rule survives_struct) (simp_all add: kv_norm_def struct_codec del: members.simps(2))

lemmas ServicePublishingStrategy_codec [struct_codec] = type_fields(1-3)[OF survives_ServicePublishingStrategy]
  type_fields(4-6)[OF survives_ServicePublishingStrategy, THEN dec_members_field]

definition zero_ServicePublishingStrategyMapping :: ServicePublishingStrategyMapping where
  "zero_ServicePublishingStrategyMapping = \<lparr>spm_Service = [], spm_Strategy = zero_ServicePublishingStrategy\<rparr>"

definition enc_ServicePublishingStrategyMapping :: "ServicePublishingStrategyMapping \<Rightarrow> json" where
  "enc_ServicePublishingStrategyMapping x = JObj (members [
     (''service'', enc_str (spm_Service x)),
     (''servicePublishingStrategy'', Some (enc_ServicePublishingStrategy (spm_Strategy x)))])"

definition dec_ServicePublishingStrategyMapping :: "ServicePublishingStrategyMapping json_decoder" where
  "dec_ServicePublishingStrategyMapping = dec_struct [
     jfield ''service'' spm_Service spm_Service_update dec_str,
     jfield ''servicePublishingStrategy'' spm_Strategy spm_Strategy_update dec_ServicePublishingStrategy]"

lemma survives_ServicePublishingStrategyMapping: "survives env dec_ServicePublishingStrategyMapping zero_ServicePublishingStrategyMapping (enc_ServicePublishingStrategyMapping x) x"
  unfolding enc_ServicePublishingStrategyMapping_def dec_ServicePublishingStrategyMapping_def zero_ServicePublishingStrategyMapping_def
  by (rule survives_struct) (simp_all add: kv_norm_def struct_codec del: members.simps(2))

lemmas ServicePublishingStrategyMapping_codec [struct_codec] = type_fields(1-3)[OF survives_ServicePublishingStrategyMapping]
  type_fields(4-6)[OF survives_ServicePublishingStrategyMapping, THEN dec_members_field]

definition zero_SecretReference :: SecretReference where
  "zero_SecretReference = \<lparr>sec_Name = []\<rparr>"

definition enc_SecretReference :: "SecretReference \<Rightarrow> json" where
  "enc_SecretReference x = JObj (members [
     (''name'', enc_str (sec_Name x))])"

definition dec_SecretReference :: "SecretReference json_decoder" where
  "dec_SecretReference = dec_struct [
     jfield ''name'' sec_Name sec_Name_update dec_str]"

lemma survives_SecretReference: "survives env dec_SecretReference zero_SecretReference (enc_SecretReference x) x"
  unfolding enc_SecretReference_def dec_SecretReference_def zero_SecretReference_def
  by (rule survives_struct) (simp_all add: kv_norm_def struct_codec del: members.simps(2))

lemmas SecretReference_codec [struct_codec] = type_fields(1-3)[OF survives_SecretReference]
  type_fields(4-6)[OF survives_SecretReference, THEN dec_members_field]

definition zero_CapabilitiesSpec :: CapabilitiesSpec where
  "zero_CapabilitiesSpec = \<lparr>cap_Disabled = []\<rparr>"

definition enc_CapabilitiesSpec :: "CapabilitiesSpec \<Rightarrow> json" where
  "enc_CapabilitiesSpec x = JObj (members [
     (''disabled'', omit_list JStr (cap_Disabled x))])"

definition dec_CapabilitiesSpec :: "CapabilitiesSpec json_decoder" where
  "dec_CapabilitiesSpec = dec_struct [
     jfield ''disabled'' cap_Disabled cap_Disabled_update (dec_list [] dec_str)]"

lemma survives_CapabilitiesSpec: "survives env dec_CapabilitiesSpec zero_CapabilitiesSpec (enc_CapabilitiesSpec x) x"
  unfolding enc_CapabilitiesSpec_def dec_CapabilitiesSpec_def zero_CapabilitiesSpec_def
  by (rule survives_struct) (simp_all add: kv_norm_def struct_codec del: members.simps(2))

lemmas CapabilitiesSpec_codec [struct_codec] = type_fields(1-3)[OF survives_CapabilitiesSpec]
  type_fields(4-6)[OF survives_CapabilitiesSpec, THEN dec_members_field]

definition zero_ClaimMapping :: ClaimMapping where
  "zero_ClaimMapping = \<lparr>clm_Claim = [], clm_Prefix = []\<rparr>"

definition enc_ClaimMapping :: "ClaimMapping \<Rightarrow> json" where
  "enc_ClaimMapping x = JObj (members [
     (''claim'', enc_str (clm_Claim x)),
     (''prefix'', omit_str (clm_Prefix x))])"

definition dec_ClaimMapping :: "ClaimMapping json_decoder" where
  "dec_ClaimMapping = dec_struct [
     jfield ''claim'' clm_Claim clm_Claim_update dec_str,
     jfield ''prefix'' clm_Prefix clm_Prefix_update dec_str]"

lemma survives_ClaimMapping: "survives env dec_ClaimMapping zero_ClaimMapping (enc_ClaimMapping x) x"
  unfolding enc_ClaimMapping_def dec_ClaimMapping_def zero_ClaimMapping_def
  by (rule survives_struct) (simp_all add: kv_norm_def struct_codec del: members.simps(2))

lemmas ClaimMapping_codec [struct_codec] = type_fields(1-3)[OF survives_ClaimMapping]
  type_fields(4-6)[OF survives_ClaimMapping, THEN dec_members_field]

definition zero_ClaimMappings :: ClaimMappings where
  "zero_ClaimMappings = \<lparr>cms_Username = zero_ClaimMapping, cms_Groups = None\<rparr>"

definition enc_ClaimMappings :: "ClaimMappings \<Rightarrow> json" where
  "enc_ClaimMappings x = JObj (members [
     (''username'', Some (enc_ClaimMapping (cms_Username x))),
     (''groups'', omit_ptr enc_ClaimMapping (cms_Groups x))])"

definition dec_ClaimMappings :: "ClaimMappings json_decoder" where
  "dec_ClaimMappings = dec_struct [
     jfield ''username'' cms_Username cms_Username_update dec_ClaimMapping,
     jfield ''groups'' cms_Groups cms_Groups_update (dec_ptr zero_ClaimMapping dec_ClaimMapping)]"

lemma survives_ClaimMappings: "survives env dec_ClaimMappings zero_ClaimMappings (enc_ClaimMappings x) x"
  unfolding enc_ClaimMappings_def dec_ClaimMappings_def zero_ClaimMappings_def
  by (rule survives_struct) (simp_all add: kv_norm_def struct_codec del: members.simps(2))

lemmas ClaimMappings_codec [struct_codec] = type_fields(1-3)[OF survives_ClaimMappings]
  type_fields(4-6)[OF survives_ClaimMappings, THEN dec_members_field]

definition zero_OIDCIssuer :: OIDCIssuer where
  "zero_OIDCIssuer = \<lparr>iss_IssuerURL = [], iss_Audiences = []\<rparr>"

definition enc_OIDCIssuer :: "OIDCIssuer \<Rightarrow> json" where
  "enc_OIDCIssuer x = JObj (members [
     (''issuerURL'', enc_str (iss_IssuerURL x)),
     (''audiences'', omit_list JStr (iss_Audiences x))])"

definition dec_OIDCIssuer :: "OIDCIssuer json_decoder" where
  "dec_OIDCIssuer = dec_struct [
     jfield ''issuerURL'' iss_IssuerURL iss_IssuerURL_update dec_str,
     jfield ''audiences'' iss_Audiences iss_Audiences_update (dec_list [] dec_str)]"

lemma survives_OIDCIssuer: "survives env dec_OIDCIssuer zero_OIDCIssuer (enc_OIDCIssuer x) x"
  unfolding enc_OIDCIssuer_def dec_OIDCIssuer_def zero_OIDCIssuer_def
  by (rule survives_struct) (simp_all add: kv_norm_def struct_codec del: members.simps(2))

lemmas OIDCIssuer_codec [struct_codec] = type_fields(1-3)[OF survives_OIDCIssuer]
  type_fields(4-6)[OF survives_OIDCIssuer, THEN dec_members_field]

definition zero_OIDCProvider :: OIDCProvider where
  "zero_OIDCProvider = \<lparr>oidc_Name = [], oidc_Issuer = zero_OIDCIssuer, oidc_ClaimMappings = zero_ClaimMappings\<rparr>"

definition enc_OIDCProvider :: "OIDCProvider \<Rightarrow> json" where
  "enc_OIDCProvider x = JObj (members [
     (''name'', enc_str (oidc_Name x)),
     (''issuer'', Some (enc_OIDCIssuer (oidc_Issuer x))),
     (''claimMappings'', Some (enc_ClaimMappings (oidc_ClaimMappings x)))])"

definition dec_OIDCProvider :: "OIDCProvider json_decoder" where
  "dec_OIDCProvider = dec_struct [
     jfield ''name'' oidc_Name oidc_Name_update dec_str,
     jfield ''issuer'' oidc_Issuer oidc_Issuer_update dec_OIDCIssuer,
     jfield ''claimMappings'' oidc_ClaimMappings oidc_ClaimMappings_update dec_ClaimMappings]"

lemma survives_OIDCProvider: "survives env dec_OIDCProvider zero_OIDCProvider (enc_OIDCProvider x) x"
  unfolding enc_OIDCProvider_def dec_OIDCProvider_def zero_OIDCProvider_def
  by (rule survives_struct) (simp_all add: kv_norm_def struct_codec del: members.simps(2))

lemmas OIDCProvider_codec [struct_codec] = type_fields(1-3)[OF survives_OIDCProvider]
  type_fields(4-6)[OF survives_OIDCProvider, THEN dec_members_field]

definition zero_AuthenticationConfig :: AuthenticationConfig where
  "zero_AuthenticationConfig = \<lparr>auth_Type = [], auth_OIDCProviders = []\<rparr>"

definition enc_AuthenticationConfig :: "AuthenticationConfig \<Rightarrow> json" where
  "enc_AuthenticationConfig x = JObj (members [
     (''type'', omit_str (auth_Type x)),
     (''oidcProviders'', omit_list enc_OIDCProvider (auth_OIDCProviders x))])"

definition dec_AuthenticationConfig :: "AuthenticationConfig json_decoder" where
  "dec_AuthenticationConfig = dec_struct [
     jfield ''type'' auth_Type auth_Type_update dec_str,
     jfield ''oidcProviders'' auth_OIDCProviders auth_OIDCProviders_update (dec_list zero_OIDCProvider dec_OIDCProvider)]"

lemma survives_AuthenticationConfig: "survives env dec_AuthenticationConfig zero_AuthenticationConfig (enc_AuthenticationConfig x) x"
  unfolding enc_AuthenticationConfig_def dec_AuthenticationConfig_def zero_AuthenticationConfig_def
  by (rule survives_struct) (simp_all add: kv_norm_def struct_codec del: members.simps(2))

lemmas AuthenticationConfig_codec [struct_codec] = type_fields(1-3)[OF survives_AuthenticationConfig]
  type_fields(4-6)[OF survives_AuthenticationConfig, THEN dec_members_field]

definition zero_ClusterConfiguration :: ClusterConfiguration where
  "zero_ClusterConfiguration = \<lparr>cfg_Authentication = None\<rparr>"

definition enc_ClusterConfiguration :: "ClusterConfiguration \<Rightarrow> json" where
  "enc_ClusterConfiguration x = JObj (members [
     (''authentication'', omit_ptr enc_AuthenticationConfig (cfg_Authentication x))])"

definition dec_ClusterConfiguration :: "ClusterConfiguration json_decoder" where
  "dec_ClusterConfiguration = dec_struct [
     jfield ''authentication'' cfg_Authentication cfg_Authentication_update (dec_ptr zero_AuthenticationConfig dec_AuthenticationConfig)]"

lemma survives_ClusterConfiguration: "survives env dec_ClusterConfiguration zero_ClusterConfiguration (enc_ClusterConfiguration x) x"
  unfolding enc_ClusterConfiguration_def dec_ClusterConfiguration_def zero_ClusterConfiguration_def
  by (rule survives_struct) (simp_all add: kv_norm_def struct_codec del: members.simps(2))

lemmas ClusterConfiguration_codec [struct_codec] = type_fields(1-3)[OF survives_ClusterConfiguration]
  type_fields(4-6)[OF survives_ClusterConfiguration, THEN dec_members_field]

definition zero_HostedClusterSpec :: HostedClusterSpec where
  "zero_HostedClusterSpec = \<lparr>hc_Release = zero_ReleaseSpec, hc_InfraID = [], hc_Platform = zero_PlatformSpec, hc_Networking = None, hc_Etcd = None, hc_Services = [], hc_Channel = [], hc_ControllerAvailabilityPolicy = [], hc_PullSecret = None, hc_ServiceAccountSigningKey = None, hc_ClusterID = [], hc_Capabilities = None, hc_Configuration = None\<rparr>"

definition enc_HostedClusterSpec :: "HostedClusterSpec \<Rightarrow> json" where
  "enc_HostedClusterSpec x = JObj (members [
     (''release'', Some (enc_ReleaseSpec (hc_Release x))),
     (''infraID'', enc_str (hc_InfraID x)),
     (''platform'', Some (enc_PlatformSpec (hc_Platform x))),
     (''networking'', omit_ptr enc_ClusterNetworkingSpec (hc_Networking x)),
     (''etcd'', omit_ptr enc_EtcdSpec (hc_Etcd x)),
     (''services'', omit_list enc_ServicePublishingStrategyMapping (hc_Services x)),
     (''channel'', omit_str (hc_Channel x)),
     (''controllerAvailabilityPolicy'', omit_str (hc_ControllerAvailabilityPolicy x)),
     (''pullSecret'', omit_ptr enc_SecretReference (hc_PullSecret x)),
     (''serviceAccountSigningKey'', omit_ptr enc_SecretReference (hc_ServiceAccountSigningKey x)),
     (''clusterID'', omit_str (hc_ClusterID x)),
     (''capabilities'', omit_ptr enc_CapabilitiesSpec (hc_Capabilities x)),
     (''configuration'', omit_ptr enc_ClusterConfiguration (hc_Configuration x))])"

definition dec_HostedClusterSpec :: "HostedClusterSpec json_decoder" where
  "dec_HostedClusterSpec = dec_struct [
     jfield ''release'' hc_Release hc_Release_update dec_ReleaseSpec,
     jfield ''infraID'' hc_InfraID hc_InfraID_update dec_str,
     jfield ''platform'' hc_Platform hc_Platform_update dec_PlatformSpec,
     jfield ''networking'' hc_Networking hc_Networking_update (dec_ptr zero_ClusterNetworkingSpec dec_ClusterNetworkingSpec),
     jfield ''etcd'' hc_Etcd hc_Etcd_update (dec_ptr zero_EtcdSpec dec_EtcdSpec),
     jfield ''services'' hc_Services hc_Services_update (dec_list zero_ServicePublishingStrategyMapping dec_ServicePublishingStrategyMapping),
     jfield ''channel'' hc_Channel hc_Channel_update dec_str,
     jfield ''controllerAvailabilityPolicy'' hc_ControllerAvailabilityPolicy hc_ControllerAvailabilityPolicy_update dec_str,
     jfield ''pullSecret'' hc_PullSecret hc_PullSecret_update (dec_ptr zero_SecretReference dec_SecretReference),
     jfield ''serviceAccountSigningKey'' hc_ServiceAccountSigningKey hc_ServiceAccountSigningKey_update (dec_ptr zero_SecretReference dec_SecretReference),
     jfield ''clusterID'' hc_ClusterID hc_ClusterID_update dec_str,
     jfield ''capabilities'' hc_Capabilities hc_Capabilities_update (dec_ptr zero_CapabilitiesSpec dec_CapabilitiesSpec),
     jfield ''configuration'' hc_Configuration hc_Configuration_update (dec_ptr zero_ClusterConfiguration dec_ClusterConfiguration)]"

lemma survives_HostedClusterSpec: "survives env dec_HostedClusterSpec zero_HostedClusterSpec (enc_HostedClusterSpec x) x"
  unfolding enc_HostedClusterSpec_def dec_HostedClusterSpec_def zero_HostedClusterSpec_def
  by (rule survives_struct) (simp_all add: kv_norm_def struct_codec del: members.simps(2))

lemmas HostedClusterSpec_codec [struct_codec] = type_fields(1-3)[OF survives_HostedClusterSpec]
  type_fields(4-6)[OF survives_HostedClusterSpec, THEN dec_members_field]

definition zero_VersionStreamReference :: VersionStreamReference where
  "zero_VersionStreamReference = \<lparr>vsr_Name = []\<rparr>"

definition enc_VersionStreamReference :: "VersionStreamReference \<Rightarrow> json" where
  "enc_VersionStreamReference x = JObj (members [
     (''name'', enc_str (vsr_Name x))])"

definition dec_VersionStreamReference :: "VersionStreamReference json_decoder" where
  "dec_VersionStreamReference = dec_struct [
     jfield ''name'' vsr_Name vsr_Name_update dec_str]"

lemma survives_VersionStreamReference: "survives env dec_VersionStreamReference zero_VersionStreamReference (enc_VersionStreamReference x) x"
  unfolding enc_VersionStreamReference_def dec_VersionStreamReference_def zero_VersionStreamReference_def
  by (rule survives_struct) (simp_all add: kv_norm_def struct_codec del: members.simps(2))

lemmas VersionStreamReference_codec [struct_codec] = type_fields(1-3)[OF survives_VersionStreamReference]
  type_fields(4-6)[OF survives_VersionStreamReference, THEN dec_members_field]

definition zero_NameReference :: NameReference where
  "zero_NameReference = \<lparr>nref_Name = []\<rparr>"

definition enc_NameReference :: "NameReference \<Rightarrow> json" where
  "enc_NameReference x = JObj (members [
     (''name'', enc_str (nref_Name x))])"

definition dec_NameReference :: "NameReference json_decoder" where
  "dec_NameReference = dec_struct [
     jfield ''name'' nref_Name nref_Name_update dec_str]"

lemma survives_NameReference: "survives env dec_NameReference zero_NameReference (enc_NameReference x) x"
  unfolding enc_NameReference_def dec_NameReference_def zero_NameReference_def
  by (rule survives_struct) (simp_all add: kv_norm_def struct_codec del: members.simps(2))

lemmas NameReference_codec [struct_codec] = type_fields(1-3)[OF survives_NameReference]
  type_fields(4-6)[OF survives_NameReference, THEN dec_members_field]

definition zero_ManagedHostedClusterSpec :: ManagedHostedClusterSpec where
  "zero_ManagedHostedClusterSpec = \<lparr>mhs_ClusterID = [], mhs_VersionStreamRef = zero_VersionStreamReference, mhs_UpgradeScheduleRef = None, mhs_HostedCluster = zero_HostedClusterSpec\<rparr>"

definition enc_ManagedHostedClusterSpec :: "ManagedHostedClusterSpec \<Rightarrow> json" where
  "enc_ManagedHostedClusterSpec x = JObj (members [
     (''clusterID'', enc_str (mhs_ClusterID x)),
     (''versionStreamRef'', Some (enc_VersionStreamReference (mhs_VersionStreamRef x))),
     (''upgradeScheduleRef'', omit_ptr enc_NameReference (mhs_UpgradeScheduleRef x)),
     (''hostedCluster'', Some (enc_HostedClusterSpec (mhs_HostedCluster x)))])"

definition dec_ManagedHostedClusterSpec :: "ManagedHostedClusterSpec json_decoder" where
  "dec_ManagedHostedClusterSpec = dec_struct [
     jfield ''clusterID'' mhs_ClusterID mhs_ClusterID_update dec_str,
     jfield ''versionStreamRef'' mhs_VersionStreamRef mhs_VersionStreamRef_update dec_VersionStreamReference,
     jfield ''upgradeScheduleRef'' mhs_UpgradeScheduleRef mhs_UpgradeScheduleRef_update (dec_ptr zero_NameReference dec_NameReference),
     jfield ''hostedCluster'' mhs_HostedCluster mhs_HostedCluster_update dec_HostedClusterSpec]"

lemma survives_ManagedHostedClusterSpec: "survives env dec_ManagedHostedClusterSpec zero_ManagedHostedClusterSpec (enc_ManagedHostedClusterSpec x) x"
  unfolding enc_ManagedHostedClusterSpec_def dec_ManagedHostedClusterSpec_def zero_ManagedHostedClusterSpec_def
  by (rule survives_struct) (simp_all add: kv_norm_def struct_codec del: members.simps(2))

lemmas ManagedHostedClusterSpec_codec [struct_codec] = type_fields(1-3)[OF survives_ManagedHostedClusterSpec]
  type_fields(4-6)[OF survives_ManagedHostedClusterSpec, THEN dec_members_field]


section \<open>The resource\<close>

definition zero_condition :: condition where
  "zero_condition = \<lparr>cond_type = [], cond_status = [], cond_reason = [], cond_message = [],
     cond_time = 0, cond_generation = 0\<rparr>"

definition zero_ManagedHostedClusterStatus :: ManagedHostedClusterStatus where
  "zero_ManagedHostedClusterStatus = \<lparr>mst_Conditions = []\<rparr>"

definition enc_ManagedHostedClusterStatus :: "'w env \<Rightarrow> ManagedHostedClusterStatus \<Rightarrow> json" where
  "enc_ManagedHostedClusterStatus env x = JObj (members [
     (''conditions'', omit_list (cond_enc env) (mst_Conditions x))])"

definition dec_ManagedHostedClusterStatus :: "'w env \<Rightarrow> ManagedHostedClusterStatus json_decoder" where
  "dec_ManagedHostedClusterStatus env = dec_struct [
     jfield ''conditions'' mst_Conditions mst_Conditions_update (dec_list zero_condition (cond_dec env))]"

definition zero_TypeMeta :: TypeMeta where
  "zero_TypeMeta = \<lparr>tm_Kind = [], tm_APIVersion = []\<rparr>"

definition zero_ManagedHostedCluster :: ManagedHostedCluster where
  "zero_ManagedHostedCluster = \<lparr>mhc_TypeMeta = zero_TypeMeta, mhc_ObjectMeta = zero_meta,
     mhc_Spec = zero_ManagedHostedClusterSpec, mhc_Status = zero_ManagedHostedClusterStatus\<rparr>"

definition omit_zero :: "'a \<Rightarrow> ('a \<Rightarrow> json) \<Rightarrow> 'a \<Rightarrow> json option" where
  "omit_zero zero enc x = (if x = zero then None else Some (enc x))"

definition enc_ManagedHostedCluster :: "'w env \<Rightarrow> ManagedHostedCluster \<Rightarrow> json" where
  "enc_ManagedHostedCluster env x = JObj (members [
     (''kind'', omit_str (tm_Kind (mhc_TypeMeta x))),
     (''apiVersion'', omit_str (tm_APIVersion (mhc_TypeMeta x))),
     (''metadata'', omit_zero zero_meta (meta_enc env) (mhc_ObjectMeta x)),
     (''spec'', Some (enc_ManagedHostedClusterSpec (mhc_Spec x))),
     (''status'', omit_zero zero_ManagedHostedClusterStatus (enc_ManagedHostedClusterStatus env) (mhc_Status x))])"

definition dec_ManagedHostedCluster :: "'w env \<Rightarrow> ManagedHostedCluster json_decoder" where
  "dec_ManagedHostedCluster env = dec_struct [
     jfield ''kind'' (\<lambda>x. tm_Kind (mhc_TypeMeta x)) (\<lambda>f. mhc_TypeMeta_update (tm_Kind_update f)) dec_str,
     jfield ''apiVersion'' (\<lambda>x. tm_APIVersion (mhc_TypeMeta x))
       (\<lambda>f. mhc_TypeMeta_update (tm_APIVersion_update f)) dec_str,
     jfield ''metadata'' mhc_ObjectMeta mhc_ObjectMeta_update (meta_dec env),
     jfield ''spec'' mhc_Spec mhc_Spec_update dec_ManagedHostedClusterSpec,
     jfield ''status'' mhc_Status mhc_Status_update (dec_ManagedHostedClusterStatus env)]"

text \<open>
  The metadata and the conditions are of Kubernetes types whose coding is a parameter:
  \<open>kube_types_ok\<close> says of the ones in a resource that they survive it.
\<close>

definition kube_types_ok :: "'w env \<Rightarrow> ManagedHostedCluster \<Rightarrow> bool" where
  "kube_types_ok env x \<longleftrightarrow>
     survives env (meta_dec env) zero_meta (meta_enc env (mhc_ObjectMeta x)) (mhc_ObjectMeta x) \<and>
     (\<forall>c\<in>set (mst_Conditions (mhc_Status x)).
        survives env (cond_dec env) zero_condition (cond_enc env c) c)"

lemma omit_zero_fields:
  assumes "survives env dec zero (enc x) x"
  shows "norm_ok env (omit_zero zero enc x)" "dec_field dec zero (nrm env (omit_zero zero enc x)) x"
  using survives_field[OF assms]
  by (auto simp: omit_zero_def norm_ok_def nrm_def dec_field_def)

lemma survives_ManagedHostedClusterStatus:
  assumes "\<forall>c\<in>set (mst_Conditions x). survives env (cond_dec env) zero_condition (cond_enc env c) c"
  shows "survives env (dec_ManagedHostedClusterStatus env) zero_ManagedHostedClusterStatus
    (enc_ManagedHostedClusterStatus env x) x"
proof -
  let ?d = "dec_list zero_condition (cond_dec env)" and ?cs = "mst_Conditions x"
  have "survives env ?d [] (JArr (map (cond_enc env) ?cs)) ?cs"
    using assms by (intro survives_list) simp
  from survives_field[OF this] have f: "norm_ok env (omit_list (cond_enc env) ?cs)"
      "dec_field ?d [] (nrm env (omit_list (cond_enc env) ?cs)) ?cs"
    by (auto simp: omit_list_def norm_ok_def nrm_def dec_field_def)
  show ?thesis
    unfolding enc_ManagedHostedClusterStatus_def dec_ManagedHostedClusterStatus_def
      zero_ManagedHostedClusterStatus_def
    by (rule survives_struct) (simp_all add: kv_norm_def f dec_members_field[OF f(2)] del: members.simps(2))
qed

lemma survives_ManagedHostedCluster:
  assumes "kube_types_ok env x"
  shows "survives env (dec_ManagedHostedCluster env) zero_ManagedHostedCluster (enc_ManagedHostedCluster env x) x"
proof -
  from assms have
    m: "survives env (meta_dec env) zero_meta (meta_enc env (mhc_ObjectMeta x)) (mhc_ObjectMeta x)" and
    s: "survives env (dec_ManagedHostedClusterStatus env) zero_ManagedHostedClusterStatus
      (enc_ManagedHostedClusterStatus env (mhc_Status x)) (mhc_Status x)"
    unfolding kube_types_ok_def by (simp_all add: survives_ManagedHostedClusterStatus)
  note f = omit_zero_fields[where enc = "meta_enc env", OF m]
    omit_zero_fields[where enc = "enc_ManagedHostedClusterStatus env", OF s]
  show ?thesis
    unfolding enc_ManagedHostedCluster_def dec_ManagedHostedCluster_def zero_ManagedHostedCluster_def
      zero_TypeMeta_def
    by (rule survives_struct) (simp_all add: kv_norm_def f dec_members_field[OF f(2)]
        dec_members_field[OF f(4)] struct_codec del: members.simps(2))
qed

end
