(* ===== verification/ApiServer.thy ===== *)
theory ApiServer
  imports Placement DesireContract FirestoreCache ApiTypes
begin

text \<open>
  \<open>internal/apiserver\<close>: the REST handlers of managed hosted clusters. A handler takes the path
  values, the request body and the state and returns the response with the state it leaves
  behind; the response body is the Go value that is given to the JSON encoder. A failed step ends
  the handler as its early return does, and leaves what the earlier steps did.
\<close>

section \<open>types.go\<close>

record DesireConditionStatus =
  dcs_Conditions :: "condition list"
  dcs_ObservedDesireUpdateTime :: gotime

record ApplyDesireConditionStatus =
  adcs_Status :: DesireConditionStatus
  adcs_AppliedResourceGeneration :: int64

record DesireStatus =
  dst_Apply :: "ApplyDesireConditionStatus option"
  dst_Read :: "DesireConditionStatus option"

record ManagedHostedClusterResponse =
  mhr_Cluster :: ManagedHostedCluster
  mhr_DesireStatus :: "DesireStatus option"

record ManagedHostedClusterListResponse =
  mhl_TypeMeta :: TypeMeta
  mhl_Items :: "ManagedHostedClusterResponse list"

definition condition_status :: "'a desire_status_scheme \<Rightarrow> DesireConditionStatus" where
  "condition_status s = \<lparr>dcs_Conditions = st_conditions s,
     dcs_ObservedDesireUpdateTime = st_observedDesireUpdateTime s\<rparr>"

definition has_status :: "'a desire_status_scheme \<Rightarrow> bool" where
  "has_status s = (st_conditions s \<noteq> [] \<or> st_observedDesireUpdateTime s \<noteq> 0)"

definition buildDesireStatus :: "apply_desire option \<Rightarrow> read_desire option \<Rightarrow> DesireStatus option" where
  "buildDesireStatus apply read =
     (let a = (case apply of
            Some d \<Rightarrow> if has_status (ad_status d)
              then Some \<lparr>adcs_Status = condition_status (ad_status d),
                adcs_AppliedResourceGeneration = st_appliedResourceGeneration (ad_status d)\<rparr>
              else None
          | None \<Rightarrow> None);
          r = (case read of
            Some d \<Rightarrow> if has_status (rd_status d) then Some (condition_status (rd_status d)) else None
          | None \<Rightarrow> None)
      in if a = None \<and> r = None then None else Some \<lparr>dst_Apply = a, dst_Read = r\<rparr>)"

section \<open>errors.go\<close>

datatype payload =
    PError string nat
  | PCluster ManagedHostedCluster
  | PResponse ManagedHostedClusterResponse
  | PList ManagedHostedClusterListResponse
  | PJson json
  | PBytes string

record response =
  rs_code :: nat
  rs_body :: payload

definition writeErrorMsg :: "nat \<Rightarrow> string \<Rightarrow> response" where
  "writeErrorMsg code message = \<lparr>rs_code = code, rs_body = PError message code\<rparr>"

definition writeError :: "gerr \<Rightarrow> response" where
  "writeError e =
     (let code = if IsNotFoundError e then 404
                 else if IsAlreadyExistsError e then 409
                 else if IsPreconditionFailedError e then 409
                 else 500
      in writeErrorMsg code (err_text e))"

definition writeJSON :: "nat \<Rightarrow> payload \<Rightarrow> response" where
  "writeJSON status v = \<lparr>rs_code = status, rs_body = v\<rparr>"

section \<open>handlers.go\<close>

definition mhcGroup :: string where "mhcGroup = ''hcp.gcp.hypershift.openshift.com''"
definition mhcVersion :: string where "mhcVersion = ''v1alpha1''"
definition mhcResource :: string where "mhcResource = ''managedhostedclusters''"

definition mhcTypeMeta :: TypeMeta where
  "mhcTypeMeta = \<lparr>tm_Kind = ''ManagedHostedCluster'', tm_APIVersion = mhcGroup @ ''/'' @ mhcVersion\<rparr>"

definition mhcListTypeMeta :: TypeMeta where
  "mhcListTypeMeta = \<lparr>tm_Kind = ''ManagedHostedClusterList'', tm_APIVersion = mhcGroup @ ''/'' @ mhcVersion\<rparr>"

record 'w handler =
  h_Placement :: string
  h_SpecsDB :: "string \<Rightarrow> 'w \<Rightarrow> ('w, string) ret"
  h_StatusDB :: "string \<Rightarrow> 'w \<Rightarrow> ('w, string) ret"

text \<open>The handler that \<open>main\<close> builds.\<close>

definition main_handler :: "'w env \<Rightarrow> string \<Rightarrow> 'w handler" where
  "main_handler env placementDB = \<lparr>h_Placement = placementDB, h_SpecsDB = specsDBFactory env,
     h_StatusDB = statusDBFactory env\<rparr>"

definition mhcResourceRef :: "string \<Rightarrow> string \<Rightarrow> resource_ref" where
  "mhcResourceRef namespace name = \<lparr>rr_group = mhcGroup, rr_version = mhcVersion,
     rr_resource = mhcResource, rr_namespace = namespace, rr_name = name\<rparr>"

definition mhcDocumentID :: "'w env \<Rightarrow> string \<Rightarrow> string \<Rightarrow> string" where
  "mhcDocumentID env namespace name =
     NewDocumentID env TaskKey mhcGroup mhcVersion mhcResource namespace name"

definition nsDocumentID :: "'w env \<Rightarrow> string \<Rightarrow> string" where
  "nsDocumentID env namespace = NewDocumentID env TaskKey [] ''v1'' ''namespaces'' [] namespace"

definition nsResourceRef :: "string \<Rightarrow> resource_ref" where
  "nsResourceRef namespace = \<lparr>rr_group = [], rr_version = ''v1'', rr_resource = ''namespaces'',
     rr_namespace = [], rr_name = namespace\<rparr>"

definition serializeNamespace :: "string \<Rightarrow> gerr + raw_ext" where
  "serializeNamespace name = Inr (Some (json_print (JObj [(''apiVersion'', JStr ''v1''),
     (''kind'', JStr ''Namespace''), (''metadata'', JObj [(''name'', JStr name)])])))"

definition serializeCR :: "'w env \<Rightarrow> ManagedHostedCluster \<Rightarrow> gerr + raw_ext" where
  "serializeCR env obj = Inr (Some (json_print (enc_ManagedHostedCluster env obj)))"

text \<open>\<open>json.NewDecoder(r.Body).Decode(&obj)\<close> and \<open>json.Unmarshal(raw, &obj)\<close>.\<close>

definition decode_body :: "'w env \<Rightarrow> string \<Rightarrow> ManagedHostedCluster option" where
  "decode_body env body = (case json_decode body of
      None \<Rightarrow> None
    | Some j \<Rightarrow> dec_ManagedHostedCluster env j zero_ManagedHostedCluster)"

definition unmarshalCR :: "'w env \<Rightarrow> string \<Rightarrow> ManagedHostedCluster option" where
  "unmarshalCR env raw = (case json_parse raw of
      None \<Rightarrow> None
    | Some j \<Rightarrow> dec_ManagedHostedCluster env j zero_ManagedHostedCluster)"

text \<open>\<open>if err != nil { writeError(w, err); return }\<close>\<close>

definition or_error :: "('w, 'a) ret \<Rightarrow> ('a \<Rightarrow> 'w \<Rightarrow> response \<times> 'w) \<Rightarrow> response \<times> 'w" where
  "or_error r k = (case r of (Inl e, w) \<Rightarrow> (writeError e, w) | (Inr a, w) \<Rightarrow> k a w)"

text \<open>A result whose error \<open>NotFound\<close> is tolerated and gives nil, as \<open>Get\<close> treats its reads.\<close>

definition or_missing :: "('w, 'a) ret \<Rightarrow> ('a option \<Rightarrow> 'w \<Rightarrow> response \<times> 'w) \<Rightarrow> response \<times> 'w" where
  "or_missing r k = (case r of
      (Inl e, w) \<Rightarrow> if IsNotFoundError e then k None w else (writeError e, w)
    | (Inr a, w) \<Rightarrow> k (Some a) w)"

definition new_apply :: "string \<Rightarrow> apply_spec \<Rightarrow> apply_desire" where
  "new_apply docID spec = \<lparr>ad_meta = zero_metadata\<lparr>md_documentID := docID\<rparr>,
     ad_spec = spec, ad_status = zero_apply_status\<rparr>"

definition new_read :: "string \<Rightarrow> target_spec \<Rightarrow> read_desire" where
  "new_read docID spec = \<lparr>rd_meta = zero_metadata\<lparr>md_documentID := docID\<rparr>,
     rd_spec = spec, rd_status = zero_read_status\<rparr>"

definition new_delete :: "string \<Rightarrow> target_spec \<Rightarrow> delete_desire" where
  "new_delete docID spec = \<lparr>dd_meta = zero_metadata\<lparr>md_documentID := docID\<rparr>,
     dd_spec = spec, dd_status = zero_desire_status\<rparr>"

definition ns_desire :: "'w env \<Rightarrow> string \<Rightarrow> string \<Rightarrow> raw_ext \<Rightarrow> apply_desire" where
  "ns_desire env mc namespace nsKubeContent = new_apply (nsDocumentID env namespace)
     \<lparr>sp_managementCluster = mc, sp_clusterID = [], sp_nodePoolName = [],
       sp_targetItem = nsResourceRef namespace, sp_kubeContent = nsKubeContent\<rparr>"

definition mhc_apply :: "'w env \<Rightarrow> string \<Rightarrow> string \<Rightarrow> ManagedHostedCluster \<Rightarrow> raw_ext \<Rightarrow> apply_desire" where
  "mhc_apply env mc namespace obj kubeContent =
     new_apply (mhcDocumentID env namespace (om_name (mhc_ObjectMeta obj)))
       \<lparr>sp_managementCluster = mc, sp_clusterID = mhs_ClusterID (mhc_Spec obj), sp_nodePoolName = [],
        sp_targetItem = mhcResourceRef namespace (om_name (mhc_ObjectMeta obj)),
        sp_kubeContent = kubeContent\<rparr>"

definition mhc_read :: "'w env \<Rightarrow> string \<Rightarrow> string \<Rightarrow> ManagedHostedCluster \<Rightarrow> read_desire" where
  "mhc_read env mc namespace obj =
     new_read (mhcDocumentID env namespace (om_name (mhc_ObjectMeta obj)))
       \<lparr>sp_managementCluster = mc, sp_clusterID = mhs_ClusterID (mhc_Spec obj), sp_nodePoolName = [],
        sp_targetItem = mhcResourceRef namespace (om_name (mhc_ObjectMeta obj))\<rparr>"

definition mhc_delete :: "'w env \<Rightarrow> string \<Rightarrow> string \<Rightarrow> string \<Rightarrow> string \<Rightarrow> delete_desire" where
  "mhc_delete env mc namespace name clusterID = new_delete (mhcDocumentID env namespace name)
     \<lparr>sp_managementCluster = mc, sp_clusterID = clusterID, sp_nodePoolName = [],
       sp_targetItem = mhcResourceRef namespace name\<rparr>"

text \<open>The object that a request body stands for, with the fields the handlers force.\<close>

definition created :: "string \<Rightarrow> ManagedHostedCluster \<Rightarrow> ManagedHostedCluster" where
  "created namespace obj = obj\<lparr>mhc_ObjectMeta := (mhc_ObjectMeta obj)\<lparr>om_namespace := namespace\<rparr>,
     mhc_TypeMeta := mhcTypeMeta\<rparr>"

definition updated :: "string \<Rightarrow> string \<Rightarrow> ManagedHostedCluster \<Rightarrow> ManagedHostedCluster" where
  "updated namespace name obj = obj\<lparr>mhc_ObjectMeta :=
       (mhc_ObjectMeta obj)\<lparr>om_namespace := namespace, om_name := name\<rparr>,
     mhc_TypeMeta := mhcTypeMeta\<rparr>"

subsection \<open>Create\<close>

text \<open>The part of \<open>Create\<close> after a management cluster was allocated.\<close>

definition create_desires :: "'w env \<Rightarrow> 'w handler \<Rightarrow> string \<Rightarrow> ManagedHostedCluster \<Rightarrow> raw_ext \<Rightarrow>
    string \<Rightarrow> 'w \<Rightarrow> response \<times> 'w" where
  "create_desires env h namespace obj kubeContent mc w =
     or_error (h_SpecsDB h mc w) (\<lambda>specsDB w1.
     case serializeNamespace namespace of
       Inl e \<Rightarrow> (writeErrorMsg 500 ''Failed to serialize namespace'', w1)
     | Inr nsKubeContent \<Rightarrow>
         (case rc_Create (ApplyDesires env specsDB) (ns_desire env mc namespace nsKubeContent) w1 of
            (res, w2) \<Rightarrow>
              if (case res of Inl e \<Rightarrow> \<not> IsAlreadyExistsError e | Inr _ \<Rightarrow> False)
              then (writeError (projl res), w2)
              else
                or_error (rc_Create (ApplyDesires env specsDB) (mhc_apply env mc namespace obj kubeContent) w2)
                  (\<lambda>_ w3.
                or_error (rc_Create (ReadDesires env specsDB) (mhc_read env mc namespace obj) w3) (\<lambda>_ w4.
                or_error (setClusterMapping env (h_Placement h) namespace (om_name (mhc_ObjectMeta obj)) mc w4)
                  (\<lambda>_ w5. (writeJSON 200 (PCluster obj), w5))))))"

definition h_Create :: "'w env \<Rightarrow> 'w handler \<Rightarrow> string \<Rightarrow> string \<Rightarrow> 'w \<Rightarrow> response \<times> 'w" where
  "h_Create env h namespace body w = (case decode_body env body of
      None \<Rightarrow> (writeErrorMsg 400 (''Invalid JSON: '' @ err_text json_error), w)
    | Some obj0 \<Rightarrow>
        (let obj = created namespace obj0
         in case serializeCR env obj of
           Inl e \<Rightarrow> (writeErrorMsg 500 ''Failed to serialize resource'', w)
         | Inr kubeContent \<Rightarrow>
             (case getClusterMapping env (h_Placement h) namespace (om_name (mhc_ObjectMeta obj)) w of
                (Inr _, w1) \<Rightarrow> (writeErrorMsg 409 ''cluster already exists'', w1)
              | (Inl e, w1) \<Rightarrow>
                  if \<not> IsNotFoundError e then (writeError e, w1)
                  else or_error (allocate env (h_Placement h) w1)
                    (create_desires env h namespace obj kubeContent))))"

subsection \<open>Get\<close>

definition h_Get :: "'w env \<Rightarrow> 'w handler \<Rightarrow> string \<Rightarrow> string \<Rightarrow> 'w \<Rightarrow> response \<times> 'w" where
  "h_Get env h namespace name w =
     or_error (getClusterMapping env (h_Placement h) namespace name w) (\<lambda>mc w1.
     let docID = mhcDocumentID env namespace name in
     or_error (h_StatusDB h mc w1) (\<lambda>statusDB w2.
     or_missing (rc_Get (ReadDesires env statusDB) docID w2) (\<lambda>readDesire w3.
     or_missing (rc_Get (ApplyDesires env statusDB) docID w3) (\<lambda>applyDesire w4.
     let ds = buildDesireStatus applyDesire readDesire in
     case (case readDesire of Some d \<Rightarrow> st_kubeContent (rd_status d) | None \<Rightarrow> None) of
       Some raw \<Rightarrow> (case unmarshalCR env raw of
           None \<Rightarrow> (writeErrorMsg 500 ''Failed to deserialize resource from status'', w4)
         | Some obj \<Rightarrow> (writeJSON 200 (PResponse \<lparr>mhr_Cluster = obj\<lparr>mhc_TypeMeta := mhcTypeMeta\<rparr>,
               mhr_DesireStatus = ds\<rparr>), w4))
     | None \<Rightarrow>
         or_error (h_SpecsDB h mc w4) (\<lambda>specsDB w5.
         or_error (rc_Get (ApplyDesires env specsDB) docID w5) (\<lambda>specApplyDesire w6.
         case sp_kubeContent (ad_spec specApplyDesire) of
           Some raw \<Rightarrow> (case unmarshalCR env raw of
               None \<Rightarrow> (writeErrorMsg 500 ''Failed to deserialize resource from spec'', w6)
             | Some obj \<Rightarrow> (writeJSON 200 (PResponse \<lparr>mhr_Cluster = obj\<lparr>mhc_TypeMeta := mhcTypeMeta\<rparr>,
                   mhr_DesireStatus = ds\<rparr>), w6))
         | None \<Rightarrow> (writeErrorMsg 404 ''Resource not found'', w6)))))))"

subsection \<open>List\<close>

text \<open>The names per management cluster, as sets in a map; walked through in the order of \<open>map_order\<close>.\<close>

definition names_of :: "cluster_mapping list \<Rightarrow> string \<Rightarrow> string list" where
  "names_of ms mc = remdups (map cm_name (filter (\<lambda>m. cm_managementCluster m = mc) ms))"

fun list_names :: "'w env \<Rightarrow> string \<Rightarrow> string \<Rightarrow> string list \<Rightarrow> 'w \<Rightarrow>
    ManagedHostedClusterResponse list \<times> 'w" where
  "list_names env namespace statusDB [] w = ([], w)"
| "list_names env namespace statusDB (name # names) w =
     (let docID = mhcDocumentID env namespace name
      in case rc_Get (ReadDesires env statusDB) docID w of
        (Inl _, w1) \<Rightarrow> list_names env namespace statusDB names w1
      | (Inr rd, w1) \<Rightarrow>
          (case st_kubeContent (rd_status rd) of
             None \<Rightarrow> list_names env namespace statusDB names w1
           | Some raw \<Rightarrow> (case unmarshalCR env raw of
                 None \<Rightarrow> list_names env namespace statusDB names w1
               | Some obj \<Rightarrow>
                   (case rc_Get (ApplyDesires env statusDB) docID w1 of (res, w2) \<Rightarrow>
                      (let ad = (case res of Inl _ \<Rightarrow> None | Inr x \<Rightarrow> Some x);
                           item = \<lparr>mhr_Cluster = obj\<lparr>mhc_TypeMeta := mhcTypeMeta\<rparr>,
                             mhr_DesireStatus = buildDesireStatus ad (Some rd)\<rparr>
                       in apfst (Cons item) (list_names env namespace statusDB names w2))))))"

fun list_clusters :: "'w env \<Rightarrow> 'w handler \<Rightarrow> string \<Rightarrow> cluster_mapping list \<Rightarrow> string list \<Rightarrow> 'w \<Rightarrow>
    ('w, ManagedHostedClusterResponse list) ret" where
  "list_clusters env h namespace ms [] w = (Inr [], w)"
| "list_clusters env h namespace ms (mc # mcs) w = (case h_StatusDB h mc w of
      (Inl e, w1) \<Rightarrow> (Inl e, w1)
    | (Inr statusDB, w1) \<Rightarrow>
        (case list_names env namespace statusDB (map_order env (names_of ms mc)) w1 of (items, w2) \<Rightarrow>
          (case list_clusters env h namespace ms mcs w2 of
             (Inl e, w3) \<Rightarrow> (Inl e, w3)
           | (Inr rest, w3) \<Rightarrow> (Inr (items @ rest), w3))))"

definition h_List :: "'w env \<Rightarrow> 'w handler \<Rightarrow> string \<Rightarrow> 'w \<Rightarrow> response \<times> 'w" where
  "h_List env h namespace w =
     or_error (listClusterMappings env (h_Placement h) namespace w) (\<lambda>mappings w1.
     or_error (list_clusters env h namespace mappings
         (map_order env (remdups (map cm_managementCluster mappings))) w1) (\<lambda>items w2.
       (writeJSON 200 (PList \<lparr>mhl_TypeMeta = mhcListTypeMeta, mhl_Items = items\<rparr>), w2)))"

subsection \<open>Update, Delete, GetKubeConfig\<close>

definition h_Update :: "'w env \<Rightarrow> 'w handler \<Rightarrow> string \<Rightarrow> string \<Rightarrow> string \<Rightarrow> 'w \<Rightarrow> response \<times> 'w" where
  "h_Update env h namespace name body w = (case decode_body env body of
      None \<Rightarrow> (writeErrorMsg 400 (''Invalid JSON: '' @ err_text json_error), w)
    | Some obj0 \<Rightarrow>
        (let obj = updated namespace name obj0 in
         or_error (getClusterMapping env (h_Placement h) namespace name w) (\<lambda>mc w1.
         or_error (h_SpecsDB h mc w1) (\<lambda>specsDB w2.
         or_error (rc_Get (ApplyDesires env specsDB) (mhcDocumentID env namespace name) w2) (\<lambda>existing w3.
         case serializeCR env obj of
           Inl e \<Rightarrow> (writeErrorMsg 500 ''Failed to serialize resource'', w3)
         | Inr kubeContent \<Rightarrow>
             or_error (rc_Replace (ApplyDesires env specsDB)
                 (existing\<lparr>ad_spec := (ad_spec existing)\<lparr>sp_kubeContent := kubeContent\<rparr>\<rparr>) w3) (\<lambda>_ w4.
             (writeJSON 200 (PCluster obj), w4)))))))"

definition h_Delete :: "'w env \<Rightarrow> 'w handler \<Rightarrow> string \<Rightarrow> string \<Rightarrow> 'w \<Rightarrow> response \<times> 'w" where
  "h_Delete env h namespace name w =
     or_error (getClusterMapping env (h_Placement h) namespace name w) (\<lambda>mc w1.
     or_error (h_SpecsDB h mc w1) (\<lambda>specsDB w2.
     let docID = mhcDocumentID env namespace name in
     or_error (rc_Get (ApplyDesires env specsDB) docID w2) (\<lambda>existing w3.
     or_error (rc_Delete (ApplyDesires env specsDB) docID w3) (\<lambda>_ w4.
     or_error (rc_Delete (ReadDesires env specsDB) docID w4) (\<lambda>_ w5.
     or_error (rc_Create (DeleteDesires env specsDB)
         (mhc_delete env mc namespace name (sp_clusterID (ad_spec existing))) w5) (\<lambda>_ w6.
     or_error (release env (h_Placement h) mc w6) (\<lambda>_ w7.
     or_error (deleteClusterMapping env (h_Placement h) namespace name w7) (\<lambda>_ w8.
     (writeJSON 200 (PJson (JObj [(''status'', JStr ''deleted'')])), w8)))))))))"

definition h_GetKubeConfig :: "'w env \<Rightarrow> 'w handler \<Rightarrow> string \<Rightarrow> string \<Rightarrow> 'w \<Rightarrow> response \<times> 'w" where
  "h_GetKubeConfig env h namespace name w =
     or_error (getClusterMapping env (h_Placement h) namespace name w) (\<lambda>_ w1.
     (writeJSON 200 (PJson (JObj [(''apiVersion'', JStr ''v1''), (''clusters'', JArr []),
        (''contexts'', JArr []), (''kind'', JStr ''Config''),
        (''metadata'', JObj [(''cluster'', JStr name), (''status'', JStr ''placeholder'')]),
        (''users'', JArr [])])), w1))"

end
