(* ===== verification/CedarMapper.thy ===== *)
theory CedarMapper
  imports Prelude
begin

text \<open>
  \<open>internal/cedar/permissions.go\<close> and \<open>mapper.go\<close>: the permissions of custom roles with the Cedar
  actions they stand for, and the table that maps a request to the action and the resource it
  must be authorized for.

  The lemmas characterise the requests that are mapped at all, and what they are mapped to.
\<close>

section \<open>permissions.go\<close>

definition PermClusterCreate :: string where "PermClusterCreate = ''cluster.create''"
definition PermClusterList :: string where "PermClusterList = ''cluster.list''"
definition PermClusterGet :: string where "PermClusterGet = ''cluster.get''"
definition PermClusterUpdate :: string where "PermClusterUpdate = ''cluster.update''"
definition PermClusterDelete :: string where "PermClusterDelete = ''cluster.delete''"
definition PermClusterKubeconfig :: string where "PermClusterKubeconfig = ''cluster.kubeconfig''"
definition PermPolicyManage :: string where "PermPolicyManage = ''policy.manage''"

lemmas permission_names = PermClusterCreate_def PermClusterList_def PermClusterGet_def
  PermClusterUpdate_def PermClusterDelete_def PermClusterKubeconfig_def PermPolicyManage_def

definition PermissionToAction :: "(string \<times> string) list" where
  "PermissionToAction =
     [(PermClusterCreate, ''CreateManagedHostedCluster''), (PermClusterList, ''ListManagedHostedClusters''),
      (PermClusterGet, ''GetManagedHostedCluster''), (PermClusterUpdate, ''UpdateManagedHostedCluster''),
      (PermClusterDelete, ''DeleteManagedHostedCluster''), (PermClusterKubeconfig, ''GetKubeConfig''),
      (PermPolicyManage, ''ManagePolicies'')]"

definition AllPermissions :: "string list" where
  "AllPermissions = [PermClusterCreate, PermClusterList, PermClusterGet, PermClusterUpdate,
     PermClusterDelete, PermClusterKubeconfig, PermPolicyManage]"

fun ValidatePermissions :: "string list \<Rightarrow> gerr option" where
  "ValidatePermissions [] = None"
| "ValidatePermissions (p # ps) =
     (if get_field p PermissionToAction = None
      then Some (errorf (''unknown permission: '' @ go_quote p)) else ValidatePermissions ps)"

fun MapPermissionsToActions :: "string list \<Rightarrow> string list" where
  "MapPermissionsToActions [] = []"
| "MapPermissionsToActions (p # ps) = (case get_field p PermissionToAction of
      Some a \<Rightarrow> a # MapPermissionsToActions ps
    | None \<Rightarrow> MapPermissionsToActions ps)"

definition collectionPermissions :: "(string \<times> bool) list" where
  "collectionPermissions = [(PermClusterList, True), (PermClusterCreate, True)]"

definition IsCollectionPermission :: "string \<Rightarrow> bool" where
  "IsCollectionPermission perm = (get_field perm collectionPermissions = Some True)"

lemma permission_table: "get_field p PermissionToAction = None \<longleftrightarrow> p \<notin> set AllPermissions"
  by (auto simp: PermissionToAction_def AllPermissions_def split: if_splits)

lemma ValidatePermissions_None: "ValidatePermissions ps = None \<longleftrightarrow> set ps \<subseteq> set AllPermissions"
  by (induction ps) (auto simp: permission_table)

lemma MapPermissionsToActions_set:
  "a \<in> set (MapPermissionsToActions ps) \<longleftrightarrow> (\<exists>p\<in>set ps. get_field p PermissionToAction = Some a)"
  by (induction ps) (auto split: option.split)

lemma MapPermissionsToActions_length:
  "ValidatePermissions ps = None \<Longrightarrow> length (MapPermissionsToActions ps) = length ps"
  by (induction ps) (auto split: if_splits)

section \<open>mapper.go\<close>

definition ResourceTypeManagedHostedCluster :: string where
  "ResourceTypeManagedHostedCluster = ''ManagedHostedCluster''"

record CedarMapping =
  cdm_Action :: string
  cdm_ResourceType :: string
  cdm_ResourceID :: string
  cdm_ProjectID :: string

text \<open>
  The regular expressions of the routes: a sequence of literal texts and of groups \<open>([^/]+)\<close>,
  anchored at the start, and at the end where \<open>$\<close> ends them. A group is followed by the end or by
  a literal that starts with \<open>/\<close>, which no group contains, so the greedy match is the only one.
\<close>

datatype pat = Lit string | Seg

fun pat_match :: "pat list \<Rightarrow> bool \<Rightarrow> string \<Rightarrow> string list option" where
  "pat_match [] anchored s = (if anchored \<and> s \<noteq> [] then None else Some [])"
| "pat_match (Lit l # ps) anchored s =
     (if has_prefix s l then pat_match ps anchored (drop (length l) s) else None)"
| "pat_match (Seg # ps) anchored s =
     (let m = takeWhile (\<lambda>c. c \<noteq> CHR ''/'') s
      in if m = [] then None
         else map_option (Cons m) (pat_match ps anchored (dropWhile (\<lambda>c. c \<noteq> CHR ''/'') s)))"

record routeEntry =
  rt_pattern :: "pat list"
  rt_anchored :: bool
  rt_methodAction :: "(string \<times> string) list"
  rt_hasResource :: bool

definition routes :: "routeEntry list" where
  "routes =
    [\<lparr>rt_pattern = [Lit ''/v1alpha1/namespaces/'', Seg, Lit ''/managedhostedclusters/'', Seg, Lit ''/kubeconfig''],
      rt_anchored = True, rt_methodAction = [(''GET'', ''GetKubeConfig'')], rt_hasResource = True\<rparr>,
     \<lparr>rt_pattern = [Lit ''/v1alpha1/namespaces/'', Seg, Lit ''/managedhostedclusters/'', Seg],
      rt_anchored = True, rt_methodAction = [(''GET'', ''GetManagedHostedCluster''),
        (''PUT'', ''UpdateManagedHostedCluster''), (''DELETE'', ''DeleteManagedHostedCluster'')],
      rt_hasResource = True\<rparr>,
     \<lparr>rt_pattern = [Lit ''/v1alpha1/namespaces/'', Seg, Lit ''/managedhostedclusters''],
      rt_anchored = True, rt_methodAction = [(''GET'', ''ListManagedHostedClusters''),
        (''POST'', ''CreateManagedHostedCluster'')], rt_hasResource = False\<rparr>,
     \<lparr>rt_pattern = [Lit ''/authz/namespaces/'', Seg, Lit ''/''],
      rt_anchored = False, rt_methodAction = [(''GET'', ''ManagePolicies''), (''POST'', ''ManagePolicies''),
        (''PUT'', ''ManagePolicies''), (''DELETE'', ''ManagePolicies'')], rt_hasResource = False\<rparr>]"

fun map_routes :: "routeEntry list \<Rightarrow> string \<Rightarrow> string \<Rightarrow> CedarMapping option" where
  "map_routes [] method path = None"
| "map_routes (route # rs) method path = (case pat_match (rt_pattern route) (rt_anchored route) path of
      None \<Rightarrow> map_routes rs method path
    | Some matches \<Rightarrow> (case get_field method (rt_methodAction route) of
          None \<Rightarrow> map_routes rs method path
        | Some action \<Rightarrow> Some (
            if rt_hasResource route
            then \<lparr>cdm_Action = action, cdm_ResourceType = ResourceTypeManagedHostedCluster,
                   cdm_ResourceID = matches ! 1, cdm_ProjectID = matches ! 0\<rparr>
            else \<lparr>cdm_Action = action, cdm_ResourceType = ''Project'',
                   cdm_ResourceID = matches ! 0, cdm_ProjectID = matches ! 0\<rparr>)))"

text \<open>\<open>MapRequest\<close> on the method and the unescaped path of a request.\<close>

definition MapRequest :: "string \<Rightarrow> string \<Rightarrow> CedarMapping option" where
  "MapRequest method path = map_routes routes method path"

text \<open>What a pattern matches.\<close>

fun pat_text :: "pat list \<Rightarrow> string list \<Rightarrow> string" where
  "pat_text [] ms = []"
| "pat_text (Lit l # ps) ms = l @ pat_text ps ms"
| "pat_text (Seg # ps) ms = hd ms @ pat_text ps (tl ms)"

definition seg_ok :: "string \<Rightarrow> bool" where
  "seg_ok m \<longleftrightarrow> m \<noteq> [] \<and> CHR ''/'' \<notin> set m"

fun pat_ok :: "pat list \<Rightarrow> bool" where
  "pat_ok [] = True"
| "pat_ok (Lit l # ps) = pat_ok ps"
| "pat_ok (Seg # ps) = (pat_ok ps \<and> (case ps of [] \<Rightarrow> True | Lit (c # l) # _ \<Rightarrow> c = CHR ''/'' | _ \<Rightarrow> False))"

lemma takeWhile_seg: "seg_ok m \<Longrightarrow> (r = [] \<or> hd r = CHR ''/'') \<Longrightarrow>
    takeWhile (\<lambda>c. c \<noteq> CHR ''/'') (m @ r) = m \<and> dropWhile (\<lambda>c. c \<noteq> CHR ''/'') (m @ r) = r"
  by (cases r) (auto simp: seg_ok_def takeWhile_append2 dropWhile_append2 takeWhile_append dropWhile_append)

lemma pat_text_head: "pat_ok (Seg # ps) \<Longrightarrow> (anchored \<longrightarrow> r = []) \<Longrightarrow> ps = [] \<longrightarrow> anchored \<Longrightarrow>
    pat_text ps ms @ r = [] \<or> hd (pat_text ps ms @ r) = CHR ''/''"
  by (cases ps) (auto split: pat.splits list.splits)

text \<open>A pattern whose last group is anchored matches exactly the texts it describes.\<close>

fun groups :: "pat list \<Rightarrow> nat" where
  "groups [] = 0"
| "groups (Lit l # ps) = groups ps"
| "groups (Seg # ps) = Suc (groups ps)"

lemma pat_match_text:
  "pat_match ps anchored s = Some ms \<Longrightarrow>
    \<exists>r. s = pat_text ps ms @ r \<and> (anchored \<longrightarrow> r = []) \<and> length ms = groups ps \<and> list_all seg_ok ms"
proof (induction ps anchored s arbitrary: ms rule: pat_match.induct)
  case (2 l ps anchored s)
  then obtain r where "s = l @ r" "pat_match ps anchored r = Some ms"
    by (auto simp: has_prefix_iff split: if_splits)
  with 2 show ?case by (fastforce simp: has_prefix_iff)
next
  case (3 ps anchored s)
  let ?m = "takeWhile (\<lambda>c. c \<noteq> CHR ''/'') s" and ?r = "dropWhile (\<lambda>c. c \<noteq> CHR ''/'') s"
  from 3 obtain ms' where ms: "?m \<noteq> []" "ms = ?m # ms'" "pat_match ps anchored ?r = Some ms'"
    by (auto simp: Let_def split: if_splits)
  with 3 obtain r where r: "?r = pat_text ps ms' @ r" "anchored \<longrightarrow> r = []" "length ms' = groups ps" "list_all seg_ok ms'"
    by metis
  have "CHR ''/'' \<notin> set ?m" by (auto dest: set_takeWhileD)
  with ms(1) have "seg_ok ?m" by (simp add: seg_ok_def)
  have "pat_text (Seg # ps) ms @ r = ?m @ pat_text ps ms' @ r" unfolding ms(2) by simp
  also have "\<dots> = s" using r(1) by (metis takeWhile_dropWhile_id)
  finally have s: "s = pat_text (Seg # ps) ms @ r" by (rule sym)
  have "length ms = groups (Seg # ps) \<and> list_all seg_ok ms"
    unfolding ms(2) using r(3,4) \<open>seg_ok ?m\<close> by simp
  with s r(2) show ?case by blast
qed (auto split: if_splits)

lemma text_pat_match:
  "pat_ok ps \<Longrightarrow> length ms = groups ps \<Longrightarrow> list_all seg_ok ms \<Longrightarrow> (anchored \<longrightarrow> r = []) \<Longrightarrow>
     (ps \<noteq> [] \<and> last ps = Seg \<longrightarrow> anchored) \<Longrightarrow> pat_match ps anchored (pat_text ps ms @ r) = Some ms"
proof (induction ps ms rule: pat_text.induct)
  case (3 ps ms)
  then obtain m ms' where ms: "ms = m # ms'" "seg_ok m" "list_all seg_ok ms'" "length ms' = groups ps"
    by (cases ms) auto
  have "ps = [] \<longrightarrow> anchored" using 3 by auto
  then have "pat_text ps ms' @ r = [] \<or> hd (pat_text ps ms' @ r) = CHR ''/''"
    by (rule pat_text_head[OF 3(2) 3(5)])
  from takeWhile_seg[OF ms(2) this] have tw:
    "takeWhile (\<lambda>c. c \<noteq> CHR ''/'') (m @ pat_text ps ms' @ r) = m"
    "dropWhile (\<lambda>c. c \<noteq> CHR ''/'') (m @ pat_text ps ms' @ r) = pat_text ps ms' @ r" by blast+
  have "m \<noteq> []" using ms(2) by (simp add: seg_ok_def)
  moreover have "pat_match ps anchored (pat_text ps ms' @ r) = Some ms'"
    using 3 ms by (auto split: if_splits)
  ultimately show ?case using ms(1) tw by simp
qed auto

lemma pat_match_seg:
  assumes "seg_ok m"
  shows "pat_match (Seg # ps) anchored m = map_option (Cons m) (pat_match ps anchored [])"
    and "pat_match (Seg # ps) anchored (m @ CHR ''/'' # r) =
      map_option (Cons m) (pat_match ps anchored (CHR ''/'' # r))"
proof -
  have m: "(m = []) = False" using assms by (simp add: seg_ok_def)
  note tw = takeWhile_seg[OF assms, of "[]", unfolded append_Nil2, OF disjI1[OF refl]]
    takeWhile_seg[OF assms, of "CHR ''/'' # r", OF disjI2[OF list.sel(1)]]
  show "pat_match (Seg # ps) anchored m = map_option (Cons m) (pat_match ps anchored [])"
    "pat_match (Seg # ps) anchored (m @ CHR ''/'' # r) =
      map_option (Cons m) (pat_match ps anchored (CHR ''/'' # r))"
    by (simp_all only: pat_match.simps(3) Let_def tw m if_False)
qed

declare pat_match.simps(3) [simp del]

section \<open>What is mapped\<close>

definition collection_path :: "string \<Rightarrow> string" where
  "collection_path ns = ''/v1alpha1/namespaces/'' @ ns @ ''/managedhostedclusters''"

definition cluster_path :: "string \<Rightarrow> string \<Rightarrow> string" where
  "cluster_path ns name = collection_path ns @ ''/'' @ name"

definition authz_path :: "string \<Rightarrow> string \<Rightarrow> string" where
  "authz_path ns rest = ''/authz/namespaces/'' @ ns @ ''/'' @ rest"

lemmas path_defs = collection_path_def cluster_path_def authz_path_def

lemma MapRequest_collection: "seg_ok ns \<Longrightarrow> MapRequest method (collection_path ns) =
    map_option (\<lambda>a. \<lparr>cdm_Action = a, cdm_ResourceType = ''Project'', cdm_ResourceID = ns, cdm_ProjectID = ns\<rparr>)
      (get_field method [(''GET'', ''ListManagedHostedClusters''), (''POST'', ''CreateManagedHostedCluster'')])"
  by (simp add: MapRequest_def routes_def path_defs pat_match_seg)

lemma MapRequest_cluster: "seg_ok ns \<Longrightarrow> seg_ok name \<Longrightarrow> MapRequest method (cluster_path ns name) =
    map_option (\<lambda>a. \<lparr>cdm_Action = a, cdm_ResourceType = ''ManagedHostedCluster'', cdm_ResourceID = name,
        cdm_ProjectID = ns\<rparr>)
      (get_field method [(''GET'', ''GetManagedHostedCluster''), (''PUT'', ''UpdateManagedHostedCluster''),
         (''DELETE'', ''DeleteManagedHostedCluster'')])"
  by (simp add: MapRequest_def routes_def path_defs pat_match_seg ResourceTypeManagedHostedCluster_def)

lemma MapRequest_kubeconfig: "seg_ok ns \<Longrightarrow> seg_ok name \<Longrightarrow>
    MapRequest method (cluster_path ns name @ ''/kubeconfig'') =
    (if method = ''GET'' then Some \<lparr>cdm_Action = ''GetKubeConfig'', cdm_ResourceType = ''ManagedHostedCluster'',
       cdm_ResourceID = name, cdm_ProjectID = ns\<rparr> else None)"
  by (simp add: MapRequest_def routes_def path_defs pat_match_seg ResourceTypeManagedHostedCluster_def)

lemma MapRequest_authz: "seg_ok ns \<Longrightarrow> MapRequest method (authz_path ns rest) =
    (if method \<in> {''GET'', ''POST'', ''PUT'', ''DELETE''}
     then Some \<lparr>cdm_Action = ''ManagePolicies'', cdm_ResourceType = ''Project'', cdm_ResourceID = ns,
       cdm_ProjectID = ns\<rparr> else None)"
  by (simp add: MapRequest_def routes_def path_defs pat_match_seg)

lemma length_two: "length xs = Suc (Suc 0) \<longleftrightarrow> (\<exists>a b. xs = [a, b])"
  by (auto simp: length_Suc_conv)

lemma length_one: "length xs = Suc 0 \<longleftrightarrow> (\<exists>a. xs = [a])"
  by (auto simp: length_Suc_conv)

lemma route_texts:
  "pat_match [Lit ''/v1alpha1/namespaces/'', Seg, Lit ''/managedhostedclusters/'', Seg, Lit ''/kubeconfig''] True p =
     Some ms \<Longrightarrow> \<exists>ns name. p = cluster_path ns name @ ''/kubeconfig'' \<and> seg_ok ns \<and> seg_ok name"
  "pat_match [Lit ''/v1alpha1/namespaces/'', Seg, Lit ''/managedhostedclusters/'', Seg] True p =
     Some ms \<Longrightarrow> \<exists>ns name. p = cluster_path ns name \<and> seg_ok ns \<and> seg_ok name"
  "pat_match [Lit ''/v1alpha1/namespaces/'', Seg, Lit ''/managedhostedclusters''] True p =
     Some ms \<Longrightarrow> \<exists>ns. p = collection_path ns \<and> seg_ok ns"
  "pat_match [Lit ''/authz/namespaces/'', Seg, Lit ''/''] False p =
     Some ms \<Longrightarrow> \<exists>ns rest. p = authz_path ns rest \<and> seg_ok ns"
  by (drule pat_match_text; clarsimp simp: length_one length_two path_defs; blast?)+

text \<open>A request is mapped only if its path is one of the four kinds.\<close>

lemma MapRequest_Some_path:
  assumes "MapRequest method p = Some m"
  obtains (kubeconfig) ns name where "p = cluster_path ns name @ ''/kubeconfig''" "seg_ok ns" "seg_ok name"
  | (cluster) ns name where "p = cluster_path ns name" "seg_ok ns" "seg_ok name"
  | (collection) ns where "p = collection_path ns" "seg_ok ns"
  | (authz) ns rest where "p = authz_path ns rest" "seg_ok ns"
  using assms unfolding MapRequest_def routes_def
  by (simp del: pat_match.simps split: option.splits) (blast dest: route_texts)+

definition on_cluster :: "string \<Rightarrow> string \<Rightarrow> string \<Rightarrow> CedarMapping" where
  "on_cluster action ns name = \<lparr>cdm_Action = action, cdm_ResourceType = ''ManagedHostedCluster'',
     cdm_ResourceID = name, cdm_ProjectID = ns\<rparr>"

definition on_project :: "string \<Rightarrow> string \<Rightarrow> CedarMapping" where
  "on_project action ns = \<lparr>cdm_Action = action, cdm_ResourceType = ''Project'', cdm_ResourceID = ns,
     cdm_ProjectID = ns\<rparr>"

text \<open>The relation between requests and what they must be authorized for.\<close>

inductive mapped :: "string \<Rightarrow> string \<Rightarrow> CedarMapping \<Rightarrow> bool" where
  list: "seg_ok ns \<Longrightarrow> mapped ''GET'' (collection_path ns) (on_project ''ListManagedHostedClusters'' ns)"
| create: "seg_ok ns \<Longrightarrow> mapped ''POST'' (collection_path ns) (on_project ''CreateManagedHostedCluster'' ns)"
| get: "seg_ok ns \<Longrightarrow> seg_ok name \<Longrightarrow>
    mapped ''GET'' (cluster_path ns name) (on_cluster ''GetManagedHostedCluster'' ns name)"
| update: "seg_ok ns \<Longrightarrow> seg_ok name \<Longrightarrow>
    mapped ''PUT'' (cluster_path ns name) (on_cluster ''UpdateManagedHostedCluster'' ns name)"
| delete: "seg_ok ns \<Longrightarrow> seg_ok name \<Longrightarrow>
    mapped ''DELETE'' (cluster_path ns name) (on_cluster ''DeleteManagedHostedCluster'' ns name)"
| kubeconfig: "seg_ok ns \<Longrightarrow> seg_ok name \<Longrightarrow>
    mapped ''GET'' (cluster_path ns name @ ''/kubeconfig'') (on_cluster ''GetKubeConfig'' ns name)"
| policies: "seg_ok ns \<Longrightarrow> method \<in> {''GET'', ''POST'', ''PUT'', ''DELETE''} \<Longrightarrow>
    mapped method (authz_path ns rest) (on_project ''ManagePolicies'' ns)"

lemmas MapRequest_paths = MapRequest_collection MapRequest_cluster MapRequest_kubeconfig MapRequest_authz

text \<open>C9: MapRequest is the relation that the paths and methods of the API describe: a request is
  mapped to an action and a resource exactly when the relation gives them, and to nothing otherwise.
  In particular no request is mapped in two ways, whatever the order of the routes.\<close>

theorem MapRequest_iff: "MapRequest method p = Some m \<longleftrightarrow> mapped method p m"
proof
  assume "mapped method p m"
  then show "MapRequest method p = Some m"
    by cases (auto simp: MapRequest_paths on_cluster_def on_project_def)
next
  assume some: "MapRequest method p = Some m"
  then show "mapped method p m"
  proof (cases rule: MapRequest_Some_path)
    case (kubeconfig ns name)
    with some show ?thesis
      by (auto simp: MapRequest_paths on_cluster_def[symmetric] split: if_splits intro: mapped.intros)
  next
    case (cluster ns name)
    with some show ?thesis
      by (auto simp: MapRequest_paths on_cluster_def[symmetric] split: if_splits intro: mapped.intros)
  next
    case (collection ns)
    with some show ?thesis
      by (auto simp: MapRequest_paths on_project_def[symmetric] split: if_splits intro: mapped.intros)
  next
    case (authz ns rest)
    with some show ?thesis
      by (auto simp: MapRequest_paths on_project_def[symmetric] split: if_splits intro: mapped.intros)
  qed
qed

end
