(* ===== verification/CedarStore.thy ===== *)
theory CedarStore
  imports CedarMapper Desires
begin

text \<open>
  \<open>internal/cedar/store.go\<close>: the role templates, which are embedded files, and the collections
  of the Cedar database \<open>b\<close>: \<open>attachments\<close> (per project, a JSON list in one string field),
  \<open>custom-roles\<close>, \<open>global-policies\<close> and \<open>user-projects\<close> (the reverse index from users to
  projects). The store makes the policy text that the authorization engine evaluates.

  A Go map of templates is an association list; where the code walks through a map, the order is
  that of \<open>map_order\<close>. \<open>sort.Slice\<close> by a key is the stable sort; Go leaves the order of equal
  keys open for more than twelve elements. A nil and an empty slice are not distinguished.
\<close>

section \<open>Data\<close>

definition attachmentsKey :: string where "attachmentsKey = ''attachments.json''"
definition globalPoliciesKey :: string where "globalPoliciesKey = ''policies.cedar''"
definition collectionAttachments :: string where "collectionAttachments = ''attachments''"
definition collectionGlobalPolicies :: string where "collectionGlobalPolicies = ''global-policies''"
definition collectionCustomRoles :: string where "collectionCustomRoles = ''custom-roles''"
definition collectionUserProjects :: string where "collectionUserProjects = ''user-projects''"
definition globalPoliciesDocID :: string where "globalPoliciesDocID = ''default''"

lemmas cedar_names = attachmentsKey_def globalPoliciesKey_def collectionAttachments_def
  collectionGlobalPolicies_def collectionCustomRoles_def collectionUserProjects_def globalPoliciesDocID_def

record Template =
  tp_Name :: string
  tp_PolicyText :: string

record Attachment =
  at_ID :: string
  at_TemplateName :: string
  at_Principal :: string
  at_CreatedAt :: string

record customRoleDoc =
  cr_Permissions :: "string list"
  cr_Description :: string
  cr_Conditions :: "string list"

record Store =
  st_fsClient :: string
  st_templates :: "(string \<times> Template) list"

record Role =
  ro_Name :: string
  ro_Permissions :: "string list"
  ro_Description :: string
  ro_Predefined :: bool

text \<open>\<open>DataTo\<close> for the two document schemas of the store.\<close>

fun fs_strs :: "fval option \<Rightarrow> string list option" where
  "fs_strs None = Some []"
| "fs_strs (Some FNull) = Some []"
| "fs_strs (Some (FList vs)) = map_opt (\<lambda>v. fs_str (Some v)) vs"
| "fs_strs _ = None"

definition dec_customRole :: "doc \<Rightarrow> customRoleDoc option" where
  "dec_customRole d = do {
     ps \<leftarrow> fs_strs (d ''permissions'');
     desc \<leftarrow> fs_str (d ''description'');
     cs \<leftarrow> fs_strs (d ''conditions'');
     Some \<lparr>cr_Permissions = ps, cr_Description = desc, cr_Conditions = cs\<rparr> }"

definition enc_userProjects :: "string list \<Rightarrow> doc" where
  "enc_userProjects ps = [''projects'' \<mapsto> FList (map FStr ps)]"

definition dec_userProjects :: "doc \<Rightarrow> string list option" where
  "dec_userProjects d = fs_strs (d ''projects'')"

definition data_error :: gerr where
  "data_error = errorf ''firestore: cannot set type''"

text \<open>The JSON of an attachment.\<close>

definition zero_Attachment :: Attachment where
  "zero_Attachment = \<lparr>at_ID = [], at_TemplateName = [], at_Principal = [], at_CreatedAt = []\<rparr>"

definition dec_Attachment :: "Attachment json_decoder" where
  "dec_Attachment = dec_struct [jfield ''id'' at_ID at_ID_update dec_str,
     jfield ''template_name'' at_TemplateName at_TemplateName_update dec_str,
     jfield ''principal'' at_Principal at_Principal_update dec_str,
     jfield ''created_at'' at_CreatedAt at_CreatedAt_update dec_str]"

definition enc_Attachment :: "Attachment \<Rightarrow> json" where
  "enc_Attachment a = JObj [(''id'', JStr (at_ID a)), (''template_name'', JStr (at_TemplateName a)),
     (''principal'', JStr (at_Principal a)), (''created_at'', JStr (at_CreatedAt a))]"

section \<open>Templates\<close>

text \<open>The files below \<open>internal/cedar/templates\<close>, by name and content.\<close>

definition cluster_admin_cedar :: string where
  "cluster_admin_cedar = join [newline]
    [''permit ('',
     ''    principal == ?principal,'',
     ''    action in ['',
     ''        HCP::Action::'' @ dquote # ''CreateManagedHostedCluster'' @ dquote # '','',
     ''        HCP::Action::'' @ dquote # ''ListManagedHostedClusters'' @ dquote # '','',
     ''        HCP::Action::'' @ dquote # ''GetManagedHostedCluster'' @ dquote # '','',
     ''        HCP::Action::'' @ dquote # ''UpdateManagedHostedCluster'' @ dquote # '','',
     ''        HCP::Action::'' @ dquote # ''DeleteManagedHostedCluster'' @ dquote # '','',
     ''        HCP::Action::'' @ dquote # ''GetKubeConfig'' @ dquote # '''',
     ''    ],'',
     ''    resource in ?resource'',
     '');'',
     '''']"

definition cluster_viewer_cedar :: string where
  "cluster_viewer_cedar = join [newline]
    [''permit ('',
     ''    principal == ?principal,'',
     ''    action in ['',
     ''        HCP::Action::'' @ dquote # ''ListManagedHostedClusters'' @ dquote # '','',
     ''        HCP::Action::'' @ dquote # ''GetManagedHostedCluster'' @ dquote # '''',
     ''    ],'',
     ''    resource in ?resource'',
     '');'',
     '''']"

definition developer_cedar :: string where
  "developer_cedar = join [newline]
    [''permit ('',
     ''    principal == ?principal,'',
     ''    action in ['',
     ''        HCP::Action::'' @ dquote # ''ListManagedHostedClusters'' @ dquote # '','',
     ''        HCP::Action::'' @ dquote # ''GetManagedHostedCluster'' @ dquote # '','',
     ''        HCP::Action::'' @ dquote # ''GetKubeConfig'' @ dquote # '''',
     ''    ],'',
     ''    resource in ?resource'',
     '');'',
     '''']"

definition service_admin_cedar :: string where
  "service_admin_cedar = join [newline]
    [''permit ('',
     ''    principal == ?principal,'',
     ''    action,'',
     ''    resource in ?resource'',
     '');'',
     '''']"

definition templatesFS :: "(string \<times> string) list" where
  "templatesFS =
    [(''cluster-admin.cedar'', cluster_admin_cedar),
     (''cluster-viewer.cedar'', cluster_viewer_cedar),
     (''developer.cedar'', developer_cedar),
     (''service-admin.cedar'', service_admin_cedar)]"

text \<open>The directory holds plain files only, and reading an embedded file does not fail.\<close>

fun loadTemplates :: "(string \<times> string) list \<Rightarrow> (string \<times> Template) list" where
  "loadTemplates [] = []"
| "loadTemplates ((fname, data) # entries) =
     (let name = trim_suffix fname ''.cedar''
      in (name, \<lparr>tp_Name = name, tp_PolicyText = data\<rparr>) # loadTemplates entries)"

definition NewStore :: "string \<Rightarrow> Store" where
  "NewStore fsClient = \<lparr>st_fsClient = fsClient, st_templates = loadTemplates templatesFS\<rparr>"

definition ListTemplates :: "'w env \<Rightarrow> Store \<Rightarrow> Template list" where
  "ListTemplates env s = sort_key tp_Name (concat (map (\<lambda>k. case get_field k (st_templates s) of
      None \<Rightarrow> [] | Some t \<Rightarrow> [t]) (map_order env (map fst (st_templates s)))))"

definition GetTemplate :: "Store \<Rightarrow> string \<Rightarrow> Template option" where
  "GetTemplate s name = get_field name (st_templates s)"

definition customRoleDocID :: "string \<Rightarrow> string \<Rightarrow> string" where
  "customRoleDocID projectID roleName = projectID @ '':'' @ roleName"

section \<open>Attachments\<close>

definition attachments_ref :: "Store \<Rightarrow> string \<Rightarrow> docref" where
  "attachments_ref s projectID = doc_ref (st_fsClient s) collectionAttachments projectID"

definition role_ref :: "Store \<Rightarrow> string \<Rightarrow> string \<Rightarrow> docref" where
  "role_ref s projectID roleName =
     doc_ref (st_fsClient s) collectionCustomRoles (customRoleDocID projectID roleName)"

definition user_ref :: "Store \<Rightarrow> string \<Rightarrow> docref" where
  "user_ref s userID = doc_ref (st_fsClient s) collectionUserProjects userID"

definition getAttachments :: "'w env \<Rightarrow> Store \<Rightarrow> string \<Rightarrow> 'w \<Rightarrow> ('w, Attachment list) ret" where
  "getAttachments env s projectID w = (case fs_get env (attachments_ref s projectID) w of
      (Inl e, w1) \<Rightarrow> if err_code e = NotFound then (Inr [], w1) else (Inl e, w1)
    | (Inr snap, w1) \<Rightarrow>
        (case snap_data snap attachmentsKey of
           Some (FStr jsonStr) \<Rightarrow>
             if jsonStr = [] then (Inr [], w1)
             else (case (case json_parse jsonStr of
                   None \<Rightarrow> None
                 | Some j \<Rightarrow> dec_list zero_Attachment dec_Attachment j []) of
                 None \<Rightarrow> (Inl (wrap_err ''decoding attachments: '' json_error), w1)
               | Some attachments \<Rightarrow> (Inr attachments, w1))
         | _ \<Rightarrow> (Inr [], w1)))"

definition ListAttachments :: "'w env \<Rightarrow> Store \<Rightarrow> string \<Rightarrow> 'w \<Rightarrow> ('w, Attachment list) ret" where
  "ListAttachments env s projectID w = getAttachments env s projectID w"

definition attachments_json :: "Attachment list \<Rightarrow> string" where
  "attachments_json attachments = json_print (JArr (map enc_Attachment attachments))"

definition saveAttachments :: "'w env \<Rightarrow> Store \<Rightarrow> string \<Rightarrow> Attachment list \<Rightarrow> 'w \<Rightarrow> ('w, unit) ret" where
  "saveAttachments env s projectID attachments w =
     (case fs_write env (SetDoc (attachments_ref s projectID)
          [attachmentsKey \<mapsto> FStr (attachments_json attachments)]) w of
        (Inl e, w1) \<Rightarrow> (Inl e, w1)
      | (Inr _, w1) \<Rightarrow> (Inr (), w1))"

definition validateCustomRole :: "'w env \<Rightarrow> Store \<Rightarrow> string \<Rightarrow> string \<Rightarrow> 'w \<Rightarrow> gerr option \<times> 'w" where
  "validateCustomRole env s projectID roleName w = (case fs_get env (role_ref s projectID roleName) w of
      (Inl e, w1) \<Rightarrow>
        (Some (if err_code e = NotFound then errorf (''template '' @ go_quote roleName @ '' not found'')
               else wrap_err (''looking up custom role '' @ go_quote roleName @ '': '') e), w1)
    | (Inr snap, w1) \<Rightarrow>
        (case dec_customRole (snap_data snap) of
           None \<Rightarrow> (Some (wrap_err (''deserializing custom role '' @ go_quote roleName @ '': '') data_error), w1)
         | Some role \<Rightarrow> (ValidatePermissions (cr_Permissions role), w1)))"

text \<open>The transactions on the reverse index.\<close>

definition addUserProject_body :: "'w env \<Rightarrow> docref \<Rightarrow> string \<Rightarrow> 'w \<Rightarrow> ('w, string) ret" where
  "addUserProject_body env ref projectID w =
     (let tx_set = \<lambda>ps w. case tx_write env (SetDoc ref (enc_userProjects ps)) w of
          (Inl e, w1) \<Rightarrow> (Inl e, w1)
        | (Inr _, w1) \<Rightarrow> (Inr [], w1)
      in case tx_get env ref w of
        (Inl e, w1) \<Rightarrow> if err_code e = NotFound then tx_set [projectID] w1 else (Inl e, w1)
      | (Inr snap, w1) \<Rightarrow>
          (case dec_userProjects (snap_data snap) of
             None \<Rightarrow> (Inl data_error, w1)
           | Some projects \<Rightarrow>
               if projectID \<in> set projects then (Inr [], w1) else tx_set (projects @ [projectID]) w1))"

definition addUserProject :: "'w env \<Rightarrow> Store \<Rightarrow> string \<Rightarrow> string \<Rightarrow> 'w \<Rightarrow> ('w, unit) ret" where
  "addUserProject env s userID projectID w =
     (case fs_run_tx env (addUserProject_body env (user_ref s userID) projectID) w of
        (Inl e, w1) \<Rightarrow> (Inl e, w1)
      | (Inr _, w1) \<Rightarrow> (Inr (), w1))"

definition removeUserProject_body :: "'w env \<Rightarrow> docref \<Rightarrow> string \<Rightarrow> 'w \<Rightarrow> ('w, string) ret" where
  "removeUserProject_body env ref projectID w =
     (let tx_do = \<lambda>op w. case tx_write env op w of
          (Inl e, w1) \<Rightarrow> (Inl e, w1)
        | (Inr _, w1) \<Rightarrow> (Inr [], w1)
      in case tx_get env ref w of
        (Inl e, w1) \<Rightarrow> if err_code e = NotFound then (Inr [], w1) else (Inl e, w1)
      | (Inr snap, w1) \<Rightarrow>
          (case dec_userProjects (snap_data snap) of
             None \<Rightarrow> (Inl data_error, w1)
           | Some projects \<Rightarrow>
               (let filtered = filter (\<lambda>p. p \<noteq> projectID) projects
                in if filtered = [] then tx_do (DeleteDoc ref) w1
                   else tx_do (SetDoc ref (enc_userProjects filtered)) w1)))"

definition removeUserProject :: "'w env \<Rightarrow> Store \<Rightarrow> string \<Rightarrow> string \<Rightarrow> 'w \<Rightarrow> ('w, unit) ret" where
  "removeUserProject env s userID projectID w =
     (case fs_run_tx env (removeUserProject_body env (user_ref s userID) projectID) w of
        (Inl e, w1) \<Rightarrow> (Inl e, w1)
      | (Inr _, w1) \<Rightarrow> (Inr (), w1))"

definition ListUserProjects :: "'w env \<Rightarrow> Store \<Rightarrow> string \<Rightarrow> 'w \<Rightarrow> ('w, string list) ret" where
  "ListUserProjects env s userID w = (case fs_get env (user_ref s userID) w of
      (Inl e, w1) \<Rightarrow> if err_code e = NotFound then (Inr [], w1)
        else (Inl (wrap_err (''get user-projects for '' @ userID @ '': '') e), w1)
    | (Inr snap, w1) \<Rightarrow>
        (case dec_userProjects (snap_data snap) of
           None \<Rightarrow> (Inl (wrap_err (''deserialize user-projects for '' @ userID @ '': '') data_error), w1)
         | Some projects \<Rightarrow> (Inr projects, w1)))"

definition CreateAttachment :: "'w env \<Rightarrow> Store \<Rightarrow> string \<Rightarrow> string \<Rightarrow> string \<Rightarrow> 'w \<Rightarrow>
    ('w, Attachment) ret" where
  "CreateAttachment env s projectID templateName userID w =
     (case (if get_field templateName (st_templates s) \<noteq> None then (None, w)
            else validateCustomRole env s projectID templateName w) of
        (Some e, w1) \<Rightarrow> (Inl e, w1)
      | (None, w1) \<Rightarrow>
          (case getAttachments env s projectID w1 of
             (Inl e, w2) \<Rightarrow> (Inl e, w2)
           | (Inr attachments, w2) \<Rightarrow>
               (let (u, w3) = uuid_new env w2;
                    (now, w4) = now_rfc3339 env w3;
                    att = \<lparr>at_ID = take 8 u, at_TemplateName = templateName, at_Principal = userID,
                      at_CreatedAt = now\<rparr>
                in case saveAttachments env s projectID (attachments @ [att]) w4 of
                  (Inl e, w5) \<Rightarrow> (Inl e, w5)
                | (Inr _, w5) \<Rightarrow>
                    (case addUserProject env s userID projectID w5 of
                       (Inl e, w6) \<Rightarrow> (Inl (wrap_err ''updating user-projects index: '' e), w6)
                     | (Inr _, w6) \<Rightarrow> (Inr att, w6)))))"

text \<open>The first loop of \<open>DeleteAttachment\<close>: found, the principal of the last match, the others.\<close>

fun delete_scan :: "string \<Rightarrow> Attachment list \<Rightarrow> bool \<Rightarrow> string \<Rightarrow> bool \<times> string \<times> Attachment list" where
  "delete_scan attachmentID [] found user = (found, user, [])"
| "delete_scan attachmentID (a # as) found user =
     (if at_ID a = attachmentID then delete_scan attachmentID as True (at_Principal a)
      else (case delete_scan attachmentID as found user of
          (f, u, filtered) \<Rightarrow> (f, u, a # filtered)))"

definition DeleteAttachment :: "'w env \<Rightarrow> Store \<Rightarrow> string \<Rightarrow> string \<Rightarrow> 'w \<Rightarrow> ('w, unit) ret" where
  "DeleteAttachment env s projectID attachmentID w = (case getAttachments env s projectID w of
      (Inl e, w1) \<Rightarrow> (Inl e, w1)
    | (Inr attachments, w1) \<Rightarrow>
        (case delete_scan attachmentID attachments False [] of
           (found, deletedUserID, filtered) \<Rightarrow>
             if \<not> found then (Inl (errorf (''attachment '' @ go_quote attachmentID @ '' not found'')), w1)
             else (case saveAttachments env s projectID filtered w1 of
                 (Inl e, w2) \<Rightarrow> (Inl e, w2)
               | (Inr _, w2) \<Rightarrow>
                   (let hasRemaining = list_ex (\<lambda>a. at_Principal a = deletedUserID) filtered
                    in if \<not> hasRemaining \<and> deletedUserID \<noteq> []
                       then (case removeUserProject env s deletedUserID projectID w2 of
                           (Inl e, w3) \<Rightarrow> (Inl (wrap_err ''updating user-projects index: '' e), w3)
                         | (Inr _, w3) \<Rightarrow> (Inr (), w3))
                       else (Inr (), w2)))))"

end
