(* ===== verification/CedarPolicy.thy ===== *)
theory CedarPolicy
  imports CedarStore
begin

text \<open>
  The policies and roles of \<open>internal/cedar/store.go\<close>: the Cedar policy text of a project, made
  from the global policies and the attachments, and the listing of predefined and custom roles.
\<close>

section \<open>Policy text\<close>

definition user_entity :: "string \<Rightarrow> string" where
  "user_entity user = ''HCP::User::'' @ dquote # user @ [dquote]"

definition project_entity :: "string \<Rightarrow> string" where
  "project_entity projectID = ''HCP::Project::'' @ dquote # projectID @ [dquote]"

definition action_entity :: "string \<Rightarrow> string" where
  "action_entity action = ''HCP::Action::'' @ dquote # action @ [dquote]"

definition writePermitBlock :: "string list \<Rightarrow> string list \<Rightarrow> string \<Rightarrow> string \<Rightarrow> string" where
  "writePermitBlock actions conditions user projectID =
     join [newline]
       [''permit ('',
        ''    principal == '' @ user_entity user @ '','',
        ''    action in ['' @ join '', '' (map action_entity actions) @ ''],'',
        ''    resource in '' @ project_entity projectID,
        '')''] @
     concat (map (\<lambda>cond. newline # ''when { '' @ cond @ '' }'') conditions) @
     '';'' @ [newline]"

definition GeneratePolicyFromPermissions ::
    "string list \<Rightarrow> string list \<Rightarrow> string \<Rightarrow> string \<Rightarrow> string" where
  "GeneratePolicyFromPermissions permissions conditions user projectID =
     (let collectionPerms = filter IsCollectionPermission permissions;
          resourcePerms = filter (\<lambda>p. \<not> IsCollectionPermission p) permissions
      in (if collectionPerms \<noteq> []
          then writePermitBlock (MapPermissionsToActions collectionPerms) [] user projectID else []) @
         (if resourcePerms \<noteq> []
          then writePermitBlock (MapPermissionsToActions resourcePerms) conditions user projectID
          else []))"

definition instantiate :: "string \<Rightarrow> string \<Rightarrow> string \<Rightarrow> string" where
  "instantiate policyText user projectID =
     replace_all (replace_all policyText ''?principal'' (user_entity user))
       ''?resource'' (project_entity projectID)"

definition resolveAttachmentPolicy :: "'w env \<Rightarrow> Store \<Rightarrow> Attachment \<Rightarrow> string \<Rightarrow> 'w \<Rightarrow>
    ('w, string) ret" where
  "resolveAttachmentPolicy env s att projectID w =
     (case get_field (at_TemplateName att) (st_templates s) of
        Some tmpl \<Rightarrow> (Inr (instantiate (tp_PolicyText tmpl) (at_Principal att) projectID), w)
      | None \<Rightarrow>
          (case fs_get env (role_ref s projectID (at_TemplateName att)) w of
             (Inl e, w1) \<Rightarrow>
               (Inl (wrap_err (''custom role '' @ go_quote (at_TemplateName att) @ '' not found: '') e), w1)
           | (Inr snap, w1) \<Rightarrow>
               (case dec_customRole (snap_data snap) of
                  None \<Rightarrow> (Inl (wrap_err (''deserializing custom role '' @
                      go_quote (at_TemplateName att) @ '': '') data_error), w1)
                | Some role \<Rightarrow> (Inr (GeneratePolicyFromPermissions (cr_Permissions role)
                      (cr_Conditions role) (at_Principal att) projectID), w1))))"

definition loadGlobalPolicies :: "'w env \<Rightarrow> Store \<Rightarrow> 'w \<Rightarrow> string \<times> 'w" where
  "loadGlobalPolicies env s w =
     (case fs_get env (doc_ref (st_fsClient s) collectionGlobalPolicies globalPoliciesDocID) w of
        (Inl e, w1) \<Rightarrow> ([], w1)
      | (Inr snap, w1) \<Rightarrow> (case snap_data snap globalPoliciesKey of
            Some (FStr policies) \<Rightarrow> (policies, w1)
          | _ \<Rightarrow> ([], w1)))"

text \<open>The loop over the attachments; one that cannot be resolved is left out.\<close>

fun resolve_all :: "'w env \<Rightarrow> Store \<Rightarrow> string \<Rightarrow> Attachment list \<Rightarrow> 'w \<Rightarrow> string \<times> 'w" where
  "resolve_all env s projectID [] w = ([], w)"
| "resolve_all env s projectID (att # atts) w =
     (case resolveAttachmentPolicy env s att projectID w of
        (Inl e, w1) \<Rightarrow> resolve_all env s projectID atts w1
      | (Inr policy, w1) \<Rightarrow>
          apfst (\<lambda>rest. policy @ newline # rest) (resolve_all env s projectID atts w1))"

definition ResolvePolicies :: "'w env \<Rightarrow> Store \<Rightarrow> string \<Rightarrow> 'w \<Rightarrow> ('w, string) ret" where
  "ResolvePolicies env s projectID w = (case loadGlobalPolicies env s w of
      (globalPolicies, w1) \<Rightarrow>
        (let pre = (if globalPolicies = [] then [] else globalPolicies @ [newline])
         in case getAttachments env s projectID w1 of
           (Inl e, w2) \<Rightarrow> (Inl e, w2)
         | (Inr attachments, w2) \<Rightarrow>
             if globalPolicies = [] \<and> attachments = [] then (Inr [], w2)
             else apfst (\<lambda>text. Inr (pre @ text)) (resolve_all env s projectID attachments w2)))"

section \<open>Roles\<close>

definition predefined_descriptions :: "(string \<times> string) list" where
  "predefined_descriptions =
     [(''service-admin'', ''Full access to all operations including policy management''),
      (''cluster-admin'', ''Full cluster CRUD operations and kubeconfig access''),
      (''cluster-viewer'', ''Read-only cluster access (list and get)''),
      (''developer'', ''Read clusters and retrieve kubeconfig'')]"

definition predefinedRoles :: "'w env \<Rightarrow> Role list" where
  "predefinedRoles env = concat (map (\<lambda>name. case get_field name predefined_descriptions of
        None \<Rightarrow> []
      | Some desc \<Rightarrow> [\<lparr>ro_Name = name, ro_Permissions = [], ro_Description = desc, ro_Predefined = True\<rparr>])
      (map_order env (map fst predefined_descriptions)))"

fun custom_roles :: "string \<Rightarrow> snapshot list \<Rightarrow> Role list" where
  "custom_roles pre [] = []"
| "custom_roles pre (snap # snaps) =
     (if \<not> has_prefix (ref_id (snap_ref snap)) pre then custom_roles pre snaps
      else (case dec_customRole (snap_data snap) of
          None \<Rightarrow> custom_roles pre snaps
        | Some role \<Rightarrow> \<lparr>ro_Name = trim_prefix (ref_id (snap_ref snap)) pre,
              ro_Permissions = cr_Permissions role, ro_Description = cr_Description role,
              ro_Predefined = False\<rparr> # custom_roles pre snaps))"

definition ListRoles :: "'w env \<Rightarrow> Store \<Rightarrow> string \<Rightarrow> 'w \<Rightarrow> ('w, Role list) ret" where
  "ListRoles env s projectID w =
     (let roles = predefinedRoles env; pre = projectID @ '':''
      in case fs_query env (st_fsClient s) collectionCustomRoles None w of
        (Inl e, w1) \<Rightarrow> (Inr roles, w1)
      | (Inr snaps, w1) \<Rightarrow> (Inr (sort_key ro_Name (roles @ custom_roles pre snaps)), w1))"

definition GetRole :: "'w env \<Rightarrow> Store \<Rightarrow> string \<Rightarrow> string \<Rightarrow> 'w \<Rightarrow> Role option \<times> 'w" where
  "GetRole env s name projectID w = (case find (\<lambda>r. ro_Name r = name) (predefinedRoles env) of
      Some r \<Rightarrow> (Some r, w)
    | None \<Rightarrow>
        (case fs_get env (role_ref s projectID name) w of
           (Inl e, w1) \<Rightarrow> (None, w1)
         | (Inr snap, w1) \<Rightarrow>
             (case dec_customRole (snap_data snap) of
                None \<Rightarrow> (None, w1)
              | Some role \<Rightarrow> (Some \<lparr>ro_Name = name, ro_Permissions = cr_Permissions role,
                  ro_Description = cr_Description role, ro_Predefined = False\<rparr>, w1))))"

end
