(* ===== verification/CedarFacts.thy ===== *)
theory CedarFacts
  imports CedarPolicy
begin

text \<open>
  What the operations of the Cedar store do to the documents, seen through two views: the
  attachments of a project and the projects of a user. The index of users is \<open>coupled\<close> to the
  attachments when it lists exactly the projects in which a user has an attachment.
\<close>

section \<open>Views\<close>

definition assigned :: "Store \<Rightarrow> database \<Rightarrow> string \<Rightarrow> Attachment list" where
  "assigned s D projectID = (case D (attachments_ref s projectID) of
      None \<Rightarrow> []
    | Some d \<Rightarrow> (case sd_data d attachmentsKey of
        Some (FStr j) \<Rightarrow> (case json_parse j of
            None \<Rightarrow> []
          | Some v \<Rightarrow> (case dec_list zero_Attachment dec_Attachment v [] of None \<Rightarrow> [] | Some xs \<Rightarrow> xs))
      | _ \<Rightarrow> []))"

definition user_projects :: "Store \<Rightarrow> database \<Rightarrow> string \<Rightarrow> string list" where
  "user_projects s D userID = (case D (user_ref s userID) of
      None \<Rightarrow> []
    | Some d \<Rightarrow> (case dec_userProjects (sd_data d) of None \<Rightarrow> [] | Some ps \<Rightarrow> ps))"

text \<open>The index lists every project in which a user has an attachment, and no others.\<close>

definition covers :: "Store \<Rightarrow> database \<Rightarrow> bool" where
  "covers s D \<longleftrightarrow> (\<forall>p. \<forall>a\<in>set (assigned s D p). at_Principal a \<noteq> [] \<and>
     p \<in> set (user_projects s D (at_Principal a)))"

definition sound_index :: "Store \<Rightarrow> database \<Rightarrow> bool" where
  "sound_index s D \<longleftrightarrow> (\<forall>u. \<forall>p\<in>set (user_projects s D u). \<exists>a\<in>set (assigned s D p). at_Principal a = u)"

definition coupled :: "Store \<Rightarrow> database \<Rightarrow> bool" where
  "coupled s D \<longleftrightarrow> covers s D \<and> sound_index s D"

lemma cedar_refs_apart [simp]:
  "attachments_ref s p \<noteq> user_ref s u" "user_ref s u \<noteq> attachments_ref s p"
  "attachments_ref s p = attachments_ref s q \<longleftrightarrow> p = q" "user_ref s u = user_ref s v \<longleftrightarrow> u = v"
  "role_ref s p n \<noteq> user_ref s u" "role_ref s p n \<noteq> attachments_ref s q"
  by (auto simp: attachments_ref_def user_ref_def role_ref_def cedar_names)

section \<open>Coding\<close>

lemma dec_enc_Attachment: "dec_Attachment (enc_Attachment a) zero_Attachment = Some a"
  by (simp add: dec_Attachment_def enc_Attachment_def zero_Attachment_def jfield_def find_field_def)

lemma attachments_parse: "json_parse (attachments_json as) = Some (JArr (map enc_Attachment as))"
proof -
  have "wf_json (JArr (map enc_Attachment as))"
    by (simp add: list_all_iff enc_Attachment_def)
  from json_parse_print[OF this] show ?thesis by (simp add: attachments_json_def)
qed

lemma attachments_decode:
  "map_opt (\<lambda>j. dec_Attachment j zero_Attachment) (map enc_Attachment as) = Some as"
  using map_opt_map[of as "\<lambda>j. dec_Attachment j zero_Attachment" enc_Attachment "\<lambda>x. x"]
  by (simp add: dec_enc_Attachment)

lemma json_parse_Nil [simp]: "json_parse [] = None"
  by (simp add: json_parse_def json_fuel_def skip_ws_def numeral_2_eq_2 p_val.simps)

lemma dec_enc_userProjects: "dec_userProjects (enc_userProjects ps) = Some ps"
proof -
  have "map_opt (\<lambda>v. fs_str (Some v)) (map FStr ps) = Some (map (\<lambda>x. x) ps)" by (rule map_opt_map) simp
  then show ?thesis by (simp add: dec_userProjects_def enc_userProjects_def)
qed

section \<open>Effects\<close>

definition attach_eff :: "Store \<Rightarrow> string \<Rightarrow> Attachment list \<Rightarrow> database \<Rightarrow> database \<Rightarrow> bool" where
  "attach_eff s p as D D' \<longleftrightarrow> (\<forall>r. r \<noteq> attachments_ref s p \<longrightarrow> D' r = D r) \<and> assigned s D' p = as"

definition index_eff :: "Store \<Rightarrow> string \<Rightarrow> string list \<Rightarrow> database \<Rightarrow> database \<Rightarrow> bool" where
  "index_eff s u ps D D' \<longleftrightarrow> (\<forall>r. r \<noteq> user_ref s u \<longrightarrow> D' r = D r) \<and> user_projects s D' u = ps"

lemma attach_eff_views:
  assumes "attach_eff s p as D D'"
  shows "assigned s D' q = (if q = p then as else assigned s D q)" "user_projects s D' u = user_projects s D u"
  using assms by (auto simp: attach_eff_def assigned_def user_projects_def)

lemma index_eff_views:
  assumes "index_eff s u ps D D'"
  shows "user_projects s D' v = (if v = u then ps else user_projects s D v)" "assigned s D' p = assigned s D p"
  using assms by (auto simp: index_eff_def assigned_def user_projects_def)

lemma put_attachments: "attach_eff s p as D
    (put_doc (attachments_ref s p) [attachmentsKey \<mapsto> FStr (attachments_json as)] t D)"
  by (simp add: attach_eff_def assigned_def put_doc_apply attachments_parse attachments_decode)

lemma put_projects: "index_eff s u ps D (put_doc (user_ref s u) (enc_userProjects ps) t D)"
  by (simp add: index_eff_def user_projects_def put_doc_apply dec_enc_userProjects)

lemma delete_projects: "index_eff s u [] D (D(user_ref s u := None))"
  by (simp add: index_eff_def user_projects_def)

text \<open>A transaction on the index writes the new list of the user, or nothing where that is the old one.\<close>

definition added :: "string \<Rightarrow> string list \<Rightarrow> string list" where
  "added p ps = (if p \<in> set ps then ps else ps @ [p])"

lemma index_eff_refl: "ps = user_projects s D u \<Longrightarrow> index_eff s u ps D D"
  by (simp add: index_eff_def)

context firestore
begin

lemma getAttachments_effect:
  assumes "getAttachments env s p w = (res, w')"
  shows "db w' = db w \<and> (\<forall>as. res = Inr as \<longrightarrow> as = assigned s (db w) p)"
proof -
  obtain r w1 where g: "fs_get env (attachments_ref s p) w = (r, w1)" by force
  then show ?thesis
  proof (cases rule: get_cases)
    case (ok d)
    with assms g show ?thesis
      by (auto simp: getAttachments_def assigned_def split: option.splits fval.splits if_splits)
  next
    case (err e)
    with assms g show ?thesis by (auto simp: getAttachments_def assigned_def split: if_splits)
  qed
qed

lemma saveAttachments_effect:
  assumes "saveAttachments env s p as w = (res, w')"
  shows "case res of Inr _ \<Rightarrow> attach_eff s p as (db w) (db w')
    | Inl e \<Rightarrow> db w' = db w \<or> attach_eff s p as (db w) (db w')"
proof -
  obtain r w1 where wr: "fs_write env (SetDoc (attachments_ref s p)
      [attachmentsKey \<mapsto> FStr (attachments_json as)]) w = (r, w1)" by force
  show ?thesis
  proof (cases r)
    case (Inl e)
    with write_errD[of _ w e w1] wr assms show ?thesis
      by (fastforce simp: saveAttachments_def put_attachments)
  next
    case (Inr t)
    with write_okD[of _ w t w1] wr assms show ?thesis
      by (fastforce simp: saveAttachments_def put_attachments)
  qed
qed

lemma addUserProject_body_effect:
  assumes "addUserProject_body env (user_ref s u) p w = (Inr a, w')"
  shows "index_eff s u (added p (user_projects s (db w) u)) (db w) (db w')"
proof -
  let ?r = "user_ref s u"
  have put: "index_eff s u ps (db w) (db w2)"
    if "tx_write env (SetDoc ?r (enc_userProjects ps)) w1 = (Inr x, w2)" "db w1 = db w" for ps x w1 w2
    using tx_write_okD[OF that(1)] that(2) put_projects by fastforce
  obtain r w1 where g: "tx_get env ?r w = (r, w1)" by force
  then show ?thesis
  proof (cases rule: tx_get_cases)
    case (ok d)
    from ok assms g obtain ps where ps: "dec_userProjects (sd_data d) = Some ps"
      by (auto simp: addUserProject_body_def split: option.splits)
    with ok(2) have up: "user_projects s (db w) u = ps" by (simp add: user_projects_def)
    show ?thesis
    proof (cases "p \<in> set ps")
      case True
      with assms g ok ps up show ?thesis by (simp add: addUserProject_body_def added_def index_eff_refl)
    next
      case False
      with assms g ok ps up put show ?thesis
        by (auto simp: addUserProject_body_def added_def split: prod.splits sum.splits)
    qed
  next
    case (err e)
    then have "user_projects s (db w) u = []" if "err_code e = NotFound"
      using that by (simp add: user_projects_def)
    with assms g err put show ?thesis
      by (auto simp: addUserProject_body_def added_def split: prod.splits sum.splits if_splits)
  qed
qed

lemma removeUserProject_body_effect:
  assumes "removeUserProject_body env (user_ref s u) p w = (Inr a, w')"
  shows "index_eff s u (filter (\<lambda>q. q \<noteq> p) (user_projects s (db w) u)) (db w) (db w')"
proof -
  let ?r = "user_ref s u"
  have put: "index_eff s u ps (db w) (db w2)"
    if "tx_write env (SetDoc ?r (enc_userProjects ps)) w1 = (Inr x, w2)" "db w1 = db w" for ps x w1 w2
    using tx_write_okD[OF that(1)] that(2) put_projects by fastforce
  have del: "index_eff s u [] (db w) (db w2)"
    if "tx_write env (DeleteDoc ?r) w1 = (Inr x, w2)" "db w1 = db w" for x w1 w2
    using tx_write_okD[OF that(1)] that(2) delete_projects by fastforce
  obtain r w1 where g: "tx_get env ?r w = (r, w1)" by force
  then show ?thesis
  proof (cases rule: tx_get_cases)
    case (ok d)
    from ok assms g obtain ps where ps: "dec_userProjects (sd_data d) = Some ps"
      by (auto simp: removeUserProject_body_def split: option.splits)
    with ok(2) have up: "user_projects s (db w) u = ps" by (simp add: user_projects_def)
    show ?thesis
      using assms g ok ps put del unfolding up
      by (auto simp: removeUserProject_body_def Let_def split: prod.splits sum.splits if_splits)
  next
    case (err e)
    then have "user_projects s (db w) u = []" if "err_code e = NotFound"
      using that by (simp add: user_projects_def)
    with assms g err show ?thesis
      by (auto simp: removeUserProject_body_def index_eff_refl split: if_splits)
  qed
qed

lemma user_projects_db: "db w = db w' \<Longrightarrow> user_projects s (db w) u = user_projects s (db w') u"
  by simp

lemma addUserProject_effect:
  assumes "addUserProject env s u p w = (res, w')"
  shows "case res of Inr _ \<Rightarrow> index_eff s u (added p (user_projects s (db w) u)) (db w) (db w')
    | Inl e \<Rightarrow> db w' = db w \<or> index_eff s u (added p (user_projects s (db w) u)) (db w) (db w')"
proof -
  obtain r w1 where t: "fs_run_tx env (addUserProject_body env (user_ref s u) p) w = (r, w1)" by force
  show ?thesis
  proof (cases r)
    case (Inl e)
    from run_tx_err[of _ w e w1] t Inl have "db w1 = db w \<or> (\<exists>w0 w2 a. db w0 = db w \<and>
        addUserProject_body env (user_ref s u) p w0 = (Inr a, w2) \<and> db w1 = db w2)" by blast
    with t Inl assms addUserProject_body_effect show ?thesis
      by (fastforce simp: addUserProject_def)
  next
    case (Inr a)
    from run_tx_ok[of _ w a w1] t Inr obtain w0 w2 where "db w0 = db w"
      "addUserProject_body env (user_ref s u) p w0 = (Inr a, w2)" "db w1 = db w2" by blast
    with t Inr assms addUserProject_body_effect[of s u p w0 a w2] show ?thesis
      by (auto simp: addUserProject_def)
  qed
qed

lemma removeUserProject_effect:
  assumes "removeUserProject env s u p w = (res, w')"
  shows "case res of Inr _ \<Rightarrow> index_eff s u (filter (\<lambda>q. q \<noteq> p) (user_projects s (db w) u)) (db w) (db w')
    | Inl e \<Rightarrow> db w' = db w \<or>
        index_eff s u (filter (\<lambda>q. q \<noteq> p) (user_projects s (db w) u)) (db w) (db w')"
proof -
  obtain r w1 where t: "fs_run_tx env (removeUserProject_body env (user_ref s u) p) w = (r, w1)" by force
  show ?thesis
  proof (cases r)
    case (Inl e)
    from run_tx_err[of _ w e w1] t Inl have "db w1 = db w \<or> (\<exists>w0 w2 a. db w0 = db w \<and>
        removeUserProject_body env (user_ref s u) p w0 = (Inr a, w2) \<and> db w1 = db w2)" by blast
    with t Inl assms removeUserProject_body_effect show ?thesis
      by (fastforce simp: removeUserProject_def)
  next
    case (Inr a)
    from run_tx_ok[of _ w a w1] t Inr obtain w0 w2 where "db w0 = db w"
      "removeUserProject_body env (user_ref s u) p w0 = (Inr a, w2)" "db w1 = db w2" by blast
    with t Inr assms removeUserProject_body_effect[of s u p w0 a w2] show ?thesis
      by (auto simp: removeUserProject_def)
  qed
qed

lemma validateCustomRole_db: "db (snd (validateCustomRole env s p n w)) = db w"
  using get_db[of "role_ref s p n" w]
  by (cases "fs_get env (role_ref s p n) w") (auto simp: validateCustomRole_def split: sum.split option.split)

lemma ListUserProjects_effect:
  assumes "ListUserProjects env s u w = (res, w')"
  shows "db w' = db w \<and> (\<forall>ps. res = Inr ps \<longrightarrow> ps = user_projects s (db w) u)"
proof -
  obtain r w1 where g: "fs_get env (user_ref s u) w = (r, w1)" by force
  then show ?thesis
    by (cases rule: get_cases)
      (use assms g in \<open>auto simp: ListUserProjects_def user_projects_def split: option.splits if_splits\<close>)
qed

end

end
