(* ===== verification/CedarClaims.thy ===== *)
theory CedarClaims
  imports CedarFacts
begin

text \<open>
  The properties of the Cedar store: creating and deleting attachments refines operations on an
  abstract assignment of roles, with the index of users coupled to it; what survives failures;
  which policy text a project gets.
\<close>

section \<open>Creating and deleting\<close>

definition create_eff :: "Store \<Rightarrow> string \<Rightarrow> Attachment \<Rightarrow> database \<Rightarrow> database \<Rightarrow> bool" where
  "create_eff s p a D D' \<longleftrightarrow> (\<exists>D1. attach_eff s p (assigned s D p @ [a]) D D1 \<and>
     index_eff s (at_Principal a) (added p (user_projects s D1 (at_Principal a))) D1 D')"

definition others :: "string \<Rightarrow> Attachment list \<Rightarrow> Attachment list" where
  "others i as = filter (\<lambda>a. at_ID a \<noteq> i) as"

definition delete_eff :: "Store \<Rightarrow> string \<Rightarrow> string \<Rightarrow> database \<Rightarrow> database \<Rightarrow> bool" where
  "delete_eff s p i D D' \<longleftrightarrow> (\<exists>D1 a. a \<in> set (assigned s D p) \<and> at_ID a = i \<and>
     attach_eff s p (others i (assigned s D p)) D D1 \<and>
     (if list_ex (\<lambda>b. at_Principal b = at_Principal a) (others i (assigned s D p)) \<or> at_Principal a = []
      then D' = D1
      else index_eff s (at_Principal a) (filter (\<lambda>q. q \<noteq> p) (user_projects s D1 (at_Principal a))) D1 D'))"

lemma delete_scan_spec:
  "delete_scan i as f u = (found, v, rest) \<Longrightarrow> rest = others i as \<and>
    (found \<longleftrightarrow> f \<or> (\<exists>a\<in>set as. at_ID a = i)) \<and>
    (v = u \<or> (\<exists>a\<in>set as. at_ID a = i \<and> at_Principal a = v)) \<and>
    ((\<exists>a\<in>set as. at_ID a = i) \<longrightarrow> (\<exists>a\<in>set as. at_ID a = i \<and> at_Principal a = v))"
proof (induction i as f u arbitrary: found v rest rule: delete_scan.induct)
  case (2 i a as f u)
  show ?case
  proof (cases "at_ID a = i")
    case True
    with 2 show ?thesis by (auto simp: others_def)
  next
    case False
    with 2 show ?thesis by (fastforce simp: others_def split: prod.splits)
  qed
qed (simp add: others_def)

context firestore
begin

lemma CreateAttachment_effect:
  assumes "CreateAttachment env s p t u w = (res, w')"
  shows "case res of
      Inr a \<Rightarrow> create_eff s p a (db w) (db w') \<and> at_Principal a = u \<and> at_TemplateName a = t
    | Inl e \<Rightarrow> db w' = db w \<or> (\<exists>a. at_Principal a = u \<and> at_TemplateName a = t \<and>
        (attach_eff s p (assigned s (db w) p @ [a]) (db w) (db w') \<or> create_eff s p a (db w) (db w')))"
proof -
  obtain v w1 where v: "(if get_field t (st_templates s) \<noteq> None then (None, w)
      else validateCustomRole env s p t w) = (v, w1)" by force
  then have w1: "db w1 = db w"
    using validateCustomRole_db[of s p t w] by (auto split: if_splits)
  obtain r w2 where g: "getAttachments env s p w1 = (r, w2)" by force
  obtain i w3 where i: "uuid_new env w2 = (i, w3)" by force
  obtain n w4 where n: "now_rfc3339 env w3 = (n, w4)" by force
  let ?a = "\<lparr>at_ID = take 8 i, at_TemplateName = t, at_Principal = u, at_CreatedAt = n\<rparr>"
  have D: "db w2 = db w" "db w4 = db w"
    using getAttachments_effect[OF g] w1 uuid_db[of w2] i now_db[of w3] n by simp_all
  note C = assms[unfolded CreateAttachment_def v, simplified]
  show ?thesis
  proof (cases v)
    case (Some e)
    with C w1 show ?thesis by auto
  next
    case None
    show ?thesis
    proof (cases r)
      case (Inl e)
      with C None g D show ?thesis by auto
    next
      case (Inr as)
      with getAttachments_effect[OF g] w1 have as: "as = assigned s (db w) p" by simp
      obtain sv w5 where sv: "saveAttachments env s p (as @ [?a]) w4 = (sv, w5)" by force
      show ?thesis
      proof (cases sv)
        case (Inl e)
        with saveAttachments_effect[OF sv] C None g Inr i n sv D as show ?thesis
          by (auto intro!: exI[of _ ?a])
      next
        case (Inr x)
        with saveAttachments_effect[OF sv] D as
        have att: "attach_eff s p (assigned s (db w) p @ [?a]) (db w) (db w5)" by simp
        obtain ad w6 where ad: "addUserProject env s u p w5 = (ad, w6)" by force
        have C6: "(case ad of Inl e \<Rightarrow> (Inl (wrap_err ''updating user-projects index: '' e), w6)
            | Inr _ \<Rightarrow> (Inr ?a, w6)) = (res, w')"
          using C None g \<open>r = Inr as\<close> i n sv Inr ad by (simp split: sum.splits)
        have full: "create_eff s p ?a (db w) (db w6)"
          if "index_eff s u (added p (user_projects s (db w5) u)) (db w5) (db w6)"
          using att that by (auto simp: create_eff_def)
        show ?thesis
        proof (cases ad)
          case (Inl e)
          with addUserProject_effect[OF ad] att full C6 show ?thesis
            by (auto intro!: exI[of _ ?a])
        next
          case (Inr y)
          with addUserProject_effect[OF ad] full C6 show ?thesis by auto
        qed
      qed
    qed
  qed
qed

lemma DeleteAttachment_effect:
  assumes "DeleteAttachment env s p i w = (res, w')"
  shows "case res of
      Inr _ \<Rightarrow> delete_eff s p i (db w) (db w')
    | Inl e \<Rightarrow> db w' = db w \<or> attach_eff s p (others i (assigned s (db w) p)) (db w) (db w') \<or>
        delete_eff s p i (db w) (db w')"
proof -
  obtain r w1 where g: "getAttachments env s p w = (r, w1)" by force
  note D1 = getAttachments_effect[OF g]
  show ?thesis
  proof (cases r)
    case (Inl e)
    with assms g D1 show ?thesis by (auto simp: DeleteAttachment_def)
  next
    case (Inr as)
    with D1 have as: "as = assigned s (db w) p" and w1: "db w1 = db w" by simp_all
    obtain found v rest where sc: "delete_scan i as False [] = (found, v, rest)" by (metis prod_cases3)
    note spec = delete_scan_spec[OF sc]
    show ?thesis
    proof (cases found)
      case False
      with assms g Inr sc w1 show ?thesis by (auto simp: DeleteAttachment_def)
    next
      case True
      with spec obtain a where a: "a \<in> set as" "at_ID a = i" "at_Principal a = v" by blast
      obtain sv w2 where sv: "saveAttachments env s p rest w1 = (sv, w2)" by force
      note save = saveAttachments_effect[OF sv]
      show ?thesis
      proof (cases sv)
        case (Inl e)
        with assms g \<open>r = Inr as\<close> sc True sv save spec as w1 show ?thesis
          by (auto simp: DeleteAttachment_def)
      next
        case (Inr x)
        with save spec as w1
        have att: "attach_eff s p (others i (assigned s (db w) p)) (db w) (db w2)" by simp
        let ?rem = "list_ex (\<lambda>b. at_Principal b = v) rest"
        show ?thesis
        proof (cases "?rem \<or> v = []")
          case True
          with assms g \<open>r = Inr as\<close> sc \<open>found\<close> sv Inr have "res = Inr ()" "w' = w2"
            by (auto simp: DeleteAttachment_def)
          moreover have "delete_eff s p i (db w) (db w2)"
            unfolding delete_eff_def using a as att True spec by (intro exI[of _ "db w2"] exI[of _ a]) auto
          ultimately show ?thesis by simp
        next
          case False
          obtain rm w3 where rm: "removeUserProject env s v p w2 = (rm, w3)" by force
          have full: "delete_eff s p i (db w) (db w3)"
            if "index_eff s v (filter (\<lambda>q. q \<noteq> p) (user_projects s (db w2) v)) (db w2) (db w3)"
            unfolding delete_eff_def using a as att False spec that
            by (intro exI[of _ "db w2"] exI[of _ a]) auto
          have "(case rm of Inl e \<Rightarrow> (Inl (wrap_err ''updating user-projects index: '' e), w3)
              | Inr _ \<Rightarrow> (Inr (), w3)) = (res, w')"
            using assms g \<open>r = Inr as\<close> sc \<open>found\<close> sv Inr False rm
            by (simp add: DeleteAttachment_def Let_def)
          with removeUserProject_effect[OF rm] full att show ?thesis
            by (cases rm) auto
        qed
      qed
    qed
  qed
qed

end

section \<open>Refinement of an assignment of roles\<close>

lemma create_eff_views:
  assumes "create_eff s p a D D'"
  shows "assigned s D' = (assigned s D)(p := assigned s D p @ [a])"
    and "user_projects s D' = (user_projects s D)(at_Principal a := added p (user_projects s D (at_Principal a)))"
proof -
  from assms obtain D1 where "attach_eff s p (assigned s D p @ [a]) D D1"
    "index_eff s (at_Principal a) (added p (user_projects s D1 (at_Principal a))) D1 D'"
    by (auto simp: create_eff_def)
  note views = attach_eff_views[OF this(1)] index_eff_views[OF this(2)]
  show "assigned s D' = (assigned s D)(p := assigned s D p @ [a])" by (auto simp: views)
  show "user_projects s D' = (user_projects s D)(at_Principal a := added p (user_projects s D (at_Principal a)))"
    by (auto simp: views)
qed

lemma delete_eff_views:
  assumes "delete_eff s p i D D'"
  obtains a where "a \<in> set (assigned s D p)" "at_ID a = i"
    "assigned s D' = (assigned s D)(p := others i (assigned s D p))"
    "user_projects s D' = (if list_ex (\<lambda>b. at_Principal b = at_Principal a) (others i (assigned s D p)) \<or>
         at_Principal a = [] then user_projects s D
       else (user_projects s D)(at_Principal a :=
         filter (\<lambda>q. q \<noteq> p) (user_projects s D (at_Principal a))))"
proof -
  from assms obtain D1 a where a: "a \<in> set (assigned s D p)" "at_ID a = i"
    and D1: "attach_eff s p (others i (assigned s D p)) D D1"
    and D': "if list_ex (\<lambda>b. at_Principal b = at_Principal a) (others i (assigned s D p)) \<or> at_Principal a = []
      then D' = D1
      else index_eff s (at_Principal a) (filter (\<lambda>q. q \<noteq> p) (user_projects s D1 (at_Principal a))) D1 D'"
    unfolding delete_eff_def by blast
  note views = attach_eff_views[OF D1]
  from D' have "assigned s D' = (assigned s D)(p := others i (assigned s D p))"
    by (auto simp: views index_eff_views split: if_splits)
  moreover from D' have "user_projects s D' = (if list_ex (\<lambda>b. at_Principal b = at_Principal a)
      (others i (assigned s D p)) \<or> at_Principal a = [] then user_projects s D
      else (user_projects s D)(at_Principal a := filter (\<lambda>q. q \<noteq> p) (user_projects s D (at_Principal a))))"
    by (auto simp: views index_eff_views split: if_splits)
  ultimately show ?thesis using a that by blast
qed

lemma added_set [simp]: "set (added p ps) = insert p (set ps)"
  by (auto simp: added_def)

lemma create_eff_covers: "create_eff s p a D D' \<Longrightarrow> at_Principal a \<noteq> [] \<Longrightarrow> covers s D \<Longrightarrow> covers s D'"
  unfolding covers_def create_eff_views by (fastforce split: if_splits)

lemma create_eff_sound: "create_eff s p a D D' \<Longrightarrow> sound_index s D \<Longrightarrow> sound_index s D'"
  unfolding sound_index_def create_eff_views by (fastforce split: if_splits)

lemma delete_eff_covers: "delete_eff s p i D D' \<Longrightarrow> covers s D \<Longrightarrow> covers s D'"
  by (erule delete_eff_views) (fastforce simp: covers_def others_def list_ex_iff)

lemma delete_eff_sound:
  assumes "delete_eff s p i D D'" and "sound_index s D" and "distinct (map at_ID (assigned s D p))"
    and "covers s D"
  shows "sound_index s D'"
  using assms(1)
proof (rule delete_eff_views)
  fix a assume a: "a \<in> set (assigned s D p)" "at_ID a = i"
    and att: "assigned s D' = (assigned s D)(p := others i (assigned s D p))"
    and idx: "user_projects s D' = (if list_ex (\<lambda>b. at_Principal b = at_Principal a)
       (others i (assigned s D p)) \<or> at_Principal a = [] then user_projects s D
       else (user_projects s D)(at_Principal a := filter (\<lambda>q. q \<noteq> p) (user_projects s D (at_Principal a))))"
  have only: "b = a" if "b \<in> set (assigned s D p)" "at_ID b = i" for b
    using that a assms(3) by (auto simp: distinct_map inj_on_def)
  have ne: "at_Principal a \<noteq> []" using a(1) assms(4) by (auto simp: covers_def)
  have "\<exists>b\<in>set (assigned s D' q). at_Principal b = u" if "q \<in> set (user_projects s D' u)" for u q
  proof -
    have q: "q \<in> set (user_projects s D u)" using that idx by (auto split: if_splits)
    then obtain b where b: "b \<in> set (assigned s D q)" "at_Principal b = u"
      using assms(2) by (auto simp: sound_index_def)
    show ?thesis
    proof (cases "q = p \<and> at_ID b = i")
      case False
      with b att show ?thesis by (auto simp: others_def)
    next
      case True
      with b only have "b = a" by blast
      with True b that idx ne att show ?thesis by (auto simp: list_ex_iff split: if_splits)
    qed
  qed
  then show ?thesis by (auto simp: sound_index_def)
qed

text \<open>A run on the emulator: one attachment in an empty database.\<close>

definition demo_store :: Store where "demo_store = NewStore ''cedar''"

definition demo_world :: emu where
  "demo_world = \<lparr>em_docs = [], em_clock = 0, em_faults = [], em_uuids = [''0123456789abcdef''], em_clients = []\<rparr>"

definition demo_attached :: emu where
  "demo_attached = snd (CreateAttachment emu_env demo_store ''p1'' ''developer'' ''alice'' demo_world)"

definition demo_attachment :: Attachment where
  "demo_attachment = \<lparr>at_ID = ''01234567'', at_TemplateName = ''developer'', at_Principal = ''alice'',
     at_CreatedAt = ''2026-01-01T00:00:00Z''\<rparr>"

lemma coupled_empty: "coupled s Map.empty"
  by (simp add: coupled_def covers_def sound_index_def assigned_def user_projects_def)

lemma demo_world_coupled: "coupled s (emu_db demo_world)"
proof -
  have "emu_db demo_world = Map.empty" by (simp add: emu_db_def demo_world_def)
  then show ?thesis using coupled_empty by simp
qed

lemma demo_attach: "CreateAttachment emu_env demo_store ''p1'' ''developer'' ''alice'' demo_world =
    (Inr demo_attachment, demo_attached)"
proof -
  have "fst (CreateAttachment emu_env demo_store ''p1'' ''developer'' ''alice'' demo_world) = Inr demo_attachment"
    by code_simp
  then show ?thesis unfolding demo_attached_def by (metis prod.collapse)
qed

text \<open>C11: CreateAttachment refines adding one role to an abstract assignment of roles to projects:
  on success the list of the project is extended by the new attachment, for the requested template
  and user, no other project is touched, and the index of users stays coupled to the assignment.\<close>

theorem create_attachment_refines:
  assumes "firestore env db" and "coupled s (db w)" and "u \<noteq> []"
    and "CreateAttachment env s p t u w = (Inr a, w')"
  shows "coupled s (db w') \<and> assigned s (db w') = (assigned s (db w))(p := assigned s (db w) p @ [a]) \<and>
    at_Principal a = u \<and> at_TemplateName a = t"
proof -
  from firestore.CreateAttachment_effect[OF assms(1,4)]
  have "create_eff s p a (db w) (db w')" "at_Principal a = u" "at_TemplateName a = t" by simp_all
  with assms(2,3) show ?thesis
    using create_eff_covers create_eff_sound create_eff_views(1) by (auto simp: coupled_def)
qed

theorem create_attachment_refines_witness:
  "coupled demo_store (emu_db demo_attached) \<and> assigned demo_store (emu_db demo_attached) ''p1'' = [demo_attachment]"
proof -
  have "assigned demo_store (emu_db demo_world) ''p1'' = []"
    by (simp add: assigned_def emu_db_def demo_world_def)
  with create_attachment_refines[OF emulator.firestore_axioms demo_world_coupled _ demo_attach] show ?thesis
    by simp
qed

lemma demo_attached_views:
  "coupled demo_store (emu_db demo_attached)"
  "assigned demo_store (emu_db demo_attached) = (\<lambda>p. if p = ''p1'' then [demo_attachment] else [])"
proof -
  from emulator.CreateAttachment_effect[OF demo_attach]
  have eff: "create_eff demo_store ''p1'' demo_attachment (emu_db demo_world) (emu_db demo_attached)" by simp
  have "at_Principal demo_attachment \<noteq> []" by (simp add: demo_attachment_def)
  with eff show "coupled demo_store (emu_db demo_attached)"
    using demo_world_coupled create_eff_covers create_eff_sound unfolding coupled_def by blast
  have "assigned demo_store (emu_db demo_world) = (\<lambda>p. [])"
    by (simp add: assigned_def emu_db_def demo_world_def fun_eq_iff)
  with create_eff_views(1)[OF eff]
  show "assigned demo_store (emu_db demo_attached) = (\<lambda>p. if p = ''p1'' then [demo_attachment] else [])"
    by (simp add: fun_eq_iff)
qed



text \<open>C36: In a coupled state ListUserProjects returns exactly the projects in which the user has an
  attachment, and it changes nothing.\<close>

theorem user_projects_exact:
  assumes "firestore env db" and "coupled s (db w)" and "ListUserProjects env s u w = (Inr ps, w')"
  shows "set ps = {p. \<exists>a\<in>set (assigned s (db w) p). at_Principal a = u} \<and> db w' = db w"
  using firestore.ListUserProjects_effect[OF assms(1,3)] assms(2)
  by (auto simp: coupled_def covers_def sound_index_def)

theorem user_projects_exact_witness:
  "\<exists>w'. ListUserProjects emu_env demo_store ''alice'' demo_attached = (Inr [''p1''], w') \<and>
     set [''p1''] = {p. \<exists>a\<in>set (assigned demo_store (emu_db demo_attached) p). at_Principal a = ''alice''}"
proof -
  have "fst (ListUserProjects emu_env demo_store ''alice'' demo_attached) = Inr [''p1'']" by code_simp
  then have "ListUserProjects emu_env demo_store ''alice'' demo_attached =
      (Inr [''p1''], snd (ListUserProjects emu_env demo_store ''alice'' demo_attached))" by (metis prod.collapse)
  with user_projects_exact[OF emulator.firestore_axioms demo_attached_views(1) this] show ?thesis by blast
qed

text \<open>C37: Whatever fails, and wherever, CreateAttachment never makes the index name a project in which
  the user has no attachment, and DeleteAttachment never removes a user from the index who still has
  one.\<close>

theorem index_survives_failures:
  assumes "firestore env db"
  shows "(sound_index s (db w) \<longrightarrow> sound_index s (db (snd (CreateAttachment env s p t u w)))) \<and>
    (covers s (db w) \<longrightarrow> covers s (db (snd (DeleteAttachment env s p i w))))"
proof -
  have create: "sound_index s D'" if "sound_index s D" "attach_eff s p (assigned s D p @ [a]) D D'" for a D D'
    using that(1) unfolding sound_index_def attach_eff_views[OF that(2)] by (fastforce split: if_splits)
  have delete: "covers s D'" if "covers s D" "attach_eff s p (others i (assigned s D p)) D D'" for D D'
    unfolding covers_def
  proof (intro allI ballI)
    fix q a assume "a \<in> set (assigned s D' q)"
    then have "a \<in> set (assigned s D q)"
      unfolding attach_eff_views(1)[OF that(2)] by (auto simp: others_def split: if_splits)
    with that(1) show "at_Principal a \<noteq> [] \<and> q \<in> set (user_projects s D' (at_Principal a))"
      unfolding covers_def attach_eff_views(2)[OF that(2)] by blast
  qed
  obtain r w1 where c: "CreateAttachment env s p t u w = (r, w1)" by force
  obtain r2 w2 where d: "DeleteAttachment env s p i w = (r2, w2)" by force
  have "sound_index s (db w) \<longrightarrow> sound_index s (db w1)"
  proof (cases r)
    case (Inl e)
    from firestore.CreateAttachment_effect[OF assms c, unfolded Inl sum.case] show ?thesis
    proof (elim disjE exE conjE)
      fix a assume "attach_eff s p (assigned s (db w) p @ [a]) (db w) (db w1)"
      with create show ?thesis by blast
    qed (use create_eff_sound in auto)
  next
    case (Inr a)
    from firestore.CreateAttachment_effect[OF assms c, unfolded Inr sum.case] show ?thesis
      using create_eff_sound by blast
  qed
  moreover have "covers s (db w) \<longrightarrow> covers s (db w2)"
  proof (cases r2)
    case (Inl e)
    from firestore.DeleteAttachment_effect[OF assms d, unfolded Inl sum.case] show ?thesis
      using delete delete_eff_covers by (elim disjE) (simp, blast, blast)
  next
    case (Inr x)
    from firestore.DeleteAttachment_effect[OF assms d, unfolded Inr sum.case] show ?thesis
      using delete_eff_covers by blast
  qed
  ultimately show ?thesis by (simp add: c d)
qed

theorem index_survives_failures_witness:
  "sound_index demo_store (emu_db (snd (CreateAttachment emu_env demo_store ''p1'' ''developer'' ''bob''
     (demo_attached\<lparr>em_faults := [None, None, Some Outage]\<rparr>))))"
proof -
  have "emu_db (demo_attached\<lparr>em_faults := fs\<rparr>) = emu_db demo_attached" for fs by (simp add: emu_db_def)
  then show ?thesis
    using index_survives_failures[OF emulator.firestore_axioms] demo_attached_views(1)
    unfolding coupled_def by metis
qed

end
