(* ===== verification/CedarPolicies.thy ===== *)
theory CedarPolicies
  imports CedarClaims "HOL-Library.Sublist"
begin

text \<open>
  Properties of the policy text: what the templates become for a user and a project, which
  attachments a resolved text stands for, and what custom roles may be attached and are listed.
\<close>

section \<open>Instances of the templates\<close>

text \<open>The policy a predefined role stands for; \<open>None\<close> is any action.\<close>

definition action_clause :: "string list option \<Rightarrow> string" where
  "action_clause acts = (case acts of
      None \<Rightarrow> ''    action,''
    | Some as \<Rightarrow> join [newline] (''    action in ['' #
        map (\<lambda>(a, c). ''        '' @ action_entity a @ c)
          (zip as (replicate (length as - 1) '','' @ [[]])) @ [''    ],'']))"

definition role_text :: "string list option \<Rightarrow> string \<Rightarrow> string \<Rightarrow> string" where
  "role_text acts user project = join [newline]
     [''permit ('', ''    principal == '' @ user_entity user @ '','', action_clause acts,
      ''    resource in '' @ project_entity project, '');'', []]"

definition role_actions :: "(string \<times> string list option) list" where
  "role_actions =
     [(''cluster-admin'', Some [''CreateManagedHostedCluster'', ''ListManagedHostedClusters'',
         ''GetManagedHostedCluster'', ''UpdateManagedHostedCluster'', ''DeleteManagedHostedCluster'', ''GetKubeConfig'']),
      (''cluster-viewer'', Some [''ListManagedHostedClusters'', ''GetManagedHostedCluster'']),
      (''developer'', Some [''ListManagedHostedClusters'', ''GetManagedHostedCluster'', ''GetKubeConfig'']),
      (''service-admin'', None)]"

lemma replace_all_Nil: "replace_all [] (c # old) new = []"
  by (subst replace_all.simps) simp

lemma replace_all_other: "c \<noteq> d \<Longrightarrow> replace_all (c # cs) (d # old) new = c # replace_all cs (d # old) new"
  by (subst replace_all.simps) simp

lemma replace_all_hit: "replace_all ((d # old) @ r) (d # old) new = new @ replace_all r (d # old) new"
  by (subst replace_all.simps) (simp add: has_prefix_iff)

lemma replace_all_miss: "\<not> has_prefix (c # cs) (d # old) \<Longrightarrow>
    replace_all (c # cs) (d # old) new = c # replace_all cs (d # old) new"
  by (subst replace_all.simps) auto

lemma replace_all_skip: "d \<notin> set u \<Longrightarrow> replace_all (u @ r) (d # old) new = u @ replace_all r (d # old) new"
  by (induction u) (auto simp: replace_all_other)

lemmas replace_lit = replace_all_Nil replace_all_other replace_all_miss

lemmas hits = replace_all_hit[where d = "CHR ''?''" and old = "''principal''", simplified]
  replace_all_hit[where d = "CHR ''?''" and old = "''resource''", simplified]

lemma service_admin_instance: "CHR ''?'' \<notin> set u \<Longrightarrow> instantiate service_admin_cedar u p = role_text None u p"
  by (simp add: instantiate_def service_admin_cedar_def role_text_def action_clause_def user_entity_def
      project_entity_def newline_def dquote_def replace_lit hits replace_all_skip)

lemmas template_eval = instantiate_def role_text_def action_clause_def user_entity_def project_entity_def
  action_entity_def newline_def dquote_def replace_lit hits replace_all_skip

lemma cluster_admin_instance: "CHR ''?'' \<notin> set u \<Longrightarrow> instantiate cluster_admin_cedar u p =
    role_text (Some [''CreateManagedHostedCluster'', ''ListManagedHostedClusters'', ''GetManagedHostedCluster'',
      ''UpdateManagedHostedCluster'', ''DeleteManagedHostedCluster'', ''GetKubeConfig'']) u p"
  by (simp add: cluster_admin_cedar_def template_eval)

lemma cluster_viewer_instance: "CHR ''?'' \<notin> set u \<Longrightarrow> instantiate cluster_viewer_cedar u p =
    role_text (Some [''ListManagedHostedClusters'', ''GetManagedHostedCluster'']) u p"
  by (simp add: cluster_viewer_cedar_def template_eval)

lemma developer_instance: "CHR ''?'' \<notin> set u \<Longrightarrow> instantiate developer_cedar u p =
    role_text (Some [''ListManagedHostedClusters'', ''GetManagedHostedCluster'', ''GetKubeConfig'']) u p"
  by (simp add: developer_cedar_def template_eval)

text \<open>Each predefined role has a template, and for a user without question marks the policy text
  made of it permits exactly the actions of the role, to that user alone and in that project only.\<close>

theorem template_instances:
  assumes "CHR ''?'' \<notin> set u" and "get_field name role_actions = Some acts"
  shows "\<exists>t. GetTemplate (NewStore fs) name = Some t \<and> instantiate (tp_PolicyText t) u p = role_text acts u p"
proof -
  have "name \<in> {''cluster-admin'', ''cluster-viewer'', ''developer'', ''service-admin''}"
    using assms(2) by (auto simp: role_actions_def split: if_splits)
  with assms show ?thesis
    by (auto simp: role_actions_def GetTemplate_def NewStore_def templatesFS_def trim_suffix_def has_suffix_def Let_def
        service_admin_instance cluster_admin_instance cluster_viewer_instance developer_instance
        split: if_splits)
qed

theorem template_instances_witness:
  "\<exists>t. GetTemplate (NewStore ''cedar'') ''developer'' = Some t \<and> instantiate (tp_PolicyText t) ''alice'' ''p1'' =
     role_text (Some [''ListManagedHostedClusters'', ''GetManagedHostedCluster'', ''GetKubeConfig'']) ''alice'' ''p1''"
  by (rule template_instances) (simp_all add: role_actions_def)

text \<open>The user of an attachment is not escaped: for any two users there is a user ID whose single
  attachment yields the policies of both, so a policy manager can grant a role to one user under
  the name of another.\<close>

lemma principal_injection:
  assumes "CHR ''?'' \<notin> set a" and "CHR ''?'' \<notin> set b" and "CHR ''?'' \<notin> set p"
  shows "\<exists>u. instantiate service_admin_cedar u p =
    instantiate service_admin_cedar a p @ instantiate service_admin_cedar b p"
proof -
  let ?u = "a @ [dquote] @ '','' @ newline # ''    action,'' @ newline # ''    resource in '' @ project_entity p @
    newline # '');'' @ newline # ''permit ('' @ newline # ''    principal == HCP::User::'' @ dquote # b"
  have "CHR ''?'' \<notin> set ?u" using assms by (simp add: newline_def dquote_def project_entity_def)
  then have "instantiate service_admin_cedar ?u p = role_text None ?u p" by (rule service_admin_instance)
  also have "\<dots> = role_text None a p @ role_text None b p"
    by (simp add: role_text_def action_clause_def user_entity_def)
  also have "\<dots> = instantiate service_admin_cedar a p @ instantiate service_admin_cedar b p"
    using assms by (simp add: service_admin_instance)
  finally show ?thesis by blast
qed

section \<open>Resolved policies\<close>

text \<open>The policy of an attachment, from its template or from the custom role of the project.\<close>

definition policy_of :: "Store \<Rightarrow> database \<Rightarrow> string \<Rightarrow> Attachment \<Rightarrow> string option" where
  "policy_of s D p a = (case get_field (at_TemplateName a) (st_templates s) of
      Some t \<Rightarrow> Some (instantiate (tp_PolicyText t) (at_Principal a) p)
    | None \<Rightarrow> (case D (role_ref s p (at_TemplateName a)) of
        None \<Rightarrow> None
      | Some d \<Rightarrow> map_option (\<lambda>role. GeneratePolicyFromPermissions (cr_Permissions role) (cr_Conditions role)
          (at_Principal a) p) (dec_customRole (sd_data d))))"

definition global_of :: "Store \<Rightarrow> database \<Rightarrow> string" where
  "global_of s D = (case D (doc_ref (st_fsClient s) collectionGlobalPolicies globalPoliciesDocID) of
      None \<Rightarrow> []
    | Some d \<Rightarrow> (case sd_data d globalPoliciesKey of Some (FStr g) \<Rightarrow> g | _ \<Rightarrow> []))"

definition policies_text :: "string list \<Rightarrow> string" where
  "policies_text ps = concat (map (\<lambda>t. t @ [newline]) ps)"

definition resolved :: "Store \<Rightarrow> database \<Rightarrow> string \<Rightarrow> Attachment list \<Rightarrow> string" where
  "resolved s D p as = policies_text (map (\<lambda>a. the (policy_of s D p a)) (filter (\<lambda>a. policy_of s D p a \<noteq> None) as))"

definition global_part :: "string \<Rightarrow> string" where
  "global_part g = (if g = [] then [] else g @ [newline])"

context firestore
begin

lemma resolveAttachmentPolicy_effect:
  assumes "resolveAttachmentPolicy env s a p w = (res, w')"
  shows "db w' = db w \<and> (\<forall>t. res = Inr t \<longrightarrow> policy_of s (db w) p a = Some t)"
proof (cases "get_field (at_TemplateName a) (st_templates s)")
  case (Some t)
  with assms show ?thesis by (auto simp: resolveAttachmentPolicy_def policy_of_def)
next
  case None
  obtain r w1 where g: "fs_get env (role_ref s p (at_TemplateName a)) w = (r, w1)" by force
  then show ?thesis
    by (cases rule: get_cases)
      (use assms g None in \<open>auto simp: resolveAttachmentPolicy_def policy_of_def split: option.splits\<close>)
qed

lemma resolve_all_effect:
  "resolve_all env s p atts w = (out, w') \<Longrightarrow> db w' = db w \<and> (\<exists>bs. subseq bs atts \<and> out = resolved s (db w) p bs)"
proof (induction atts arbitrary: w out w')
  case Nil
  then show ?case by (auto simp: resolved_def policies_text_def intro: exI[of _ "[]"])
next
  case (Cons a atts)
  obtain r w1 where r: "resolveAttachmentPolicy env s a p w = (r, w1)" by force
  note one = resolveAttachmentPolicy_effect[OF r]
  obtain rest w2 where rest: "resolve_all env s p atts w1 = (rest, w2)" by force
  from Cons.IH[OF rest] one obtain bs where bs: "subseq bs atts" "rest = resolved s (db w) p bs" "db w2 = db w"
    by auto
  show ?case
  proof (cases r)
    case (Inl e)
    with Cons.prems r rest bs show ?thesis by (auto intro: subseq_Cons')
  next
    case (Inr t)
    with one have "policy_of s (db w) p a = Some t" by simp
    then have "resolved s (db w) p (a # bs) = t @ newline # rest"
      by (simp add: resolved_def policies_text_def bs(2))
    with Inr Cons.prems r rest bs show ?thesis
      by (auto intro!: exI[of _ "a # bs"])
  qed
qed

lemma loadGlobalPolicies_effect:
  assumes "loadGlobalPolicies env s w = (g, w')"
  shows "db w' = db w \<and> (g = [] \<or> g = global_of s (db w))"
proof -
  obtain r w1 where f: "fs_get env (doc_ref (st_fsClient s) collectionGlobalPolicies globalPoliciesDocID) w = (r, w1)"
    by force
  then show ?thesis
    by (cases rule: get_cases)
      (use assms f in \<open>auto simp: loadGlobalPolicies_def global_of_def split: option.splits fval.splits\<close>)
qed

lemma ResolvePolicies_db: "db (snd (ResolvePolicies env s p w)) = db w"
proof -
  obtain g w1 where g: "loadGlobalPolicies env s w = (g, w1)" by force
  obtain r w2 where r: "getAttachments env s p w1 = (r, w2)" by force
  obtain t w3 where t: "resolve_all env s p (projr r) w2 = (t, w3)" by force
  show ?thesis
    using loadGlobalPolicies_effect[OF g] getAttachments_effect[OF r] resolve_all_effect[OF t] g r t
    by (cases r) (auto simp: ResolvePolicies_def)
qed

end

context firestore
begin

lemma resolve_sound_db:
  assumes "ResolvePolicies env s p w = (Inr text, w')"
  shows "\<exists>g as'. (g = [] \<or> g = global_of s (db w)) \<and> subseq as' (assigned s (db w) p) \<and>
    text = global_part g @ resolved s (db w) p as'"
proof -
  obtain g w1 where g: "loadGlobalPolicies env s w = (g, w1)" by force
  note g' = loadGlobalPolicies_effect[OF g]
  from assms g obtain as w2 where as: "getAttachments env s p w1 = (Inr as, w2)"
    by (auto simp: ResolvePolicies_def Let_def split: prod.splits sum.splits)
  from getAttachments_effect[OF as] g'
  have as': "db w2 = db w" "as = assigned s (db w) p" by simp_all
  obtain t w3 where t: "resolve_all env s p as w2 = (t, w3)" by force
  from resolve_all_effect[OF t] as' obtain bs where bs:
    "subseq bs (assigned s (db w) p)" "t = resolved s (db w) p bs" by auto
  have "text = global_part g @ t"
    using assms g as t by (auto simp: ResolvePolicies_def global_part_def split: if_splits)
  with bs g' show ?thesis by blast
qed

end

text \<open>C33: Resolving policies never invents any: whatever calls fail, a text that ResolvePolicies
  returns consists of the global policies or nothing, and of the policies of a subsequence of the
  attachments that the project has at that moment, in their order.\<close>

theorem resolve_sound:
  assumes "firestore env db" and "ResolvePolicies env s p w = (Inr text, w')"
  shows "\<exists>g as'. (g = [] \<or> g = global_of s (db w)) \<and> subseq as' (assigned s (db w) p) \<and>
    text = global_part g @ resolved s (db w) p as'"
  using firestore.resolve_sound_db[OF assms] .

text \<open>A resolved text for a project with one attachment, while the other calls succeed.\<close>

lemma demo_resolve: "fst (ResolvePolicies emu_env demo_store ''p1'' (demo_attached\<lparr>em_faults := [Some Outage]\<rparr>)) =
    Inr (role_text (Some [''ListManagedHostedClusters'', ''GetManagedHostedCluster'', ''GetKubeConfig''])
      ''alice'' ''p1'' @ [newline])"
  by code_simp

theorem resolve_sound_witness:
  "\<exists>g bs. (g = [] \<or> g = global_of demo_store (emu_db (demo_attached\<lparr>em_faults := [Some Outage]\<rparr>))) \<and>
     subseq bs (assigned demo_store (emu_db (demo_attached\<lparr>em_faults := [Some Outage]\<rparr>)) ''p1'') \<and>
     role_text (Some [''ListManagedHostedClusters'', ''GetManagedHostedCluster'', ''GetKubeConfig''])
       ''alice'' ''p1'' @ [newline] = global_part g @
       resolved demo_store (emu_db (demo_attached\<lparr>em_faults := [Some Outage]\<rparr>)) ''p1'' bs"
proof -
  let ?w = "demo_attached\<lparr>em_faults := [Some Outage]\<rparr>"
  have "ResolvePolicies emu_env demo_store ''p1'' ?w = (Inr (role_text (Some [''ListManagedHostedClusters'',
      ''GetManagedHostedCluster'', ''GetKubeConfig'']) ''alice'' ''p1'' @ [newline]),
      snd (ResolvePolicies emu_env demo_store ''p1'' ?w))"
    using demo_resolve by (metis prod.collapse)
  from resolve_sound[OF emulator.firestore_axioms this] show ?thesis .
qed

section \<open>Complete resolution\<close>

definition attachments_ok :: "Store \<Rightarrow> database \<Rightarrow> string \<Rightarrow> bool" where
  "attachments_ok s D p = (case D (attachments_ref s p) of
      None \<Rightarrow> True
    | Some d \<Rightarrow> (case sd_data d attachmentsKey of
        Some (FStr j) \<Rightarrow> j = [] \<or> (case json_parse j of
            None \<Rightarrow> False
          | Some v \<Rightarrow> dec_list zero_Attachment dec_Attachment v [] \<noteq> None)
      | _ \<Rightarrow> True))"

context firestore_up
begin

lemma get_up_cases:
  assumes "up w"
  obtains (present) d w' where "fs_get env r w = (Inr (snap_of r d), w')" "db w r = Some d" "up w'" "db w' = db w"
  | (absent) e w' where "fs_get env r w = (Inl e, w')" "db w r = None" "err_code e = NotFound" "up w'" "db w' = db w"
proof (cases "db w r")
  case None
  with get_absent[OF assms] obtain e w' where "fs_get env r w = (Inl e, w')" "err_code e = NotFound" "up w'" by blast
  with None that(2) get_db[of r w] show ?thesis by (metis snd_conv)
next
  case (Some d)
  with get_present[OF assms] obtain w' where "fs_get env r w = (Inr (snap_of r d), w')" "up w'" by blast
  with Some that(1) get_db[of r w] show ?thesis by (metis snd_conv)
qed

lemma resolveAttachmentPolicy_up:
  assumes "up w"
  shows "\<exists>w'. up w' \<and> db w' = db w \<and> (case policy_of s (db w) p a of
      Some t \<Rightarrow> resolveAttachmentPolicy env s a p w = (Inr t, w')
    | None \<Rightarrow> \<exists>e. resolveAttachmentPolicy env s a p w = (Inl e, w'))"
proof (cases "get_field (at_TemplateName a) (st_templates s)")
  case (Some t)
  with assms show ?thesis by (auto simp: resolveAttachmentPolicy_def policy_of_def)
next
  case None
  from assms show ?thesis
    by (cases rule: get_up_cases[of w "role_ref s p (at_TemplateName a)"])
      (use None in \<open>auto simp: resolveAttachmentPolicy_def policy_of_def split: option.split\<close>)
qed

lemma resolve_all_up: "up w \<Longrightarrow> \<exists>w'. resolve_all env s p atts w = (resolved s (db w) p atts, w')"
proof (induction atts arbitrary: w)
  case Nil
  then show ?case by (simp add: resolved_def policies_text_def)
next
  case (Cons a atts)
  from resolveAttachmentPolicy_up[OF Cons.prems, where s = s and p = p and a = a] obtain w1 where w1: "up w1" "db w1 = db w"
    "case policy_of s (db w) p a of Some t \<Rightarrow> resolveAttachmentPolicy env s a p w = (Inr t, w1)
      | None \<Rightarrow> \<exists>e. resolveAttachmentPolicy env s a p w = (Inl e, w1)" by blast
  from Cons.IH[OF w1(1)] w1(2) obtain w2 where "resolve_all env s p atts w1 = (resolved s (db w) p atts, w2)" by auto
  with w1 show ?case
    by (cases "policy_of s (db w) p a") (auto simp: resolved_def policies_text_def)
qed

lemma loadGlobalPolicies_up: "up w \<Longrightarrow> \<exists>w'. loadGlobalPolicies env s w = (global_of s (db w), w') \<and> up w' \<and> db w' = db w"
  by (erule get_up_cases[where r = "doc_ref (st_fsClient s) collectionGlobalPolicies globalPoliciesDocID"])
    (auto simp: loadGlobalPolicies_def global_of_def split: option.split fval.split)

lemma getAttachments_up: "up w \<Longrightarrow> attachments_ok s (db w) p \<Longrightarrow>
    \<exists>w'. getAttachments env s p w = (Inr (assigned s (db w) p), w') \<and> up w' \<and> db w' = db w"
  by (erule get_up_cases[where r = "attachments_ref s p"])
    (auto simp: getAttachments_def attachments_ok_def assigned_def split: option.splits fval.splits)

end

text \<open>C34: While Firestore is available ResolvePolicies returns the whole text: the global policies,
  then the policy of every attachment of the project that names a template or a custom role of the
  project.\<close>

theorem resolve_exact:
  assumes "firestore_up env db up" and "up w" and "attachments_ok s (db w) p"
  shows "\<exists>w'. ResolvePolicies env s p w =
    (Inr (global_part (global_of s (db w)) @ resolved s (db w) p (assigned s (db w) p)), w')"
proof -
  from firestore_up.loadGlobalPolicies_up[OF assms(1,2)] obtain w1 where g:
    "loadGlobalPolicies env s w = (global_of s (db w), w1)" "up w1" "db w1 = db w" by blast
  with firestore_up.getAttachments_up[OF assms(1), of w1 s p] assms(3) obtain w2 where as:
    "getAttachments env s p w1 = (Inr (assigned s (db w) p), w2)" "up w2" "db w2 = db w" by auto
  with firestore_up.resolve_all_up[OF assms(1), of w2 s p "assigned s (db w) p"] obtain w3 where
    "resolve_all env s p (assigned s (db w) p) w2 = (resolved s (db w) p (assigned s (db w) p), w3)" by auto
  with g as show ?thesis
    by (auto simp: ResolvePolicies_def global_part_def resolved_def policies_text_def)
qed

theorem resolve_exact_witness:
  "\<exists>w'. ResolvePolicies emu_env demo_store ''p1'' demo_attached = (Inr (global_part (global_of demo_store
     (emu_db demo_attached)) @ resolved demo_store (emu_db demo_attached) ''p1'' [demo_attachment]), w')"
proof -
  have "emu_up demo_attached \<and> attachments_ok demo_store (emu_db demo_attached) ''p1''" by code_simp
  with resolve_exact[OF emulator_up.firestore_up_axioms, of demo_attached demo_store "''p1''"]
  show ?thesis by (simp add: demo_attached_views)
qed

text \<open>C35: An attachment is created only for a template of the store, or for a custom role of the
  project whose permissions are all known.\<close>

theorem attachment_role_exists:
  assumes "firestore env db" and "CreateAttachment env s p t u w = (Inr a, w')"
  shows "GetTemplate s t \<noteq> None \<or> (\<exists>d role. db w (role_ref s p t) = Some d \<and>
    dec_customRole (sd_data d) = Some role \<and> set (cr_Permissions role) \<subseteq> set AllPermissions)"
proof (cases "get_field t (st_templates s)")
  case (Some x)
  then show ?thesis by (simp add: GetTemplate_def)
next
  case None
  obtain r w1 where g: "fs_get env (role_ref s p t) w = (r, w1)" by force
  from None assms(2) obtain w2 where v: "validateCustomRole env s p t w = (None, w2)"
    by (auto simp: CreateAttachment_def split: prod.splits option.splits)
  show ?thesis
  proof (rule firestore.get_cases[OF assms(1) g], goal_cases ok err)
    case (ok d)
    with v g show ?thesis
      by (auto simp: validateCustomRole_def ValidatePermissions_None split: option.splits)
  next
    case (err e)
    with v g show ?thesis by (simp add: validateCustomRole_def)
  qed
qed

theorem attachment_role_exists_witness:
  "(\<exists>x. GetTemplate demo_store ''developer'' = Some x) \<or>
    (\<exists>d role. emu_db demo_world (role_ref demo_store ''p1'' ''developer'') = Some d \<and>
     dec_customRole (sd_data d) = Some role \<and> set (cr_Permissions role) \<subseteq> set AllPermissions)"
  using attachment_role_exists[OF emulator.firestore_axioms demo_attach] by blast

end
