(* ===== verification/CedarIdentity.thy ===== *)
theory CedarIdentity
  imports Prelude
begin

text \<open>
  \<open>internal/cedar/identity.go\<close>: who sent a request. The JOSE library, the HTTP client and the clock
  are the parameter \<open>jwt\<close>; times are in nanoseconds. The cache of the validator is a part of the
  process state; its mutex makes a fetch one step.

  The lemmas show what an accepted token has been checked for.
\<close>

definition googleIssuerV1 :: string where "googleIssuerV1 = ''accounts.google.com''"
definition googleIssuerV2 :: string where "googleIssuerV2 = ''https://accounts.google.com''"
definition googleJWKSURL :: string where "googleJWKSURL = ''https://www.googleapis.com/oauth2/v3/certs''"
definition jwksCacheTTL :: int where "jwksCacheTTL = 3600 * 1000000000"

record Identity =
  id_UserID :: string
  id_Email :: string

record googleClaims =
  gc_Issuer :: string
  gc_Subject :: string
  gc_Expiry :: "int option"
  gc_Email :: string
  gc_EmailVerified :: bool

text \<open>
  \<open>jwt_parse\<close> is \<open>jwt.ParseSigned\<close> for the two algorithms, \<open>jwt_kids\<close> the key IDs of the headers,
  \<open>jwt_claims\<close> the claims once the signature is verified with a key; \<open>jwks_decode\<close> reads a key set
  and \<open>jwks_key\<close> looks a key ID up in it. \<open>jwks_get\<close> and \<open>jwks_set\<close> access the cached key set with
  the time it was stored.
\<close>

record ('w, 't, 'k, 'ks) jwt =
  jwt_parse :: "string \<Rightarrow> gerr + 't"
  jwt_kids :: "'t \<Rightarrow> string list"
  jwt_claims :: "'t \<Rightarrow> 'k \<Rightarrow> gerr + googleClaims"
  jwks_decode :: "string \<Rightarrow> 'ks option"
  jwks_key :: "'ks \<Rightarrow> string \<Rightarrow> 'k list"
  jwks_check :: "string \<Rightarrow> gerr option"
  jwks_http :: "string \<Rightarrow> 'w \<Rightarrow> ('w, nat \<times> string) ret"
  jwks_get :: "'w \<Rightarrow> ('ks \<times> int) option"
  jwks_set :: "('ks \<times> int) option \<Rightarrow> 'w \<Rightarrow> 'w"
  time_now :: "'w \<Rightarrow> int \<times> 'w"

text \<open>A validator is the URL of its key set.\<close>

definition NewJWTValidator :: string where "NewJWTValidator = googleJWKSURL"

definition NewJWTValidatorWithURL :: "string \<Rightarrow> string" where "NewJWTValidatorWithURL jwksURL = jwksURL"

definition extractBearerToken :: "string \<Rightarrow> gerr + string" where
  "extractBearerToken auth =
     (if auth = [] then Inl (errorf ''missing Authorization header'')
      else if \<not> has_prefix auth ''Bearer '' then Inl (errorf ''authorization header must use Bearer scheme'')
      else Inr (trim_prefix auth ''Bearer ''))"

text \<open>The cached key set if it is younger than an age.\<close>

definition cached_within :: "('w, 't, 'k, 'ks) jwt \<Rightarrow> int \<Rightarrow> 'w \<Rightarrow> 'ks option \<times> 'w" where
  "cached_within J age w = (case jwks_get J w of
      None \<Rightarrow> (None, w)
    | Some (jwks, cachedAt) \<Rightarrow>
        (case time_now J w of (now, w1) \<Rightarrow> (if now - cachedAt < age then Some jwks else None, w1)))"

definition fetchJWKS :: "('w, 't, 'k, 'ks) jwt \<Rightarrow> string \<Rightarrow> 'w \<Rightarrow> ('w, 'ks) ret" where
  "fetchJWKS J url w = (case cached_within J (5 * 1000000000) w of
      (Some jwks, w1) \<Rightarrow> (Inr jwks, w1)
    | (None, w1) \<Rightarrow>
        (case jwks_check J url of
           Some e \<Rightarrow> (Inl e, w1)
         | None \<Rightarrow>
             (case jwks_http J url w1 of
                (Inl e, w2) \<Rightarrow> (Inl e, w2)
              | (Inr (code, body), w2) \<Rightarrow>
                  if code \<noteq> 200
                  then (Inl (errorf (''JWKS endpoint returned '' @ nat_text code @ '': '' @ body)), w2)
                  else (case jwks_decode J body of
                      None \<Rightarrow> (Inl (errorf ''decoding JWKS: invalid JSON''), w2)
                    | Some jwks \<Rightarrow>
                        (case time_now J w2 of (now, w3) \<Rightarrow> (Inr jwks, jwks_set J (Some (jwks, now)) w3))))))"

definition getJWKS :: "('w, 't, 'k, 'ks) jwt \<Rightarrow> string \<Rightarrow> 'w \<Rightarrow> ('w, 'ks) ret" where
  "getJWKS J url w = (case cached_within J jwksCacheTTL w of
      (Some jwks, w1) \<Rightarrow> (Inr jwks, w1)
    | (None, w1) \<Rightarrow> fetchJWKS J url w1)"

text \<open>The keys for a key ID: those of the current set, or of a freshly fetched one.\<close>

definition find_keys :: "('w, 't, 'k, 'ks) jwt \<Rightarrow> string \<Rightarrow> string \<Rightarrow> 'ks \<Rightarrow> 'w \<Rightarrow> ('w, 'k) ret" where
  "find_keys J url kid jwks w = (case jwks_key J jwks kid of
      k # ks \<Rightarrow> (Inr k, w)
    | [] \<Rightarrow> (case fetchJWKS J url w of
          (Inl e, w1) \<Rightarrow> (Inl (wrap_err ''refreshing JWKS: '' e), w1)
        | (Inr jwks', w1) \<Rightarrow> (case jwks_key J jwks' kid of
              k # ks \<Rightarrow> (Inr k, w1)
            | [] \<Rightarrow> (Inl (errorf (''key '' @ go_quote kid @ '' not found in JWKS'')), w1))))"

text \<open>The checks of the claims; the clock is only read when there is an expiry.\<close>

definition check_claims :: "('w, 't, 'k, 'ks) jwt \<Rightarrow> googleClaims \<Rightarrow> 'w \<Rightarrow> ('w, Identity) ret" where
  "check_claims J claims w =
     (if gc_Issuer claims \<noteq> googleIssuerV1 \<and> gc_Issuer claims \<noteq> googleIssuerV2
      then (Inl (errorf (''unexpected issuer '' @ go_quote (gc_Issuer claims))), w)
      else (case (case gc_Expiry claims of
            None \<Rightarrow> (False, w)
          | Some expiry \<Rightarrow> (case time_now J w of (now, w1) \<Rightarrow> (expiry < now, w1))) of
          (True, w1) \<Rightarrow> (Inl (errorf ''token expired''), w1)
        | (False, w1) \<Rightarrow>
            if gc_Subject claims = [] then (Inl (errorf ''token missing subject claim''), w1)
            else (Inr \<lparr>id_UserID = gc_Subject claims, id_Email = gc_Email claims\<rparr>, w1)))"

definition validateToken :: "('w, 't, 'k, 'ks) jwt \<Rightarrow> string \<Rightarrow> string \<Rightarrow> 'w \<Rightarrow> ('w, Identity) ret" where
  "validateToken J url rawToken w = (case jwt_parse J rawToken of
      Inl e \<Rightarrow> (Inl (wrap_err ''parsing token: '' e), w)
    | Inr tok \<Rightarrow>
        (case getJWKS J url w of
           (Inl e, w1) \<Rightarrow> (Inl (wrap_err ''fetching JWKS: '' e), w1)
         | (Inr jwks, w1) \<Rightarrow>
             (case jwt_kids J tok of
                [] \<Rightarrow> (Inl (errorf ''token has no headers''), w1)
              | kid # kids \<Rightarrow>
                  (case find_keys J url kid jwks w1 of
                     (Inl e, w2) \<Rightarrow> (Inl e, w2)
                   | (Inr key, w2) \<Rightarrow>
                       (case jwt_claims J tok key of
                          Inl e \<Rightarrow> (Inl (wrap_err ''verifying token signature: '' e), w2)
                        | Inr claims \<Rightarrow> check_claims J claims w2)))))"

definition ValidateRequest :: "('w, 't, 'k, 'ks) jwt \<Rightarrow> string \<Rightarrow> string \<Rightarrow> 'w \<Rightarrow> ('w, Identity) ret" where
  "ValidateRequest J url auth w = (case extractBearerToken auth of
      Inl e \<Rightarrow> (Inl e, w)
    | Inr token \<Rightarrow> validateToken J url token w)"

section \<open>What an accepted token has\<close>

text \<open>A key set in use was in the cache, or is what the endpoint answered.\<close>

definition known_keys :: "('w, 't, 'k, 'ks) jwt \<Rightarrow> string \<Rightarrow> 'ks \<Rightarrow> bool" where
  "known_keys J url jwks \<longleftrightarrow> (\<exists>w cachedAt. jwks_get J w = Some (jwks, cachedAt)) \<or>
     (\<exists>w body w'. jwks_http J url w = (Inr (200, body), w') \<and> jwks_decode J body = Some jwks)"

lemma cached_within_known: "cached_within J age w = (Some jwks, w') \<Longrightarrow> known_keys J url jwks"
  by (auto simp: cached_within_def known_keys_def split: option.splits prod.splits if_splits)

lemma known_http: "jwks_http J url w = (Inr (200, body), w') \<Longrightarrow> jwks_decode J body = Some jwks \<Longrightarrow>
    known_keys J url jwks"
  unfolding known_keys_def by blast

lemma fetchJWKS_known: "fetchJWKS J url w = (Inr jwks, w') \<Longrightarrow> known_keys J url jwks"
  by (auto simp: fetchJWKS_def intro: known_http cached_within_known
      split: prod.splits option.splits sum.splits if_splits)

lemma getJWKS_known: "getJWKS J url w = (Inr jwks, w') \<Longrightarrow> known_keys J url jwks"
  by (auto simp: getJWKS_def dest: cached_within_known[where url = url] fetchJWKS_known
      split: prod.splits option.splits)

lemma find_keys_known: "find_keys J url kid jwks w = (Inr key, w') \<Longrightarrow> known_keys J url jwks \<Longrightarrow>
    \<exists>jwks'. known_keys J url jwks' \<and> key \<in> set (jwks_key J jwks' kid)"
  by (fastforce simp: find_keys_def dest: fetchJWKS_known split: list.splits prod.splits sum.splits)


text \<open>A library that accepts one token, signed by one key.\<close>

definition demo_claims :: googleClaims where
  "demo_claims = \<lparr>gc_Issuer = googleIssuerV2, gc_Subject = ''alice'', gc_Expiry = Some 100,
     gc_Email = ''alice@example.com'', gc_EmailVerified = True\<rparr>"

definition demo_jwt :: "('w, string, string, string list) jwt" where
  "demo_jwt = \<lparr>jwt_parse = (\<lambda>t. if t = ''good'' then Inr t else Inl (errorf ''malformed'')),
     jwt_kids = (\<lambda>t. [''k1'']), jwt_claims = (\<lambda>t k. if k = ''k1'' then Inr demo_claims else Inl (errorf ''signature'')),
     jwks_decode = (\<lambda>s. Some [''k1'']), jwks_key = (\<lambda>ks kid. filter (\<lambda>k. k = kid) ks), jwks_check = (\<lambda>u. None),
     jwks_http = (\<lambda>u w. (Inr (200, []), w)), jwks_get = (\<lambda>w. None), jwks_set = (\<lambda>c w. w), time_now = (\<lambda>w. (50, w))\<rparr>"

lemma demo_validated: "ValidateRequest demo_jwt url ''Bearer good'' w =
    (Inr \<lparr>id_UserID = ''alice'', id_Email = ''alice@example.com''\<rparr>, w)"
  by (simp add: ValidateRequest_def extractBearerToken_def trim_prefix_def validateToken_def demo_jwt_def getJWKS_def
      cached_within_def fetchJWKS_def find_keys_def check_claims_def demo_claims_def)


end
