(* ===== verification/CedarAuthz.thy ===== *)
theory CedarAuthz
  imports ApiServer CedarPolicies CedarIdentity
begin

text \<open>
  The rest of \<open>internal/cedar\<close>: the entities and the authorization middleware (\<open>entities.go\<close>,
  \<open>authz.go\<close>) and the handlers of the policy API (\<open>handlers.go\<close>, \<open>response.go\<close>). The Cedar library
  is the parameter \<open>engine\<close>: parsing of policies and of entities, and the decision.
\<close>

section \<open>Requests\<close>

text \<open>
  \<open>rq_Path\<close> is \<open>URL.Path\<close>, the unescaped path, \<open>rq_EscapedPath\<close> the path as it was sent;
  \<open>rq_Auth\<close> is the \<open>Authorization\<close> header.
\<close>

record http_request =
  rq_Method :: string
  rq_EscapedPath :: string
  rq_Path :: string
  rq_Auth :: string
  rq_Body :: string

section \<open>entities.go\<close>

definition uid_json :: "string \<Rightarrow> string \<Rightarrow> json" where
  "uid_json type i = JObj [(''type'', JStr type), (''id'', JStr i)]"

text \<open>An \<open>entityJSON\<close>; a nil slice of parents is printed as \<open>null\<close>, the attributes as a map.\<close>

definition entity_json :: "json \<Rightarrow> (string \<times> json) list \<Rightarrow> json list \<Rightarrow> json" where
  "entity_json uid attrs parents = JObj [(''uid'', uid), (''attrs'', JObj (kv_norm attrs)),
     (''parents'', if parents = [] then JNull else JArr parents)]"

definition entities_json :: "string \<Rightarrow> string \<Rightarrow> string \<Rightarrow> string \<Rightarrow> string \<Rightarrow>
    (string \<times> string) list option \<Rightarrow> json" where
  "entities_json userID projectID email resourceType resourceID attrs =
     (let project = uid_json ''HCP::Project'' projectID
      in JArr ([entity_json project [] [],
          entity_json (uid_json ''HCP::User'' userID) [(''email'', JStr email)] [project]] @
         (if resourceType = ResourceTypeManagedHostedCluster
          then [entity_json (uid_json ''HCP::ManagedHostedCluster'' resourceID)
              [(''labels'', JObj (kv_norm (case attrs of
                  Some labels \<Rightarrow> map (\<lambda>(k, v). (k, JStr v)) labels
                | None \<Rightarrow> [])))] [project]]
          else [])))"

text \<open>
  \<open>en_policies\<close> is \<open>NewPolicyListFromBytes\<close>, \<open>en_entities\<close> reads an entity map from JSON, and
  \<open>en_authorize\<close> is the decision on a policy set, entities and the request: principal, action and
  resource as type and ID, with an empty context.
\<close>

record ('p, 'm) engine =
  en_policies :: "string \<Rightarrow> gerr + 'p list"
  en_entities :: "string \<Rightarrow> gerr + 'm"
  en_authorize :: "(string \<times> 'p) list \<Rightarrow> 'm \<Rightarrow> string \<times> string \<Rightarrow> string \<times> string \<Rightarrow> string \<times> string \<Rightarrow> bool"

definition BuildEntityMap :: "('p, 'm) engine \<Rightarrow> string \<Rightarrow> string \<Rightarrow> string \<Rightarrow> string \<Rightarrow> string \<Rightarrow>
    (string \<times> string) list option \<Rightarrow> gerr + 'm" where
  "BuildEntityMap E userID projectID email resourceType resourceID attrs =
     (case en_entities E (json_print (entities_json userID projectID email resourceType resourceID attrs)) of
        Inl e \<Rightarrow> Inl (wrap_err ''unmarshaling entity map: '' e)
      | Inr em \<Rightarrow> Inr em)"

section \<open>response.go\<close>

definition writeAuthzError :: "nat \<Rightarrow> string \<Rightarrow> response" where
  "writeAuthzError code message = \<lparr>rs_code = code, rs_body = PError message code\<rparr>"

definition writeAuthzJSON :: "nat \<Rightarrow> json \<Rightarrow> response" where
  "writeAuthzJSON status v = \<lparr>rs_code = status, rs_body = PJson v\<rparr>"

section \<open>authz.go\<close>

record 'w AuthzMiddleware =
  am_store :: Store
  am_validate :: "string \<Rightarrow> 'w \<Rightarrow> ('w, Identity) ret"
  am_placement :: "string option"
  am_statusDB :: "(string \<Rightarrow> 'w \<Rightarrow> ('w, string) ret) option"

definition fetchResourceLabels :: "'w env \<Rightarrow> 'w AuthzMiddleware \<Rightarrow> string \<Rightarrow> string \<Rightarrow> 'w \<Rightarrow>
    (string \<times> string) list option \<times> 'w" where
  "fetchResourceLabels env a namespace name w = (case (am_placement a, am_statusDB a) of
      (Some placement, Some statusDB) \<Rightarrow>
        (case getClusterMapping env placement namespace name w of
           (Inl e, w1) \<Rightarrow> (None, w1)
         | (Inr mc, w1) \<Rightarrow>
             (let docID = NewDocumentID env TaskKey ''hcp.gcp.hypershift.openshift.com'' ''v1alpha1''
                  ''managedhostedclusters'' namespace name
              in case statusDB mc w1 of
                (Inl e, w2) \<Rightarrow> (None, w2)
              | (Inr d, w2) \<Rightarrow>
                  (case rc_Get (ReadDesires env d) docID w2 of
                     (Inl e, w3) \<Rightarrow> (None, w3)
                   | (Inr rd, w3) \<Rightarrow>
                       (case st_kubeContent (rd_status rd) of
                          None \<Rightarrow> (None, w3)
                        | Some raw \<Rightarrow> (map_option (\<lambda>cluster. om_labels (mhc_ObjectMeta cluster))
                            (unmarshalCR env raw), w3)))))
    | _ \<Rightarrow> (None, w))"

text \<open>The policy set: the parsed policies under the names \<open>policy-0\<close>, \<open>policy-1\<close> and so on.\<close>

definition policy_set :: "'p list \<Rightarrow> (string \<times> 'p) list" where
  "policy_set ps = map (\<lambda>(i, p). (''policy-'' @ nat_text i, p)) (zip [0..<length ps] ps)"

text \<open>The decision for a mapped request of a user: \<open>Inl\<close> is the refusal that is sent.\<close>

definition decide :: "'w env \<Rightarrow> ('p, 'm) engine \<Rightarrow> 'w AuthzMiddleware \<Rightarrow> CedarMapping \<Rightarrow> Identity \<Rightarrow> 'w \<Rightarrow>
    (response + unit) \<times> 'w" where
  "decide env E a mapping identity w = (case ResolvePolicies env (am_store a) (cdm_ProjectID mapping) w of
      (Inl e, w1) \<Rightarrow> (Inl (writeAuthzError 500 ''Policy resolution error''), w1)
    | (Inr policyText, w1) \<Rightarrow>
        if policyText = [] then (Inl (writeAuthzError 403 ''Access denied: no policies configured''), w1)
        else (case en_policies E policyText of
            Inl e \<Rightarrow> (Inl (writeAuthzError 500 ''Policy parse error''), w1)
          | Inr policies \<Rightarrow>
              (case (if cdm_ResourceType mapping = ResourceTypeManagedHostedCluster \<and> cdm_ResourceID mapping \<noteq> []
                     then fetchResourceLabels env a (cdm_ProjectID mapping) (cdm_ResourceID mapping) w1
                     else (None, w1)) of
                 (attrs, w2) \<Rightarrow>
                   (case BuildEntityMap E (id_UserID identity) (cdm_ProjectID mapping) (id_Email identity)
                       (cdm_ResourceType mapping) (cdm_ResourceID mapping) attrs of
                      Inl e \<Rightarrow> (Inl (writeAuthzError 500 ''Entity build error''), w2)
                    | Inr entities \<Rightarrow>
                        if en_authorize E (policy_set policies) entities (''HCP::User'', id_UserID identity)
                            (''HCP::Action'', cdm_Action mapping)
                            (''HCP::'' @ cdm_ResourceType mapping, cdm_ResourceID mapping)
                        then (Inr (), w2)
                        else (Inl (writeAuthzError 403 ''Access denied''), w2)))))"

definition authz_Wrap :: "'w env \<Rightarrow> ('p, 'm) engine \<Rightarrow> 'w AuthzMiddleware \<Rightarrow>
    (http_request \<Rightarrow> 'w \<Rightarrow> response \<times> 'w) \<Rightarrow> http_request \<Rightarrow> 'w \<Rightarrow> response \<times> 'w" where
  "authz_Wrap env E a nextH r w = (case MapRequest (rq_Method r) (rq_Path r) of
      None \<Rightarrow> nextH r w
    | Some mapping \<Rightarrow>
        (case am_validate a (rq_Auth r) w of
           (Inl e, w1) \<Rightarrow> (writeAuthzError 401 (''Authentication failed: '' @ err_text e), w1)
         | (Inr identity, w1) \<Rightarrow>
             (case decide env E a mapping identity w1 of
                (Inl refusal, w2) \<Rightarrow> (refusal, w2)
              | (Inr _, w2) \<Rightarrow> nextH r w2)))"

section \<open>handlers.go\<close>

definition json_Template :: "Template \<Rightarrow> json" where
  "json_Template t = JObj [(''name'', JStr (tp_Name t)), (''policy_text'', JStr (tp_PolicyText t))]"

definition json_Role :: "Role \<Rightarrow> json" where
  "json_Role r = JObj (members [(''name'', enc_str (ro_Name r)), (''permissions'', omit_list JStr (ro_Permissions r)),
     (''description'', omit_str (ro_Description r)), (''predefined'', Some (JBool (ro_Predefined r)))])"

definition h_ListTemplates :: "'w env \<Rightarrow> Store \<Rightarrow> 'w \<Rightarrow> response \<times> 'w" where
  "h_ListTemplates env s w = (writeAuthzJSON 200 (JArr (map json_Template (ListTemplates env s))), w)"

definition h_GetTemplate :: "Store \<Rightarrow> string \<Rightarrow> 'w \<Rightarrow> response \<times> 'w" where
  "h_GetTemplate s name w = (case GetTemplate s name of
      None \<Rightarrow> (writeAuthzError 404 ''template not found'', w)
    | Some t \<Rightarrow> (writeAuthzJSON 200 (json_Template t), w))"

definition h_ListAttachments :: "'w env \<Rightarrow> Store \<Rightarrow> string \<Rightarrow> 'w \<Rightarrow> response \<times> 'w" where
  "h_ListAttachments env s namespace w = (case ListAttachments env s namespace w of
      (Inl e, w1) \<Rightarrow> (writeAuthzError 500 (err_text e), w1)
    | (Inr attachments, w1) \<Rightarrow> (writeAuthzJSON 200 (JArr (map enc_Attachment attachments)), w1))"

record createAttachmentRequest =
  car_TemplateName :: string
  car_UserID :: string

definition dec_createAttachment :: "createAttachmentRequest json_decoder" where
  "dec_createAttachment = dec_struct
     [jfield ''template_name'' car_TemplateName car_TemplateName_update dec_str,
      jfield ''user_id'' car_UserID car_UserID_update dec_str]"

definition h_CreateAttachment :: "'w env \<Rightarrow> Store \<Rightarrow> string \<Rightarrow> string \<Rightarrow> 'w \<Rightarrow> response \<times> 'w" where
  "h_CreateAttachment env s namespace body w =
     (case (case json_decode body of
          None \<Rightarrow> None
        | Some j \<Rightarrow> dec_createAttachment j \<lparr>car_TemplateName = [], car_UserID = []\<rparr>) of
        None \<Rightarrow> (writeAuthzError 400 (''invalid JSON: '' @ err_text json_error), w)
      | Some req \<Rightarrow>
          if car_TemplateName req = [] \<or> car_UserID req = []
          then (writeAuthzError 400 ''template_name and user_id are required'', w)
          else (case CreateAttachment env s namespace (car_TemplateName req) (car_UserID req) w of
              (Inl e, w1) \<Rightarrow> (writeAuthzError 400 (err_text e), w1)
            | (Inr att, w1) \<Rightarrow> (writeAuthzJSON 201 (enc_Attachment att), w1)))"

definition h_DeleteAttachment :: "'w env \<Rightarrow> Store \<Rightarrow> string \<Rightarrow> string \<Rightarrow> 'w \<Rightarrow> response \<times> 'w" where
  "h_DeleteAttachment env s namespace i w = (case DeleteAttachment env s namespace i w of
      (Inl e, w1) \<Rightarrow> (writeAuthzError 404 (err_text e), w1)
    | (Inr _, w1) \<Rightarrow> (writeAuthzJSON 200 (JObj [(''status'', JStr ''deleted'')]), w1))"

definition h_ListRoles :: "'w env \<Rightarrow> Store \<Rightarrow> string \<Rightarrow> 'w \<Rightarrow> response \<times> 'w" where
  "h_ListRoles env s namespace w = (case ListRoles env s namespace w of
      (Inl e, w1) \<Rightarrow> (writeAuthzError 500 (err_text e), w1)
    | (Inr roles, w1) \<Rightarrow> (writeAuthzJSON 200 (JArr (map json_Role roles)), w1))"

definition h_GetRole :: "'w env \<Rightarrow> Store \<Rightarrow> string \<Rightarrow> string \<Rightarrow> 'w \<Rightarrow> response \<times> 'w" where
  "h_GetRole env s namespace name w = (case GetRole env s name namespace w of
      (None, w1) \<Rightarrow> (writeAuthzError 404 ''role not found'', w1)
    | (Some role, w1) \<Rightarrow> (writeAuthzJSON 200 (json_Role role), w1))"

end
