(* ===== verification/Server.thy ===== *)
theory Server
  imports CedarAuthz
begin

text \<open>
  The API server as \<open>cmd/apiserver/main.go\<close> puts it together: the multiplexer with its routes, the
  authorization middleware of \<open>internal/cedar\<close> around it, and the validation middleware
  (\<open>internal/apiserver/validation.go\<close>) and the request log (\<open>middleware.go\<close>) around both.

  The multiplexer of \<open>net/http\<close> works on the escaped path and unescapes it segment by segment,
  while \<open>MapRequest\<close> reads the unescaped path as a whole. A segment with an escaped slash is
  therefore one segment for the one and several for the other.
\<close>

section \<open>Request paths\<close>

fun path_unescape :: "string \<Rightarrow> string option" where
  "path_unescape [] = Some []"
| "path_unescape (c # cs) =
     (if c = CHR ''%'' then (case cs of
          a # b # r \<Rightarrow> (case (hex_val a, hex_val b) of
              (Some i, Some j) \<Rightarrow> map_option (Cons (char_of (16 * i + j))) (path_unescape r)
            | _ \<Rightarrow> None)
        | _ \<Rightarrow> None)
      else map_option (Cons c) (path_unescape cs))"

text \<open>The request that the server makes of a request line; a malformed path gets a 400.\<close>

definition parse_request :: "string \<Rightarrow> string \<Rightarrow> string \<Rightarrow> string \<Rightarrow> http_request option" where
  "parse_request method target auth body = map_option (\<lambda>p. \<lparr>rq_Method = method, rq_EscapedPath = target,
     rq_Path = p, rq_Auth = auth, rq_Body = body\<rparr>) (path_unescape target)"

definition path_segments :: "string \<Rightarrow> string list" where
  "path_segments p = split_on (CHR ''/'') (tl p)"

text \<open>A path that \<open>cleanPath\<close> does not change: absolute, without empty or dot segments.\<close>

definition clean_path :: "string \<Rightarrow> bool" where
  "clean_path p = (has_prefix p ''/'' \<and> list_all (\<lambda>g. g \<notin> {'''', ''.'', ''..''}) (butlast (path_segments p)) \<and>
     last (path_segments p) \<notin> {''.'', ''..''})"

section \<open>The multiplexer\<close>

datatype seg_pat = MLit string | MVar

datatype endpoint =
    E_List | E_Create | E_Get | E_Update | E_Delete | E_KubeConfig
  | E_ListTemplates | E_GetTemplate | E_ListAttachments | E_CreateAttachment | E_DeleteAttachment
  | E_ListRoles | E_GetRole | E_OpenAPI | E_Healthz

definition clusters_pat :: "seg_pat list" where
  "clusters_pat = [MLit ''v1alpha1'', MLit ''namespaces'', MVar, MLit ''managedhostedclusters'']"

definition authz_pat :: "seg_pat list" where
  "authz_pat = [MLit ''authz'', MLit ''namespaces'', MVar]"

definition mux_routes :: "(string \<times> seg_pat list \<times> endpoint) list" where
  "mux_routes =
    [(''GET'', clusters_pat, E_List),
     (''POST'', clusters_pat, E_Create),
     (''GET'', clusters_pat @ [MVar], E_Get),
     (''PUT'', clusters_pat @ [MVar], E_Update),
     (''DELETE'', clusters_pat @ [MVar], E_Delete),
     (''GET'', clusters_pat @ [MVar, MLit ''kubeconfig''], E_KubeConfig),
     (''GET'', [MLit ''authz'', MLit ''templates''], E_ListTemplates),
     (''GET'', [MLit ''authz'', MLit ''templates'', MVar], E_GetTemplate),
     (''GET'', authz_pat @ [MLit ''attachments''], E_ListAttachments),
     (''POST'', authz_pat @ [MLit ''attachments''], E_CreateAttachment),
     (''DELETE'', authz_pat @ [MLit ''attachments'', MVar], E_DeleteAttachment),
     (''GET'', authz_pat @ [MLit ''roles''], E_ListRoles),
     (''GET'', authz_pat @ [MLit ''roles'', MVar], E_GetRole),
     (''GET'', [MLit ''openapi.yaml''], E_OpenAPI),
     (''GET'', [MLit ''healthz''], E_Healthz)]"

text \<open>The path values of a match; a variable matches one segment that is not empty.\<close>

fun mux_match :: "seg_pat list \<Rightarrow> string list \<Rightarrow> string list option" where
  "mux_match [] [] = Some []"
| "mux_match (MLit l # ps) (g # gs) = (if g = l then mux_match ps gs else None)"
| "mux_match (MVar # ps) (g # gs) = (if g = [] then None else map_option (Cons g) (mux_match ps gs))"
| "mux_match _ _ = None"

text \<open>A pattern for GET also matches HEAD.\<close>

definition method_matches :: "string \<Rightarrow> string \<Rightarrow> bool" where
  "method_matches pm m = (m = pm \<or> pm = ''GET'' \<and> m = ''HEAD'')"

fun mux_find :: "(string \<times> seg_pat list \<times> endpoint) list \<Rightarrow> string \<Rightarrow> string list \<Rightarrow>
    (endpoint \<times> string list) option" where
  "mux_find [] m gs = None"
| "mux_find ((pm, ps, e) # rs) m gs = (case mux_match ps gs of
      Some vals \<Rightarrow> if method_matches pm m then Some (e, vals) else mux_find rs m gs
    | None \<Rightarrow> mux_find rs m gs)"

definition run_endpoint :: "'w env \<Rightarrow> 'w handler \<Rightarrow> Store \<Rightarrow> string \<Rightarrow> endpoint \<Rightarrow> string list \<Rightarrow> string \<Rightarrow> 'w \<Rightarrow>
    response \<times> 'w" where
  "run_endpoint env h s spec e vals body w = (case e of
      E_List \<Rightarrow> h_List env h (vals ! 0) w
    | E_Create \<Rightarrow> h_Create env h (vals ! 0) body w
    | E_Get \<Rightarrow> h_Get env h (vals ! 0) (vals ! 1) w
    | E_Update \<Rightarrow> h_Update env h (vals ! 0) (vals ! 1) body w
    | E_Delete \<Rightarrow> h_Delete env h (vals ! 0) (vals ! 1) w
    | E_KubeConfig \<Rightarrow> h_GetKubeConfig env h (vals ! 0) (vals ! 1) w
    | E_ListTemplates \<Rightarrow> h_ListTemplates env s w
    | E_GetTemplate \<Rightarrow> h_GetTemplate s (vals ! 0) w
    | E_ListAttachments \<Rightarrow> h_ListAttachments env s (vals ! 0) w
    | E_CreateAttachment \<Rightarrow> h_CreateAttachment env s (vals ! 0) body w
    | E_DeleteAttachment \<Rightarrow> h_DeleteAttachment env s (vals ! 0) (vals ! 1) w
    | E_ListRoles \<Rightarrow> h_ListRoles env s (vals ! 0) w
    | E_GetRole \<Rightarrow> h_GetRole env s (vals ! 0) (vals ! 1) w
    | E_OpenAPI \<Rightarrow> (\<lparr>rs_code = 200, rs_body = PBytes spec\<rparr>, w)
    | E_Healthz \<Rightarrow> (\<lparr>rs_code = 200, rs_body = PJson (JObj [(''status'', JStr ''ok'')])\<rparr>, w))"

text \<open>
  \<open>ServeMux.ServeHTTP\<close>: a path that is not clean is redirected, a path that matches only for other
  methods gets a 405, any other path a 404. A segment of the escaped path that cannot be unescaped
  is taken as it is.
\<close>

definition seg_unescape :: "string \<Rightarrow> string" where
  "seg_unescape g = (case path_unescape g of None \<Rightarrow> g | Some t \<Rightarrow> t)"

definition mux_serve :: "'w env \<Rightarrow> 'w handler \<Rightarrow> Store \<Rightarrow> string \<Rightarrow> http_request \<Rightarrow> 'w \<Rightarrow> response \<times> 'w" where
  "mux_serve env h s spec r w =
     (if \<not> clean_path (rq_EscapedPath r) then (\<lparr>rs_code = 301, rs_body = PBytes []\<rparr>, w)
      else (let gs = map seg_unescape (path_segments (rq_EscapedPath r))
        in case mux_find mux_routes (rq_Method r) gs of
          Some (e, vals) \<Rightarrow> run_endpoint env h s spec e vals (rq_Body r) w
        | None \<Rightarrow>
            if list_ex (\<lambda>(pm, ps, e). mux_match ps gs \<noteq> None) mux_routes
            then (\<lparr>rs_code = 405, rs_body = PBytes ''Method Not Allowed''\<rparr>, w)
            else (\<lparr>rs_code = 404, rs_body = PBytes ''404 page not found''\<rparr>, w)))"

section \<open>validation.go and middleware.go\<close>

definition maxRequestBodyBytes :: nat where "maxRequestBodyBytes = 2 ^ 20"

text \<open>
  The OpenAPI library: whether \<open>FindRoute\<close> knows the request, and the error of \<open>ValidateRequest\<close>.
  The body is put back after it was read, so the next handler sees the same request.
\<close>

record openapi =
  oa_route :: "http_request \<Rightarrow> bool"
  oa_validate :: "http_request \<Rightarrow> gerr option"

definition validation_Wrap :: "openapi \<Rightarrow> (http_request \<Rightarrow> 'w \<Rightarrow> response \<times> 'w) \<Rightarrow> http_request \<Rightarrow> 'w \<Rightarrow>
    response \<times> 'w" where
  "validation_Wrap oa nextH r w =
     (if \<not> oa_route oa r then nextH r w
      else if maxRequestBodyBytes < length (rq_Body r) then (writeErrorMsg 413 ''Request body too large'', w)
      else (case oa_validate oa r of
          Some e \<Rightarrow> (writeErrorMsg 400 (err_text e), w)
        | None \<Rightarrow> nextH r w))"

text \<open>The log takes method, path and status of each request; times are left out.\<close>

definition RequestLogging :: "(string \<times> string \<times> nat \<Rightarrow> 'w \<Rightarrow> 'w) \<Rightarrow>
    (http_request \<Rightarrow> 'w \<Rightarrow> response \<times> 'w) \<Rightarrow> http_request \<Rightarrow> 'w \<Rightarrow> response \<times> 'w" where
  "RequestLogging log nextH r w = (case nextH r w of
      (resp, w1) \<Rightarrow> (resp, log (rq_Method r, rq_Path r, rs_code resp) w1))"

section \<open>main\<close>

definition main_authz :: "'w env \<Rightarrow> ('w, 't, 'k, 'ks) jwt \<Rightarrow> string \<Rightarrow> string \<Rightarrow> 'w AuthzMiddleware" where
  "main_authz env J cedarDB placementDB = \<lparr>am_store = NewStore cedarDB,
     am_validate = ValidateRequest J NewJWTValidator, am_placement = Some placementDB,
     am_statusDB = Some (statusDBFactory env)\<rparr>"

definition api_server_handler :: "'w env \<Rightarrow> ('w, 't, 'k, 'ks) jwt \<Rightarrow> ('p, 'm) engine \<Rightarrow> openapi \<Rightarrow> string \<Rightarrow>
    (string \<times> string \<times> nat \<Rightarrow> 'w \<Rightarrow> 'w) \<Rightarrow> string \<Rightarrow> string \<Rightarrow> http_request \<Rightarrow> 'w \<Rightarrow> response \<times> 'w" where
  "api_server_handler env J E oa spec log cedarDB placementDB =
     RequestLogging log (validation_Wrap oa (authz_Wrap env E (main_authz env J cedarDB placementDB)
       (mux_serve env (main_handler env placementDB) (NewStore cedarDB) spec)))"

text \<open>
  \<open>main\<close> itself: the flags, the clients, the handlers and the server. \<open>newMw\<close> loads the OpenAPI document,
  \<open>listen\<close> is \<open>ListenAndServe\<close> and \<open>close\<close> closes a client; the result is the exit code. A path that
  ends in \<open>os.Exit(1)\<close> runs none of the deferred calls. \<open>NewStore\<close> reads embedded files only and cannot fail.
\<close>

record api_flags =
  fl_addr :: string
  fl_gcpProject :: string
  fl_placementDatabase :: string
  fl_cedarDatabase :: string

definition default_flags :: api_flags where
  "default_flags = \<lparr>fl_addr = '':8080'', fl_gcpProject = [], fl_placementDatabase = ''placement'',
     fl_cedarDatabase = ''cedar''\<rparr>"

definition close_all :: "'w env \<Rightarrow> (string \<Rightarrow> 'w \<Rightarrow> gerr option \<times> 'w) \<Rightarrow> string \<Rightarrow> string \<Rightarrow> 'w \<Rightarrow> 'w" where
  "close_all env close placementDB cedarDB w =
     snd (close placementDB (snd (Close env close (snd (close cedarDB w)))))"

definition api_main :: "'w env \<Rightarrow> ('w, 't, 'k, 'ks) jwt \<Rightarrow> ('p, 'm) engine \<Rightarrow> (string \<Rightarrow> gerr + openapi) \<Rightarrow> string \<Rightarrow>
    (string \<times> string \<times> nat \<Rightarrow> 'w \<Rightarrow> 'w) \<Rightarrow> (string \<Rightarrow> (http_request \<Rightarrow> 'w \<Rightarrow> response \<times> 'w) \<Rightarrow> 'w \<Rightarrow> gerr option \<times> 'w) \<Rightarrow>
    (string \<Rightarrow> 'w \<Rightarrow> gerr option \<times> 'w) \<Rightarrow> api_flags \<Rightarrow> 'w \<Rightarrow> nat \<times> 'w" where
  "api_main env J E newMw spec log listen close fl w =
     (if fl_gcpProject fl = [] then (1, w)
      else (case fs_open env (fl_placementDatabase fl) w of
        (Some e, w1) \<Rightarrow> (1, w1)
      | (None, w1) \<Rightarrow> (case fs_open env (fl_cedarDatabase fl) (NewCache env w1) of
          (Some e, w2) \<Rightarrow> (1, w2)
        | (None, w2) \<Rightarrow> (case newMw spec of
            Inl e \<Rightarrow> (1, w2)
          | Inr oa \<Rightarrow> (case listen (fl_addr fl) (api_server_handler env J E oa spec log (fl_cedarDatabase fl)
                (fl_placementDatabase fl)) w2 of
              (Some e, w3) \<Rightarrow> (1, w3)
            | (None, w3) \<Rightarrow> (0, close_all env close (fl_placementDatabase fl) (fl_cedarDatabase fl) w3))))))"

text \<open>No document changes before the server listens, and what listens is the composed handler.\<close>

lemma api_main_listens:
  assumes "firestore env db" and "api_main env J E newMw spec log listen close fl w = (code, w')"
  shows "code = 1 \<and> db w' = db w \<or>
    (\<exists>oa w2 e w3. newMw spec = Inr oa \<and> db w2 = db w \<and> listen (fl_addr fl)
        (api_server_handler env J E oa spec log (fl_cedarDatabase fl) (fl_placementDatabase fl)) w2 = (e, w3) \<and>
       (code = 0 \<longleftrightarrow> e = None))"
proof -
  have opens: "fs_open env b v = (r, v') \<Longrightarrow> db v' = db v" for b v r v'
    using firestore.open_db[OF assms(1), of b v] by simp
  show ?thesis
    using assms(2) firestore.clients_db[OF assms(1)]
    unfolding api_main_def NewCache_def
    by (auto split: if_splits prod.splits option.splits sum.splits dest!: opens) blast+
qed

text \<open>A request as it arrives.\<close>

definition serve_http :: "(http_request \<Rightarrow> 'w \<Rightarrow> response \<times> 'w) \<Rightarrow> string \<Rightarrow> string \<Rightarrow> string \<Rightarrow> string \<Rightarrow> 'w \<Rightarrow>
    response \<times> 'w" where
  "serve_http handler method target auth body w = (case parse_request method target auth body of
      None \<Rightarrow> (\<lparr>rs_code = 400, rs_body = PBytes ''400 Bad Request''\<rparr>, w)
    | Some r \<Rightarrow> handler r w)"

end
