(* ===== verification/ApiFacts.thy ===== *)
theory ApiFacts
  imports ApiServer
begin

text \<open>
  What the handlers of \<open>ApiServer\<close> do to the documents. The locale \<open>api_server\<close> is the setting of
  a handler: a Firestore, the two factories that give the databases of a management cluster, and
  a placement database apart from them. Its lemmas give the effect of each step and of each
  handler; the handler that \<open>main\<close> builds is an instance for every Firestore.
\<close>

section \<open>The documents of a cluster\<close>

definition aRef :: "'w env \<Rightarrow> string \<Rightarrow> string \<Rightarrow> string \<Rightarrow> docref" where
  "aRef env mc ns n = doc_ref (specs_db mc) CollectionApplyDesires (mhcDocumentID env ns n)"

definition rRef :: "'w env \<Rightarrow> string \<Rightarrow> string \<Rightarrow> string \<Rightarrow> docref" where
  "rRef env mc ns n = doc_ref (specs_db mc) CollectionReadDesires (mhcDocumentID env ns n)"

definition dRef :: "'w env \<Rightarrow> string \<Rightarrow> string \<Rightarrow> string \<Rightarrow> docref" where
  "dRef env mc ns n = doc_ref (specs_db mc) CollectionDeleteDesires (mhcDocumentID env ns n)"

definition nRef :: "'w env \<Rightarrow> string \<Rightarrow> string \<Rightarrow> docref" where
  "nRef env mc ns = doc_ref (specs_db mc) CollectionApplyDesires (nsDocumentID env ns)"

lemmas desire_refs = aRef_def rRef_def dRef_def nRef_def

lemma desire_refs_apart [simp]:
  "aRef env mc ns n \<noteq> rRef env mc' ns' n'" "rRef env mc' ns' n' \<noteq> aRef env mc ns n"
  "aRef env mc ns n \<noteq> dRef env mc' ns' n'" "dRef env mc' ns' n' \<noteq> aRef env mc ns n"
  "rRef env mc ns n \<noteq> dRef env mc' ns' n'" "dRef env mc' ns' n' \<noteq> rRef env mc ns n"
  "nRef env mc ns \<noteq> rRef env mc' ns' n'" "rRef env mc' ns' n' \<noteq> nRef env mc ns"
  "nRef env mc ns \<noteq> dRef env mc' ns' n'" "dRef env mc' ns' n' \<noteq> nRef env mc ns"
  by (simp_all add: desire_refs desire_collections)

lemma desire_refs_db [simp]:
  "ref_db (aRef env mc ns n) = specs_db mc" "ref_db (rRef env mc ns n) = specs_db mc"
  "ref_db (dRef env mc ns n) = specs_db mc" "ref_db (nRef env mc ns) = specs_db mc"
  by (simp_all add: desire_refs)

text \<open>A change that leaves the cluster map alone and removes no document.\<close>

definition quiet :: "string \<Rightarrow> database \<Rightarrow> database \<Rightarrow> bool" where
  "quiet p D D' \<longleftrightarrow> (\<forall>i. D' (doc_ref p collectionClusterMap i) = D (doc_ref p collectionClusterMap i)) \<and>
     (\<forall>r. D r \<noteq> None \<longrightarrow> D' r \<noteq> None)"

lemma quiet_refl [simp]: "quiet p D D"
  by (simp add: quiet_def)

lemma quiet_trans [trans]: "quiet p D D1 \<Longrightarrow> quiet p D1 D2 \<Longrightarrow> quiet p D D2"
  by (simp add: quiet_def)

lemma quiet_upd: "ref_db r \<noteq> p \<or> ref_coll r \<noteq> collectionClusterMap \<Longrightarrow> quiet p D (D(r \<mapsto> d))"
  by (auto simp: quiet_def)

lemma quiet_map: "quiet p D D' \<Longrightarrow> D' (mapRef p ns n) = D (mapRef p ns n)"
  by (simp add: quiet_def mapRef_def)

lemma quiet_alloc: "alloc_step env p mc D D' \<Longrightarrow> quiet p D D'"
  unfolding alloc_step_def by (elim exE conjE) (simp add: quiet_upd placement_names)

section \<open>The setting\<close>

locale api_server = firestore env db + specs: db_factory db specs_db "h_SpecsDB h" +
    status: db_factory db status_db "h_StatusDB h"
  for env :: "'w env" and db :: "'w \<Rightarrow> database" and h :: "'w handler" +
  assumes placement_apart: "h_Placement h \<noteq> specs_db mc" "h_Placement h \<noteq> status_db mc"

lemma main_handler_api:
  assumes "firestore env db" and "\<And>mc. p \<noteq> specs_db mc" and "\<And>mc. p \<noteq> status_db mc"
  shows "api_server env db (main_handler env p)"
  using assms
  by (auto intro!: api_server.intro api_server_axioms.intro firestore.GetOrCreate_db
      simp: main_handler_def db_factory_def specsDBFactory_def statusDBFactory_def
      dest: firestore.GetOrCreate_name)

sublocale api_server \<subseteq> ap: desire_crud env db apply_ops
  by (intro desire_crud.intro firestore_axioms apply_type.desire_type_axioms)

sublocale api_server \<subseteq> rd: desire_crud env db read_ops
  by (intro desire_crud.intro firestore_axioms read_type.desire_type_axioms)

sublocale api_server \<subseteq> dl: desire_crud env db delete_ops
  by (intro desire_crud.intro firestore_axioms delete_type.desire_type_axioms)

interpretation emulator_api: api_server emu_env emu_db "main_handler emu_env ''placement''"
  by (rule main_handler_api[OF emulator.firestore_axioms])
    (simp_all add: specs_db_def status_db_def)

lemma desires_sel [simp]:
  "rc_Get (ApplyDesires env b) = crud_get env apply_ops b CollectionApplyDesires"
  "rc_Create (ApplyDesires env b) = crud_create env apply_ops b CollectionApplyDesires"
  "rc_Replace (ApplyDesires env b) = crud_replace env apply_ops b CollectionApplyDesires"
  "rc_Delete (ApplyDesires env b) = crud_delete env b CollectionApplyDesires"
  "rc_Get (ReadDesires env b) = crud_get env read_ops b CollectionReadDesires"
  "rc_Create (ReadDesires env b) = crud_create env read_ops b CollectionReadDesires"
  "rc_Delete (ReadDesires env b) = crud_delete env b CollectionReadDesires"
  "rc_Create (DeleteDesires env b) = crud_create env delete_ops b CollectionDeleteDesires"
  by (simp_all add: ApplyDesires_def ReadDesires_def DeleteDesires_def firestoreCRUD_def)

lemma ops_sel [simp]:
  "d_GetDocumentID apply_ops a = md_documentID (ad_meta a)"
  "d_GetDocumentID read_ops b = md_documentID (rd_meta b)"
  "d_GetDocumentID delete_ops c = md_documentID (dd_meta c)"
  "d_GetUpdateTime apply_ops a = md_updateTime (ad_meta a)"
  "d_GetSpecKubeContent apply_ops a = sp_kubeContent (ad_spec a)"
  "d_GetStatusKubeContent apply_ops a = None"
  "d_GetSpecKubeContent read_ops b = None"
  "d_GetStatusKubeContent read_ops b = st_kubeContent (rd_status b)"
  by (simp_all add: apply_ops_def read_ops_def delete_ops_def)

lemma desire_ids [simp]:
  "md_documentID (ad_meta (ns_desire env mc ns k)) = nsDocumentID env ns"
  "md_documentID (ad_meta (mhc_apply env mc ns obj k)) = mhcDocumentID env ns (om_name (mhc_ObjectMeta obj))"
  "md_documentID (rd_meta (mhc_read env mc ns obj)) = mhcDocumentID env ns (om_name (mhc_ObjectMeta obj))"
  "md_documentID (dd_meta (mhc_delete env mc ns n c)) = mhcDocumentID env ns n"
  by (simp_all add: ns_desire_def mhc_apply_def mhc_read_def mhc_delete_def new_apply_def
      new_read_def new_delete_def)

lemma or_error_split: "P (or_error r k) \<longleftrightarrow>
    (\<forall>e w. r = (Inl e, w) \<longrightarrow> P (writeError e, w)) \<and> (\<forall>a w. r = (Inr a, w) \<longrightarrow> P (k a w))"
  by (auto simp: or_error_def split: prod.split sum.split)

text \<open>The responses of the handlers are errors unless they end in \<open>writeJSON\<close>.\<close>

lemma response_codes [simp]:
  "rs_code (writeError e) \<noteq> 200" "rs_code (writeErrorMsg c m) = c" "rs_code (writeJSON c v) = c"
  "rs_body (writeJSON c v) = v" "rs_body (writeErrorMsg c m) = PError m c"
  by (simp_all add: writeError_def writeErrorMsg_def writeJSON_def)

lemma or_error_200:
  assumes "or_error r k = (resp, w')" and "rs_code resp = 200"
  obtains a w1 where "r = (Inr a, w1)" "k a w1 = (resp, w')"
  using assms by (auto simp: or_error_def split: prod.splits sum.splits)

section \<open>Steps\<close>

context firestore
begin

lemma getClusterMapping_cases:
  assumes "getClusterMapping env p ns n w = (r, w')"
  obtains (ok) mc d where "r = Inr mc" "db w' = db w" "db w (mapRef p ns n) = Some d"
      "sd_data d fieldMgmtCluster = Some (FStr mc)"
  | (err) e where "r = Inl e" "db w' = db w" "err_code e = NotFound \<longrightarrow> db w (mapRef p ns n) = None"
proof -
  obtain res w1 where g: "fs_get env (mapRef p ns n) w = (res, w1)" by force
  from g show thesis
  proof (cases rule: get_cases)
    case (ok d)
    with g assms that show ?thesis
      by (auto simp: getClusterMapping_def mapRef_def Let_def split: option.splits fval.splits)
  next
    case (err e)
    with g assms that show ?thesis
      by (auto simp: getClusterMapping_def mapRef_def Let_def split: if_splits)
  qed
qed

end

context api_server
begin

lemma apart [simp]:
  "aRef env mc ns n \<noteq> mapRef (h_Placement h) ns' n'" "mapRef (h_Placement h) ns' n' \<noteq> aRef env mc ns n"
  "rRef env mc ns n \<noteq> mapRef (h_Placement h) ns' n'" "mapRef (h_Placement h) ns' n' \<noteq> rRef env mc ns n"
  "dRef env mc ns n \<noteq> mapRef (h_Placement h) ns' n'" "mapRef (h_Placement h) ns' n' \<noteq> dRef env mc ns n"
  "nRef env mc ns \<noteq> mapRef (h_Placement h) ns' n'" "mapRef (h_Placement h) ns' n' \<noteq> nRef env mc ns"
  "aRef env mc ns n \<noteq> mcRef (h_Placement h) mc'" "mcRef (h_Placement h) mc' \<noteq> aRef env mc ns n"
  "rRef env mc ns n \<noteq> mcRef (h_Placement h) mc'" "mcRef (h_Placement h) mc' \<noteq> rRef env mc ns n"
  "dRef env mc ns n \<noteq> mcRef (h_Placement h) mc'" "mcRef (h_Placement h) mc' \<noteq> dRef env mc ns n"
  "nRef env mc ns \<noteq> mcRef (h_Placement h) mc'" "mcRef (h_Placement h) mc' \<noteq> nRef env mc ns"
  by (simp_all add: desire_refs mapRef_def mcRef_def desire_collections placement_names)

lemma specs_cases:
  assumes "h_SpecsDB h mc w = (r, w')"
  obtains "r = Inr (specs_db mc)" "db w' = db w" | e where "r = Inl e" "db w' = db w"
  using specs.factory_cases[OF assms] by blast

text \<open>Creating a desire of any type in the specs database of a cluster.\<close>

lemma quiet_create:
  assumes "desire_crud env db D" and "crud_create env D (specs_db mc) c x w = (r, w')"
  shows "quiet (h_Placement h) (db w) (db w') \<and>
    (\<forall>y. r = Inr y \<longrightarrow> db w' (doc_ref (specs_db mc) c (d_GetDocumentID D x)) \<noteq> None) \<and>
    (\<forall>e. r = Inl e \<longrightarrow> err_code e = AlreadyExists \<longrightarrow> db w' = db w)"
proof (cases r)
  case (Inr y)
  from desire_crud.crud_create_ok[OF assms(1) assms(2)[unfolded Inr]]
  obtain d where "db w' = (db w)(doc_ref (specs_db mc) c (d_GetDocumentID D x) \<mapsto> d)" by blast
  with Inr placement_apart(1)[of mc] show ?thesis by (simp add: quiet_upd)
next
  case (Inl e)
  from desire_crud.crud_create_err[OF assms(1) assms(2)[unfolded Inl]] Inl placement_apart(1)[of mc]
  show ?thesis by (auto simp: quiet_upd rejections_def)
qed

lemma quiet_replace:
  assumes "crud_replace env apply_ops (specs_db mc) c x w = (r, w')"
  shows "quiet (h_Placement h) (db w) (db w')"
proof (cases r)
  case (Inr y)
  from ap.crud_replace_ok[OF assms[unfolded Inr]]
  obtain d where "db w' = (db w)(doc_ref (specs_db mc) c (md_documentID (ad_meta x)) \<mapsto> d)"
    by simp blast
  with placement_apart(1)[of mc] show ?thesis by (simp add: quiet_upd)
next
  case (Inl e)
  from ap.crud_replace_err[OF assms[unfolded Inl]] placement_apart(1)[of mc]
  show ?thesis by (auto simp: quiet_upd)
qed

lemma quiet_allocate:
  assumes "allocate env (h_Placement h) w = (r, w')"
  shows "quiet (h_Placement h) (db w) (db w')"
  using allocate_effect[of "h_Placement h" w] assms by (auto dest: quiet_alloc)

lemma set_mapping:
  assumes "setClusterMapping env p ns n mc w = (r, w')"
  shows "db w' = db w \<and> (\<exists>e. r = Inl e) \<or> (\<exists>t. db w' = put_doc (mapRef p ns n) (mapping_doc ns n mc) t (db w))"
  using setClusterMapping_ok[of p ns n mc w _ w'] setClusterMapping_err[of p ns n mc w _ w'] assms
  by (cases r) auto

end

end
