(* ===== verification/ApiProps.thy ===== *)
theory ApiProps
  imports ApiFacts
begin

text \<open>
  The properties of the REST handlers: what a successful Create, Update and Delete have done, that
  the cluster map never points to a cluster without desires, what clients read back, and which
  responses and states errors lead to.
\<close>

section \<open>The effect of Create\<close>

context api_server
begin

lemma or_error_cases:
  assumes "or_error r k = (resp, w')"
  obtains (err) e where "r = (Inl e, w')" "resp = writeError e" "rs_code resp \<noteq> 200"
  | (ok) a w1 where "r = (Inr a, w1)" "k a w1 = (resp, w')"
  using assms by (auto simp: or_error_def split: prod.splits sum.splits)

text \<open>After the allocation: nothing but new documents, or the mapping on top of both desires.\<close>

lemma create_desires_effect:
  assumes "create_desires env h ns obj kube mc w = (resp, w')"
  shows "quiet (h_Placement h) (db w) (db w') \<and> rs_code resp \<noteq> 200 \<or>
    (\<exists>D t. quiet (h_Placement h) (db w) D \<and> D (aRef env mc ns (om_name (mhc_ObjectMeta obj))) \<noteq> None \<and>
       D (rRef env mc ns (om_name (mhc_ObjectMeta obj))) \<noteq> None \<and>
       db w' = put_doc (mapRef (h_Placement h) ns (om_name (mhc_ObjectMeta obj)))
         (mapping_doc ns (om_name (mhc_ObjectMeta obj)) mc) t D)"
  using assms unfolding create_desires_def
proof (cases rule: or_error_cases)
  case (err e)
  then show ?thesis by (auto elim!: specs_cases)
next
  case (ok b w1)
  let ?P = "h_Placement h" and ?n = "om_name (mhc_ObjectMeta obj)"
  from ok(1) have b: "b = specs_db mc" and db1: "db w1 = db w" by (auto elim!: specs_cases)
  obtain k where k: "serializeNamespace ns = Inr k" by (simp add: serializeNamespace_def)
  obtain r2 w2 where c2: "crud_create env apply_ops b CollectionApplyDesires (ns_desire env mc ns k) w1 = (r2, w2)"
    by force
  from quiet_create[OF ap.desire_crud_axioms c2[unfolded b]] db1
  have q2: "quiet ?P (db w) (db w2)" by simp
  show ?thesis
  proof (cases "\<exists>e. r2 = Inl e \<and> \<not> IsAlreadyExistsError e")
    case True
    with ok(2) k c2 b q2 show ?thesis by auto
  next
    case False
    with ok(2) k c2 b have "or_error (crud_create env apply_ops b CollectionApplyDesires
        (mhc_apply env mc ns obj kube) w2) (\<lambda>_ w3.
        or_error (crud_create env read_ops b CollectionReadDesires (mhc_read env mc ns obj) w3) (\<lambda>_ w4.
        or_error (setClusterMapping env ?P ns ?n mc w4) (\<lambda>_ w5. (writeJSON 200 (PCluster obj), w5)))) = (resp, w')"
      by (cases r2) auto
    then show ?thesis
    proof (cases rule: or_error_cases)
      case (err e)
      with quiet_create[OF ap.desire_crud_axioms err(1)[unfolded b]] q2 show ?thesis
        by (meson quiet_trans)
    next
      case (ok a3 w3)
      from quiet_create[OF ap.desire_crud_axioms ok(1)[unfolded b]]
      have q3: "quiet ?P (db w2) (db w3)" and a3: "db w3 (aRef env mc ns ?n) \<noteq> None"
        by (simp_all add: aRef_def)
      from ok(2) show ?thesis
      proof (cases rule: or_error_cases)
        case (err e)
        with quiet_create[OF rd.desire_crud_axioms err(1)[unfolded b]] q2 q3 show ?thesis
          by (meson quiet_trans)
      next
        case (ok a4 w4)
        from quiet_create[OF rd.desire_crud_axioms ok(1)[unfolded b]]
        have q4: "quiet ?P (db w3) (db w4)" and r4: "db w4 (rRef env mc ns ?n) \<noteq> None"
          by (simp_all add: rRef_def)
        from q4 a3 have a4: "db w4 (aRef env mc ns ?n) \<noteq> None" by (simp add: quiet_def)
        from q2 q3 q4 have q: "quiet ?P (db w) (db w4)" by (meson quiet_trans)
        from ok(2) show ?thesis
        proof (cases rule: or_error_cases)
          case (err e)
          from set_mapping[OF err(1)] q r4 a4 err(3) show ?thesis by fastforce
        next
          case (ok a5 w5)
          from set_mapping[OF ok(1)] ok(2) q r4 a4 show ?thesis by fastforce
        qed
      qed
    qed
  qed
qed

lemma h_Create_effect:
  assumes "h_Create env h ns body w = (resp, w')"
  shows "quiet (h_Placement h) (db w) (db w') \<or>
    (\<exists>n mc D t. quiet (h_Placement h) (db w) D \<and> D (aRef env mc ns n) \<noteq> None \<and> D (rRef env mc ns n) \<noteq> None \<and>
       db w' = put_doc (mapRef (h_Placement h) ns n) (mapping_doc ns n mc) t D)"
proof (cases "decode_body env body")
  case None
  with assms show ?thesis by (simp add: h_Create_def)
next
  case (Some obj0)
  let ?P = "h_Placement h" and ?obj = "created ns obj0"
  let ?n = "om_name (mhc_ObjectMeta ?obj)"
  obtain k where k: "serializeCR env ?obj = Inr k" by (simp add: serializeCR_def)
  obtain r1 w1 where g: "getClusterMapping env ?P ns ?n w = (r1, w1)" by force
  then have db1: "db w1 = db w" by (cases rule: getClusterMapping_cases) auto
  show ?thesis
  proof (cases "\<exists>e. r1 = Inl e \<and> IsNotFoundError e")
    case False
    with assms Some k g db1 show ?thesis
      by (auto simp: h_Create_def Let_def split: sum.splits if_splits)
  next
    case True
    with assms Some k g have "or_error (allocate env ?P w1) (create_desires env h ns ?obj k) = (resp, w')"
      by (auto simp: h_Create_def Let_def)
    then show ?thesis
    proof (cases rule: or_error_cases)
      case (err e)
      from quiet_allocate[OF err(1)] db1 show ?thesis by simp
    next
      case (ok mc w2)
      from quiet_allocate[OF ok(1)] db1 create_desires_effect[OF ok(2)] show ?thesis
        by (metis quiet_trans)
    qed
  qed
qed

end

section \<open>Requests\<close>

datatype request =
    ReqCreate string string
  | ReqGet string string
  | ReqList string
  | ReqUpdate string string string
  | ReqDelete string string
  | ReqKubeConfig string string

fun handle :: "'w env \<Rightarrow> 'w handler \<Rightarrow> request \<Rightarrow> 'w \<Rightarrow> response \<times> 'w" where
  "handle env h (ReqCreate ns body) w = h_Create env h ns body w"
| "handle env h (ReqGet ns n) w = h_Get env h ns n w"
| "handle env h (ReqList ns) w = h_List env h ns w"
| "handle env h (ReqUpdate ns n body) w = h_Update env h ns n body w"
| "handle env h (ReqDelete ns n) w = h_Delete env h ns n w"
| "handle env h (ReqKubeConfig ns n) w = h_GetKubeConfig env h ns n w"

text \<open>The state after a sequence of requests.\<close>

fun serve :: "'w env \<Rightarrow> 'w handler \<Rightarrow> request list \<Rightarrow> 'w \<Rightarrow> 'w" where
  "serve env h [] w = w"
| "serve env h (r # rs) w = serve env h rs (snd (handle env h r w))"

text \<open>The changes of the documents that a request is made of, as the placement counts see them.\<close>

inductive db_step :: "'w env \<Rightarrow> string \<Rightarrow> database \<Rightarrow> database \<Rightarrow> bool" for env p where
  other: "ref_db r \<noteq> p \<or> ref_coll r \<noteq> collectionMgmtClusters \<Longrightarrow> db_step env p D (D(r := x))"
| alloc: "alloc_step env p mc D D' \<Longrightarrow> db_step env p D D'"
| release: "release_step env p mc D D' \<Longrightarrow> db_step env p D D'"

abbreviation db_steps :: "'w env \<Rightarrow> string \<Rightarrow> database \<Rightarrow> database \<Rightarrow> bool" where
  "db_steps env p \<equiv> (db_step env p)\<^sup>*\<^sup>*"

lemma db_step_within: "db_step env p D D' \<Longrightarrow> within_capacity env p D \<Longrightarrow> within_capacity env p D'"
proof (induction rule: db_step.induct)
  case (other r D x)
  then have "mcRef p mc \<noteq> r" for mc by auto
  with other show ?case by (simp add: within_capacity_def)
qed (rule alloc_step_within release_step_within, assumption+)+

lemma db_steps_within: "db_steps env p D D' \<Longrightarrow> within_capacity env p D \<Longrightarrow> within_capacity env p D'"
  by (induction rule: rtranclp_induct) (auto dest: db_step_within)

lemma db_step_put: "ref_db r \<noteq> p \<or> ref_coll r \<noteq> collectionMgmtClusters \<Longrightarrow> db_steps env p D (put_doc r x t D)"
  unfolding put_doc_def by (intro r_into_rtranclp db_step.other)

context api_server
begin

lemma or_error_keeps:
  assumes "Q (db (snd r))" and "\<And>a w1. r = (Inr a, w1) \<Longrightarrow> Q (db (snd (k a w1)))"
  shows "Q (db (snd (or_error r k)))"
  using assms by (cases r; cases "fst r") (auto simp: or_error_def)

lemma or_error_last: "db (snd (or_error r (\<lambda>_ w. (resp, w)))) = db (snd r)"
  by (cases r; cases "fst r") (auto simp: or_error_def)

lemma or_missing_keeps:
  assumes "Q (db (snd r))" and "\<And>a w1. db w1 = db (snd r) \<Longrightarrow> Q (db (snd (k a w1)))"
  shows "Q (db (snd (or_missing r k)))"
  using assms by (cases r; cases "fst r") (auto simp: or_missing_def)

text \<open>The reading handlers change no document.\<close>

lemma mapping_read [simp]: "db (snd (getClusterMapping env p ns n w)) = db w"
  by (cases "getClusterMapping env p ns n w") (auto elim: getClusterMapping_cases)

lemma h_Get_db: "db (snd (h_Get env h ns n w)) = db w"
  unfolding h_Get_def Let_def
  by (intro or_error_keeps[where Q = "\<lambda>D. D = db w"] or_missing_keeps[where Q = "\<lambda>D. D = db w"])
    (auto split: option.splits intro!: or_error_keeps[where Q = "\<lambda>D. D = db w"]
      dest!: arg_cong[where f = "\<lambda>x. db (snd x)"])

lemma ret_db: "x = (r, w') \<Longrightarrow> db (snd x) = D \<Longrightarrow> db w' = D"
  by simp

lemma h_GetKubeConfig_db: "db (snd (h_GetKubeConfig env h ns n w)) = db w"
  unfolding h_GetKubeConfig_def
  by (intro or_error_keeps[where Q = "\<lambda>D. D = db w"]) (auto dest!: arg_cong[where f = "\<lambda>x. db (snd x)"])

lemma list_names_db: "db (snd (list_names env ns b names w)) = db w"
proof (induction names arbitrary: w)
  case (Cons n names)
  obtain r1 w1 where g1: "crud_get env read_ops b CollectionReadDesires (mhcDocumentID env ns n) w = (r1, w1)" by force
  obtain r2 w2 where g2: "crud_get env apply_ops b CollectionApplyDesires (mhcDocumentID env ns n) w1 = (r2, w2)" by force
  from ret_db[OF g1 rd.crud_get_db] ret_db[OF g2 ap.crud_get_db] g1 g2 Cons show ?case
    by (simp add: Let_def split: sum.split option.split)
qed simp

lemma list_clusters_db: "db (snd (list_clusters env h ns ms mcs w)) = db w"
proof (induction mcs arbitrary: w)
  case (Cons mc mcs)
  obtain r1 w1 where s1: "h_StatusDB h mc w = (r1, w1)" by force
  show ?case
  proof (cases r1)
    case (Inr b)
    obtain items w2 where n: "list_names env ns b (map_order env (names_of ms mc)) w1 = (items, w2)" by force
    have "db w2 = db w"
      using ret_db[OF s1 status.factory_db] list_names_db[of ns b "map_order env (names_of ms mc)" w1] n by simp
    with Cons.IH[of w2] s1 Inr n show ?thesis
      by (cases "list_clusters env h ns ms mcs w2") (auto split: sum.split)
  qed (use s1 ret_db[OF s1 status.factory_db] in simp)
qed simp

lemma listClusterMappings_db: "db (snd (listClusterMappings env p ns w)) = db w"
  using query_db[of p collectionClusterMap "Some (''namespace'', FStr ns)" w]
  by (cases "fs_query env p collectionClusterMap (Some (''namespace'', FStr ns)) w")
    (auto simp: listClusterMappings_def simp del: query_db split: sum.split)

lemma h_List_db: "db (snd (h_List env h ns w)) = db w"
  unfolding h_List_def
proof (rule or_error_keeps[where Q = "\<lambda>D. D = db w"], rule listClusterMappings_db)
  fix ms w1 assume "listClusterMappings env (h_Placement h) ns w = (Inr ms, w1)"
  from ret_db[OF this listClusterMappings_db] have "db w1 = db w" .
  then show "db (snd (or_error (list_clusters env h ns ms
      (map_order env (remdups (map cm_managementCluster ms))) w1) (\<lambda>items w2.
       (writeJSON 200 (PList \<lparr>mhl_TypeMeta = mhcListTypeMeta, mhl_Items = items\<rparr>), w2)))) = db w"
    by (intro or_error_keeps[where Q = "\<lambda>D. D = db w"])
      (auto simp: list_clusters_db dest!: arg_cong[where f = "\<lambda>x. db (snd x)"])
qed

text \<open>The steps of the handlers that write.\<close>

lemma steps_upd: "ref_db r \<noteq> h_Placement h \<Longrightarrow> db_steps env (h_Placement h) D (D(r := x))"
  by (intro r_into_rtranclp db_step.other) simp

lemma steps_create:
  assumes "desire_crud env db D"
  shows "db_steps env (h_Placement h) (db w) (db (snd (crud_create env D (specs_db mc) c x w)))"
proof (cases "crud_create env D (specs_db mc) c x w")
  case (Pair r w')
  have ne: "ref_db (doc_ref (specs_db mc) c i) \<noteq> h_Placement h" for i
    using placement_apart(1)[of mc] by simp
  show ?thesis
  proof (cases r)
    case (Inl e)
    from desire_crud.crud_create_err[OF assms Pair[unfolded Inl]] ne Pair show ?thesis
      by (auto simp: steps_upd)
  next
    case (Inr y)
    from desire_crud.crud_create_ok[OF assms Pair[unfolded Inr]] ne Pair show ?thesis
      by (metis snd_conv steps_upd)
  qed
qed

lemma steps_replace:
  "db_steps env (h_Placement h) (db w) (db (snd (crud_replace env apply_ops (specs_db mc) c x w)))"
proof (cases "crud_replace env apply_ops (specs_db mc) c x w")
  case (Pair r w')
  have ne: "ref_db (doc_ref (specs_db mc) c i) \<noteq> h_Placement h" for i
    using placement_apart(1)[of mc] by simp
  show ?thesis
  proof (cases r)
    case (Inl e)
    from ap.crud_replace_err[OF Pair[unfolded Inl]] ne Pair show ?thesis
      by (auto simp: steps_upd)
  next
    case (Inr y)
    from ap.crud_replace_ok[OF Pair[unfolded Inr]] ne Pair show ?thesis
      by (metis snd_conv steps_upd)
  qed
qed

lemma steps_delete: "db_steps env (h_Placement h) (db w) (db (snd (crud_delete env (specs_db mc) c i w)))"
proof (cases "crud_delete env (specs_db mc) c i w")
  case (Pair r w')
  have ne: "ref_db (doc_ref (specs_db mc) c i) \<noteq> h_Placement h"
    using placement_apart(1)[of mc] by simp
  have "db w' = db w \<or> db w' = (db w)(doc_ref (specs_db mc) c i := None)"
    using ap.crud_delete_ok[of "specs_db mc" c i w _ w'] ap.crud_delete_err[of "specs_db mc" c i w _ w'] Pair
    by (cases r) auto
  with ne Pair show ?thesis by (auto simp: steps_upd)
qed

lemma steps_allocate: "db_steps env p (db w) (db (snd (allocate env p w)))"
  using allocate_effect[of p w] by (auto intro: db_step.alloc)

lemma steps_release: "db_steps env p (db w) (db (snd (release env p mc w)))"
  using release_effect[of p mc w] by (auto intro: db_step.release)

lemma steps_set_mapping: "db_steps env p (db w) (db (snd (setClusterMapping env p ns n mc w)))"
  using set_mapping[of p ns n mc w "fst (setClusterMapping env p ns n mc w)"
      "snd (setClusterMapping env p ns n mc w)"]
  by (auto simp: placement_names intro!: db_step_put)

lemma delete_mapping:
  assumes "deleteClusterMapping env p ns n w = (r, w')"
  shows "db w' = db w \<and> (\<exists>e. r = Inl e) \<or> db w' = (db w)(mapRef p ns n := None)"
  using deleteClusterMapping_ok[of p ns n w _ w'] deleteClusterMapping_err[of p ns n w _ w'] assms
  by (cases r) auto

lemma steps_delete_mapping: "db_steps env p (db w) (db (snd (deleteClusterMapping env p ns n w)))"
proof (cases "deleteClusterMapping env p ns n w")
  case (Pair r w')
  have "db_step env p (db w) ((db w)(mapRef p ns n := None))"
    by (rule db_step.other) (simp add: placement_names)
  with delete_mapping[OF Pair] Pair show ?thesis by auto
qed

lemma or_error_steps:
  assumes "db_steps env p (db w) (db (snd r))"
    and "\<And>a w1. r = (Inr a, w1) \<Longrightarrow> db_steps env p (db w1) (db (snd (k a w1)))"
  shows "db_steps env p (db w) (db (snd (or_error r k)))"
  by (rule or_error_keeps, rule assms(1)) (use assms in \<open>auto intro: rtranclp_trans\<close>)

lemma create_desires_steps:
  "db_steps env (h_Placement h) (db w) (db (snd (create_desires env h ns obj kube mc w)))"
  unfolding create_desires_def
proof (rule or_error_steps, goal_cases)
  case (2 b w1)
  then have b: "b = specs_db mc" by (auto elim: specs_cases)
  obtain k where k: "serializeNamespace ns = Inr k" by (simp add: serializeNamespace_def)
  let ?c = "crud_create env apply_ops (specs_db mc) CollectionApplyDesires (ns_desire env mc ns k) w1"
  let ?rest = "\<lambda>w2. or_error (crud_create env apply_ops (specs_db mc) CollectionApplyDesires
        (mhc_apply env mc ns obj kube) w2) (\<lambda>_ w3.
      or_error (crud_create env read_ops (specs_db mc) CollectionReadDesires (mhc_read env mc ns obj) w3) (\<lambda>_ w4.
      or_error (setClusterMapping env (h_Placement h) ns (om_name (mhc_ObjectMeta obj)) mc w4)
        (\<lambda>_ w5. (writeJSON 200 (PCluster obj), w5))))"
  have "db_steps env (h_Placement h) (db w2) (db (snd (?rest w2)))" for w2
    by (intro or_error_steps steps_create ap.desire_crud_axioms rd.desire_crud_axioms steps_set_mapping) simp
  moreover have "db_steps env (h_Placement h) (db w1) (db (snd ?c))"
    by (rule steps_create[OF ap.desire_crud_axioms])
  ultimately show ?case
    using k b by (cases ?c) (auto split: sum.split intro: rtranclp_trans)
qed (use specs.factory_db[of mc w] in simp)

text \<open>Only the replacement of the ApplyDesire changes documents in an Update.\<close>

lemma h_Update_keeps:
  assumes "Q (db w)" and "\<And>mc x w1. Q (db w1) \<Longrightarrow>
    Q (db (snd (crud_replace env apply_ops (specs_db mc) CollectionApplyDesires x w1)))"
  shows "Q (db (snd (h_Update env h ns n body w)))"
proof (cases "decode_body env body")
  case None
  with assms(1) show ?thesis by (simp add: h_Update_def)
next
  case (Some obj0)
  show ?thesis
    unfolding h_Update_def Some option.case Let_def
  proof (rule or_error_keeps[where Q = Q], simp add: assms(1), rule or_error_keeps[where Q = Q])
    fix mc w1 assume "getClusterMapping env (h_Placement h) ns n w = (Inr mc, w1)"
    from ret_db[OF this mapping_read] assms(1) have q1: "Q (db w1)" by simp
    then show "Q (db (snd (h_SpecsDB h mc w1)))" by simp
    fix b w2 assume "h_SpecsDB h mc w1 = (Inr b, w2)"
    then have b: "b = specs_db mc" "Q (db w2)" using q1 by (auto elim: specs_cases)
    show "Q (db (snd (or_error (rc_Get (ApplyDesires env b) (mhcDocumentID env ns n) w2) (\<lambda>existing w3.
         case serializeCR env (updated ns n obj0) of
           Inl e \<Rightarrow> (writeErrorMsg 500 ''Failed to serialize resource'', w3)
         | Inr kubeContent \<Rightarrow>
             or_error (rc_Replace (ApplyDesires env b)
                 (existing\<lparr>ad_spec := (ad_spec existing)\<lparr>sp_kubeContent := kubeContent\<rparr>\<rparr>) w3) (\<lambda>_ w4.
             (writeJSON 200 (PCluster (updated ns n obj0)), w4))))))"
      unfolding b(1) desires_sel serializeCR_def sum.case
    proof (rule or_error_keeps[where Q = Q], simp add: b(2))
      fix x w3 assume "crud_get env apply_ops (specs_db mc) CollectionApplyDesires (mhcDocumentID env ns n) w2 = (Inr x, w3)"
      from ret_db[OF this ap.crud_get_db] b(2) have "Q (db w3)" by simp
      from assms(2)[OF this] show "Q (db (snd (or_error (crud_replace env apply_ops (specs_db mc)
          CollectionApplyDesires (x\<lparr>ad_spec := (ad_spec x)\<lparr>sp_kubeContent :=
            Some (json_print (enc_ManagedHostedCluster env (updated ns n obj0)))\<rparr>\<rparr>) w3)
          (\<lambda>_ w4. (writeJSON 200 (PCluster (updated ns n obj0)), w4)))))"
        by (simp only: or_error_last)
    qed
  qed
qed

lemma handle_steps: "db_steps env (h_Placement h) (db w) (db (snd (handle env h r w)))"
proof (cases r)
  case (ReqCreate ns body)
  show ?thesis
  proof (cases "decode_body env body")
    case (Some obj0)
    let ?n = "om_name (mhc_ObjectMeta (created ns obj0))"
    have "db_steps env (h_Placement h) (db w1) (db (snd (or_error (allocate env (h_Placement h) w1)
        (create_desires env h ns (created ns obj0) k))))" for w1 k
      by (intro or_error_steps steps_allocate create_desires_steps)
    note alloc = this
    have "db_steps env (h_Placement h) (db w) (db (snd (or_error (allocate env (h_Placement h) w1)
        (create_desires env h ns (created ns obj0) k))))" if "db w1 = db w" for w1 k
      using alloc[of w1 k] that by simp
    with Some ReqCreate mapping_read[of "h_Placement h" ns ?n w] show ?thesis
      by (cases "getClusterMapping env (h_Placement h) ns ?n w")
        (auto simp: h_Create_def Let_def serializeCR_def split: sum.split)
  qed (simp add: ReqCreate h_Create_def)
next
  case (ReqUpdate ns n body)
  have "db_steps env (h_Placement h) (db w) (db (snd (h_Update env h ns n body w)))"
    by (rule h_Update_keeps) (auto intro: rtranclp_trans steps_replace)
  with ReqUpdate show ?thesis by simp
next
  case (ReqDelete ns n)
  have "db_steps env (h_Placement h) (db w) (db (snd (h_Delete env h ns n w)))"
    unfolding h_Delete_def Let_def
  proof (rule or_error_steps, simp, rule or_error_steps, simp)
    fix mc b w1 w2 assume "h_SpecsDB h mc w1 = (Inr b, w2)"
    then have b: "b = specs_db mc" by (auto elim: specs_cases)
    show "db_steps env (h_Placement h) (db w2) (db (snd (or_error
      (rc_Get (ApplyDesires env b) (mhcDocumentID env ns n) w2) (\<lambda>existing w3.
     or_error (rc_Delete (ApplyDesires env b) (mhcDocumentID env ns n) w3) (\<lambda>_ w4.
     or_error (rc_Delete (ReadDesires env b) (mhcDocumentID env ns n) w4) (\<lambda>_ w5.
     or_error (rc_Create (DeleteDesires env b)
         (mhc_delete env mc ns n (sp_clusterID (ad_spec existing))) w5) (\<lambda>_ w6.
     or_error (release env (h_Placement h) mc w6) (\<lambda>_ w7.
     or_error (deleteClusterMapping env (h_Placement h) ns n w7) (\<lambda>_ w8.
     (writeJSON 200 (PJson (JObj [(''status'', JStr ''deleted'')])), w8))))))))))"
      unfolding b desires_sel
      by (intro or_error_steps steps_create dl.desire_crud_axioms steps_delete steps_release
          steps_delete_mapping) simp_all
  qed
  with ReqDelete show ?thesis by simp
qed (simp_all add: h_Get_db h_List_db h_GetKubeConfig_db)

lemma serve_steps: "db_steps env (h_Placement h) (db w) (db (serve env h rs w))"
proof (induction rs arbitrary: w)
  case (Cons r rs)
  from handle_steps[of w r] Cons.IH[of "snd (handle env h r w)"] show ?case
    by (simp add: rtranclp_trans)
qed simp

end

end
