(* ===== verification/ApiClaims.thy ===== *)
theory ApiClaims
  imports ApiProps
begin

text \<open>
  What successful requests have done, and the properties of the REST handlers with their witnesses.
\<close>

lemma created_sel [simp]:
  "om_name (mhc_ObjectMeta (created ns obj)) = om_name (mhc_ObjectMeta obj)"
  "om_namespace (mhc_ObjectMeta (created ns obj)) = ns"
  "mhc_TypeMeta (created ns obj) = mhcTypeMeta" "mhc_Spec (created ns obj) = mhc_Spec obj"
  by (simp_all add: created_def)

lemma updated_sel [simp]:
  "om_name (mhc_ObjectMeta (updated ns n obj)) = n" "om_namespace (mhc_ObjectMeta (updated ns n obj)) = ns"
  "mhc_TypeMeta (updated ns n obj) = mhcTypeMeta" "mhc_Spec (updated ns n obj) = mhc_Spec obj"
  by (simp_all add: updated_def)

definition cluster_raw :: "'w env \<Rightarrow> ManagedHostedCluster \<Rightarrow> raw_ext" where
  "cluster_raw env obj = Some (json_print (enc_ManagedHostedCluster env obj))"

context api_server
begin

lemma create_desires_200:
  assumes "create_desires env h ns obj kube mc w = (resp, w')" and "rs_code resp = 200"
  obtains da dr where "resp = writeJSON 200 (PCluster obj)"
    "db w (aRef env mc ns (om_name (mhc_ObjectMeta obj))) = None"
    "db w (rRef env mc ns (om_name (mhc_ObjectMeta obj))) = None"
    "db w' (aRef env mc ns (om_name (mhc_ObjectMeta obj))) = Some da"
    "doc_of env apply_ops (mhc_apply env mc ns obj kube) (sd_data da)"
    "db w' (rRef env mc ns (om_name (mhc_ObjectMeta obj))) = Some dr"
    "doc_of env read_ops (mhc_read env mc ns obj) (sd_data dr)"
    "map_option sd_data (db w' (mapRef (h_Placement h) ns (om_name (mhc_ObjectMeta obj)))) =
       Some (mapping_doc ns (om_name (mhc_ObjectMeta obj)) mc)"
    "\<And>r. r \<notin> {nRef env mc ns, aRef env mc ns (om_name (mhc_ObjectMeta obj)),
       rRef env mc ns (om_name (mhc_ObjectMeta obj)),
       mapRef (h_Placement h) ns (om_name (mhc_ObjectMeta obj))} \<Longrightarrow> db w' r = db w r"
proof -
  let ?P = "h_Placement h" and ?n = "om_name (mhc_ObjectMeta obj)"
  from assms obtain b w1 where s: "h_SpecsDB h mc w = (Inr b, w1)"
    and rest: "(case serializeNamespace ns of
       Inl e \<Rightarrow> (writeErrorMsg 500 ''Failed to serialize namespace'', w1)
     | Inr nsKubeContent \<Rightarrow>
         (case rc_Create (ApplyDesires env b) (ns_desire env mc ns nsKubeContent) w1 of
            (res, w2) \<Rightarrow>
              if (case res of Inl e \<Rightarrow> \<not> IsAlreadyExistsError e | Inr _ \<Rightarrow> False)
              then (writeError (projl res), w2)
              else
                or_error (rc_Create (ApplyDesires env b) (mhc_apply env mc ns obj kube) w2)
                  (\<lambda>_ w3.
                or_error (rc_Create (ReadDesires env b) (mhc_read env mc ns obj) w3) (\<lambda>_ w4.
                or_error (setClusterMapping env (h_Placement h) ns ?n mc w4)
                  (\<lambda>_ w5. (writeJSON 200 (PCluster obj), w5)))))) = (resp, w')"
    unfolding create_desires_def by (rule or_error_200)
  from s have b: "b = specs_db mc" and db1: "db w1 = db w" by (auto elim: specs_cases)
  obtain k where k: "serializeNamespace ns = Inr k" by (simp add: serializeNamespace_def)
  obtain r2 w2 where c2: "crud_create env apply_ops (specs_db mc) CollectionApplyDesires
      (ns_desire env mc ns k) w1 = (r2, w2)" by force
  have ns_frame: "db w2 r = db w r" if "r \<noteq> nRef env mc ns" for r
  proof (cases r2)
    case (Inl e)
    from ap.crud_create_err[OF c2[unfolded Inl]] that db1 show ?thesis by (auto simp: nRef_def)
  next
    case (Inr y)
    from ap.crud_create_ok[OF c2[unfolded Inr]] that db1 show ?thesis
      by (metis desire_ids(1) fun_upd_other nRef_def ops_sel(1))
  qed
  have ok2: "\<not> (case r2 of Inl e \<Rightarrow> \<not> IsAlreadyExistsError e | Inr _ \<Rightarrow> False)"
    using rest k c2 b assms(2) by (auto split: if_splits)
  with rest k c2 b have "or_error (crud_create env apply_ops b CollectionApplyDesires (mhc_apply env mc ns obj kube) w2)
      (\<lambda>_ w3. or_error (crud_create env read_ops b CollectionReadDesires (mhc_read env mc ns obj) w3) (\<lambda>_ w4.
        or_error (setClusterMapping env (h_Placement h) ns ?n mc w4)
          (\<lambda>_ w5. (writeJSON 200 (PCluster obj), w5)))) = (resp, w')"
    by auto
  then obtain a3 w3 a4 w4 a5 where
      c3: "crud_create env apply_ops b CollectionApplyDesires (mhc_apply env mc ns obj kube) w2 = (Inr a3, w3)" and
      c4: "crud_create env read_ops b CollectionReadDesires (mhc_read env mc ns obj) w3 = (Inr a4, w4)" and
      c5: "setClusterMapping env (h_Placement h) ns ?n mc w4 = (Inr a5, w')" and
      resp: "resp = writeJSON 200 (PCluster obj)"
    using assms(2) by (auto elim!: or_error_200)
  obtain da where da: "db w2 (aRef env mc ns ?n) = None" "db w3 = (db w2)(aRef env mc ns ?n \<mapsto> da)"
      "doc_of env apply_ops (mhc_apply env mc ns obj kube) (sd_data da)"
    by (rule ap.crud_create_ok[OF c3]) (simp add: aRef_def b)
  obtain dr where dr: "db w3 (rRef env mc ns ?n) = None" "db w4 = (db w3)(rRef env mc ns ?n \<mapsto> dr)"
      "doc_of env read_ops (mhc_read env mc ns obj) (sd_data dr)"
    by (rule rd.crud_create_ok[OF c4]) (simp add: rRef_def b)
  obtain t where db': "db w' = put_doc (mapRef ?P ns ?n) (mapping_doc ns ?n mc) t (db w4)"
    using setClusterMapping_ok[OF c5] by blast
  have "quiet ?P (db w1) (db w2)" using quiet_create[OF ap.desire_crud_axioms c2] by blast
  with da(1) db1 have a0: "db w (aRef env mc ns ?n) = None" by (auto simp: quiet_def)
  have r0: "db w (rRef env mc ns ?n) = None"
    using dr(1) da(2) ns_frame[of "rRef env mc ns ?n"] by simp
  show thesis
    by (rule that[OF resp a0 r0 _ da(3) _ dr(3)])
      (auto simp: db' dr(2) da(2) ns_frame)
qed

lemma h_Create_200:
  assumes "h_Create env h ns body w = (resp, w')" and "rs_code resp = 200"
  obtains obj0 mc w1 w2 where "decode_body env body = Some obj0"
    "db w (mapRef (h_Placement h) ns (om_name (mhc_ObjectMeta obj0))) = None" "db w1 = db w"
    "allocate env (h_Placement h) w1 = (Inr mc, w2)"
    "create_desires env h ns (created ns obj0) (cluster_raw env (created ns obj0)) mc w2 = (resp, w')"
proof (cases "decode_body env body")
  case None
  with assms show thesis by (auto simp: h_Create_def)
next
  case (Some obj0)
  let ?P = "h_Placement h" and ?n = "om_name (mhc_ObjectMeta obj0)"
  obtain r1 w1 where g: "getClusterMapping env ?P ns ?n w = (r1, w1)" by force
  from g show thesis
  proof (cases rule: getClusterMapping_cases)
    case (ok mc d)
    with assms g Some show ?thesis by (auto simp: h_Create_def serializeCR_def)
  next
    case (err e)
    show ?thesis
    proof (cases "IsNotFoundError e")
      case True
      with assms g Some err obtain mc w2 where "allocate env ?P w1 = (Inr mc, w2)"
        "create_desires env h ns (created ns obj0) (cluster_raw env (created ns obj0)) mc w2 = (resp, w')"
        by (auto simp: h_Create_def serializeCR_def cluster_raw_def Let_def elim!: or_error_200)
      with that[OF Some] err True show ?thesis by (simp add: IsNotFoundError_def)
    next
      case False
      with assms g Some err show ?thesis by (auto simp: h_Create_def serializeCR_def Let_def)
    qed
  qed
qed

end

section \<open>When Firestore is up\<close>

context firestore_up
begin

lemma getClusterMapping_up:
  assumes "up w" and "db w (mapRef p ns n) = Some d" and "sd_data d fieldMgmtCluster = Some (FStr mc)"
  shows "\<exists>w'. getClusterMapping env p ns n w = (Inr mc, w') \<and> up w' \<and> db w' = db w"
proof -
  from get_present[OF assms(1,2)] obtain w' where g: "fs_get env (mapRef p ns n) w = (Inr (snap_of (mapRef p ns n) d), w')" "up w'"
    by blast
  moreover from g get_db[of "mapRef p ns n" w] have "db w' = db w" by simp
  ultimately show ?thesis using assms(3) by (simp add: getClusterMapping_def mapRef_def)
qed

lemma GetOrCreate_up: "up w \<Longrightarrow> \<exists>w'. GetOrCreate env i w = (Inr i, w') \<and> up w' \<and> db w' = db w"
  using open_up[of w i] open_db[of i w] clients_up clients_db
  by (cases "fs_open env i w") (auto simp: GetOrCreate_def)

lemma crud_get_absent_up:
  assumes "up w" and "db w (doc_ref b c i) = None"
  shows "\<exists>w'. crud_get env D b c i w = (Inl NewNotFoundError, w') \<and> up w' \<and> db w' = db w"
proof -
  from get_absent[OF assms] obtain e w' where g: "fs_get env (doc_ref b c i) w = (Inl e, w')" "err_code e = NotFound" "up w'"
    by blast
  with get_db[of "doc_ref b c i" w] show ?thesis by (simp add: crud_get_def)
qed

lemma crud_get_present_up:
  assumes "desire_type D" and "up w" and "db w (doc_ref b c i) = Some d" and "doc_of env D x (sd_data d)"
  shows "\<exists>w'. crud_get env D b c i w = (Inr (read_back env D i d x), w') \<and> up w' \<and> db w' = db w"
proof -
  from get_present[OF assms(2,3)] obtain w' where g: "fs_get env (doc_ref b c i) w = (Inr (snap_of (doc_ref b c i) d), w')" "up w'"
    by blast
  with get_db[of "doc_ref b c i" w]
    desire_crud.snapshot_doc_of[OF desire_crud.intro[OF firestore_axioms assms(1)] assms(4), of "doc_ref b c i"]
  show ?thesis by (simp add: crud_get_def)
qed

end

text \<open>A cluster that was serialized, stored and read back decodes to itself.\<close>

context firestore
begin

lemma cluster_raw_survives:
  assumes "kube_types_ok env obj"
  shows "\<exists>raw. kube_norm env (cluster_raw env obj) = Some raw \<and> unmarshalCR env raw = Some obj"
proof -
  let ?e = "enc_ManagedHostedCluster env obj"
  from survives_ManagedHostedCluster[OF assms] obtain v j' where wf: "wf_json ?e"
      and v: "json_fval env ?e = Some v" "fval_json env v = Some j'" and dec:
      "dec_ManagedHostedCluster env j' zero_ManagedHostedCluster = Some obj" "j' \<noteq> JNull"
    by (auto simp: survives_def renorm_def split: option.splits)
  from json_fval_stable[OF v(1)] v(2) have wf': "wf_json j'" by auto
  obtain ms where ms: "?e = JObj ms" by (simp add: enc_ManagedHostedCluster_def)
  have "rawExtToMap env (cluster_raw env obj) = Inr v"
    using json_parse_print[OF wf] v(1) ms
    by (auto simp: cluster_raw_def rawExtToMap_def simp del: json_fval.simps split: option.split)
  moreover have "v \<noteq> FNull" using v(2) dec(2) by auto
  ultimately have "kube_norm env (cluster_raw env obj) = Some (json_print j')"
    using v(2) by (simp add: kube_norm_def mapToRawExt_def)
  with json_parse_print[OF wf'] dec(1) show ?thesis by (simp add: unmarshalCR_def)
qed

end

section \<open>Properties\<close>

text \<open>What a successful Create of \<open>obj\<close> in namespace \<open>ns\<close> did to the documents.\<close>

definition cluster_created :: "'w env \<Rightarrow> string \<Rightarrow> string \<Rightarrow> ManagedHostedCluster \<Rightarrow> string \<Rightarrow>
    database \<Rightarrow> database \<Rightarrow> bool" where
  "cluster_created env p ns obj mc D D' \<longleftrightarrow>
     (let n = om_name (mhc_ObjectMeta obj) in
       D (mapRef p ns n) = None \<and> D (aRef env mc ns n) = None \<and> D (rRef env mc ns n) = None \<and>
       map_option sd_data (D' (mapRef p ns n)) = Some (mapping_doc ns n mc) \<and>
       (\<exists>d. D' (aRef env mc ns n) = Some d \<and>
          doc_of env apply_ops (mhc_apply env mc ns obj (cluster_raw env obj)) (sd_data d)) \<and>
       (\<exists>d. D' (rRef env mc ns n) = Some d \<and> doc_of env read_ops (mhc_read env mc ns obj) (sd_data d)) \<and>
       (\<exists>D1. alloc_step env p mc D D1 \<and> D' (mcRef p mc) = D1 (mcRef p mc)) \<and>
       (\<forall>r. r \<notin> {mapRef p ns n, aRef env mc ns n, rRef env mc ns n, nRef env mc ns, mcRef p mc} \<longrightarrow>
          D' r = D r))"

lemma alloc_step_frame: "alloc_step env p mc D D' \<Longrightarrow> r \<noteq> mcRef p mc \<Longrightarrow> D' r = D r"
  by (auto simp: alloc_step_def)

text \<open>C1: a Create that answers 200 has read a well-formed body and answers with the cluster in it,
  its namespace and type forced; the cluster had no mapping and no desires; now the mapping points
  to one management cluster, whose specs database has the ApplyDesire with the serialized cluster
  and the ReadDesire, whose count was raised by one within its capacity, and no document but these
  and the namespace's ApplyDesire has changed.\<close>

theorem create_success:
  assumes "api_server env db h" and "h_Create env h ns body w = (resp, w')" and "rs_code resp = 200"
  shows "\<exists>obj mc. decode_body env body = Some obj \<and> resp = writeJSON 200 (PCluster (created ns obj)) \<and>
    cluster_created env (h_Placement h) ns (created ns obj) mc (db w) (db w')"
proof -
  let ?P = "h_Placement h"
  obtain obj mc w1 w2 where dec: "decode_body env body = Some obj"
      and none: "db w (mapRef ?P ns (om_name (mhc_ObjectMeta obj))) = None" "db w1 = db w"
      and al: "allocate env ?P w1 = (Inr mc, w2)"
      and cd: "create_desires env h ns (created ns obj) (cluster_raw env (created ns obj)) mc w2 = (resp, w')"
    by (rule api_server.h_Create_200[OF assms])
  let ?n = "om_name (mhc_ObjectMeta (created ns obj))"
  have as: "alloc_step env ?P mc (db w) (db w2)"
    using firestore.allocate_ok[OF api_server.axioms(1)[OF assms(1)] al] none(2) by simp
  note ap = api_server.apart[OF assms(1)]
  obtain da dr where d: "resp = writeJSON 200 (PCluster (created ns obj))"
    "db w2 (aRef env mc ns ?n) = None" "db w2 (rRef env mc ns ?n) = None"
    "db w' (aRef env mc ns ?n) = Some da"
    "doc_of env apply_ops (mhc_apply env mc ns (created ns obj) (cluster_raw env (created ns obj))) (sd_data da)"
    "db w' (rRef env mc ns ?n) = Some dr"
    "doc_of env read_ops (mhc_read env mc ns (created ns obj)) (sd_data dr)"
    "map_option sd_data (db w' (mapRef ?P ns ?n)) = Some (mapping_doc ns ?n mc)"
    and fr: "\<And>r. r \<notin> {nRef env mc ns, aRef env mc ns ?n, rRef env mc ns ?n, mapRef ?P ns ?n} \<Longrightarrow>
       db w' r = db w2 r"
    by (rule api_server.create_desires_200[OF assms(1) cd assms(3)]) (rule that; simp)
  have "db w (aRef env mc ns ?n) = None" "db w (rRef env mc ns ?n) = None"
    using d(2,3) alloc_step_frame[OF as] ap by metis+
  moreover have "db w' (mcRef ?P mc) = db w2 (mcRef ?P mc)" by (rule fr) (simp add: ap)
  moreover have "db w' r = db w r"
    if "r \<notin> {mapRef ?P ns ?n, aRef env mc ns ?n, rRef env mc ns ?n, nRef env mc ns, mcRef ?P mc}" for r
    using that fr[of r] alloc_step_frame[OF as, of r] by simp
  ultimately have "cluster_created env ?P ns (created ns obj) mc (db w) (db w')"
    unfolding cluster_created_def Let_def using d(4-8) none(1) as by (metis created_sel(1))
  with dec d(1) show ?thesis by blast
qed

text \<open>The server and requests of the witnesses.\<close>

definition demo_body :: string where
  "demo_body = json_print (JObj [(''metadata'', JObj [(''name'', JStr ''c1'')]),
     (''spec'', JObj [(''clusterID'', JStr ''id1'')])])"

abbreviation demo_h :: "emu handler" where
  "demo_h \<equiv> main_handler emu_env ''placement''"

definition demo_created :: "response \<times> emu" where
  "demo_created = h_Create emu_env demo_h ''ns'' demo_body demo_placement"

lemma demo_created_200: "rs_code (fst demo_created) = 200"
  by code_simp

theorem create_success_witness:
  "\<exists>obj mc. decode_body emu_env demo_body = Some obj \<and>
     cluster_created emu_env ''placement'' ''ns'' (created ''ns'' obj) mc
       (emu_db demo_placement) (emu_db (snd demo_created))"
proof -
  have "h_Create emu_env demo_h ''ns'' demo_body demo_placement = (fst demo_created, snd demo_created)"
    by (simp add: demo_created_def)
  from create_success[OF emulator_api.api_server_axioms this demo_created_200]
  show ?thesis by (auto simp: main_handler_def)
qed

text \<open>C3: a Create for a cluster that has a mapping never succeeds and changes no document, whatever
  fails on the way; when Firestore is up and the mapping is well formed the answer is 409.\<close>

theorem create_conflict:
  assumes "api_server env db h" and "decode_body env body = Some obj"
    and "db w (mapRef (h_Placement h) ns (om_name (mhc_ObjectMeta obj))) = Some d"
  shows "rs_code (fst (h_Create env h ns body w)) \<noteq> 200 \<and> db (snd (h_Create env h ns body w)) = db w \<and>
    (firestore_up env db up \<longrightarrow> up w \<longrightarrow> sd_data d fieldMgmtCluster = Some (FStr mc) \<longrightarrow>
       rs_code (fst (h_Create env h ns body w)) = 409)"
proof -
  note fs = api_server.axioms(1)[OF assms(1)]
  let ?n = "om_name (mhc_ObjectMeta obj)"
  obtain r1 w1 where g: "getClusterMapping env (h_Placement h) ns ?n w = (r1, w1)" by force
  have res: "h_Create env h ns body w = (case r1 of
        Inr _ \<Rightarrow> (writeErrorMsg 409 ''cluster already exists'', w1) | Inl e \<Rightarrow> (writeError e, w1))"
    and db1: "db w1 = db w"
    using firestore.getClusterMapping_cases[OF fs g] g assms(2,3)
    by (auto simp: h_Create_def Let_def serializeCR_def IsNotFoundError_def split: sum.split)
  have "\<exists>m. r1 = Inr m" if "firestore_up env db up" "up w" "sd_data d fieldMgmtCluster = Some (FStr mc)"
    using firestore_up.getClusterMapping_up[OF that(1,2) assms(3) that(3)] g by auto
  with res db1 show ?thesis by (auto split: sum.split)
qed

theorem create_conflict_witness:
  "\<exists>mc. rs_code (fst (h_Create emu_env demo_h ''ns'' demo_body (snd demo_created))) = 409 \<and>
     emu_db (snd (h_Create emu_env demo_h ''ns'' demo_body (snd demo_created))) = emu_db (snd demo_created)"
proof -
  have "(case decode_body emu_env demo_body of Some obj \<Rightarrow> om_name (mhc_ObjectMeta obj) = ''c1'' | None \<Rightarrow> False)"
    by code_simp
  then obtain obj where o: "decode_body emu_env demo_body = Some obj" "om_name (mhc_ObjectMeta obj) = ''c1''"
    by (auto split: option.splits)
  have "(case emu_db (snd demo_created) (mapRef ''placement'' ''ns'' ''c1'') of
      Some d \<Rightarrow> sd_data d fieldMgmtCluster = Some (FStr ''mc-02'') | None \<Rightarrow> False)" by code_simp
  then obtain d where d: "emu_db (snd demo_created) (mapRef ''placement'' ''ns'' ''c1'') = Some d"
      "sd_data d fieldMgmtCluster = Some (FStr ''mc-02'')"
    by (auto split: option.splits)
  have up: "emu_up (snd demo_created)" unfolding emu_up_def by code_simp
  have d': "emu_db (snd demo_created) (mapRef (h_Placement demo_h) ''ns'' (om_name (mhc_ObjectMeta obj))) = Some d"
    using d(1) o(2) by (simp add: main_handler_def)
  show ?thesis
    using create_conflict[where w = "snd demo_created" and up = emu_up and mc = "''mc-02''" and h = demo_h,
        OF emulator_api.api_server_axioms o(1) d']
      emulator_up.firestore_up_axioms up d(2) by blast
qed

text \<open>The cluster map is backed: a mapping of a namespace without colon (clusters of other namespaces
  can share their mapping) points to a management cluster whose specs database has both desires.\<close>

definition backed :: "'w env \<Rightarrow> string \<Rightarrow> database \<Rightarrow> bool" where
  "backed env p D \<longleftrightarrow> (\<forall>ns n mc d. CHR '':'' \<notin> set ns \<longrightarrow> D (mapRef p ns n) = Some d \<longrightarrow>
     sd_data d fieldMgmtCluster = Some (FStr mc) \<longrightarrow>
     D (aRef env mc ns n) \<noteq> None \<and> D (rRef env mc ns n) \<noteq> None)"

lemma backed_quiet: "quiet p D D' \<Longrightarrow> backed env p D \<Longrightarrow> backed env p D'"
  unfolding backed_def by (metis quiet_def quiet_map)

context api_server
begin

lemma backed_put:
  assumes "backed env (h_Placement h) D" and "CHR '':'' \<notin> set ns"
    and "D (aRef env mc ns n) \<noteq> None" and "D (rRef env mc ns n) \<noteq> None"
  shows "backed env (h_Placement h) (put_doc (mapRef (h_Placement h) ns n) (mapping_doc ns n mc) t D)"
  unfolding backed_def
proof (intro allI impI)
  fix ns' n' mc' d
  assume ns': "CHR '':'' \<notin> set ns'" and m: "sd_data d fieldMgmtCluster = Some (FStr mc')"
    and d: "put_doc (mapRef (h_Placement h) ns n) (mapping_doc ns n mc) t D (mapRef (h_Placement h) ns' n') = Some d"
  show "put_doc (mapRef (h_Placement h) ns n) (mapping_doc ns n mc) t D (aRef env mc' ns' n') \<noteq> None \<and>
     put_doc (mapRef (h_Placement h) ns n) (mapping_doc ns n mc) t D (rRef env mc' ns' n') \<noteq> None"
  proof (cases "ns' = ns \<and> n' = n")
    case True
    with d m assms(3,4) show ?thesis by (auto simp: put_doc_apply)
  next
    case False
    then have "mapRef (h_Placement h) ns' n' \<noteq> mapRef (h_Placement h) ns n"
      using assms(2) ns' by (simp add: mapRef_eq clusterMapDocID_def sep_append_inject)
    with d m ns' assms(1) show ?thesis by (auto simp: backed_def put_doc_apply)
  qed
qed

lemma h_Update_quiet: "quiet (h_Placement h) (db w) (db (snd (h_Update env h ns n body w)))"
proof (rule h_Update_keeps)
  fix mc x w1 assume "quiet (h_Placement h) (db w) (db w1)"
  with quiet_replace[of mc CollectionApplyDesires x w1] show "quiet (h_Placement h) (db w)
      (db (snd (crud_replace env apply_ops (specs_db mc) CollectionApplyDesires x w1)))"
    by (metis quiet_trans prod.collapse)
qed simp

lemma h_Create_backed:
  assumes "backed env (h_Placement h) (db w)" and "CHR '':'' \<notin> set ns"
  shows "backed env (h_Placement h) (db (snd (h_Create env h ns body w)))"
  using h_Create_effect[of ns body w "fst (h_Create env h ns body w)" "snd (h_Create env h ns body w)"]
    assms backed_quiet backed_put by fastforce

end

end
