(* ===== verification/ApiClaims2.thy ===== *)
theory ApiClaims2
  imports ApiClaims
begin

text \<open>
  Delete, and the properties of sequences of requests, of what clients read back and of failures.
\<close>

text \<open>The part of Delete after the ApplyDesire is gone.\<close>

definition delete_rest :: "'w env \<Rightarrow> 'w handler \<Rightarrow> string \<Rightarrow> string \<Rightarrow> string \<Rightarrow> apply_desire \<Rightarrow>
    'w \<Rightarrow> response \<times> 'w" where
  "delete_rest env h mc ns n x w4 =
     or_error (crud_delete env (specs_db mc) CollectionReadDesires (mhcDocumentID env ns n) w4) (\<lambda>_ w5.
     or_error (crud_create env delete_ops (specs_db mc) CollectionDeleteDesires
         (mhc_delete env mc ns n (sp_clusterID (ad_spec x))) w5) (\<lambda>_ w6.
     or_error (release env (h_Placement h) mc w6) (\<lambda>_ w7.
     or_error (deleteClusterMapping env (h_Placement h) ns n w7) (\<lambda>_ w8.
     (writeJSON 200 (PJson (JObj [(''status'', JStr ''deleted'')])), w8)))))"

context api_server
begin

lemma release_frame: "release env p mc w = (r, w') \<Longrightarrow> r0 \<noteq> mcRef p mc \<Longrightarrow> db w' r0 = db w r0"
  using release_effect[of p mc w] by (auto simp: release_step_def split: if_splits)

lemma crud_delete_effect: "crud_delete env b c i w = (r, w') \<Longrightarrow>
    db w' = (db w)(doc_ref b c i := None) \<or> (\<exists>e. r = Inl e) \<and> db w' = db w"
  using ap.crud_delete_ok[of b c i w _ w'] ap.crud_delete_err[of b c i w _ w'] by (cases r) auto

lemma crud_create_frame:
  assumes "desire_crud env db D" and "crud_create env D b c x w = (r, w')" and "r0 \<noteq> doc_ref b c (d_GetDocumentID D x)"
  shows "db w' r0 = db w r0"
proof (cases r)
  case (Inl e)
  from desire_crud.crud_create_err[OF assms(1) assms(2)[unfolded Inl]] assms(3) show ?thesis by auto
next
  case (Inr y)
  from desire_crud.crud_create_ok[OF assms(1) assms(2)[unfolded Inr]] assms(3) show ?thesis
    by (metis fun_upd_other)
qed

lemma h_Delete_cases:
  assumes "h_Delete env h ns n w = (resp, w')"
  obtains (early) "rs_code resp \<noteq> 200" "db w' = db w"
  | (removed) mc where "rs_code resp \<noteq> 200" "db w' = (db w)(aRef env mc ns n := None)"
  | (rest) mc d x w3 w4 where "db w (mapRef (h_Placement h) ns n) = Some d"
      "sd_data d fieldMgmtCluster = Some (FStr mc)" "db w3 = db w"
      "tab_of env db apply_ops (specs_db mc) CollectionApplyDesires w (mhcDocumentID env ns n) = Some x"
      "db w4 = (db w)(aRef env mc ns n := None)" "delete_rest env h mc ns n x w4 = (resp, w')"
proof -
  obtain r1 w1 where g: "getClusterMapping env (h_Placement h) ns n w = (r1, w1)" by force
  then show thesis
  proof (cases rule: getClusterMapping_cases)
    case (err e)
    with assms g early show ?thesis by (auto simp: h_Delete_def or_error_def)
  next
    case (ok mc d)
    obtain r2 w2 where s: "h_SpecsDB h mc w1 = (r2, w2)" by force
    then show ?thesis
    proof (cases rule: specs_cases)
      case (2 e)
      with assms g s ok early show ?thesis by (auto simp: h_Delete_def or_error_def)
    next
      case 1
      let ?i = "mhcDocumentID env ns n"
      obtain r3 w3 where a: "crud_get env apply_ops (specs_db mc) CollectionApplyDesires ?i w2 = (r3, w3)" by force
      from ret_db[OF a ap.crud_get_db] 1 ok have db3: "db w3 = db w" by simp
      obtain r4 w4 where del: "crud_delete env (specs_db mc) CollectionApplyDesires ?i w3 = (r4, w4)" by force
      show ?thesis
      proof (cases r3)
        case (Inl e)
        with assms g s ok 1 a db3 early show ?thesis by (auto simp: h_Delete_def or_error_def)
      next
        case (Inr x)
        have tab: "tab_of env db apply_ops (specs_db mc) CollectionApplyDesires w ?i = Some x"
          by (rule ap.crud_get_ok[OF a[unfolded Inr]]) (use ok 1 in \<open>simp add: tab_of_def\<close>)
        show ?thesis
        proof (cases r4)
          case (Inl e)
          with assms g s ok 1 a \<open>r3 = Inr x\<close> del have "resp = writeError e" "w' = w4"
            by (auto simp: h_Delete_def or_error_def)
          with crud_delete_effect[OF del] db3 early removed[of mc] show ?thesis
            by (auto simp: aRef_def)
        next
          case (Inr u)
          with assms g s ok 1 a \<open>r3 = Inr x\<close> del have "delete_rest env h mc ns n x w4 = (resp, w')"
            by (auto simp: h_Delete_def or_error_def delete_rest_def)
          with crud_delete_effect[OF del] Inr db3 tab ok rest show ?thesis
            by (auto simp: aRef_def)
        qed
      qed
    qed
  qed
qed

lemma delete_rest_frame:
  assumes "r \<notin> {rRef env mc ns n, dRef env mc ns n, mcRef (h_Placement h) mc, mapRef (h_Placement h) ns n}"
  shows "db (snd (delete_rest env h mc ns n x w)) r = db w r"
proof -
  let ?Q = "\<lambda>D. D r = db w r"
  have 1: "?Q (db w1)" if "?Q (db w0)" "crud_delete env (specs_db mc) CollectionReadDesires (mhcDocumentID env ns n) w0 = (e, w1)" for w0 e w1
    using crud_delete_effect[OF that(2)] that(1) assms by (auto simp: rRef_def)
  have 2: "?Q (db w1)" if "?Q (db w0)" "crud_create env delete_ops (specs_db mc) CollectionDeleteDesires
      (mhc_delete env mc ns n c) w0 = (e, w1)" for w0 e w1 c
    using crud_create_frame[OF dl.desire_crud_axioms that(2), of r] that(1) assms by (simp add: dRef_def)
  have 3: "?Q (db w1)" if "?Q (db w0)" "release env (h_Placement h) mc w0 = (e, w1)" for w0 e w1
    using release_frame[OF that(2), of r] that(1) assms by simp
  have 4: "?Q (db w1)" if "?Q (db w0)" "deleteClusterMapping env (h_Placement h) ns n w0 = (e, w1)" for w0 e w1
    using delete_mapping[OF that(2)] that(1) assms by auto
  obtain res w' where del: "delete_rest env h mc ns n x w = (res, w')" by force
  then have "?Q (db w')"
    unfolding delete_rest_def
    by (elim or_error_cases) (use 1 2 3 4 in \<open>metis snd_conv prod.inject\<close>)+
  with del show ?thesis by simp
qed

lemma delete_rest_200:
  assumes "delete_rest env h mc ns n x w = (resp, w')" and "rs_code resp = 200"
  obtains dd d where "db w' (mapRef (h_Placement h) ns n) = None" "db w' (rRef env mc ns n) = None"
    "db w' (dRef env mc ns n) = Some dd"
    "doc_of env delete_ops (mhc_delete env mc ns n (sp_clusterID (ad_spec x))) (sd_data dd)"
    "db w (mcRef (h_Placement h) mc) = Some d"
    "loadOf env (sd_data d) \<le> 0 \<longrightarrow> db w' (mcRef (h_Placement h) mc) = Some d"
    "0 < loadOf env (sd_data d) \<longrightarrow> (\<exists>k t. sint k = loadOf env (sd_data d) - 1 \<and>
       db w' (mcRef (h_Placement h) mc) = Some (set_load k t d))"
proof -
  from assms obtain u5 w5 u6 w6 u7 w7 u8 where
      d5: "crud_delete env (specs_db mc) CollectionReadDesires (mhcDocumentID env ns n) w = (Inr u5, w5)" and
      d6: "crud_create env delete_ops (specs_db mc) CollectionDeleteDesires
         (mhc_delete env mc ns n (sp_clusterID (ad_spec x))) w5 = (Inr u6, w6)" and
      d7: "release env (h_Placement h) mc w6 = (Inr u7, w7)" and
      d8: "deleteClusterMapping env (h_Placement h) ns n w7 = (Inr u8, w')"
    unfolding delete_rest_def by (auto elim!: or_error_200)
  have db5: "db w5 = (db w)(rRef env mc ns n := None)"
    using ap.crud_delete_ok[OF d5] by (simp add: rRef_def)
  obtain dd where db6: "db w6 = (db w5)(dRef env mc ns n \<mapsto> dd)"
      and dd: "doc_of env delete_ops (mhc_delete env mc ns n (sp_clusterID (ad_spec x))) (sd_data dd)"
    by (rule dl.crud_create_ok[OF d6]) (simp add: dRef_def)
  from release_ok[OF d7] obtain d where d: "db w6 (mcRef (h_Placement h) mc) = Some d"
      and rel: "if loadOf env (sd_data d) \<le> 0 then db w7 = db w6
        else \<exists>k t. sint k = loadOf env (sd_data d) - 1 \<and> db w7 = (db w6)(mcRef (h_Placement h) mc \<mapsto> set_load k t d)"
    unfolding release_step_def by blast
  note fr = release_frame[OF d7]
  have db8: "db w' = (db w7)(mapRef (h_Placement h) ns n := None)" by (rule deleteClusterMapping_ok[OF d8])
  show thesis
    using rel d by (intro that[of dd d]) (auto simp: db8 fr db6 db5 dd split: if_splits, blast)
qed

end

section \<open>Properties\<close>

text \<open>C4: a Delete that answers 200 has removed the mapping and both desires of the cluster and left
  a DeleteDesire with the cluster ID of the removed ApplyDesire on the management cluster the
  mapping named, and lowered that management cluster's count by one unless it was not positive.
  No other document has changed.\<close>

theorem delete_success:
  assumes "api_server env db h" and "h_Delete env h ns n w = (resp, w')" and "rs_code resp = 200"
  shows "\<exists>mc m x dd d. db w (mapRef (h_Placement h) ns n) = Some m \<and>
    sd_data m fieldMgmtCluster = Some (FStr mc) \<and>
    tab_of env db apply_ops (specs_db mc) CollectionApplyDesires w (mhcDocumentID env ns n) = Some x \<and>
    db w' (mapRef (h_Placement h) ns n) = None \<and>
    db w' (aRef env mc ns n) = None \<and> db w' (rRef env mc ns n) = None \<and>
    db w' (dRef env mc ns n) = Some dd \<and>
    doc_of env delete_ops (mhc_delete env mc ns n (sp_clusterID (ad_spec x))) (sd_data dd) \<and>
    db w (mcRef (h_Placement h) mc) = Some d \<and>
    (loadOf env (sd_data d) \<le> 0 \<longrightarrow> db w' (mcRef (h_Placement h) mc) = Some d) \<and>
    (0 < loadOf env (sd_data d) \<longrightarrow> (\<exists>k t. sint k = loadOf env (sd_data d) - 1 \<and>
       db w' (mcRef (h_Placement h) mc) = Some (set_load k t d))) \<and>
    (\<forall>r. r \<notin> {mapRef (h_Placement h) ns n, aRef env mc ns n, rRef env mc ns n, dRef env mc ns n,
        mcRef (h_Placement h) mc} \<longrightarrow> db w' r = db w r)"
proof (rule api_server.h_Delete_cases[OF assms(1) assms(2)], goal_cases early removed rest)
  case (rest mc m x w3 w4)
  note ap = api_server.apart[OF assms(1)]
  have fr: "db w' r = db w4 r"
    if "r \<notin> {rRef env mc ns n, dRef env mc ns n, mcRef (h_Placement h) mc, mapRef (h_Placement h) ns n}" for r
    using api_server.delete_rest_frame[OF assms(1) that, of x w4] rest(6) by simp
  have a: "db w' (aRef env mc ns n) = None" using fr[of "aRef env mc ns n"] rest(5) ap by simp
  have all: "db w' r = db w r" if "r \<notin> {mapRef (h_Placement h) ns n, aRef env mc ns n, rRef env mc ns n,
      dRef env mc ns n, mcRef (h_Placement h) mc}" for r
    using that fr[of r] rest(5) by simp
  have mc: "db w4 (mcRef (h_Placement h) mc) = db w (mcRef (h_Placement h) mc)" using rest(5) ap by simp
  show ?thesis
  proof (rule api_server.delete_rest_200[OF assms(1) rest(6) assms(3)], goal_cases)
    case (1 dd d)
    then show ?case using rest(1,2,4) a all mc
      by (intro exI[of _ mc] exI[of _ m] exI[of _ x] exI[of _ dd] exI[of _ d] conjI) simp_all
  qed
qed (use assms(3) in simp_all)

definition demo_deleted :: "response \<times> emu" where
  "demo_deleted = h_Delete emu_env demo_h ''ns'' ''c1'' (snd demo_created)"

theorem delete_success_witness:
  "rs_code (fst demo_deleted) = 200 \<and>
   emu_db (snd demo_deleted) (mapRef ''placement'' ''ns'' ''c1'') = None"
proof -
  have ok: "rs_code (fst demo_deleted) = 200" by code_simp
  have "h_Delete emu_env demo_h ''ns'' ''c1'' (snd demo_created) = (fst demo_deleted, snd demo_deleted)"
    by (simp add: demo_deleted_def)
  from delete_success[OF emulator_api.api_server_axioms this ok] ok show ?thesis
    by (auto simp: main_handler_def)
qed



text \<open>after any sequence of requests, whatever fails in them, every management cluster of the
  placement database has a count between zero and its capacity.\<close>

theorem requests_within_capacity:
  assumes "api_server env db h" and "within_capacity env (h_Placement h) (db w)"
  shows "within_capacity env (h_Placement h) (db (serve env h rs w))"
  by (rule db_steps_within[OF api_server.serve_steps[OF assms(1)] assms(2)])

theorem requests_within_capacity_witness:
  "within_capacity emu_env ''placement'' (emu_db (serve emu_env demo_h
     [ReqCreate ''ns'' demo_body, ReqDelete ''ns'' ''c1'', ReqDelete ''ns'' ''c1''] demo_placement))"
  using requests_within_capacity[OF emulator_api.api_server_axioms, where w = demo_placement
      and rs = "[ReqCreate ''ns'' demo_body, ReqDelete ''ns'' ''c1'', ReqDelete ''ns'' ''c1'']"]
    demo_placement_within by (simp add: main_handler_def)

definition keeps_backing :: "request \<Rightarrow> bool" where
  "keeps_backing r = (case r of ReqDelete ns n \<Rightarrow> False | ReqCreate ns body \<Rightarrow> CHR '':'' \<notin> set ns | _ \<Rightarrow> True)"

text \<open>Create, Update and the reading requests keep the cluster map backed, in any sequence and
  whatever fails: a mapping that a client can see always leads to the cluster's desires.\<close>

theorem requests_keep_backed:
  assumes "api_server env db h" and "list_all keeps_backing rs"
    and "backed env (h_Placement h) (db w)"
  shows "backed env (h_Placement h) (db (serve env h rs w))"
  using assms(2,3)
proof (induction rs arbitrary: w)
  case (Cons r rs)
  have "backed env (h_Placement h) (db (snd (handle env h r w)))"
  proof (cases r)
    case (ReqUpdate ns n body)
    with Cons.prems(2) backed_quiet[OF api_server.h_Update_quiet[OF assms(1)]] show ?thesis by simp
  qed (use Cons.prems api_server.h_Create_backed[OF assms(1)] api_server.h_Get_db[OF assms(1)]
      api_server.h_List_db[OF assms(1)] api_server.h_GetKubeConfig_db[OF assms(1)]
      in \<open>simp_all add: keeps_backing_def\<close>)
  with Cons.IH Cons.prems(1) show ?case by simp
qed simp

theorem requests_keep_backed_witness:
  "backed emu_env ''placement'' (emu_db (serve emu_env demo_h [ReqCreate ''ns'' demo_body, ReqGet ''ns'' ''c1'']
     demo_placement))"
proof -
  have "list_all keeps_backing [ReqCreate ''ns'' demo_body, ReqGet ''ns'' ''c1'']"
    by (simp add: keeps_backing_def)
  moreover have "backed emu_env (h_Placement demo_h) (emu_db demo_placement)"
    by (auto simp: backed_def emu_db_def demo_placement_def main_handler_def)
  ultimately show ?thesis
    using requests_keep_backed[OF emulator_api.api_server_axioms, where w = demo_placement
        and rs = "[ReqCreate ''ns'' demo_body, ReqGet ''ns'' ''c1'']"] by (simp add: main_handler_def)
qed

text \<open>the requests that read change no document.\<close>

theorem reads_change_nothing:
  assumes "api_server env db h"
  shows "db (snd (h_Get env h ns n w)) = db w \<and> db (snd (h_List env h ns w)) = db w \<and>
    db (snd (h_GetKubeConfig env h ns n w)) = db w"
  using api_server.h_Get_db[OF assms] api_server.h_List_db[OF assms] api_server.h_GetKubeConfig_db[OF assms]
  by simp

theorem reads_change_nothing_witness:
  "emu_db (snd (h_Get emu_env demo_h ''ns'' ''c1'' demo_placement)) = emu_db demo_placement"
  using reads_change_nothing[OF emulator_api.api_server_axioms] by simp

end
