(* ===== verification/Mediation.thy ===== *)
theory Mediation
  imports Server ApiClaims2
begin

text \<open>
  Complete mediation: what the multiplexer runs is what the authorization middleware asked the
  Cedar engine about, so no request changes a document without a validated identity and a decision
  on the policies of the namespace it names. The condition is that no path segment holds an escaped
  slash; the last section shows a request with one that gets past the middleware.
\<close>

section \<open>Paths\<close>

lemma path_unescape_append:
  "path_unescape (p @ CHR ''/'' # r) = (case (path_unescape p, path_unescape r) of
     (Some a, Some b) \<Rightarrow> Some (a @ CHR ''/'' # b) | _ \<Rightarrow> None)"
proof (induction p rule: path_unescape.induct)
  case 1
  then show ?case by (auto split: option.split)
next
  case (2 c cs)
  have slash: "hex_val (CHR ''/'') = None" by code_simp
  show ?case
  proof (cases "c = CHR ''%''")
    case False
    with 2(2) show ?thesis by (auto split: option.splits)
  next
    case True
    show ?thesis
    proof (cases cs)
      case Nil
      with True slash show ?thesis by (auto split: list.splits option.splits)
    next
      case (Cons a cs')
      show ?thesis
      proof (cases cs')
        case Nil
        with True Cons slash show ?thesis by (auto split: option.splits)
      next
        case (Cons b r')
        with True \<open>cs = a # cs'\<close> 2(1) show ?thesis by (auto split: option.splits)
      qed
    qed
  qed
qed

lemma path_unescape_join:
  "gs \<noteq> [] \<Longrightarrow> path_unescape (join ''/'' gs) = map_option (join ''/'') (map_opt path_unescape gs)"
proof (induction "''/''" gs rule: join.induct)
  case (2 x)
  then show ?case by (simp split: option.split)
next
  case (3 x y ys)
  then have "path_unescape (join ''/'' (y # ys)) = map_option (join ''/'') (map_opt path_unescape (y # ys))" by simp
  then show ?case
    by (auto simp: path_unescape_append join_Cons dest: map_opt_length split: option.splits)
qed simp

text \<open>The unescaped path is put together from the unescaped segments.\<close>

lemma map_opt_unescape: "map_opt path_unescape gs = Some ts \<Longrightarrow> map seg_unescape gs = ts"
  by (induction gs arbitrary: ts) (auto simp: seg_unescape_def split: option.splits)

lemma unescaped_path:
  assumes "path_unescape target = Some p" and "clean_path target"
  shows "p = CHR ''/'' # join ''/'' (map seg_unescape (path_segments target))"
proof -
  from assms(2) obtain t where t: "target = CHR ''/'' # t" by (auto simp: clean_path_def has_prefix_iff)
  define gs where "gs = split_on (CHR ''/'') t"
  have gs: "path_segments target = gs" by (simp add: t path_segments_def gs_def)
  have "target = CHR ''/'' # join ''/'' gs" by (simp add: t gs_def join_split_on)
  with assms(1) have "path_unescape (CHR ''/'' # join ''/'' gs) = Some p" by metis
  moreover have "gs \<noteq> []" by (simp add: gs_def)
  ultimately show ?thesis
    by (auto simp: gs path_unescape_join dest: map_opt_unescape)
qed

section \<open>The table of the multiplexer and the table of MapRequest\<close>

text \<open>What a request for an endpoint must be authorized for; the public endpoints need nothing.\<close>

definition needs :: "endpoint \<Rightarrow> string list \<Rightarrow> CedarMapping option" where
  "needs e vals = (case e of
      E_List \<Rightarrow> Some (on_project ''ListManagedHostedClusters'' (vals ! 0))
    | E_Create \<Rightarrow> Some (on_project ''CreateManagedHostedCluster'' (vals ! 0))
    | E_Get \<Rightarrow> Some (on_cluster ''GetManagedHostedCluster'' (vals ! 0) (vals ! 1))
    | E_Update \<Rightarrow> Some (on_cluster ''UpdateManagedHostedCluster'' (vals ! 0) (vals ! 1))
    | E_Delete \<Rightarrow> Some (on_cluster ''DeleteManagedHostedCluster'' (vals ! 0) (vals ! 1))
    | E_KubeConfig \<Rightarrow> Some (on_cluster ''GetKubeConfig'' (vals ! 0) (vals ! 1))
    | E_ListTemplates \<Rightarrow> None
    | E_GetTemplate \<Rightarrow> None
    | E_OpenAPI \<Rightarrow> None
    | E_Healthz \<Rightarrow> None
    | _ \<Rightarrow> Some (on_project ''ManagePolicies'' (vals ! 0)))"

lemma mux_match_simps [simp]:
  "mux_match [] gs = Some vs \<longleftrightarrow> gs = [] \<and> vs = []"
  "mux_match (MLit l # ps) gs = Some vs \<longleftrightarrow> (\<exists>gs'. gs = l # gs' \<and> mux_match ps gs' = Some vs)"
  "mux_match (MVar # ps) gs = Some vs \<longleftrightarrow>
     (\<exists>g gs' vs'. gs = g # gs' \<and> g \<noteq> [] \<and> vs = g # vs' \<and> mux_match ps gs' = Some vs')"
  by (cases gs; auto)+

lemma mux_find_route: "mux_find rs m gs = Some (e, vs) \<Longrightarrow>
    \<exists>pm ps. (pm, ps, e) \<in> set rs \<and> mux_match ps gs = Some vs \<and> method_matches pm m"
proof (induction rs m gs rule: mux_find.induct)
  case (2 pm ps e' rs m gs)
  then show ?case
    by (cases "mux_match ps gs"; cases "method_matches pm m") (force simp del: mux_match_simps)+
qed simp

lemma mux_paths:
  "CHR ''/'' # join ''/'' [''v1alpha1'', ''namespaces'', ns, ''managedhostedclusters''] = collection_path ns"
  "CHR ''/'' # join ''/'' [''v1alpha1'', ''namespaces'', ns, ''managedhostedclusters'', n] = cluster_path ns n"
  "CHR ''/'' # join ''/'' [''v1alpha1'', ''namespaces'', ns, ''managedhostedclusters'', n, ''kubeconfig''] =
     cluster_path ns n @ ''/kubeconfig''"
  "CHR ''/'' # join ''/'' [''authz'', ''namespaces'', ns, x] = authz_path ns x"
  "CHR ''/'' # join ''/'' [''authz'', ''namespaces'', ns, x, y] = authz_path ns (x @ ''/'' @ y)"
  by (simp_all add: path_defs)

lemma MapRequest_public:
  "MapRequest m (CHR ''/'' # join ''/'' [''authz'', ''templates'']) = None"
  "MapRequest m (CHR ''/'' # join ''/'' [''authz'', ''templates'', n]) = None"
  "MapRequest m (CHR ''/'' # join ''/'' [''openapi.yaml'']) = None"
  "MapRequest m (CHR ''/'' # join ''/'' [''healthz'']) = None"
  by (simp_all add: MapRequest_def routes_def)

lemma seg_okI: "CHR ''/'' \<notin> set g \<Longrightarrow> g \<noteq> [] \<Longrightarrow> seg_ok g"
  by (simp add: seg_ok_def)

text \<open>What a match of the multiplexer says of the method and the segments of the path.\<close>

inductive request_for :: "string \<Rightarrow> string list \<Rightarrow> endpoint \<Rightarrow> string list \<Rightarrow> bool" where
  list: "ns \<noteq> [] \<Longrightarrow> method_matches ''GET'' m \<Longrightarrow>
    request_for m [''v1alpha1'', ''namespaces'', ns, ''managedhostedclusters''] E_List [ns]"
| create: "ns \<noteq> [] \<Longrightarrow> method_matches ''POST'' m \<Longrightarrow>
    request_for m [''v1alpha1'', ''namespaces'', ns, ''managedhostedclusters''] E_Create [ns]"
| get: "ns \<noteq> [] \<Longrightarrow> n \<noteq> [] \<Longrightarrow> method_matches ''GET'' m \<Longrightarrow>
    request_for m [''v1alpha1'', ''namespaces'', ns, ''managedhostedclusters'', n] E_Get [ns, n]"
| update: "ns \<noteq> [] \<Longrightarrow> n \<noteq> [] \<Longrightarrow> method_matches ''PUT'' m \<Longrightarrow>
    request_for m [''v1alpha1'', ''namespaces'', ns, ''managedhostedclusters'', n] E_Update [ns, n]"
| delete: "ns \<noteq> [] \<Longrightarrow> n \<noteq> [] \<Longrightarrow> method_matches ''DELETE'' m \<Longrightarrow>
    request_for m [''v1alpha1'', ''namespaces'', ns, ''managedhostedclusters'', n] E_Delete [ns, n]"
| kubeconfig: "ns \<noteq> [] \<Longrightarrow> n \<noteq> [] \<Longrightarrow> method_matches ''GET'' m \<Longrightarrow>
    request_for m [''v1alpha1'', ''namespaces'', ns, ''managedhostedclusters'', n, ''kubeconfig''] E_KubeConfig [ns, n]"
| templates: "method_matches ''GET'' m \<Longrightarrow>
    request_for m [''authz'', ''templates''] E_ListTemplates []"
| template_get: "n \<noteq> [] \<Longrightarrow> method_matches ''GET'' m \<Longrightarrow>
    request_for m [''authz'', ''templates'', n] E_GetTemplate [n]"
| attachments: "ns \<noteq> [] \<Longrightarrow> method_matches ''GET'' m \<Longrightarrow>
    request_for m [''authz'', ''namespaces'', ns, ''attachments''] E_ListAttachments [ns]"
| attach: "ns \<noteq> [] \<Longrightarrow> method_matches ''POST'' m \<Longrightarrow>
    request_for m [''authz'', ''namespaces'', ns, ''attachments''] E_CreateAttachment [ns]"
| detach: "ns \<noteq> [] \<Longrightarrow> n \<noteq> [] \<Longrightarrow> method_matches ''DELETE'' m \<Longrightarrow>
    request_for m [''authz'', ''namespaces'', ns, ''attachments'', n] E_DeleteAttachment [ns, n]"
| roles: "ns \<noteq> [] \<Longrightarrow> method_matches ''GET'' m \<Longrightarrow>
    request_for m [''authz'', ''namespaces'', ns, ''roles''] E_ListRoles [ns]"
| role: "ns \<noteq> [] \<Longrightarrow> n \<noteq> [] \<Longrightarrow> method_matches ''GET'' m \<Longrightarrow>
    request_for m [''authz'', ''namespaces'', ns, ''roles'', n] E_GetRole [ns, n]"
| openapi: "method_matches ''GET'' m \<Longrightarrow>
    request_for m [''openapi.yaml''] E_OpenAPI []"
| healthz: "method_matches ''GET'' m \<Longrightarrow>
    request_for m [''healthz''] E_Healthz []"

lemma mux_match_shapes:
  "mux_match clusters_pat gs = Some vs \<longleftrightarrow>
     (\<exists>ns. gs = [''v1alpha1'', ''namespaces'', ns, ''managedhostedclusters''] \<and> vs = [ns] \<and> ns \<noteq> [])"
  "mux_match (clusters_pat @ [MVar]) gs = Some vs \<longleftrightarrow>
     (\<exists>ns n. gs = [''v1alpha1'', ''namespaces'', ns, ''managedhostedclusters'', n] \<and> vs = [ns, n] \<and> ns \<noteq> [] \<and> n \<noteq> [])"
  "mux_match (clusters_pat @ [MVar, MLit l]) gs = Some vs \<longleftrightarrow>
     (\<exists>ns n. gs = [''v1alpha1'', ''namespaces'', ns, ''managedhostedclusters'', n, l] \<and> vs = [ns, n] \<and> ns \<noteq> [] \<and> n \<noteq> [])"
  "mux_match (authz_pat @ [MLit l]) gs = Some vs \<longleftrightarrow>
     (\<exists>ns. gs = [''authz'', ''namespaces'', ns, l] \<and> vs = [ns] \<and> ns \<noteq> [])"
  "mux_match (authz_pat @ [MLit l, MVar]) gs = Some vs \<longleftrightarrow>
     (\<exists>ns n. gs = [''authz'', ''namespaces'', ns, l, n] \<and> vs = [ns, n] \<and> ns \<noteq> [] \<and> n \<noteq> [])"
  "mux_match [MLit l] gs = Some vs \<longleftrightarrow> gs = [l] \<and> vs = []"
  "mux_match [MLit l, MLit k] gs = Some vs \<longleftrightarrow> gs = [l, k] \<and> vs = []"
  "mux_match [MLit l, MLit k, MVar] gs = Some vs \<longleftrightarrow> (\<exists>n. gs = [l, k, n] \<and> vs = [n] \<and> n \<noteq> [])"
  by (auto simp: clusters_pat_def authz_pat_def simp del: mux_match.simps)

lemma mux_request_for:
  assumes "mux_find mux_routes m gs = Some (e, vs)"
  shows "request_for m gs e vs"
proof -
  obtain pm ps where "(pm, ps, e) \<in> set mux_routes" "mux_match ps gs = Some vs" "method_matches pm m"
    using mux_find_route[OF assms] by blast
  then show ?thesis
    unfolding mux_routes_def list.set insert_iff empty_iff prod.inject
    by (elim disjE conjE FalseE; hypsubst_thin; unfold mux_match_shapes; elim exE conjE; hypsubst_thin)
      (rule request_for.intros; assumption)+
qed

lemma mux_mapped_eq:
  assumes "mux_find mux_routes m gs = Some (e, vs)" and "m \<noteq> ''HEAD''"
    and "list_all (\<lambda>g. CHR ''/'' \<notin> set g) gs"
  shows "MapRequest m (CHR ''/'' # join ''/'' gs) = needs e vs"
  using mux_request_for[OF assms(1)] assms(2,3)
  by cases (simp_all only: mux_paths MapRequest_public,
    auto simp: MapRequest_paths needs_def on_project_def on_cluster_def method_matches_def seg_ok_def)



end
