(* ===== verification/MediationClaims.thy ===== *)
theory MediationClaims
  imports Mediation
begin

text \<open>
  The main property of the composed server: no document changes unless the Cedar engine allowed the
  action for the user of a validated token.
\<close>

section \<open>What the parts of a request change\<close>

definition writing :: "endpoint \<Rightarrow> bool" where
  "writing e = (e \<in> {E_Create, E_Update, E_Delete, E_CreateAttachment, E_DeleteAttachment})"

lemma head_reads: "request_for ''HEAD'' gs e vs \<Longrightarrow> \<not> writing e"
  by (cases rule: request_for.cases, assumption) (simp_all add: writing_def method_matches_def)

context firestore
begin

lemma cedar_reads_db:
  "db (snd (h_ListAttachments env s ns w)) = db w" "db (snd (h_ListRoles env s ns w)) = db w"
  "db (snd (h_GetRole env s ns n w)) = db w"
proof -
  obtain r w1 where g: "getAttachments env s ns w = (r, w1)" by force
  with getAttachments_effect[OF g] show "db (snd (h_ListAttachments env s ns w)) = db w"
    by (cases r) (simp_all add: h_ListAttachments_def ListAttachments_def)
  show "db (snd (h_ListRoles env s ns w)) = db w"
    using query_db[of "st_fsClient s" collectionCustomRoles None w]
    by (cases "fs_query env (st_fsClient s) collectionCustomRoles None w")
      (auto simp: h_ListRoles_def ListRoles_def Let_def split: sum.split)
  show "db (snd (h_GetRole env s ns n w)) = db w"
    using get_db[of "role_ref s ns n" w]
    by (cases "fs_get env (role_ref s ns n) w")
      (auto simp: h_GetRole_def GetRole_def split: sum.split option.split)
qed

end

context api_server
begin

lemma run_reading_db: "\<not> writing e \<Longrightarrow> db (snd (run_endpoint env h s spec e vs body w)) = db w"
  by (cases e) (simp_all add: writing_def run_endpoint_def h_List_db h_Get_db h_GetKubeConfig_db
      cedar_reads_db h_ListTemplates_def h_GetTemplate_def split: option.split)

lemma fetchResourceLabels_db:
  assumes "am_statusDB a = Some (h_StatusDB h)"
  shows "db (snd (fetchResourceLabels env a ns n w)) = db w"
proof (cases "am_placement a")
  case None
  then show ?thesis by (simp add: fetchResourceLabels_def)
next
  case (Some p)
  obtain r1 w1 where g1: "getClusterMapping env p ns n w = (r1, w1)" by force
  note d1 = ret_db[OF g1 mapping_read]
  show ?thesis
  proof (cases r1)
    case (Inr mc)
    obtain r2 w2 where g2: "h_StatusDB h mc w1 = (r2, w2)" by force
    note d2 = ret_db[OF g2 status.factory_db]
    show ?thesis
    proof (cases r2)
      case (Inr b)
      define i where "i = NewDocumentID env TaskKey ''hcp.gcp.hypershift.openshift.com'' ''v1alpha1''
        ''managedhostedclusters'' ns n"
      obtain r3 w3 where g3: "crud_get env read_ops b CollectionReadDesires i w2 = (r3, w3)" by force
      from ret_db[OF g3 rd.crud_get_db] g1 g2 g3 d1 d2 Some \<open>r1 = Inr mc\<close> Inr assms show ?thesis
        by (simp add: fetchResourceLabels_def Let_def i_def split: sum.split option.split)
    qed (use Some assms g1 g2 d1 d2 Inr in \<open>simp add: fetchResourceLabels_def Let_def\<close>)
  qed (use Some assms g1 d1 in \<open>simp add: fetchResourceLabels_def\<close>)
qed

end

text \<open>
  The engine allows a user a mapped action: on the policies made of the global policies, or of
  none, and of a part of the attachments of the project, for some labels of the resource.
\<close>

definition allowed :: "('p, 'm) engine \<Rightarrow> Store \<Rightarrow> database \<Rightarrow> Identity \<Rightarrow> CedarMapping \<Rightarrow> bool" where
  "allowed E s D i m \<longleftrightarrow> (\<exists>g bs policies labels entities. (g = [] \<or> g = global_of s D) \<and>
     subseq bs (assigned s D (cdm_ProjectID m)) \<and>
     en_policies E (global_part g @ resolved s D (cdm_ProjectID m) bs) = Inr policies \<and>
     BuildEntityMap E (id_UserID i) (cdm_ProjectID m) (id_Email i) (cdm_ResourceType m) (cdm_ResourceID m) labels =
       Inr entities \<and>
     en_authorize E (policy_set policies) entities (''HCP::User'', id_UserID i) (''HCP::Action'', cdm_Action m)
       (''HCP::'' @ cdm_ResourceType m, cdm_ResourceID m))"

context api_server
begin

lemma decide_effect:
  assumes "decide env E a m i w = (res, w')" and "am_statusDB a = Some (h_StatusDB h)"
  shows "db w' = db w \<and> (res = Inr () \<longrightarrow> allowed E (am_store a) (db w) i m)"
proof -
  let ?s = "am_store a" and ?p = "cdm_ProjectID m"
  obtain r1 w1 where g: "ResolvePolicies env ?s ?p w = (r1, w1)" by force
  note d1 = ret_db[OF g ResolvePolicies_db]
  show ?thesis
  proof (cases r1)
    case (Inl e)
    with assms(1) g d1 show ?thesis by (auto simp: decide_def)
  next
    case (Inr t)
    from resolve_sound_db[OF g[unfolded Inr]] obtain gl bs where t: "gl = [] \<or> gl = global_of ?s (db w)"
      "subseq bs (assigned ?s (db w) ?p)" "t = global_part gl @ resolved ?s (db w) ?p bs" by blast
    obtain labels w2 where f: "(if cdm_ResourceType m = ResourceTypeManagedHostedCluster \<and> cdm_ResourceID m \<noteq> []
        then fetchResourceLabels env a ?p (cdm_ResourceID m) w1 else (None, w1)) = (labels, w2)" by force
    then have d2: "db w2 = db w"
      using fetchResourceLabels_db[OF assms(2), of ?p "cdm_ResourceID m" w1] d1 by (auto split: if_splits)
    show ?thesis
    proof (cases "t = []")
      case True
      with assms(1) g Inr d1 show ?thesis by (auto simp: decide_def)
    next
      case False
      show ?thesis
      proof (cases "en_policies E t")
        case (Inl e)
        with assms(1) g Inr False d1 show ?thesis by (auto simp: decide_def)
      next
        case (Inr ps)
        let ?ok = "en_authorize E (policy_set ps)"
        have dec: "decide env E a m i w = (case BuildEntityMap E (id_UserID i) ?p (id_Email i)
            (cdm_ResourceType m) (cdm_ResourceID m) labels of
              Inl e \<Rightarrow> (Inl (writeAuthzError 500 ''Entity build error''), w2)
            | Inr em \<Rightarrow> if ?ok em (''HCP::User'', id_UserID i) (''HCP::Action'', cdm_Action m)
                  (''HCP::'' @ cdm_ResourceType m, cdm_ResourceID m)
                then (Inr (), w2) else (Inl (writeAuthzError 403 ''Access denied''), w2))"
          unfolding decide_def g \<open>r1 = Inr t\<close> prod.case sum.case f Inr using False by simp
        show ?thesis
        proof (cases "BuildEntityMap E (id_UserID i) ?p (id_Email i) (cdm_ResourceType m) (cdm_ResourceID m) labels")
          case (Inl e)
          with dec assms(1) d2 show ?thesis by auto
        next
          case (Inr em)
          have "allowed E ?s (db w) i m" if "?ok em (''HCP::User'', id_UserID i) (''HCP::Action'', cdm_Action m)
              (''HCP::'' @ cdm_ResourceType m, cdm_ResourceID m)"
            unfolding allowed_def using t \<open>en_policies E t = Inr ps\<close> Inr that by blast
          with dec assms(1) d2 Inr show ?thesis by (auto split: if_splits)
        qed
      qed
    qed
  qed
qed

end

section \<open>Complete mediation\<close>

text \<open>The calls of the token validation store nothing in Firestore.\<close>

definition jwt_keeps :: "('w \<Rightarrow> database) \<Rightarrow> ('w, 't, 'k, 'ks) jwt \<Rightarrow> bool" where
  "jwt_keeps db J \<longleftrightarrow> (\<forall>u w. db (snd (jwks_http J u w)) = db w) \<and> (\<forall>c w. db (jwks_set J c w) = db w) \<and>
     (\<forall>w. db (snd (time_now J w)) = db w)"

lemma jwt_step:
  assumes "jwt_keeps db J"
  shows "jwks_http J u w = (r, w') \<Longrightarrow> db w' = db w" "time_now J w = (t, w') \<Longrightarrow> db w' = db w"
    "db (jwks_set J c w) = db w"
  using assms by (auto simp: jwt_keeps_def) (metis snd_conv)+

lemma cached_within_db: "jwt_keeps db J \<Longrightarrow> cached_within J age w = (r, w') \<Longrightarrow> db w' = db w"
  by (auto simp: cached_within_def jwt_step split: option.splits prod.splits)

lemma fetchJWKS_db:
  assumes K: "jwt_keeps db J" and f: "fetchJWKS J url w = (r, w')"
  shows "db w' = db w"
proof -
  obtain c w1 where c: "cached_within J (5 * 1000000000) w = (c, w1)" by force
  obtain q w2 where q: "jwks_http J url w1 = (q, w2)" by force
  obtain t w3 where t: "time_now J w2 = (t, w3)" by force
  have eqs: "db w1 = db w" "db w2 = db w1" "db w3 = db w2"
    using cached_within_db[OF K c] jwt_step[OF K] q t by auto
  have "w' = w1 \<or> w' = w2 \<or> (\<exists>d. w' = jwks_set J d w3)"
    using f c q t by (auto simp: fetchJWKS_def split: option.splits prod.splits sum.splits if_splits)
  with eqs show ?thesis using jwt_step(3)[OF K] by auto
qed

lemma getJWKS_db:
  assumes K: "jwt_keeps db J" and g: "getJWKS J url w = (r, w')"
  shows "db w' = db w"
proof -
  obtain c w1 where c: "cached_within J jwksCacheTTL w = (c, w1)" by force
  with g have "w' = w1 \<or> fetchJWKS J url w1 = (r, w')"
    by (cases c) (auto simp: getJWKS_def)
  with cached_within_db[OF K c] fetchJWKS_db[OF K, of url w1 r w'] show ?thesis by auto
qed

lemma find_keys_db: "jwt_keeps db J \<Longrightarrow> find_keys J url kid jwks w = (r, w') \<Longrightarrow> db w' = db w"
  by (auto simp: find_keys_def split: list.splits sum.splits prod.splits dest: fetchJWKS_db)

lemma check_claims_db: "jwt_keeps db J \<Longrightarrow> check_claims J c w = (r, w') \<Longrightarrow> db w' = db w"
  by (auto simp: check_claims_def split: if_splits option.splits prod.splits bool.splits dest: jwt_step(2))

lemma validateToken_db:
  assumes K: "jwt_keeps db J" and v: "validateToken J url raw w = (r, w')"
  shows "db w' = db w"
proof -
  obtain q w1 where q: "getJWKS J url w = (q, w1)" by force
  obtain f w2 where f: "find_keys J url (hd (jwt_kids J (projr (jwt_parse J raw)))) (projr q) w1 = (f, w2)" by force
  have "w' \<in> {w, w1, w2} \<or> (\<exists>claims. check_claims J claims w2 = (r, w'))"
    using v q f by (auto simp: validateToken_def split: sum.splits list.splits)
  with getJWKS_db[OF K q] find_keys_db[OF K f] check_claims_db[OF K] show ?thesis by auto
qed

lemma ValidateRequest_db: "jwt_keeps db J \<Longrightarrow> ValidateRequest J url auth w = (r, w') \<Longrightarrow> db w' = db w"
  by (cases "extractBearerToken auth") (auto simp: ValidateRequest_def dest: validateToken_db)

text \<open>A handler around which the request log and the validation stand changes what the inner one does.\<close>

lemma wrapped_db:
  assumes "\<And>x w. db (log x w) = db w"
    and "db (snd (RequestLogging log (validation_Wrap oa nextH) r w)) \<noteq> db w"
  shows "db (snd (nextH r w)) \<noteq> db w"
  using assms by (auto simp: RequestLogging_def validation_Wrap_def case_prod_beta split: if_splits option.splits)

definition no_slash :: "string \<Rightarrow> bool" where
  "no_slash target \<longleftrightarrow> list_all (\<lambda>g. CHR ''/'' \<notin> set (seg_unescape g)) (path_segments target)"


text \<open>A Cedar library that reads every text and allows everything to \<open>alice\<close> once there is a policy.\<close>

definition demo_engine :: "(string, string) engine" where
  "demo_engine = \<lparr>en_policies = (\<lambda>t. Inr [t]), en_entities = (\<lambda>t. Inr t),
     en_authorize = (\<lambda>ps em p a r. ps \<noteq> [] \<and> p = (''HCP::User'', ''alice''))\<rparr>"

definition demo_openapi :: openapi where
  "demo_openapi = \<lparr>oa_route = (\<lambda>r. False), oa_validate = (\<lambda>r. None)\<rparr>"

abbreviation demo_server :: "http_request \<Rightarrow> emu \<Rightarrow> response \<times> emu" where
  "demo_server \<equiv> api_server_handler emu_env demo_jwt demo_engine demo_openapi [] (\<lambda>x w. w) ''cedar'' ''placement''"

text \<open>A management cluster with a free slot, and \<open>alice\<close> a developer of the namespace \<open>ns\<close>.\<close>

definition demo_granted :: emu where
  "demo_granted = snd (CreateAttachment emu_env (NewStore ''cedar'') ''ns'' ''developer'' ''alice'' demo_placement)"

definition demo_target :: string where
  "demo_target = ''/v1alpha1/namespaces/ns/managedhostedclusters''"


section \<open>What gets past the middleware\<close>

text \<open>
  With escaped slashes in the namespace the multiplexer sees one segment and the authorization
  middleware three: the request is not mapped, and without any token it reaches \<open>Create\<close>. Two
  slashes keep the number of path elements of the documents even, as Firestore wants it.
\<close>

lemma escaped_slash_bypass:
  "serve_http (authz_Wrap env E a (mux_serve env h s spec)) ''POST''
     ''/v1alpha1/namespaces/a%2Fb%2Fc/managedhostedclusters'' auth body w = h_Create env h ''a/b/c'' body w"
proof -
  let ?t = "''/v1alpha1/namespaces/a%2Fb%2Fc/managedhostedclusters''"
  have "path_unescape ?t = Some ''/v1alpha1/namespaces/a/b/c/managedhostedclusters''" by code_simp
  moreover have "MapRequest ''POST'' ''/v1alpha1/namespaces/a/b/c/managedhostedclusters'' = None" by code_simp
  moreover have "clean_path ?t" by code_simp
  moreover have "mux_find mux_routes ''POST'' (map seg_unescape (path_segments ?t)) = Some (E_Create, [''a/b/c''])"
    by code_simp
  ultimately show ?thesis
    by (simp add: serve_http_def parse_request_def authz_Wrap_def mux_serve_def Let_def run_endpoint_def del: path_unescape.simps)
qed

text \<open>The documents that this changes: the request is refused for no reason that has to do with a user.\<close>

lemma escaped_slash_creates:
  "let (resp, m) = serve_http demo_server ''POST'' ''/v1alpha1/namespaces/a%2Fb%2Fc/managedhostedclusters'' [] demo_body
       demo_placement
   in rs_code resp = 200 \<and> emu_db m (mapRef ''placement'' ''a/b/c'' ''c1'') \<noteq> None"
  by code_simp

text \<open>The multiplexer serves HEAD by the handlers of GET, the authorization middleware maps no HEAD request.\<close>

lemma head_bypass:
  "MapRequest ''HEAD'' path = None"
  "mux_find mux_routes ''HEAD'' [''v1alpha1'', ''namespaces'', ''ns'', ''managedhostedclusters'', ''c1''] =
     Some (E_Get, [''ns'', ''c1''])"
proof -
  show "mux_find mux_routes ''HEAD'' [''v1alpha1'', ''namespaces'', ''ns'', ''managedhostedclusters'', ''c1''] =
     Some (E_Get, [''ns'', ''c1''])" by code_simp
  show "MapRequest ''HEAD'' path = None"
  proof (cases "MapRequest ''HEAD'' path")
    case (Some m)
    then show ?thesis by (cases rule: MapRequest_Some_path) (simp_all add: MapRequest_paths)
  qed
qed

end
