(* ===== verification/Kube.thy ===== *)
theory Kube
  imports ApiTypes
begin

text \<open>
  The operator's side: the resources of \<open>api/v1alpha1\<close> that only the controllers use, and the
  Kubernetes client of controller-runtime. The client is the record \<open>kube\<close> of calls on a state
  \<open>'w\<close>; the locale \<open>kube\<close> says what calls do to the objects of the API server, where every call
  may fail, and \<open>kube_up\<close> adds that no call fails for lack of a server, with the caches of
  the client up to date and no other writer.

  \<open>errors.IsNotFound(err)\<close> is \<open>err_code err = NotFound\<close>.
\<close>

section \<open>versionstream_types.go, upgradeschedule_types.go, customrole_types.go\<close>

record VersionStreamSpec =
  vss_TargetVersion :: string
  vss_ChannelGroup :: string
  vss_Arch :: string

record VersionStreamStatus =
  vst_ReleaseImage :: string
  vst_ResolvedVersion :: string
  vst_Channel :: string
  vst_Conditions :: "condition list"

record VersionStream =
  vs_TypeMeta :: TypeMeta
  vs_ObjectMeta :: objmeta
  vs_Spec :: VersionStreamSpec
  vs_Status :: VersionStreamStatus

text \<open>The specification of an upgrade schedule has no fields yet.\<close>

record UpgradeScheduleStatus = ust_Conditions :: "condition list"

record UpgradeSchedule =
  us_TypeMeta :: TypeMeta
  us_ObjectMeta :: objmeta
  us_Status :: UpgradeScheduleStatus

record CustomRoleSpec =
  crs_Permissions :: "string list"
  crs_Description :: string
  crs_Conditions :: "string list"

record CustomRoleStatus = crt_Conditions :: "condition list"

record CustomRole =
  cro_TypeMeta :: TypeMeta
  cro_ObjectMeta :: objmeta
  cro_Spec :: CustomRoleSpec
  cro_Status :: CustomRoleStatus

section \<open>Unstructured objects\<close>

text \<open>
  An \<open>unstructured.Unstructured\<close> is the JSON object that it stands for, with its members in key
  order; the accessors work on the nested \<open>metadata\<close>, and setting an empty text removes the field.
\<close>

fun obj_get :: "string \<Rightarrow> json \<Rightarrow> json option" where
  "obj_get k (JObj m) = get_field k m"
| "obj_get k _ = None"

definition obj_meta :: "json \<Rightarrow> (string \<times> json) list" where
  "obj_meta u = (case obj_get ''metadata'' u of Some (JObj m) \<Rightarrow> m | _ \<Rightarrow> [])"

definition meta_text :: "string \<Rightarrow> json \<Rightarrow> string" where
  "meta_text k u = (case get_field k (obj_meta u) of Some (JStr s) \<Rightarrow> s | _ \<Rightarrow> [])"

fun set_meta :: "string \<Rightarrow> json option \<Rightarrow> json \<Rightarrow> json" where
  "set_meta k v (JObj m) = JObj (kv_ins ''metadata'' (JObj (case v of
       Some x \<Rightarrow> kv_ins k x (obj_meta (JObj m))
     | None \<Rightarrow> filter (\<lambda>(k', x). k' \<noteq> k) (obj_meta (JObj m)))) m)"
| "set_meta k v j = j"

definition set_meta_text :: "string \<Rightarrow> string \<Rightarrow> json \<Rightarrow> json" where
  "set_meta_text k s u = set_meta k (if s = [] then None else Some (JStr s)) u"

definition GetName :: "json \<Rightarrow> string" where "GetName = meta_text ''name''"
definition GetNamespace :: "json \<Rightarrow> string" where "GetNamespace = meta_text ''namespace''"
definition GetResourceVersion :: "json \<Rightarrow> string" where "GetResourceVersion = meta_text ''resourceVersion''"
definition SetName :: "string \<Rightarrow> json \<Rightarrow> json" where "SetName = set_meta_text ''name''"
definition SetNamespace :: "string \<Rightarrow> json \<Rightarrow> json" where "SetNamespace = set_meta_text ''namespace''"
definition SetResourceVersion :: "string \<Rightarrow> json \<Rightarrow> json" where
  "SetResourceVersion = set_meta_text ''resourceVersion''"

lemmas accessor_defs = GetName_def GetNamespace_def GetResourceVersion_def SetName_def SetNamespace_def
  SetResourceVersion_def

lemma filter_get: "get_field x (filter (\<lambda>(k', v). k' \<noteq> k) m) = (if x = k then None else get_field x m)"
  by (induction m) auto

lemma obj_get_set_meta: "k \<noteq> ''metadata'' \<Longrightarrow> obj_get k (set_meta x v u) = obj_get k u"
  by (cases u) (auto simp: kv_ins_get)

lemma obj_meta_set_meta: "obj_meta (set_meta k v (JObj m)) = (case v of
    Some x \<Rightarrow> kv_ins k x (obj_meta (JObj m))
  | None \<Rightarrow> filter (\<lambda>(k', x). k' \<noteq> k) (obj_meta (JObj m)))"
  by (auto simp: obj_meta_def kv_ins_get)

lemma meta_get_set: "get_field x (obj_meta (set_meta k v (JObj m))) = (if x = k then v else get_field x (obj_meta (JObj m)))"
  by (auto simp: obj_meta_set_meta kv_ins_get filter_get simp del: set_meta.simps split: option.split)

lemma set_meta_obj: "\<exists>m'. set_meta k v (JObj m) = JObj m'"
  by simp

lemma meta_text_set: "meta_text x (set_meta_text k s (JObj m)) = (if x = k then s else meta_text x (JObj m))"
  by (simp add: meta_text_def set_meta_text_def meta_get_set del: set_meta.simps)

section \<open>The client\<close>

type_synonym key = "string \<times> string"

definition obj_key :: "json \<Rightarrow> key" where
  "obj_key u = (GetNamespace u, GetName u)"

definition mhc_key :: "ManagedHostedCluster \<Rightarrow> key" where
  "mhc_key m = (om_namespace (mhc_ObjectMeta m), om_name (mhc_ObjectMeta m))"

text \<open>
  An object as \<open>Get\<close> reads it. \<open>ApiTypes\<close> does not tell a nil from an empty slice, which makes a
  difference for the services; so whether that slice is nil is kept beside the object.
\<close>

record fetched =
  ft_obj :: ManagedHostedCluster
  ft_nilServices :: bool

definition fetched_ok :: "fetched \<Rightarrow> bool" where
  "fetched_ok f \<longleftrightarrow> (ft_nilServices f \<longrightarrow> hc_Services (mhs_HostedCluster (mhc_Spec (ft_obj f))) = [])"

text \<open>
  The calls; keys are pairs of namespace and name. \<open>kb_set_owner\<close> is
  \<open>ctrl.SetControllerReference\<close>, \<open>kb_set_condition\<close> is \<open>meta.SetStatusCondition\<close>, which may read the
  clock, \<open>kb_generation\<close> reads \<open>metadata.generation\<close>.
\<close>

record 'w kube =
  kb_get_mhc :: "key \<Rightarrow> 'w \<Rightarrow> ('w, fetched) ret"
  kb_get_stream :: "key \<Rightarrow> 'w \<Rightarrow> ('w, VersionStream) ret"
  kb_get_hosted :: "key \<Rightarrow> 'w \<Rightarrow> ('w, json) ret"
  kb_list_mhc :: "'w \<Rightarrow> ('w, ManagedHostedCluster list) ret"
  kb_create :: "json \<Rightarrow> 'w \<Rightarrow> ('w, unit) ret"
  kb_update :: "json \<Rightarrow> 'w \<Rightarrow> ('w, unit) ret"
  kb_status_mhc :: "ManagedHostedCluster \<Rightarrow> 'w \<Rightarrow> ('w, unit) ret"
  kb_status_stream :: "VersionStream \<Rightarrow> 'w \<Rightarrow> ('w, unit) ret"
  kb_set_owner :: "ManagedHostedCluster \<Rightarrow> json \<Rightarrow> gerr + json"
  kb_set_condition :: "condition list \<Rightarrow> condition \<Rightarrow> 'w \<Rightarrow> condition list \<times> 'w"
  kb_generation :: "objmeta \<Rightarrow> int64"
  kb_now :: "'w \<Rightarrow> gotime \<times> 'w"

text \<open>
  The objects of the API server: clusters, version streams, and for every HostedCluster the
  content that was last accepted from a client. The server adds to that what it likes.
\<close>

record objects =
  ob_mhcs :: "key \<Rightarrow> fetched option"
  ob_streams :: "key \<Rightarrow> VersionStream option"
  ob_hosted :: "key \<Rightarrow> json option"

definition put_hosted :: "json \<Rightarrow> objects \<Rightarrow> objects" where
  "put_hosted x B = B\<lparr>ob_hosted := (ob_hosted B)(obj_key x \<mapsto> x)\<rparr>"

text \<open>Writing a status changes the status, and the metadata that the server itself keeps.\<close>

definition set_other :: "(string \<times> json) list \<Rightarrow> objmeta \<Rightarrow> objmeta" where
  "set_other r om = om\<lparr>om_other := r\<rparr>"

definition put_mhc_status :: "(string \<times> json) list \<Rightarrow> ManagedHostedCluster \<Rightarrow> objects \<Rightarrow> objects" where
  "put_mhc_status r m B = B\<lparr>ob_mhcs := (ob_mhcs B)(mhc_key m := map_option (ft_obj_update (\<lambda>x.
     x\<lparr>mhc_Status := mhc_Status m, mhc_ObjectMeta := set_other r (mhc_ObjectMeta x)\<rparr>)) (ob_mhcs B (mhc_key m)))\<rparr>"

definition vs_key :: "VersionStream \<Rightarrow> key" where
  "vs_key v = (om_namespace (vs_ObjectMeta v), om_name (vs_ObjectMeta v))"

definition put_stream_status :: "(string \<times> json) list \<Rightarrow> VersionStream \<Rightarrow> objects \<Rightarrow> objects" where
  "put_stream_status r v B = B\<lparr>ob_streams := (ob_streams B)(vs_key v := map_option (\<lambda>x.
     x\<lparr>vs_Status := vs_Status v, vs_ObjectMeta := set_other r (vs_ObjectMeta x)\<rparr>) (ob_streams B (vs_key v)))\<rparr>"

text \<open>The conditions of a type, and a condition up to the time of its last transition.\<close>

definition of_type :: "string \<Rightarrow> condition list \<Rightarrow> condition list" where
  "of_type t cs = filter (\<lambda>c. cond_type c = t) cs"

text \<open>What a write may do: with a result it has happened, with an error it may have happened.\<close>

definition effect :: "('w \<Rightarrow> objects) \<Rightarrow> (objects \<Rightarrow> objects set) \<Rightarrow> 'w \<Rightarrow> ('w, unit) ret \<Rightarrow> bool" where
  "effect objs put w r = (case r of
      (Inr _, w') \<Rightarrow> objs w' \<in> put (objs w)
    | (Inl e, w') \<Rightarrow> objs w' \<in> insert (objs w) (put (objs w)))"

locale kube =
  fixes K :: "'w kube" and objs :: "'w \<Rightarrow> objects"
  assumes get_mhc_objs: "objs (snd (kb_get_mhc K k w)) = objs w"
    and get_stream_objs: "objs (snd (kb_get_stream K k w)) = objs w"
    and get_hosted_objs: "objs (snd (kb_get_hosted K k w)) = objs w"
    and list_objs: "objs (snd (kb_list_mhc K w)) = objs w"
    and condition_objs: "objs (snd (kb_set_condition K cs c w)) = objs w"
    and now_objs: "objs (snd (kb_now K w)) = objs w"
    and create_effect: "effect objs (\<lambda>B. {put_hosted x B}) w (kb_create K x w)"
    and create_new: "kb_create K x w = (Inr u, w') \<Longrightarrow> ob_hosted (objs w) (obj_key x) = None"
    and update_effect: "effect objs (\<lambda>B. {put_hosted x B}) w (kb_update K x w)"
    and update_old: "kb_update K x w = (Inr u, w') \<Longrightarrow> ob_hosted (objs w) (obj_key x) \<noteq> None"
    and status_mhc_effect: "effect objs (\<lambda>B. range (\<lambda>r. put_mhc_status r m B)) w (kb_status_mhc K m w)"
    and status_stream_effect: "effect objs (\<lambda>B. range (\<lambda>r. put_stream_status r v B)) w (kb_status_stream K v w)"
    and set_owner: "kb_set_owner K m x = Inr y \<Longrightarrow> \<exists>refs. y = set_meta ''ownerReferences'' (Some refs) x"
    and set_condition: "\<exists>t. of_type (cond_type c) (fst (kb_set_condition K cs c w)) =
      c\<lparr>cond_time := t\<rparr> # tl (of_type (cond_type c) cs)"
    and set_condition_other: "s \<noteq> cond_type c \<Longrightarrow> of_type s (fst (kb_set_condition K cs c w)) = of_type s cs"

text \<open>
  While the server is up, the caches are current and nobody else writes: reads give what the
  server has, a create of a missing object succeeds, and so does an update with the resource
  version that has just been read. \<open>valid\<close> is the content that the server admits.
\<close>

locale kube_up = kube K objs for K :: "'w kube" and objs +
  fixes up :: "'w \<Rightarrow> bool" and valid :: "json \<Rightarrow> bool"
  assumes get_mhc_up: "up w \<Longrightarrow> \<exists>w'. up w' \<and> kb_get_mhc K k w = (case ob_mhcs (objs w) k of
      Some f \<Rightarrow> (Inr f, w') | None \<Rightarrow> (Inl (status_error NotFound (''not found'')), w'))"
    and get_stream_up: "up w \<Longrightarrow> \<exists>w'. up w' \<and> kb_get_stream K k w = (case ob_streams (objs w) k of
      Some v \<Rightarrow> (Inr v, w') | None \<Rightarrow> (Inl (status_error NotFound (''not found'')), w'))"
    and get_hosted_up: "up w \<Longrightarrow> \<exists>w'. up w' \<and> (case ob_hosted (objs w) k of
      Some _ \<Rightarrow> \<exists>x. kb_get_hosted K k w = (Inr x, w') \<and> (\<forall>y. valid y \<longrightarrow> obj_key y = k \<longrightarrow>
        GetResourceVersion y = GetResourceVersion x \<longrightarrow> (\<exists>w2. up w2 \<and> kb_update K y w' = (Inr (), w2)))
    | None \<Rightarrow> kb_get_hosted K k w = (Inl (status_error NotFound (''not found'')), w') \<and>
        (\<forall>y. valid y \<longrightarrow> obj_key y = k \<longrightarrow> (\<exists>w2. up w2 \<and> kb_create K y w' = (Inr (), w2))))"
    and status_mhc_up: "up w \<Longrightarrow> ob_mhcs (objs w) (mhc_key m) = Some f \<Longrightarrow>
      mhc_ObjectMeta (ft_obj f) = mhc_ObjectMeta m \<Longrightarrow> \<exists>w'. up w' \<and> kb_status_mhc K m w = (Inr (), w')"
    and status_stream_up: "up w \<Longrightarrow> ob_streams (objs w) (vs_key v) = Some v0 \<Longrightarrow>
      vs_ObjectMeta v0 = vs_ObjectMeta v \<Longrightarrow> \<exists>w'. up w' \<and> kb_status_stream K v w = (Inr (), w')"
    and set_owner_up: "om_namespace (mhc_ObjectMeta m) = GetNamespace x \<Longrightarrow>
      get_field ''ownerReferences'' (obj_meta x) = None \<Longrightarrow> \<exists>y. kb_set_owner K m x = Inr y"
    and condition_up: "up w \<Longrightarrow> up (snd (kb_set_condition K cs c w))"
    and now_up: "up w \<Longrightarrow> up (snd (kb_now K w))"

end
