(* ===== verification/Cincinnati.thy ===== *)
theory Cincinnati
  imports Json
begin

text \<open>
  \<open>internal/cincinnati/client.go\<close>: the client of the Cincinnati update service, which turns a
  version \<open>major.minor\<close> into the release image of its newest patch version. The HTTP client of the
  runtime is the parameter \<open>http\<close>. The numbers of a version are machine integers as
  \<open>strconv.Atoi\<close> delivers them, with its results for texts that are no number or out of range.

  The lemmas show that \<open>compareVersions\<close> never overflows and orders versions by their numeric
  parts, and that \<open>ResolveVersion\<close> returns a maximal matching node of the graph it fetched.
\<close>

section \<open>strconv.Atoi\<close>

text \<open>
  \<open>strconv.ParseUint(s, 10, 64)\<close>: \<open>None\<close> is a syntax error. The scan stops at the digit that
  overflows, with the largest value, and does not see what follows.
\<close>

definition maxUint64 :: nat where "maxUint64 = 2 ^ 64 - 1"

fun parse_uint :: "string \<Rightarrow> nat \<Rightarrow> nat option" where
  "parse_uint [] n = Some n"
| "parse_uint (c # cs) n =
     (if \<not> is_digit c then None
      else (let m = 10 * n + (byte c - 48)
            in if maxUint64 < m then Some maxUint64 else parse_uint cs m))"

definition split_sign :: "string \<Rightarrow> bool \<times> string" where
  "split_sign s = (case s of
      [] \<Rightarrow> (False, [])
    | c # cs \<Rightarrow> if c = CHR ''-'' then (True, cs) else if c = CHR ''+'' then (False, cs) else (False, s))"

text \<open>The value and whether there was no error; a syntax error gives 0, a range error the bound.\<close>

definition atoi :: "string \<Rightarrow> int64 \<times> bool" where
  "atoi s = (let (neg, ds) = split_sign s in
     if ds = [] then (0, False)
     else (case parse_uint ds 0 of
         None \<Rightarrow> (0, False)
       | Some n \<Rightarrow>
           if neg then if 2 ^ 63 < n then (- (2 ^ 63), False) else (- of_nat n, True)
           else if 2 ^ 63 \<le> n then (2 ^ 63 - 1, False) else (of_nat n, True)))"

section \<open>The client\<close>

definition DefaultBaseURL :: string where
  "DefaultBaseURL = ''https://api.openshift.com/api/upgrades_info/v1/graph''"

definition DefaultArch :: string where "DefaultArch = ''amd64''"

record Node =
  nd_Version :: string
  nd_Payload :: string

record Graph =
  gr_Nodes :: "Node list"
  gr_Edges :: "int64 list list"

definition zero_Node :: Node where
  "zero_Node = \<lparr>nd_Version = [], nd_Payload = []\<rparr>"

definition dec_Node :: "Node json_decoder" where
  "dec_Node = dec_struct [jfield ''version'' nd_Version nd_Version_update dec_str,
     jfield ''payload'' nd_Payload nd_Payload_update dec_str]"

text \<open>A JSON number into an \<open>int64\<close>: an integer literal within the range.\<close>

fun dec_int64 :: "int64 json_decoder" where
  "dec_int64 JNull x = Some x"
| "dec_int64 (JNum n) x = (case atoi n of (v, ok) \<Rightarrow> if ok then Some v else None)"
| "dec_int64 _ x = None"

definition dec_Graph :: "Graph json_decoder" where
  "dec_Graph = dec_struct [jfield ''nodes'' gr_Nodes gr_Nodes_update (dec_list zero_Node dec_Node),
     jfield ''edges'' gr_Edges gr_Edges_update (dec_list [] (dec_list 0 dec_int64))]"

record Client =
  cl_baseURL :: string
  cl_timeout :: int64

definition NewClient :: "string \<Rightarrow> int64 \<Rightarrow> Client" where
  "NewClient baseURL timeout =
     \<lparr>cl_baseURL = (if baseURL = [] then DefaultBaseURL else baseURL),
      cl_timeout = (if timeout = 0 then 30 * 1000000000 else timeout)\<rparr>"

text \<open>
  \<open>url_check\<close> is the error of \<open>http.NewRequestWithContext\<close> for a URL, \<open>http_get\<close> a GET request
  with query parameters and a timeout: it fails, or gives a status code and the body.
\<close>

record 'w http =
  url_check :: "string \<Rightarrow> gerr option"
  http_get :: "int64 \<Rightarrow> string \<Rightarrow> (string \<times> string) list \<Rightarrow> 'w \<Rightarrow> ('w, nat \<times> string) ret"

definition DeriveChannel :: "string \<Rightarrow> string \<Rightarrow> string" where
  "DeriveChannel version channelGroup = channelGroup @ ''-'' @ version"

text \<open>The loop of \<open>compareVersions\<close> over the indices.\<close>

definition part_val :: "string list \<Rightarrow> nat \<Rightarrow> int64" where
  "part_val parts i = (if i < length parts then fst (atoi (parts ! i)) else 0)"

fun compare_at :: "string list \<Rightarrow> string list \<Rightarrow> nat list \<Rightarrow> int64" where
  "compare_at aParts bParts [] = 0"
| "compare_at aParts bParts (i # is) =
     (let aVal = part_val aParts i; bVal = part_val bParts i
      in if aVal \<noteq> bVal then aVal - bVal else compare_at aParts bParts is)"

definition compareVersions :: "string \<Rightarrow> string \<Rightarrow> int64" where
  "compareVersions a b =
     (let aParts = split_on (CHR ''.'') a; bParts = split_on (CHR ''.'') b
      in compare_at aParts bParts [0..<max (length bParts) (length aParts)])"

definition fetchGraph :: "'w http \<Rightarrow> Client \<Rightarrow> string \<Rightarrow> string \<Rightarrow> 'w \<Rightarrow> ('w, Graph) ret" where
  "fetchGraph http c channel arch w = (case url_check http (cl_baseURL c) of
      Some e \<Rightarrow> (Inl (wrap_err ''failed to create request: '' e), w)
    | None \<Rightarrow>
        (case http_get http (cl_timeout c) (cl_baseURL c) [(''arch'', arch), (''channel'', channel)] w of
           (Inl e, w1) \<Rightarrow> (Inl (wrap_err ''request failed: '' e), w1)
         | (Inr (code, body), w1) \<Rightarrow>
             if code \<noteq> 200
             then (Inl (errorf (''cincinnati returned status '' @ nat_text code @ '': '' @ body)), w1)
             else (case (case json_decode body of
                   None \<Rightarrow> None
                 | Some j \<Rightarrow> dec_Graph j \<lparr>gr_Nodes = [], gr_Edges = []\<rparr>) of
                 None \<Rightarrow> (Inl (errorf ''failed to decode Cincinnati response: invalid JSON''), w1)
               | Some graph \<Rightarrow> (Inr graph, w1))))"

text \<open>The loop of \<open>ResolveVersion\<close> over the nodes, with the best one so far.\<close>

fun best_node :: "string \<Rightarrow> Node list \<Rightarrow> Node option \<Rightarrow> Node option" where
  "best_node pre [] best = best"
| "best_node pre (n # ns) best =
     (if \<not> has_prefix (nd_Version n) pre then best_node pre ns best
      else (case best of
          None \<Rightarrow> best_node pre ns (Some n)
        | Some b \<Rightarrow>
            if 0 < sint (compareVersions (nd_Version n) (nd_Version b)) then best_node pre ns (Some n)
            else best_node pre ns best))"

definition ResolveVersion :: "'w http \<Rightarrow> Client \<Rightarrow> string \<Rightarrow> string \<Rightarrow> string \<Rightarrow> 'w \<Rightarrow>
    ('w, string \<times> string \<times> string) ret" where
  "ResolveVersion http c version channelGroup arch w =
     (if version = [] then (Inl (errorf ''version is required''), w)
      else (let channelGroup = (if channelGroup = [] then ''stable'' else channelGroup);
                arch = (if arch = [] then DefaultArch else arch);
                channel = DeriveChannel version channelGroup
        in case fetchGraph http c channel arch w of
          (Inl e, w1) \<Rightarrow>
            (Inl (wrap_err (''failed to fetch Cincinnati graph for channel '' @ channel @ '': '') e), w1)
        | (Inr graph, w1) \<Rightarrow>
            (case best_node (version @ ''.'') (gr_Nodes graph) None of
               None \<Rightarrow> (Inl (errorf (''no version matching '' @ go_quote version @
                   '' found in channel '' @ channel)), w1)
             | Some best \<Rightarrow>
                 if nd_Payload best = []
                 then (Inl (errorf (''version '' @ nd_Version best @ '' found in channel '' @ channel @
                     '' but has no payload image'')), w1)
                 else (Inr (nd_Payload best, nd_Version best, channel), w1))))"

section \<open>The order of versions\<close>

text \<open>The number at a position of a version; a version that has no such part counts as having 0.\<close>

definition part :: "string \<Rightarrow> nat \<Rightarrow> int" where
  "part v i = sint (part_val (split_on (CHR ''.'') v) i)"

definition parts_len :: "string \<Rightarrow> string \<Rightarrow> nat" where
  "parts_len a b = max (length (split_on (CHR ''.'') a)) (length (split_on (CHR ''.'') b))"

text \<open>The reference order: \<open>a\<close> has the larger number at the first position where the two differ.\<close>

definition newer :: "string \<Rightarrow> string \<Rightarrow> bool" where
  "newer a b \<longleftrightarrow> (\<exists>i<parts_len a b. (\<forall>j<i. part a j = part b j) \<and> part b i < part a i)"

text \<open>No part starts with a minus sign, as in every version number.\<close>

definition plain_version :: "string \<Rightarrow> bool" where
  "plain_version v \<longleftrightarrow> list_all (\<lambda>p. \<not> has_prefix p ''-'') (split_on (CHR ''.'') v)"

lemma sint_of_nat64: "n < 2 ^ 63 \<Longrightarrow> sint (of_nat n :: int64) = int n"
  by (simp add: signed_of_nat signed_take_bit_int_eq_self)

lemma atoi_nonneg: "\<not> has_prefix s ''-'' \<Longrightarrow> 0 \<le> sint (fst (atoi s))"
proof -
  assume "\<not> has_prefix s ''-''"
  then have "\<not> fst (split_sign s)" by (cases s) (auto simp: split_sign_def)
  then obtain ds where ds: "split_sign s = (False, ds)" by (cases "split_sign s") simp
  have max: "sint (2 ^ 63 - 1 :: int64) = 2 ^ 63 - 1" by simp
  show ?thesis
    using sint_of_nat64 max by (auto simp: atoi_def ds split: option.split)
qed

lemma part_nonneg: "plain_version v \<Longrightarrow> 0 \<le> part v i"
  by (auto simp: plain_version_def part_def part_val_def list_all_length intro: atoi_nonneg)

lemma part_beyond: "parts_len a b \<le> i \<Longrightarrow> part a i = 0 \<and> part b i = 0"
  by (simp add: part_def part_val_def parts_len_def)

lemma sint_diff64:
  assumes "0 \<le> sint (a :: int64)" and "0 \<le> sint (b :: int64)"
  shows "sint (a - b) = sint a - sint b"
proof -
  have "sint a < 2 ^ 63" "sint b < 2 ^ 63"
    using sint_range_size[of a] sint_range_size[of b] by (simp_all add: word_size)
  with assms show ?thesis
    by (simp add: sint_word_ariths(2) signed_take_bit_int_eq_self)
qed

lemma compare_at_cases:
  obtains (eq) "compare_at as bs is = 0" "\<forall>i\<in>set is. part_val as i = part_val bs i"
  | (diff) ys i zs where "is = ys @ i # zs" "\<forall>j\<in>set ys. part_val as j = part_val bs j"
      "part_val as i \<noteq> part_val bs i" "compare_at as bs is = part_val as i - part_val bs i"
proof -
  have "compare_at as bs is = 0 \<and> (\<forall>i\<in>set is. part_val as i = part_val bs i) \<or>
    (\<exists>ys i zs. is = ys @ i # zs \<and> (\<forall>j\<in>set ys. part_val as j = part_val bs j) \<and>
      part_val as i \<noteq> part_val bs i \<and> compare_at as bs is = part_val as i - part_val bs i)"
  proof (induction "is")
    case (Cons k ks)
    show ?case
    proof (cases "part_val as k = part_val bs k")
      case True
      from Cons show ?thesis
      proof (elim disjE exE conjE)
        fix ys i zs assume "ks = ys @ i # zs" "\<forall>j\<in>set ys. part_val as j = part_val bs j"
          "part_val as i \<noteq> part_val bs i" "compare_at as bs ks = part_val as i - part_val bs i"
        with True show ?thesis
          by (intro disjI2 exI[of _ "k # ys"] exI[of _ i] exI[of _ zs]) simp
      qed (simp add: True)
    next
      case False
      then show ?thesis
        by (intro disjI2 exI[of _ "[]"] exI[of _ k] exI[of _ ks]) (simp add: Let_def)
    qed
  qed simp
  with that show ?thesis by blast
qed

text \<open>The result of a comparison is the exact difference of the first parts that differ.\<close>

lemma compareVersions_cases:
  assumes "plain_version a" and "plain_version b"
  obtains (eq) "compareVersions a b = 0" "\<And>i. part a i = part b i"
  | (diff) i where "i < parts_len a b" "\<forall>j<i. part a j = part b j" "part a i \<noteq> part b i"
      "sint (compareVersions a b) = part a i - part b i"
proof -
  let ?as = "split_on (CHR ''.'') a" and ?bs = "split_on (CHR ''.'') b" and ?n = "parts_len a b"
  have c: "compareVersions a b = compare_at ?as ?bs [0..<?n]"
    unfolding compareVersions_def parts_len_def Let_def by (subst max.commute) (rule refl)
  show ?thesis
  proof (cases rule: compare_at_cases[of ?as ?bs "[0..<?n]"])
    case eq
    have "part a i = part b i" for i
      using eq(2) part_beyond[of a b i] by (cases "i < ?n") (auto simp: part_def)
    with eq(1) c that(1) show ?thesis by simp
  next
    case (diff ys i zs)
    have len: "length ys < ?n" using arg_cong[OF diff(1), of length] by simp
    moreover have "[0..<?n] ! length ys = i" by (simp only: diff(1) nth_append_length)
    ultimately have i: "i < ?n" "length ys = i" by simp_all
    then have "ys = [0..<i]"
      using arg_cong[OF diff(1), of "take i"] by (simp add: take_upt)
    with diff(2) have "\<forall>j<i. part a j = part b j" by (simp add: part_def)
    moreover have "sint (compareVersions a b) = part a i - part b i"
      using sint_diff64 part_nonneg[OF assms(1), of i] part_nonneg[OF assms(2), of i]
      by (simp add: c diff(4) part_def)
    moreover have "part a i \<noteq> part b i" using diff(3) by (auto simp: part_def dest: signed_word_eqI)
    ultimately show ?thesis using i that(2) by blast
  qed
qed

lemma newer_iff:
  assumes "i < parts_len a b" and "\<forall>j<i. part a j = part b j" and "part a i \<noteq> part b i"
  shows "newer a b \<longleftrightarrow> part b i < part a i"
proof
  assume "newer a b"
  then obtain k where k: "\<forall>j<k. part a j = part b j" "part b k < part a k" by (auto simp: newer_def)
  with assms(2,3) have "k = i" by (metis less_irrefl linorder_neqE_nat)
  with k show "part b i < part a i" by simp
qed (use assms in \<open>auto simp: newer_def\<close>)

lemma newer_irrefl: "(\<And>i. part a i = part b i) \<Longrightarrow> \<not> newer a b"
  by (simp add: newer_def)

section \<open>The newest matching node\<close>

lemma newer_asym: "newer a b \<Longrightarrow> \<not> newer b a"
  unfolding newer_def by (metis linorder_neqE_nat order_less_asym order_less_irrefl)

text \<open>What the scan returns is a matching node, and no matching node is newer than it.\<close>

lemma newer_trans_le:
  assumes "\<not> newer b c" and "\<not> newer a b"
    and "plain_version a" "plain_version b" "plain_version c"
  shows "\<not> newer a c"
proof
  have cmp: "(newer x y \<longleftrightarrow> 0 < sint (compareVersions x y)) \<and>
      ((\<exists>i. (\<forall>j<i. part x j = part y j) \<and> part y i < part x i) \<longleftrightarrow> newer x y)"
    if "plain_version x" "plain_version y" for x y
  proof (cases rule: compareVersions_cases[OF that])
    case 1
    then show ?thesis by (auto simp: newer_def)
  next
    case (2 i)
    then show ?thesis
      using newer_iff[of i x y] by (auto simp: newer_def) (metis linorder_neqE_nat order_less_irrefl)
  qed
  assume "newer a c"
  then obtain i where i: "\<forall>j<i. part a j = part c j" "part c i < part a i" by (auto simp: newer_def)
  have ab: "\<not> (\<exists>i. (\<forall>j<i. part a j = part b j) \<and> part b i < part a i)"
    and bc: "\<not> (\<exists>i. (\<forall>j<i. part b j = part c j) \<and> part c i < part b i)"
    using assms cmp by blast+
  have "part a j = part b j \<and> part b j = part c j" if "j < i" for j
    using that
  proof (induction j rule: less_induct)
    case (less j)
    then have "\<not> part b j < part a j" "\<not> part c j < part b j"
      using ab bc by (metis order_less_trans)+
    with i less.prems show ?case by force
  qed
  with i ab bc show False by (metis linorder_not_less order_le_less_trans)
qed

lemma newer_compare: "plain_version a \<Longrightarrow> plain_version b \<Longrightarrow> newer a b \<longleftrightarrow> 0 < sint (compareVersions a b)"
  by (cases rule: compareVersions_cases[of a b]) (auto simp: newer_iff newer_irrefl)

definition candidate :: "string \<Rightarrow> Node \<Rightarrow> bool" where
  "candidate version n \<longleftrightarrow> has_prefix (nd_Version n) (version @ ''.'')"

lemma best_node_None: "best_node pre ns best = None \<longleftrightarrow>
    best = None \<and> list_all (\<lambda>n. \<not> has_prefix (nd_Version n) pre) ns"
  by (induction pre ns best rule: best_node.induct) (auto split: option.split)

lemma best_node_member: "best_node pre ns best = Some r \<Longrightarrow>
    best = Some r \<or> r \<in> set ns \<and> has_prefix (nd_Version r) pre"
  by (induction pre ns best rule: best_node.induct) (auto split: if_splits option.splits)

lemma best_node_max:
  assumes "list_all (\<lambda>n. has_prefix (nd_Version n) pre \<longrightarrow> plain_version (nd_Version n)) ns"
    and "\<forall>b. best = Some b \<longrightarrow> plain_version (nd_Version b)"
    and "best_node pre ns best = Some r"
  shows "(best = Some r \<or> r \<in> set ns \<and> has_prefix (nd_Version r) pre) \<and>
    plain_version (nd_Version r) \<and>
    (\<forall>n. (n \<in> set ns \<and> has_prefix (nd_Version n) pre \<or> best = Some n) \<longrightarrow>
       \<not> newer (nd_Version n) (nd_Version r))"
  using assms
proof (induction pre ns best rule: best_node.induct)
  case (1 pre best)
  then show ?case by (simp add: newer_irrefl)
next
  case (2 pre n ns best)
  show ?case
  proof (cases "has_prefix (nd_Version n) pre")
    case False
    with 2 show ?thesis by auto
  next
    case True
    note n = True
    with "2.prems" have pl: "plain_version (nd_Version n)" by simp
    show ?thesis
    proof (cases best)
      case None
      with 2 n show ?thesis by auto
    next
      case (Some b)
      with "2.prems" have pb: "plain_version (nd_Version b)" by simp
      show ?thesis
      proof (cases "0 < sint (compareVersions (nd_Version n) (nd_Version b))")
        case True
        with "2.prems" n Some have "best_node pre ns (Some n) = Some r" by simp
        with "2.IH"(3)[OF _ Some True] "2.prems" n pl have r:
          "(n = r \<or> r \<in> set ns \<and> has_prefix (nd_Version r) pre) \<and> plain_version (nd_Version r) \<and>
           (\<forall>m. (m \<in> set ns \<and> has_prefix (nd_Version m) pre \<or> n = m) \<longrightarrow>
              \<not> newer (nd_Version m) (nd_Version r))"
          by auto
        from True have "\<not> newer (nd_Version b) (nd_Version n)"
          using newer_asym by (simp add: newer_compare[OF pl pb, symmetric])
        with r have "\<not> newer (nd_Version b) (nd_Version r)"
          using newer_trans_le[OF _ _ pb pl, of "nd_Version r"] by blast
        with r n Some show ?thesis by auto
      next
        case False
        with "2.prems" n Some have "best_node pre ns (Some b) = Some r" by simp
        with "2.IH"(4)[OF _ Some False] "2.prems" n pb Some have r:
          "(b = r \<or> r \<in> set ns \<and> has_prefix (nd_Version r) pre) \<and> plain_version (nd_Version r) \<and>
           (\<forall>m. (m \<in> set ns \<and> has_prefix (nd_Version m) pre \<or> b = m) \<longrightarrow>
              \<not> newer (nd_Version m) (nd_Version r))"
          by auto
        from False have "\<not> newer (nd_Version n) (nd_Version b)" by (simp add: newer_compare pl pb)
        with r have "\<not> newer (nd_Version n) (nd_Version r)"
          using newer_trans_le[OF _ _ pl pb, of "nd_Version r"] by blast
        with r n Some show ?thesis by auto
      qed
    qed
  qed
qed

text \<open>Evaluation of the version functions on literals.\<close>

lemmas version_eval = compareVersions_def part_val_def atoi_def split_sign_def maxUint64_def
  is_digit_def byte_def plain_version_def

section \<open>Properties\<close>

text \<open>compareVersions agrees with the comparison of versions by their numbers: it is positive
  exactly when the first version is newer, negative exactly when the second one is, and zero
  exactly when all numbers agree, where a missing number counts as 0.\<close>

theorem compareVersions_order:
  assumes "plain_version a" and "plain_version b"
  shows "(0 < sint (compareVersions a b) \<longleftrightarrow> newer a b) \<and>
    (sint (compareVersions a b) < 0 \<longleftrightarrow> newer b a) \<and>
    (compareVersions a b = 0 \<longleftrightarrow> (\<forall>i. part a i = part b i))"
proof (cases rule: compareVersions_cases[OF assms])
  case 1
  then show ?thesis by (simp add: newer_irrefl)
next
  case (2 i)
  have "newer b a \<longleftrightarrow> part a i < part b i"
    using newer_iff[of i b a] 2(1-3) by (simp add: parts_len_def max.commute)
  moreover have "compareVersions a b \<noteq> 0" using 2(3,4) by auto
  moreover have "\<not> (\<forall>i. part a i = part b i)" using 2(3) by blast
  ultimately show ?thesis using newer_iff[OF 2(1-3)] 2(3,4) by auto
qed

theorem compareVersions_order_witness:
  "0 < sint (compareVersions ''4.16.10'' ''4.16.9'') \<longleftrightarrow> newer ''4.16.10'' ''4.16.9''"
proof -
  have "plain_version ''4.16.10'' \<and> plain_version ''4.16.9''" by code_simp
  with compareVersions_order[of "''4.16.10''" "''4.16.9''"] show ?thesis by blast
qed



lemma resolved_node:
  assumes "ResolveVersion http c version channelGroup arch w = (Inr (img, v, channel), w')"
  shows "\<exists>graph. fetchGraph http c channel (if arch = [] then DefaultArch else arch) w = (Inr graph, w') \<and>
    channel = DeriveChannel version (if channelGroup = [] then ''stable'' else channelGroup) \<and>
    img \<noteq> [] \<and> (\<exists>n\<in>set (gr_Nodes graph). candidate version n \<and> nd_Version n = v \<and> nd_Payload n = img) \<and>
    ((\<forall>n\<in>set (gr_Nodes graph). candidate version n \<longrightarrow> plain_version (nd_Version n)) \<longrightarrow>
     (\<forall>n\<in>set (gr_Nodes graph). candidate version n \<longrightarrow> \<not> newer (nd_Version n) v))"
proof -
  let ?ch = "DeriveChannel version (if channelGroup = [] then ''stable'' else channelGroup)"
  from assms obtain graph best where graph:
    "fetchGraph http c ?ch (if arch = [] then DefaultArch else arch) w = (Inr graph, w')"
    and best: "best_node (version @ ''.'') (gr_Nodes graph) None = Some best"
      "nd_Payload best \<noteq> []" "img = nd_Payload best" "v = nd_Version best" "channel = ?ch"
    by (auto simp: ResolveVersion_def Let_def split: if_splits prod.splits sum.splits option.splits)
  have member: "best \<in> set (gr_Nodes graph) \<and> candidate version best"
    using best(1) unfolding candidate_def by (rule best_node_member[of _ _ None, simplified])
  have "\<forall>n\<in>set (gr_Nodes graph). candidate version n \<longrightarrow> \<not> newer (nd_Version n) v"
    if "\<forall>n\<in>set (gr_Nodes graph). candidate version n \<longrightarrow> plain_version (nd_Version n)"
    using best_node_max[of "version @ ''.''" "gr_Nodes graph" None best] that best(1,4)
    by (auto simp: candidate_def list_all_iff)
  with graph best member show ?thesis by auto
qed


text \<open>A service that answers every request with one graph.\<close>

definition demo_nodes :: "Node list" where
  "demo_nodes = [\<lparr>nd_Version = ''4.16.9'', nd_Payload = ''img9''\<rparr>,
     \<lparr>nd_Version = ''4.16.10'', nd_Payload = ''img10''\<rparr>, \<lparr>nd_Version = ''4.17.1'', nd_Payload = ''img17''\<rparr>]"

definition demo_body :: json where
  "demo_body = JObj [(''nodes'', JArr (map (\<lambda>n. JObj [(''version'', JStr (nd_Version n)),
      (''payload'', JStr (nd_Payload n))]) demo_nodes)), (''edges'', JArr [JArr [JNum ''0'', JNum ''1'']])]"

definition demo_http :: "'w http" where
  "demo_http = \<lparr>url_check = (\<lambda>u. None), http_get = (\<lambda>t u q w. (Inr (200, json_print demo_body), w))\<rparr>"

lemma demo_fetched:
  "fetchGraph demo_http c channel arch w = (Inr \<lparr>gr_Nodes = demo_nodes, gr_Edges = [[0, 1]]\<rparr>, w)"
proof -
  have "wf_json demo_body" by code_simp
  from json_decode_print[OF this, of "[]"] have "json_decode (json_print demo_body) = Some demo_body" by simp
  moreover have "dec_Graph demo_body \<lparr>gr_Nodes = [], gr_Edges = []\<rparr> =
      Some \<lparr>gr_Nodes = demo_nodes, gr_Edges = [[0, 1]]\<rparr>"
    by (simp add: dec_Graph_def dec_Node_def zero_Node_def demo_body_def demo_nodes_def find_field_def
        jfield_def version_eval)
  ultimately show ?thesis by (simp add: fetchGraph_def demo_http_def)
qed

lemma demo_resolved:
  "ResolveVersion demo_http c ''4.16'' [] [] w = (Inr (''img10'', ''4.16.10'', ''stable-4.16''), w)"
  by (simp add: ResolveVersion_def demo_fetched demo_nodes_def DeriveChannel_def version_eval upt_rec)


lemma found_release:
  assumes "version \<noteq> []" and "channelGroup \<noteq> []" and "arch \<noteq> []"
    and "fetchGraph http c (DeriveChannel version channelGroup) arch w = (Inr graph, w')"
    and "n \<in> set (gr_Nodes graph)" and "candidate version n"
    and "\<forall>n\<in>set (gr_Nodes graph). candidate version n \<longrightarrow> nd_Payload n \<noteq> []"
  shows "\<exists>img v. ResolveVersion http c version channelGroup arch w =
    (Inr (img, v, DeriveChannel version channelGroup), w')"
proof -
  have "best_node (version @ ''.'') (gr_Nodes graph) None \<noteq> None"
    using assms(5,6) by (auto simp: best_node_None list_all_iff candidate_def)
  then obtain r where r: "best_node (version @ ''.'') (gr_Nodes graph) None = Some r" by blast
  with best_node_member[OF this] assms(7) have "nd_Payload r \<noteq> []" by (simp add: candidate_def)
  with r assms(1-4) show ?thesis by (simp add: ResolveVersion_def Let_def)
qed



text \<open>A release candidate outranks the release: the part \<open>0-rc\<close> is no number and counts as 0, and
  the candidate has one part more.\<close>

lemma prerelease_outranks_release: "0 < sint (compareVersions ''4.16.0-rc.1'' ''4.16.0'')"
  by (simp add: version_eval upt_rec)

end
