(* ===== verification/Controllers.thy ===== *)
theory Controllers
  imports Kube Cincinnati
begin

text \<open>
  \<open>internal/controller\<close>: the reconcilers of the operator. A reconciler gets the key of an object
  and returns an error, or after how many nanoseconds it wants to run again (0: not by itself).
  \<open>env\<close> is used for the JSON of Go values only; the logs are left out.
\<close>

section \<open>hostedcluster_controller.go\<close>

definition hostedClusterGroup :: string where "hostedClusterGroup = ''hypershift.openshift.io''"
definition hostedClusterVersion :: string where "hostedClusterVersion = ''v1beta1''"
definition hostedClusterKind :: string where "hostedClusterKind = ''HostedCluster''"

definition default_networking :: ClusterNetworkingSpec where
  "default_networking = \<lparr>net_ClusterNetwork = [\<lparr>nr_CIDR = ''10.132.0.0/14''\<rparr>],
     net_ServiceNetwork = [\<lparr>nr_CIDR = ''172.31.0.0/16''\<rparr>], net_NetworkType = ''OVNKubernetes''\<rparr>"

definition default_etcd :: EtcdSpec where
  "default_etcd = \<lparr>etcd_ManagementType = ''Managed'',
     etcd_Managed = Some \<lparr>me_Storage = \<lparr>mes_Type = ''PersistentVolume''\<rparr>\<rparr>\<rparr>"

definition default_services :: "ServicePublishingStrategyMapping list" where
  "default_services = map (\<lambda>s. \<lparr>spm_Service = s, spm_Strategy = \<lparr>sps_Type = ''Route''\<rparr>\<rparr>)
     [''APIServer'', ''OAuthServer'', ''Konnectivity'', ''Ignition'']"

definition default_capabilities :: CapabilitiesSpec where
  "default_capabilities = \<lparr>cap_Disabled = [''ImageRegistry'', ''Console'', ''Ingress'']\<rparr>"

definition default_configuration :: ClusterConfiguration where
  "default_configuration = \<lparr>cfg_Authentication = Some \<lparr>auth_Type = ''OIDC'',
     auth_OIDCProviders = [\<lparr>oidc_Name = ''google'',
       oidc_Issuer = \<lparr>iss_IssuerURL = ''https://accounts.google.com'',
         iss_Audiences = [''32555940559.apps.googleusercontent.com'']\<rparr>,
       oidc_ClaimMappings = \<lparr>cms_Username = \<lparr>clm_Claim = ''email'', clm_Prefix = []\<rparr>,
         cms_Groups = Some \<lparr>clm_Claim = ''hd'', clm_Prefix = []\<rparr>\<rparr>\<rparr>]\<rparr>\<rparr>"

definition or_default :: "'a \<Rightarrow> 'a option \<Rightarrow> 'a option" where
  "or_default d x = (case x of None \<Rightarrow> Some d | Some v \<Rightarrow> Some v)"

text \<open>\<open>nilServices\<close> says that \<open>spec.Services\<close> is nil.\<close>

definition populateHostedClusterSpec :: "HostedClusterSpec \<Rightarrow> bool \<Rightarrow> ManagedHostedCluster \<Rightarrow> string \<Rightarrow>
    HostedClusterSpec" where
  "populateHostedClusterSpec spec nilServices mhc channel = spec\<lparr>
     hc_Platform := \<lparr>plat_Type = ''GCP''\<rparr>,
     hc_Networking := or_default default_networking (hc_Networking spec),
     hc_Etcd := or_default default_etcd (hc_Etcd spec),
     hc_Services := (if nilServices then default_services else hc_Services spec),
     hc_ClusterID := mhs_ClusterID (mhc_Spec mhc),
     hc_Channel := channel,
     hc_ControllerAvailabilityPolicy := ''HighlyAvailable'',
     hc_PullSecret := Some \<lparr>sec_Name = ''pull-secret''\<rparr>,
     hc_ServiceAccountSigningKey := Some \<lparr>sec_Name = om_name (mhc_ObjectMeta mhc) @ ''-signing-key''\<rparr>,
     hc_Capabilities := or_default default_capabilities (hc_Capabilities spec),
     hc_Configuration := or_default default_configuration (hc_Configuration spec)\<rparr>"

text \<open>
  The specification goes through \<open>json.Marshal\<close> and \<open>json.Unmarshal\<close> into a map, which is kept as
  the JSON that \<open>renorm\<close> makes of it. \<open>null\<close> would give a nil map, whose assignment panics.
\<close>

definition override_image :: "string \<Rightarrow> (string \<times> json) list \<Rightarrow> (string \<times> json) list" where
  "override_image releaseImage specMap = (case get_field ''release'' specMap of
      Some (JObj release) \<Rightarrow> kv_ins ''release'' (JObj (kv_ins ''image'' (JStr releaseImage) release)) specMap
    | _ \<Rightarrow> kv_ins ''release'' (JObj [(''image'', JStr releaseImage)]) specMap)"

definition buildHostedCluster :: "'e env \<Rightarrow> fetched \<Rightarrow> string \<Rightarrow> string \<Rightarrow> gerr + json" where
  "buildHostedCluster env mhc releaseImage channel =
     (let spec = populateHostedClusterSpec (mhs_HostedCluster (mhc_Spec (ft_obj mhc))) (ft_nilServices mhc)
            (ft_obj mhc) channel
      in case (case json_parse (json_print (enc_HostedClusterSpec spec)) of
            None \<Rightarrow> None
          | Some j \<Rightarrow> renorm env j) of
          Some (JObj specMap) \<Rightarrow> Inr (JObj
            [(''apiVersion'', JStr (hostedClusterGroup @ ''/'' @ hostedClusterVersion)),
             (''kind'', JStr hostedClusterKind),
             (''metadata'', JObj [(''annotations'', JObj
               [(''hypershift.openshift.io/pod-security-admission-label-override'', JStr ''baseline''),
                (''hypershift.openshift.io/skip-kas-conflict-san-validation'', JStr ''true'')])]),
             (''spec'', JObj (override_image releaseImage specMap))])
        | _ \<Rightarrow> Inl (wrap_err ''unmarshaling hosted cluster spec: '' json_error))"

text \<open>The loop of \<open>setCondition\<close>: replace the first condition of the type, or append.\<close>

fun replace_condition :: "string \<Rightarrow> condition \<Rightarrow> condition list \<Rightarrow> condition list" where
  "replace_condition t c [] = [c]"
| "replace_condition t c (x # xs) = (if cond_type x = t then c # xs else x # replace_condition t c xs)"

definition setCondition :: "'w kube \<Rightarrow> ManagedHostedCluster \<Rightarrow> string \<Rightarrow> string \<Rightarrow> string \<Rightarrow> string \<Rightarrow> 'w \<Rightarrow>
    ('w, unit) ret" where
  "setCondition K mhc condType status reason message w = (case kb_now K w of (now, w1) \<Rightarrow>
     (let condition = \<lparr>cond_type = condType, cond_status = status, cond_reason = reason,
            cond_message = message, cond_time = now, cond_generation = 0\<rparr>
      in kb_status_mhc K (mhc\<lparr>mhc_Status := (mhc_Status mhc)\<lparr>mst_Conditions :=
           replace_condition condType condition (mst_Conditions (mhc_Status mhc))\<rparr>\<rparr>) w1))"

definition requeue :: "int \<Rightarrow> ('w, unit) ret \<Rightarrow> ('w, int) ret" where
  "requeue t r = (case r of (Inl e, w) \<Rightarrow> (Inl e, w) | (Inr _, w) \<Rightarrow> (Inr t, w))"

definition hosted_Reconcile :: "'e env \<Rightarrow> 'w kube \<Rightarrow> key \<Rightarrow> 'w \<Rightarrow> ('w, int) ret" where
  "hosted_Reconcile env K req w = (case kb_get_mhc K req w of
      (Inl e, w1) \<Rightarrow> if err_code e = NotFound then (Inr 0, w1) else (Inl e, w1)
    | (Inr f, w1) \<Rightarrow>
        (let mhc = ft_obj f
         in case kb_get_stream K ([], vsr_Name (mhs_VersionStreamRef (mhc_Spec mhc))) w1 of
           (Inl e, w2) \<Rightarrow> (Inl e, w2)
         | (Inr vs, w2) \<Rightarrow>
             if vst_ReleaseImage (vs_Status vs) = [] then (Inr (10 * 1000000000), w2)
             else (case buildHostedCluster env f (vst_ReleaseImage (vs_Status vs)) (vst_Channel (vs_Status vs)) of
                 Inl e \<Rightarrow> (Inl e, w2)
               | Inr built \<Rightarrow>
                   (case kb_set_owner K mhc (SetNamespace (om_namespace (mhc_ObjectMeta mhc))
                        (SetName (om_name (mhc_ObjectMeta mhc)) built)) of
                      Inl e \<Rightarrow> (Inl e, w2)
                    | Inr hc \<Rightarrow>
                        (case kb_get_hosted K (obj_key hc) w2 of
                           (Inl e, w3) \<Rightarrow>
                             if err_code e = NotFound
                             then (case kb_create K hc w3 of
                                 (Inl e, w4) \<Rightarrow> (Inl e, w4)
                               | (Inr _, w4) \<Rightarrow> requeue 0 (setCondition K mhc ''HostedClusterCreated'' ''True''
                                   ''Created'' ''HostedCluster CR created successfully'' w4))
                             else (Inl e, w3)
                         | (Inr existing, w3) \<Rightarrow>
                             (case kb_update K (SetResourceVersion (GetResourceVersion existing) hc) w3 of
                                (Inl e, w4) \<Rightarrow> (Inl e, w4)
                              | (Inr _, w4) \<Rightarrow> requeue 0 (setCondition K mhc ''HostedClusterCreated'' ''True''
                                  ''Updated'' ''HostedCluster CR updated successfully'' w4)))))))"

text \<open>The requests for a changed object of the watch; \<open>None\<close> is an object of another type.\<close>

definition mapVersionStreamToManagedHostedClusters :: "'w kube \<Rightarrow> VersionStream option \<Rightarrow> 'w \<Rightarrow> key list \<times> 'w" where
  "mapVersionStreamToManagedHostedClusters K obj w = (case obj of
      None \<Rightarrow> ([], w)
    | Some vs \<Rightarrow> (case kb_list_mhc K w of
          (Inl e, w1) \<Rightarrow> ([], w1)
        | (Inr items, w1) \<Rightarrow> (map mhc_key (filter (\<lambda>mhc.
              vsr_Name (mhs_VersionStreamRef (mhc_Spec mhc)) = om_name (vs_ObjectMeta vs)) items), w1)))"

section \<open>versionstream_controller.go\<close>

text \<open>The interface \<open>VersionResolver\<close>: version, channel group and architecture to image, version and channel.\<close>

type_synonym 'w resolver = "string \<Rightarrow> string \<Rightarrow> string \<Rightarrow> 'w \<Rightarrow> ('w, string \<times> string \<times> string) ret"

definition resolved_condition :: "string \<Rightarrow> string \<Rightarrow> string \<Rightarrow> int64 \<Rightarrow> condition" where
  "resolved_condition status reason message generation = \<lparr>cond_type = ''ImageResolved'', cond_status = status,
     cond_reason = reason, cond_message = message, cond_time = 0, cond_generation = generation\<rparr>"

definition stream_Reconcile :: "'w kube \<Rightarrow> 'w resolver \<Rightarrow> key \<Rightarrow> 'w \<Rightarrow> ('w, int) ret" where
  "stream_Reconcile K resolve req w = (case kb_get_stream K req w of
      (Inl e, w1) \<Rightarrow> if err_code e = NotFound then (Inr 0, w1) else (Inl e, w1)
    | (Inr vs, w1) \<Rightarrow>
        (let gen = kb_generation K (vs_ObjectMeta vs); st = vs_Status vs
         in case resolve (vss_TargetVersion (vs_Spec vs)) (vss_ChannelGroup (vs_Spec vs)) (vss_Arch (vs_Spec vs)) w1 of
           (Inl e, w2) \<Rightarrow>
             (case kb_set_condition K (vst_Conditions st)
                  (resolved_condition ''False'' ''ResolutionFailed'' (err_text e) gen) w2 of
                (cs, w3) \<Rightarrow> requeue (60 * 1000000000)
                  (kb_status_stream K (vs\<lparr>vs_Status := st\<lparr>vst_Conditions := cs\<rparr>\<rparr>) w3))
         | (Inr (release, version, channel), w2) \<Rightarrow>
             (case kb_set_condition K (vst_Conditions st)
                  (resolved_condition ''True'' ''Resolved'' (''Resolved version '' @ version @ '' to '' @ release) gen) w2 of
                (cs, w3) \<Rightarrow> requeue (5 * 60 * 1000000000)
                  (kb_status_stream K (vs\<lparr>vs_Status := st\<lparr>vst_ReleaseImage := release,
                     vst_ResolvedVersion := version, vst_Channel := channel, vst_Conditions := cs\<rparr>\<rparr>) w3))))"

text \<open>The resolver that \<open>main\<close> of the operator installs.\<close>

definition main_resolver :: "'w http \<Rightarrow> 'w resolver" where
  "main_resolver http = ResolveVersion http (NewClient [] (30 * 1000000000))"

section \<open>managedhostedcluster_controller.go, upgradeschedule_controller.go\<close>

definition managed_Reconcile :: "'w kube \<Rightarrow> key \<Rightarrow> 'w \<Rightarrow> ('w, int) ret" where
  "managed_Reconcile K req w = (Inr 0, w)"

definition schedule_Reconcile :: "'w kube \<Rightarrow> key \<Rightarrow> 'w \<Rightarrow> ('w, int) ret" where
  "schedule_Reconcile K req w = (Inr 0, w)"

end
