(* ===== verification/ControllerFacts.thy ===== *)
theory ControllerFacts
  imports Controllers
begin

text \<open>
  Facts on the reconcilers: the specification that a built HostedCluster carries, and the branches
  of the reconciliation under the laws of the Kubernetes client.
\<close>

section \<open>The built object\<close>

text \<open>What HyperShift should run for a cluster: the user's specification with the forced fields and defaults.\<close>

definition hosted_spec :: "fetched \<Rightarrow> string \<Rightarrow> string \<Rightarrow> HostedClusterSpec" where
  "hosted_spec f releaseImage channel = (populateHostedClusterSpec (mhs_HostedCluster (mhc_Spec (ft_obj f)))
     (ft_nilServices f) (ft_obj f) channel)\<lparr>hc_Release := \<lparr>rel_Image = releaseImage\<rparr>\<rparr>"

lemma kv_ins_low: "kv_sorted ((k, v) # m) \<Longrightarrow> kv_ins k v m = (k, v) # m"
  by (cases m) auto

lemma kv_ins_members: "kv_sorted ms \<Longrightarrow> kv_ins k v (members ms) = members (kv_ins k (Some v) ms)"
proof (induction ms)
  case (Cons a ms)
  obtain k' m where a: "a = (k', m)" by force
  have low: "kv_ins k v (members ms) = (k, v) # members ms" if "\<forall>x\<in>fst ` set ms. k < x"
    using that members_keys[of ms] by (cases "members ms") force+
  show ?case
  proof (cases m)
    case None
    with Cons a low show ?thesis by (cases k k' rule: linorder_cases) force+
  next
    case (Some x)
    with Cons a show ?thesis by auto
  qed
qed simp

lemma members_get: "distinct (map fst ms) \<Longrightarrow>
    get_field k (members ms) = (case get_field k ms of None \<Rightarrow> None | Some m \<Rightarrow> m)"
proof (induction ms rule: members.induct)
  case (2 k' m ms)
  then have "k' \<notin> fst ` set (members ms)" using members_keys[of ms] by auto
  then have "get_field k' (members ms) = None" by (simp add: get_field_None)
  with 2 show ?case by (auto split: option.split)
qed simp

lemma kv_sorted_distinct: "kv_sorted m \<Longrightarrow> distinct (map fst m)"
  using strict_sorted_iff by blast

lemma renorm_release: "renorm env (enc_ReleaseSpec r) = Some (JObj [(''image'', JStr (rel_Image r))])"
  by (simp add: enc_ReleaseSpec_def enc_str_def renorm_def kv_norm_def)

text \<open>The members of a printed specification, and what \<open>renorm\<close> makes of them.\<close>

definition spec_members :: "HostedClusterSpec \<Rightarrow> (string \<times> json option) list" where
  "spec_members x =
    [(''release'', Some (enc_ReleaseSpec (hc_Release x))),
     (''infraID'', enc_str (hc_InfraID x)),
     (''platform'', Some (enc_PlatformSpec (hc_Platform x))),
     (''networking'', omit_ptr enc_ClusterNetworkingSpec (hc_Networking x)),
     (''etcd'', omit_ptr enc_EtcdSpec (hc_Etcd x)),
     (''services'', omit_list enc_ServicePublishingStrategyMapping (hc_Services x)),
     (''channel'', omit_str (hc_Channel x)),
     (''controllerAvailabilityPolicy'', omit_str (hc_ControllerAvailabilityPolicy x)),
     (''pullSecret'', omit_ptr enc_SecretReference (hc_PullSecret x)),
     (''serviceAccountSigningKey'', omit_ptr enc_SecretReference (hc_ServiceAccountSigningKey x)),
     (''clusterID'', omit_str (hc_ClusterID x)),
     (''capabilities'', omit_ptr enc_CapabilitiesSpec (hc_Capabilities x)),
     (''configuration'', omit_ptr enc_ClusterConfiguration (hc_Configuration x))]"

lemma renorm_spec: "renorm env (enc_HostedClusterSpec x) =
    Some (JObj (members (kv_norm (map (apsnd (nrm env)) (spec_members x)))))"
  unfolding enc_HostedClusterSpec_def spec_members_def
  by (rule renorm_struct) (simp_all add: struct_codec)

lemma override_spec:
  "override_image img (members (kv_norm (map (apsnd (nrm env)) (spec_members x)))) =
    members (kv_norm (map (apsnd (nrm env)) (spec_members (x\<lparr>hc_Release := \<lparr>rel_Image = img\<rparr>\<rparr>))))"
proof -
  let ?ms = "map (apsnd (nrm env)) (spec_members x)" and ?new = "JObj [(''image'', JStr img)]"
  have nrm: "nrm env (Some (enc_ReleaseSpec r)) = Some (JObj [(''image'', JStr (rel_Image r))])" for r
    by (simp add: nrm_def renorm_release)
  have get: "get_field ''release'' (members (kv_norm ?ms)) = Some (JObj [(''image'', JStr (rel_Image (hc_Release x)))])"
    by (simp add: members_get kv_sorted_distinct kv_norm_get) (simp add: spec_members_def nrm)
  have "override_image img (members (kv_norm ?ms)) = kv_ins ''release'' ?new (members (kv_norm ?ms))"
    by (simp add: override_image_def get)
  also have "\<dots> = members (kv_norm (?ms @ [(''release'', Some ?new)]))"
    by (simp add: kv_ins_members kv_norm_snoc)
  also have "kv_norm (?ms @ [(''release'', Some ?new)]) =
      kv_norm (map (apsnd (nrm env)) (spec_members (x\<lparr>hc_Release := \<lparr>rel_Image = img\<rparr>\<rparr>)))"
    by (simp add: spec_members_def nrm kv_norm_def)
  finally show ?thesis .
qed

lemma built_spec:
  "\<exists>spec. buildHostedCluster env f img channel = Inr (JObj
     [(''apiVersion'', JStr (hostedClusterGroup @ ''/'' @ hostedClusterVersion)),
      (''kind'', JStr hostedClusterKind),
      (''metadata'', JObj [(''annotations'', JObj
         [(''hypershift.openshift.io/pod-security-admission-label-override'', JStr ''baseline''),
          (''hypershift.openshift.io/skip-kas-conflict-san-validation'', JStr ''true'')])]),
      (''spec'', spec)]) \<and>
    dec_HostedClusterSpec spec zero_HostedClusterSpec = Some (hosted_spec f img channel)"
proof -
  let ?p = "populateHostedClusterSpec (mhs_HostedCluster (mhc_Spec (ft_obj f))) (ft_nilServices f) (ft_obj f) channel"
  have "wf_json (enc_HostedClusterSpec ?p)"
    using survives_HostedClusterSpec[of env ?p] by (simp add: survives_def)
  note parsed = json_parse_print[OF this]
  obtain j where j: "renorm env (enc_HostedClusterSpec (hosted_spec f img channel)) = Some j"
    "dec_HostedClusterSpec j zero_HostedClusterSpec = Some (hosted_spec f img channel)"
    using survives_HostedClusterSpec[of env "hosted_spec f img channel"] by (auto simp: survives_def)
  then have "j = JObj (override_image img (members (kv_norm (map (apsnd (nrm env)) (spec_members ?p)))))"
    by (simp add: renorm_spec override_spec hosted_spec_def)
  with j(2) show ?thesis
    by (simp add: buildHostedCluster_def Let_def parsed renorm_spec)
qed

text \<open>An object is the HostedCluster of a cluster with the release of a version stream.\<close>

definition runs :: "fetched \<Rightarrow> VersionStream \<Rightarrow> json \<Rightarrow> bool" where
  "runs f vs x \<longleftrightarrow> obj_key x = mhc_key (ft_obj f) \<and> obj_get ''kind'' x = Some (JStr hostedClusterKind) \<and>
     (\<exists>spec. obj_get ''spec'' x = Some spec \<and> dec_HostedClusterSpec spec zero_HostedClusterSpec =
        Some (hosted_spec f (vst_ReleaseImage (vs_Status vs)) (vst_Channel (vs_Status vs))))"

definition stream_key :: "fetched \<Rightarrow> key" where
  "stream_key f = ([], vsr_Name (mhs_VersionStreamRef (mhc_Spec (ft_obj f))))"

definition prepared :: "'e env \<Rightarrow> 'w kube \<Rightarrow> fetched \<Rightarrow> VersionStream \<Rightarrow> gerr + json" where
  "prepared env K f vs =
     (case buildHostedCluster env f (vst_ReleaseImage (vs_Status vs)) (vst_Channel (vs_Status vs)) of
        Inl e \<Rightarrow> Inl e
      | Inr built \<Rightarrow> kb_set_owner K (ft_obj f) (SetNamespace (om_namespace (mhc_ObjectMeta (ft_obj f)))
          (SetName (om_name (mhc_ObjectMeta (ft_obj f))) built)))"

lemma set_meta_text_obj: "\<exists>m'. set_meta_text k s (JObj m) = JObj m'"
  by (simp add: set_meta_text_def)

text \<open>Changes of the metadata other than the name and the namespace keep the object's role.\<close>

lemma runs_set_meta:
  assumes "runs f vs (JObj m)" and "k \<noteq> ''name''" and "k \<noteq> ''namespace''"
  shows "runs f vs (set_meta k v (JObj m))"
  using assms by (auto simp: runs_def obj_key_def accessor_defs meta_text_def meta_get_set obj_get_set_meta
      simp del: set_meta.simps obj_get.simps)

lemma built_runs:
  "\<exists>m. (case buildHostedCluster env f (vst_ReleaseImage (vs_Status vs)) (vst_Channel (vs_Status vs)) of
      Inl e \<Rightarrow> False
    | Inr built \<Rightarrow> SetNamespace (om_namespace (mhc_ObjectMeta (ft_obj f)))
        (SetName (om_name (mhc_ObjectMeta (ft_obj f))) built) = JObj m) \<and> runs f vs (JObj m) \<and>
    (\<forall>k. k \<notin> {''name'', ''namespace'', ''annotations''} \<longrightarrow> get_field k (obj_meta (JObj m)) = None)"
proof -
  let ?n = "om_name (mhc_ObjectMeta (ft_obj f))" and ?ns = "om_namespace (mhc_ObjectMeta (ft_obj f))"
  obtain b spec where b: "buildHostedCluster env f (vst_ReleaseImage (vs_Status vs)) (vst_Channel (vs_Status vs)) = Inr (JObj b)"
    "obj_get ''spec'' (JObj b) = Some spec" "obj_get ''kind'' (JObj b) = Some (JStr hostedClusterKind)"
    "\<forall>k. k \<noteq> ''annotations'' \<longrightarrow> get_field k (obj_meta (JObj b)) = None"
    "dec_HostedClusterSpec spec zero_HostedClusterSpec =
       Some (hosted_spec f (vst_ReleaseImage (vs_Status vs)) (vst_Channel (vs_Status vs)))"
    using built_spec[of env f "vst_ReleaseImage (vs_Status vs)" "vst_Channel (vs_Status vs)"]
    by (force simp: obj_meta_def)
  obtain m1 where m1: "SetName ?n (JObj b) = JObj m1" using set_meta_text_obj[of "''name''" ?n b] by (auto simp: SetName_def)
  obtain m2 where m2: "SetNamespace ?ns (JObj m1) = JObj m2" using set_meta_text_obj[of "''namespace''" ?ns m1] by (auto simp: SetNamespace_def)
  have get: "obj_get k (JObj m2) = obj_get k (JObj b)" if "k \<noteq> ''metadata''" for k
    using obj_get_set_meta[OF that] unfolding m1[symmetric] m2[symmetric] accessor_defs set_meta_text_def by metis
  have mt: "meta_text k (JObj m2) = (if k = ''namespace'' then ?ns else if k = ''name'' then ?n else meta_text k (JObj b))" for k
    using meta_text_set[of k "''namespace''" ?ns m1] meta_text_set[of k "''name''" ?n b] m1 m2
    by (simp add: accessor_defs)
  have own: "get_field k (obj_meta (JObj m2)) = None" if "k \<notin> {''name'', ''namespace'', ''annotations''}" for k
  proof -
    have "get_field k (obj_meta (JObj m2)) = get_field k (obj_meta (JObj m1))"
      unfolding m2[symmetric] accessor_defs set_meta_text_def using that by (simp add: meta_get_set del: set_meta.simps)
    also have "\<dots> = get_field k (obj_meta (JObj b))"
      unfolding m1[symmetric] accessor_defs set_meta_text_def using that by (simp add: meta_get_set del: set_meta.simps)
    finally show ?thesis using b(4) that by simp
  qed
  have "runs f vs (JObj m2)"
    using b get mt by (simp add: runs_def obj_key_def mhc_key_def accessor_defs del: obj_get.simps)
  with b(1) m1 m2 own show ?thesis by auto
qed

context kube
begin

lemma prepared_runs:
  assumes "prepared env K f vs = Inr hc"
  shows "runs f vs hc \<and> runs f vs (SetResourceVersion rv hc)"
proof -
  from assms built_runs[where env = env and f = f and vs = vs] obtain m where m: "runs f vs (JObj m)"
    "kb_set_owner K (ft_obj f) (JObj m) = Inr hc"
    by (auto simp: prepared_def split: sum.splits)
  from set_owner[OF m(2)] obtain refs where hc: "hc = set_meta ''ownerReferences'' (Some refs) (JObj m)" by blast
  have "runs f vs hc" unfolding hc by (rule runs_set_meta[OF m(1)]) simp_all
  moreover obtain m' where "hc = JObj m'" using hc by simp
  ultimately show ?thesis
    using runs_set_meta[of f vs m' "''resourceVersion''"] by (simp add: SetResourceVersion_def set_meta_text_def del: set_meta.simps)
qed

text \<open>What an update puts on the server has no labels and no finalizers, whatever the object had.\<close>

lemma prepared_bare:
  assumes "prepared env K f vs = Inr hc"
    and "k \<notin> {''name'', ''namespace'', ''annotations'', ''ownerReferences'', ''resourceVersion''}"
  shows "get_field k (obj_meta (SetResourceVersion rv hc)) = None"
proof -
  from assms(1) built_runs[where env = env and f = f and vs = vs] obtain m where m:
    "\<forall>k. k \<notin> {''name'', ''namespace'', ''annotations''} \<longrightarrow> get_field k (obj_meta (JObj m)) = None"
    "kb_set_owner K (ft_obj f) (JObj m) = Inr hc"
    by (auto simp: prepared_def split: sum.splits)
  from set_owner[OF m(2)] obtain refs where hc: "hc = set_meta ''ownerReferences'' (Some refs) (JObj m)" by blast
  then obtain m' where m': "hc = JObj m'" by simp
  have "get_field k (obj_meta (SetResourceVersion rv hc)) = get_field k (obj_meta hc)"
    unfolding m' SetResourceVersion_def set_meta_text_def using assms(2) by (simp add: meta_get_set del: set_meta.simps)
  also have "\<dots> = None"
    unfolding hc using assms(2) m(1) by (simp add: meta_get_set del: set_meta.simps)
  finally show ?thesis .
qed

lemma effect_same: "effect objs put w r \<Longrightarrow> (\<And>B B'. B' \<in> put B \<Longrightarrow> g B' = g B) \<Longrightarrow> g (objs (snd r)) = g (objs w)"
  by (cases r; cases "fst r") (auto simp: effect_def)

lemma put_mhc_status_keeps [simp]:
  "ob_hosted (put_mhc_status r m B) = ob_hosted B" "ob_streams (put_mhc_status r m B) = ob_streams B"
  by (simp_all add: put_mhc_status_def)

lemma put_hosted_keeps [simp]:
  "ob_mhcs (put_hosted x B) = ob_mhcs B" "ob_streams (put_hosted x B) = ob_streams B"
  "ob_hosted (put_hosted x B) = (ob_hosted B)(obj_key x \<mapsto> x)"
  by (simp_all add: put_hosted_def)

lemma setCondition_keeps:
  "ob_hosted (objs (snd (setCondition K m c s r t w))) = ob_hosted (objs w)"
  "ob_streams (objs (snd (setCondition K m c s r t w))) = ob_streams (objs w)"
proof -
  obtain now w1 where n: "kb_now K w = (now, w1)" by force
  with now_objs[of w] have w1: "objs w1 = objs w" by simp
  note e = status_mhc_effect
  show "ob_hosted (objs (snd (setCondition K m c s r t w))) = ob_hosted (objs w)"
    "ob_streams (objs (snd (setCondition K m c s r t w))) = ob_streams (objs w)"
    unfolding setCondition_def n prod.case Let_def w1[symmetric]
    by (rule effect_same[OF e], auto)+
qed

lemma requeue_snd: "snd (requeue t r) = snd r"
  by (cases r; cases "fst r") (auto simp: requeue_def)

lemma hosted_write:
  assumes "effect objs (\<lambda>B. {put_hosted x B}) w (r, w')"
  shows "ob_hosted (objs w') \<in> {ob_hosted (objs w), (ob_hosted (objs w))(obj_key x \<mapsto> x)}"
  using assms by (cases r) (auto simp: effect_def)

end

section \<open>Reconciling a cluster while the server is up\<close>

lemma runs_same: "mhc_Spec (ft_obj g) = mhc_Spec (ft_obj f) \<Longrightarrow> ft_nilServices g = ft_nilServices f \<Longrightarrow>
    mhc_key (ft_obj g) = mhc_key (ft_obj f) \<Longrightarrow> runs g vs x = runs f vs x"
  by (simp add: runs_def hosted_spec_def populateHostedClusterSpec_def mhc_key_def)

definition has_condition :: "string \<Rightarrow> string \<Rightarrow> condition list \<Rightarrow> bool" where
  "has_condition t s cs \<longleftrightarrow> (\<exists>c\<in>set cs. cond_type c = t \<and> cond_status c = s)"

lemma replace_condition_has: "cond_type c = t \<Longrightarrow> cond_status c = s \<Longrightarrow> has_condition t s (replace_condition t c cs)"
  by (induction cs) (auto simp: has_condition_def)

text \<open>The cluster is stored with its specification, under its key.\<close>

definition stored :: "objects \<Rightarrow> fetched \<Rightarrow> fetched \<Rightarrow> bool" where
  "stored B f g \<longleftrightarrow> ob_mhcs B (mhc_key (ft_obj f)) = Some g \<and> mhc_Spec (ft_obj g) = mhc_Spec (ft_obj f) \<and>
     ft_nilServices g = ft_nilServices f \<and> mhc_key (ft_obj g) = mhc_key (ft_obj f)"

context kube_up
begin

lemma setCondition_up:
  assumes "up w" and "ob_mhcs (objs w) (mhc_key (ft_obj f)) = Some f"
  shows "\<exists>w' g. setCondition K (ft_obj f) t s r m w = (Inr (), w') \<and> up w' \<and> stored (objs w') f g \<and>
    has_condition t s (mst_Conditions (mhc_Status (ft_obj g)))"
proof -
  obtain now w1 where n: "kb_now K w = (now, w1)" by force
  have w1: "objs w1 = objs w" "up w1" using now_objs[of w] now_up[OF assms(1)] n by simp_all
  let ?c = "\<lparr>cond_type = t, cond_status = s, cond_reason = r, cond_message = m, cond_time = now, cond_generation = 0\<rparr>"
  let ?x = "(ft_obj f)\<lparr>mhc_Status := (mhc_Status (ft_obj f))\<lparr>mst_Conditions :=
    replace_condition t ?c (mst_Conditions (mhc_Status (ft_obj f)))\<rparr>\<rparr>"
  have key: "mhc_key ?x = mhc_key (ft_obj f)" by (simp add: mhc_key_def)
  obtain w' where u: "kb_status_mhc K ?x w1 = (Inr (), w')" "up w'"
    using status_mhc_up[OF w1(2), where m = ?x and f = f] assms(2) w1(1) key by auto
  from status_mhc_effect[of ?x w1] u(1) obtain q where q: "objs w' = put_mhc_status q ?x (objs w1)"
    by (auto simp: effect_def)
  let ?g = "ft_obj_update (\<lambda>y. y\<lparr>mhc_Status := mhc_Status ?x, mhc_ObjectMeta := set_other q (mhc_ObjectMeta y)\<rparr>) f"
  have "ob_mhcs (objs w') (mhc_key (ft_obj f)) = Some ?g"
    using assms(2) w1(1) by (simp add: q put_mhc_status_def key)
  then have "stored (objs w') f ?g" by (simp add: stored_def mhc_key_def set_other_def)
  moreover have "has_condition t s (mst_Conditions (mhc_Status (ft_obj ?g)))" by (simp add: replace_condition_has)
  moreover have "setCondition K (ft_obj f) t s r m w = (Inr (), w')"
    using u(1) by (simp add: setCondition_def n)
  ultimately show ?thesis using u(2) by blast
qed

lemma prepared_up: "\<exists>hc. prepared env K f vs = Inr hc"
proof -
  obtain m where m: "runs f vs (JObj m)"
    "(case buildHostedCluster env f (vst_ReleaseImage (vs_Status vs)) (vst_Channel (vs_Status vs)) of
      Inl e \<Rightarrow> False
    | Inr built \<Rightarrow> SetNamespace (om_namespace (mhc_ObjectMeta (ft_obj f)))
        (SetName (om_name (mhc_ObjectMeta (ft_obj f))) built) = JObj m)"
    "\<forall>k. k \<notin> {''name'', ''namespace'', ''annotations''} \<longrightarrow> get_field k (obj_meta (JObj m)) = None"
    using built_runs[where env = env and f = f and vs = vs] by blast
  have own: "get_field ''ownerReferences'' (obj_meta (JObj m)) = None"
    using m(3)[rule_format, of "''ownerReferences''"] by simp
  have "om_namespace (mhc_ObjectMeta (ft_obj f)) = GetNamespace (JObj m)"
    using m(1) by (simp add: runs_def obj_key_def mhc_key_def)
  from set_owner_up[OF this own] m(2) show ?thesis by (auto simp: prepared_def split: sum.splits)
qed

text \<open>The write of the object: a create or an update, whatever is stored.\<close>

lemma hosted_stored_up:
  assumes "up w" and "runs f vs hc" and "\<And>rv. runs f vs (SetResourceVersion rv hc)"
    and "\<And>x. runs f vs x \<Longrightarrow> valid x"
  shows "\<exists>r w1 w2 x. kb_get_hosted K (obj_key hc) w = (r, w1) \<and> up w2 \<and> runs f vs x \<and>
    objs w2 = put_hosted x (objs w) \<and>
    (case r of Inr existing \<Rightarrow> kb_update K (SetResourceVersion (GetResourceVersion existing) hc) w1 = (Inr (), w2)
     | Inl e \<Rightarrow> err_code e = NotFound \<and> kb_create K hc w1 = (Inr (), w2))"
proof -
  have key: "obj_key (SetResourceVersion rv hc) = obj_key hc" for rv
    using assms(2) assms(3)[of rv] by (simp add: runs_def)
  obtain r w1 where g: "kb_get_hosted K (obj_key hc) w = (r, w1)" by force
  have w1: "objs w1 = objs w" using get_hosted_objs[of "obj_key hc" w] g by simp
  show ?thesis
  proof (cases "ob_hosted (objs w) (obj_key hc)")
    case None
    with get_hosted_up[OF assms(1), of "obj_key hc"] g assms(2,4) obtain w2 where
      c: "r = Inl (status_error NotFound ''not found'')" "kb_create K hc w1 = (Inr (), w2)" "up w2" by auto
    from create_effect[of hc w1] c(2) have "objs w2 = put_hosted hc (objs w)" by (simp add: effect_def w1)
    with g c assms(2) show ?thesis by auto
  next
    case (Some y)
    with get_hosted_up[OF assms(1), of "obj_key hc"] g obtain e where
      c: "r = Inr e" "\<forall>y. valid y \<longrightarrow> obj_key y = obj_key hc \<longrightarrow>
        GetResourceVersion y = GetResourceVersion e \<longrightarrow> (\<exists>w2. up w2 \<and> kb_update K y w1 = (Inr (), w2))" by auto
    let ?x = "SetResourceVersion (GetResourceVersion e) hc"
    have "GetResourceVersion ?x = GetResourceVersion e"
    proof -
      obtain m where "hc = JObj m" using assms(2) by (cases hc) (auto simp: runs_def)
      then show ?thesis by (simp add: accessor_defs meta_text_set)
    qed
    with c(2) key assms(3,4) obtain w2 where u: "up w2" "kb_update K ?x w1 = (Inr (), w2)" by blast
    from update_effect[of ?x w1] u(2) have "objs w2 = put_hosted ?x (objs w)" by (simp add: effect_def w1)
    with g c(1) u assms(3) show ?thesis by auto
  qed
qed

lemma hosted_Reconcile_up:
  assumes "up w" and "ob_mhcs (objs w) (mhc_key (ft_obj f)) = Some f"
    and "ob_streams (objs w) (stream_key f) = Some vs" and "vst_ReleaseImage (vs_Status vs) \<noteq> []"
    and "\<And>x. runs f vs x \<Longrightarrow> valid x"
  shows "\<exists>w' x g. hosted_Reconcile env K (mhc_key (ft_obj f)) w = (Inr 0, w') \<and> up w' \<and>
    ob_hosted (objs w') = (ob_hosted (objs w))(mhc_key (ft_obj f) \<mapsto> x) \<and> runs f vs x \<and>
    ob_streams (objs w') = ob_streams (objs w) \<and> stored (objs w') f g \<and>
    has_condition ''HostedClusterCreated'' ''True'' (mst_Conditions (mhc_Status (ft_obj g)))"
proof -
  obtain w1 where w1: "kb_get_mhc K (mhc_key (ft_obj f)) w = (Inr f, w1)" "up w1"
    using get_mhc_up[OF assms(1), of "mhc_key (ft_obj f)"] assms(2) by auto
  with get_mhc_objs[of "mhc_key (ft_obj f)" w] have o1: "objs w1 = objs w" by simp
  obtain w2 where w2: "kb_get_stream K (stream_key f) w1 = (Inr vs, w2)" "up w2"
    using get_stream_up[OF w1(2), of "stream_key f"] assms(3) o1 by auto
  with get_stream_objs[of "stream_key f" w1] o1 have o2: "objs w2 = objs w" by simp
  obtain hc where hc: "prepared env K f vs = Inr hc" using prepared_up by blast
  from prepared_runs[OF hc] have r: "runs f vs hc" "\<And>rv. runs f vs (SetResourceVersion rv hc)" by blast+
  obtain q w3 w4 x where s: "kb_get_hosted K (obj_key hc) w2 = (q, w3)" "up w4" "runs f vs x"
    "objs w4 = put_hosted x (objs w2)" and c:
    "case q of Inr existing \<Rightarrow> kb_update K (SetResourceVersion (GetResourceVersion existing) hc) w3 = (Inr (), w4)
     | Inl e \<Rightarrow> err_code e = NotFound \<and> kb_create K hc w3 = (Inr (), w4)"
    using hosted_stored_up[OF w2(2) r assms(5)] by blast
  define reason message where "reason = (case q of Inr _ \<Rightarrow> ''Updated'' | Inl _ \<Rightarrow> ''Created'')" and
    "message = (case q of Inr _ \<Rightarrow> ''HostedCluster CR updated successfully'' | Inl _ \<Rightarrow> ''HostedCluster CR created successfully'')"
  have "ob_mhcs (objs w4) (mhc_key (ft_obj f)) = Some f" using s(4) o2 assms(2) by simp
  from setCondition_up[OF s(2) this] obtain w5 g where w5:
    "setCondition K (ft_obj f) ''HostedClusterCreated'' ''True'' reason message w4 = (Inr (), w5)" "up w5"
    "stored (objs w5) f g" "has_condition ''HostedClusterCreated'' ''True'' (mst_Conditions (mhc_Status (ft_obj g)))"
    by blast
  have "obj_key x = mhc_key (ft_obj f)" using s(3) by (simp add: runs_def)
  with setCondition_keeps[of "ft_obj f" "''HostedClusterCreated''" "''True''" reason message w4] w5(1) s(4) o2 have
    o5: "ob_hosted (objs w5) = (ob_hosted (objs w))(mhc_key (ft_obj f) \<mapsto> x)" "ob_streams (objs w5) = ob_streams (objs w)"
    by simp_all
  have "hosted_Reconcile env K (mhc_key (ft_obj f)) w =
      requeue 0 (setCondition K (ft_obj f) ''HostedClusterCreated'' ''True'' reason message w4)"
    using w1(1) w2(1) hc s(1) c assms(4)
    by (cases q) (auto simp: hosted_Reconcile_def Let_def stream_key_def prepared_def reason_def message_def
        split: sum.splits)
  with w5 o5 s(3) show ?thesis by (auto simp: requeue_def)
qed

lemma hosted_again:
  assumes "up w" and "stored (objs w) f g" and "ob_streams (objs w) (stream_key f) = Some vs"
    and "vst_ReleaseImage (vs_Status vs) \<noteq> []" and "\<And>x. runs f vs x \<Longrightarrow> valid x"
  shows "\<exists>w' x g'. hosted_Reconcile env K (mhc_key (ft_obj f)) w = (Inr 0, w') \<and> up w' \<and>
    ob_hosted (objs w') = (ob_hosted (objs w))(mhc_key (ft_obj f) \<mapsto> x) \<and> runs f vs x \<and>
    ob_streams (objs w') = ob_streams (objs w) \<and> stored (objs w') f g' \<and>
    has_condition ''HostedClusterCreated'' ''True'' (mst_Conditions (mhc_Status (ft_obj g')))"
proof -
  have key: "mhc_key (ft_obj g) = mhc_key (ft_obj f)" "stream_key g = stream_key f"
    and same: "runs g vs x = runs f vs x" for x
    using assms(2) runs_same[of g f] by (auto simp: stored_def stream_key_def)
  have st: "stored B g h = stored B f h" for B h using assms(2) by (simp add: stored_def)
  have "ob_mhcs (objs w) (mhc_key (ft_obj f)) = Some g" using assms(2) by (simp add: stored_def)
  from hosted_Reconcile_up[of w g vs env, unfolded key same st, OF assms(1) this assms(3-5)]
  show ?thesis by blast
qed

end

end
