(* ===== verification/KubeSim.thy ===== *)
theory KubeSim
  imports Kube "HOL-Library.AList"
begin

text \<open>
  An executable API server for Kubernetes objects, in memory. A list of faults says which of the
  coming calls fail. Every write gives its object a new resource version, which an update must
  name. It interprets the locales of \<open>Kube\<close>, and the witnesses run on it.
\<close>

record sim =
  sm_mhcs :: "(key \<times> fetched) list"
  sm_streams :: "(key \<times> VersionStream) list"
  sm_hosted :: "(key \<times> json \<times> nat) list"
  sm_clock :: nat
  sm_faults :: "bool list"

definition sim_objects :: "sim \<Rightarrow> objects" where
  "sim_objects m = \<lparr>ob_mhcs = map_of (sm_mhcs m), ob_streams = map_of (sm_streams m),
     ob_hosted = map_option fst \<circ> map_of (sm_hosted m)\<rparr>"

definition sim_up :: "sim \<Rightarrow> bool" where
  "sim_up m \<longleftrightarrow> sm_faults m = []"

definition missing :: gerr where "missing = status_error NotFound ''not found''"
definition conflict :: gerr where "conflict = status_error Aborted ''conflict''"
definition no_server :: gerr where "no_server = errorf ''connection refused''"

text \<open>A call fails if the next fault says so, otherwise it runs.\<close>

definition sim_call :: "(sim \<Rightarrow> (sim, 'a) ret) \<Rightarrow> sim \<Rightarrow> (sim, 'a) ret" where
  "sim_call f m = (case sm_faults m of
      [] \<Rightarrow> f m
    | b # bs \<Rightarrow> if b then (Inl no_server, m\<lparr>sm_faults := bs\<rparr>) else f (m\<lparr>sm_faults := bs\<rparr>))"

definition sim_get_mhc :: "key \<Rightarrow> sim \<Rightarrow> (sim, fetched) ret" where
  "sim_get_mhc k = sim_call (\<lambda>m. (case map_of (sm_mhcs m) k of None \<Rightarrow> Inl missing | Some f \<Rightarrow> Inr f, m))"

definition sim_get_stream :: "key \<Rightarrow> sim \<Rightarrow> (sim, VersionStream) ret" where
  "sim_get_stream k = sim_call (\<lambda>m. (case map_of (sm_streams m) k of None \<Rightarrow> Inl missing | Some v \<Rightarrow> Inr v, m))"

definition sim_get_hosted :: "key \<Rightarrow> sim \<Rightarrow> (sim, json) ret" where
  "sim_get_hosted k = sim_call (\<lambda>m. (case map_of (sm_hosted m) k of
      None \<Rightarrow> Inl missing
    | Some (x, rv) \<Rightarrow> Inr (SetResourceVersion (nat_text rv) (JObj (case x of JObj ms \<Rightarrow> ms | _ \<Rightarrow> []))), m))"

definition sim_list_mhc :: "sim \<Rightarrow> (sim, ManagedHostedCluster list) ret" where
  "sim_list_mhc = sim_call (\<lambda>m. (Inr (map (ft_obj \<circ> snd) (AList.clearjunk (sm_mhcs m))), m))"

definition store_hosted :: "json \<Rightarrow> sim \<Rightarrow> sim" where
  "store_hosted x m = m\<lparr>sm_hosted := AList.update (obj_key x) (x, Suc (sm_clock m)) (sm_hosted m),
     sm_clock := Suc (sm_clock m)\<rparr>"

definition sim_create :: "json \<Rightarrow> sim \<Rightarrow> (sim, unit) ret" where
  "sim_create x = sim_call (\<lambda>m. if map_of (sm_hosted m) (obj_key x) = None then (Inr (), store_hosted x m)
     else (Inl (status_error AlreadyExists ''already exists''), m))"

definition sim_update :: "json \<Rightarrow> sim \<Rightarrow> (sim, unit) ret" where
  "sim_update x = sim_call (\<lambda>m. case map_of (sm_hosted m) (obj_key x) of
      None \<Rightarrow> (Inl missing, m)
    | Some (y, rv) \<Rightarrow> if GetResourceVersion x = nat_text rv then (Inr (), store_hosted x m) else (Inl conflict, m))"

definition next_version :: "sim \<Rightarrow> (string \<times> json) list" where
  "next_version m = [(''resourceVersion'', JStr (nat_text (Suc (sm_clock m))))]"

definition sim_status_mhc :: "ManagedHostedCluster \<Rightarrow> sim \<Rightarrow> (sim, unit) ret" where
  "sim_status_mhc x = sim_call (\<lambda>m. case map_of (sm_mhcs m) (mhc_key x) of
      None \<Rightarrow> (Inl missing, m)
    | Some f \<Rightarrow> if mhc_ObjectMeta (ft_obj f) \<noteq> mhc_ObjectMeta x then (Inl conflict, m)
        else (Inr (), m\<lparr>sm_mhcs := AList.update (mhc_key x) (ft_obj_update (\<lambda>y. y\<lparr>mhc_Status := mhc_Status x,
            mhc_ObjectMeta := set_other (next_version m) (mhc_ObjectMeta y)\<rparr>) f) (sm_mhcs m),
          sm_clock := Suc (sm_clock m)\<rparr>))"

definition sim_status_stream :: "VersionStream \<Rightarrow> sim \<Rightarrow> (sim, unit) ret" where
  "sim_status_stream x = sim_call (\<lambda>m. case map_of (sm_streams m) (vs_key x) of
      None \<Rightarrow> (Inl missing, m)
    | Some y \<Rightarrow> if vs_ObjectMeta y \<noteq> vs_ObjectMeta x then (Inl conflict, m)
        else (Inr (), m\<lparr>sm_streams := AList.update (vs_key x) (y\<lparr>vs_Status := vs_Status x,
            vs_ObjectMeta := set_other (next_version m) (vs_ObjectMeta y)\<rparr>) (sm_streams m),
          sm_clock := Suc (sm_clock m)\<rparr>))"

definition sim_set_owner :: "ManagedHostedCluster \<Rightarrow> json \<Rightarrow> gerr + json" where
  "sim_set_owner m x =
     (if om_namespace (mhc_ObjectMeta m) \<noteq> GetNamespace x \<or> get_field ''ownerReferences'' (obj_meta x) \<noteq> None
      then Inl (errorf ''cannot own'')
      else Inr (set_meta ''ownerReferences'' (Some (JArr [JObj [(''controller'', JBool True),
        (''name'', JStr (om_name (mhc_ObjectMeta m)))]])) x))"

text \<open>The first condition of the type is changed; its time only with its status.\<close>

fun merge_condition :: "condition \<Rightarrow> condition list \<Rightarrow> nat \<Rightarrow> condition list" where
  "merge_condition c [] now = [c\<lparr>cond_time := now\<rparr>]"
| "merge_condition c (x # xs) now =
     (if cond_type x = cond_type c
      then c\<lparr>cond_time := (if cond_status x = cond_status c then cond_time x else now)\<rparr> # xs
      else x # merge_condition c xs now)"

definition sim_kube :: "sim kube" where
  "sim_kube = \<lparr>kb_get_mhc = sim_get_mhc, kb_get_stream = sim_get_stream, kb_get_hosted = sim_get_hosted,
     kb_list_mhc = sim_list_mhc, kb_create = sim_create, kb_update = sim_update,
     kb_status_mhc = sim_status_mhc, kb_status_stream = sim_status_stream, kb_set_owner = sim_set_owner,
     kb_set_condition = (\<lambda>cs c m. (merge_condition c cs (Suc (sm_clock m)), m)),
     kb_generation = (\<lambda>om. 0), kb_now = (\<lambda>m. (Suc (sm_clock m), m))\<rparr>"

section \<open>The simulator is a Kubernetes client\<close>

lemma sim_objects_faults [simp]: "sim_objects (m\<lparr>sm_faults := bs\<rparr>) = sim_objects m"
  by (simp add: sim_objects_def)

lemma sim_call_objects:
  assumes "\<And>m. P (sim_objects m) (f m)"
    and "\<And>m e m'. sim_objects m' = sim_objects m \<Longrightarrow> P (sim_objects m) (Inl e, m')"
  shows "P (sim_objects m) (sim_call f m)"
  using assms(1)[of m] assms(1)[of "m\<lparr>sm_faults := tl (sm_faults m)\<rparr>"]
    assms(2)[of "m\<lparr>sm_faults := tl (sm_faults m)\<rparr>" m no_server]
  by (cases "sm_faults m") (auto simp: sim_call_def)

lemma sim_call_read: "(\<And>m. snd (f m) = m) \<Longrightarrow> sim_objects (snd (sim_call f m)) = sim_objects m"
  by (rule sim_call_objects[where P = "\<lambda>B r. sim_objects (snd r) = B"]) simp_all

lemma store_hosted_objects: "sim_objects (store_hosted x m) = put_hosted x (sim_objects m)"
  by (simp add: sim_objects_def store_hosted_def put_hosted_def update_conv' fun_eq_iff)

lemma sim_call_effect:
  assumes "\<And>m. effect sim_objects put m (f m)"
  shows "effect sim_objects put m (sim_call f m)"
  using sim_call_objects[where f = f and m = m and P = "\<lambda>B r. case r of
      (Inr _, w') \<Rightarrow> sim_objects w' \<in> put B
    | (Inl e, w') \<Rightarrow> sim_objects w' \<in> insert B (put B)"] assms
  unfolding effect_def by simp

lemma sim_call_ok:
  assumes "sim_call f m = (Inr a, m')"
  obtains m0 where "sim_objects m0 = sim_objects m" "f m0 = (Inr a, m')"
  using assms that[of m] that[of "m\<lparr>sm_faults := tl (sm_faults m)\<rparr>"]
  by (cases "sm_faults m") (auto simp: sim_call_def split: if_splits)

lemma hosted_of: "ob_hosted (sim_objects m) k = map_option fst (map_of (sm_hosted m) k)"
  by (simp add: sim_objects_def)

lemma of_type_Cons: "of_type t (c # cs) = (if cond_type c = t then c # of_type t cs else of_type t cs)"
  by (simp add: of_type_def)

lemma merge_condition_type: "\<exists>t. of_type (cond_type c) (merge_condition c cs now) =
    c\<lparr>cond_time := t\<rparr> # tl (of_type (cond_type c) cs)"
  by (induction cs) (auto simp: of_type_Cons, auto simp: of_type_def)

lemma merge_condition_other: "s \<noteq> cond_type c \<Longrightarrow> of_type s (merge_condition c cs now) = of_type s cs"
  by (induction cs) (auto simp: of_type_def)

interpretation sim_api: kube sim_kube sim_objects
proof (unfold_locales, goal_cases)
  case (7 x w)
  show ?case
    unfolding sim_kube_def sim_create_def
    by (simp, rule sim_call_effect) (auto simp: effect_def store_hosted_objects)
next
  case (8 x w u w')
  then have "sim_create x w = (Inr u, w')" by (simp add: sim_kube_def)
  then show ?case
    unfolding sim_create_def
    by (rule sim_call_ok) (metis Pair_inject hosted_of option.map(1) sum.distinct(1))
next
  case (9 x w)
  show ?case
    unfolding sim_kube_def sim_update_def
    by (simp, rule sim_call_effect) (auto simp: effect_def store_hosted_objects split: option.split)
next
  case (10 x w u w')
  then have "sim_update x w = (Inr u, w')" by (simp add: sim_kube_def)
  then show ?case
    unfolding sim_update_def
  proof (rule sim_call_ok)
    fix m0 assume eq: "sim_objects m0 = sim_objects w" and "(case map_of (sm_hosted m0) (obj_key x) of
        None \<Rightarrow> (Inl missing, m0)
      | Some (y, rv) \<Rightarrow> if GetResourceVersion x = nat_text rv then (Inr (), store_hosted x m0)
          else (Inl conflict, m0)) = (Inr u, w')"
    then have "map_of (sm_hosted m0) (obj_key x) \<noteq> None" by (auto split: option.splits)
    then show ?thesis unfolding eq[symmetric] hosted_of by simp
  qed
next
  case (11 m w)
  have "effect sim_objects (\<lambda>B. range (\<lambda>r. put_mhc_status r m B)) w' (case map_of (sm_mhcs w') (mhc_key m) of
      None \<Rightarrow> (Inl missing, w')
    | Some f \<Rightarrow> if mhc_ObjectMeta (ft_obj f) \<noteq> mhc_ObjectMeta m then (Inl conflict, w')
        else (Inr (), w'\<lparr>sm_mhcs := AList.update (mhc_key m) (ft_obj_update (\<lambda>y. y\<lparr>mhc_Status := mhc_Status m,
            mhc_ObjectMeta := set_other (next_version w') (mhc_ObjectMeta y)\<rparr>) f) (sm_mhcs w'),
          sm_clock := Suc (sm_clock w')\<rparr>))" for w'
    by (auto simp: effect_def sim_objects_def put_mhc_status_def update_conv' fun_eq_iff split: option.split
        intro!: image_eqI[where x = "next_version w'"])
  then show ?case unfolding sim_kube_def sim_status_mhc_def by (simp add: sim_call_effect)
next
  case (12 v w)
  have "effect sim_objects (\<lambda>B. range (\<lambda>r. put_stream_status r v B)) w' (case map_of (sm_streams w') (vs_key v) of
      None \<Rightarrow> (Inl missing, w')
    | Some y \<Rightarrow> if vs_ObjectMeta y \<noteq> vs_ObjectMeta v then (Inl conflict, w')
        else (Inr (), w'\<lparr>sm_streams := AList.update (vs_key v) (y\<lparr>vs_Status := vs_Status v,
            vs_ObjectMeta := set_other (next_version w') (vs_ObjectMeta y)\<rparr>) (sm_streams w'),
          sm_clock := Suc (sm_clock w')\<rparr>))" for w'
    by (auto simp: effect_def sim_objects_def put_stream_status_def update_conv' fun_eq_iff split: option.split
        intro!: image_eqI[where x = "next_version w'"])
  then show ?case unfolding sim_kube_def sim_status_stream_def by (simp add: sim_call_effect)
next
  case (13 m x y)
  then show ?case by (auto simp: sim_kube_def sim_set_owner_def split: if_splits)
qed (simp_all add: sim_kube_def sim_get_mhc_def sim_get_stream_def sim_get_hosted_def sim_list_mhc_def
    sim_call_read merge_condition_type merge_condition_other)

lemma sim_call_up: "sim_up m \<Longrightarrow> sim_call f m = f m"
  by (simp add: sim_up_def sim_call_def)

lemma sim_up_store: "sim_up (store_hosted x m) = sim_up m"
  by (simp add: sim_up_def store_hosted_def)

lemma set_meta_text_get: "GetResourceVersion (SetResourceVersion s (JObj m)) = s"
  by (simp add: accessor_defs meta_text_set)

interpretation sim_api_up: kube_up sim_kube sim_objects sim_up "\<lambda>x. True"
proof (unfold_locales, goal_cases)
  case (3 w k)
  then show ?case
    by (auto simp: sim_kube_def sim_get_hosted_def sim_call_up sim_objects_def sim_create_def sim_update_def
        missing_def sim_up_store set_meta_text_get split: option.split)
next
  case (4 w m f)
  then show ?case
    by (auto simp: sim_kube_def sim_status_mhc_def sim_call_up sim_objects_def) (auto simp: sim_up_def)
next
  case (5 w v v0)
  then show ?case
    by (auto simp: sim_kube_def sim_status_stream_def sim_call_up sim_objects_def) (auto simp: sim_up_def)
next
  case (6 m x)
  then show ?case by (simp add: sim_kube_def sim_set_owner_def)
qed (auto simp: sim_kube_def sim_get_mhc_def sim_get_stream_def sim_call_up sim_objects_def missing_def
    split: option.split)

end
