(* ===== verification/ControllerClaims.thy ===== *)
theory ControllerClaims
  imports ControllerFacts KubeSim
begin

text \<open>
  The properties of the reconcilers: what HyperShift is given, when a HostedCluster is written at
  all, that reconciling reaches and keeps the wanted state, and the rollout of a release from
  the update service through a version stream to a HostedCluster.
\<close>

section \<open>The built HostedCluster\<close>

text \<open>C15: The HostedCluster that is built for a cluster, decoded as HyperShift decodes it, has the
  release and the channel of the version stream, the platform, the cluster ID, the availability
  and the secrets that the operator prescribes, and otherwise what the user gave, with a default
  only where the user gave nothing.\<close>

theorem built_hosted_cluster:
  "\<exists>x j s. buildHostedCluster env f release channel = Inr x \<and> obj_get ''spec'' x = Some j \<and>
    dec_HostedClusterSpec j zero_HostedClusterSpec = Some s \<and>
    (let u = mhs_HostedCluster (mhc_Spec (ft_obj f)) in
     rel_Image (hc_Release s) = release \<and> hc_Channel s = channel \<and> plat_Type (hc_Platform s) = ''GCP'' \<and>
     hc_ClusterID s = mhs_ClusterID (mhc_Spec (ft_obj f)) \<and> hc_ControllerAvailabilityPolicy s = ''HighlyAvailable'' \<and>
     map_option sec_Name (hc_PullSecret s) = Some ''pull-secret'' \<and>
     map_option sec_Name (hc_ServiceAccountSigningKey s) = Some (om_name (mhc_ObjectMeta (ft_obj f)) @ ''-signing-key'') \<and>
     hc_InfraID s = hc_InfraID u \<and>
     hc_Networking s = (case hc_Networking u of None \<Rightarrow> Some default_networking | x \<Rightarrow> x) \<and>
     hc_Etcd s = (case hc_Etcd u of None \<Rightarrow> Some default_etcd | x \<Rightarrow> x) \<and>
     hc_Services s = (if ft_nilServices f then default_services else hc_Services u) \<and>
     hc_Capabilities s = (case hc_Capabilities u of None \<Rightarrow> Some default_capabilities | x \<Rightarrow> x) \<and>
     hc_Configuration s = (case hc_Configuration u of None \<Rightarrow> Some default_configuration | x \<Rightarrow> x))"
proof -
  obtain j where "buildHostedCluster env f release channel = Inr (JObj
     [(''apiVersion'', JStr (hostedClusterGroup @ ''/'' @ hostedClusterVersion)),
      (''kind'', JStr hostedClusterKind),
      (''metadata'', JObj [(''annotations'', JObj
         [(''hypershift.openshift.io/pod-security-admission-label-override'', JStr ''baseline''),
          (''hypershift.openshift.io/skip-kas-conflict-san-validation'', JStr ''true'')])]),
      (''spec'', j)])" (is "_ = Inr ?x")
    and j: "dec_HostedClusterSpec j zero_HostedClusterSpec = Some (hosted_spec f release channel)"
    using built_spec[of env f release channel] by blast
  moreover have "obj_get ''spec'' ?x = Some j" by simp
  ultimately show ?thesis
    by (intro exI[of _ ?x] exI[of _ j] exI[of _ "hosted_spec f release channel"])
      (simp add: hosted_spec_def populateHostedClusterSpec_def or_default_def Let_def split: option.split)
qed

section \<open>When a HostedCluster is written\<close>

context kube
begin

lemma requeue_objs: "objs (snd (requeue t r)) = objs (snd r)"
  by (simp add: requeue_snd)

lemma hosted_Reconcile_writes:
  assumes "hosted_Reconcile env K req w = (res, w')"
  shows "ob_streams (objs w') = ob_streams (objs w) \<and> (ob_hosted (objs w') = ob_hosted (objs w) \<or>
    (\<exists>f vs w1 w2 x. kb_get_mhc K req w = (Inr f, w1) \<and> kb_get_stream K (stream_key f) w1 = (Inr vs, w2) \<and>
      vst_ReleaseImage (vs_Status vs) \<noteq> [] \<and> runs f vs x \<and>
      ob_hosted (objs w') = (ob_hosted (objs w))(mhc_key (ft_obj f) \<mapsto> x)))"
proof -
  obtain r1 w1 where g1: "kb_get_mhc K req w = (r1, w1)" by force
  with get_mhc_objs[of req w] have o1: "objs w1 = objs w" by simp
  show ?thesis
  proof (cases r1)
    case (Inl e)
    with assms g1 o1 show ?thesis by (auto simp: hosted_Reconcile_def split: if_splits)
  next
    case (Inr f)
    obtain r2 w2 where g2: "kb_get_stream K (stream_key f) w1 = (r2, w2)" by force
    with get_stream_objs[of "stream_key f" w1] o1 have o2: "objs w2 = objs w" by simp
    show ?thesis
    proof (cases r2)
      case (Inl e)
      with assms g1 g2 o2 \<open>r1 = Inr f\<close> show ?thesis by (auto simp: hosted_Reconcile_def stream_key_def)
    next
      case (Inr vs)
      note st = g1 g2 \<open>r1 = Inr f\<close> Inr
      show ?thesis
      proof (cases "vst_ReleaseImage (vs_Status vs) = [] \<or> (\<exists>e. prepared env K f vs = Inl e)")
        case True
        with assms st o2 show ?thesis
          by (auto simp: hosted_Reconcile_def stream_key_def Let_def prepared_def split: sum.splits if_splits)
      next
        case False
        then obtain hc where hc: "prepared env K f vs = Inr hc" by (cases "prepared env K f vs") auto
        obtain q w3 where g3: "kb_get_hosted K (obj_key hc) w2 = (q, w3)" by force
        with get_hosted_objs[of "obj_key hc" w2] o2 have o3: "objs w3 = objs w" by simp
        have run: "(res, w') = (case q of
            Inl e \<Rightarrow> if err_code e = NotFound then (case kb_create K hc w3 of
                  (Inl e, w4) \<Rightarrow> (Inl e, w4)
                | (Inr _, w4) \<Rightarrow> requeue 0 (setCondition K (ft_obj f) ''HostedClusterCreated'' ''True''
                    ''Created'' ''HostedCluster CR created successfully'' w4))
              else (Inl e, w3)
          | Inr existing \<Rightarrow> (case kb_update K (SetResourceVersion (GetResourceVersion existing) hc) w3 of
                (Inl e, w4) \<Rightarrow> (Inl e, w4)
              | (Inr _, w4) \<Rightarrow> requeue 0 (setCondition K (ft_obj f) ''HostedClusterCreated'' ''True''
                  ''Updated'' ''HostedCluster CR updated successfully'' w4)))"
          using assms st False hc g3
          by (auto simp: hosted_Reconcile_def stream_key_def Let_def prepared_def split: sum.splits)
        have wrote: ?thesis if "runs f vs x" and e: "effect objs (\<lambda>B. {put_hosted x B}) w3 (r, w4)"
          and "w' = w4 \<or> (\<exists>c s a b. w' = snd (setCondition K (ft_obj f) c s a b w4))" for x r w4
        proof -
          from that(3) setCondition_keeps have "ob_hosted (objs w') = ob_hosted (objs w4)"
            "ob_streams (objs w') = ob_streams (objs w4)" by auto
          moreover have "ob_streams (objs w4) = ob_streams (objs w)" using e o3 by (cases r) (auto simp: effect_def)
          ultimately show ?thesis
            using hosted_write[OF e] that(1) o3 st False by (auto simp: runs_def)
        qed
        show ?thesis
        proof (cases q)
          case (Inl e)
          obtain r4 w4 where c: "kb_create K hc w3 = (r4, w4)" by force
          with create_effect[of hc w3] have "effect objs (\<lambda>B. {put_hosted hc B}) w3 (r4, w4)" by simp
          note eff = this
          show ?thesis
          proof (cases "err_code e = NotFound")
            case False
            with run Inl o3 show ?thesis by simp
          next
            case True
            with arg_cong[OF run, of snd] Inl c have "w' = w4 \<or> (\<exists>c s a b. w' = snd (setCondition K (ft_obj f) c s a b w4))"
              by (cases r4) (auto simp: requeue_snd)
            with wrote[OF _ eff] prepared_runs[OF hc] show ?thesis by blast
          qed
        next
          case (Inr existing)
          let ?x = "SetResourceVersion (GetResourceVersion existing) hc"
          obtain r4 w4 where c: "kb_update K ?x w3 = (r4, w4)" by force
          with update_effect[of ?x w3] have "effect objs (\<lambda>B. {put_hosted ?x B}) w3 (r4, w4)" by simp
          note eff = this
          from arg_cong[OF run, of snd] Inr c have "w' = w4 \<or> (\<exists>c s a b. w' = snd (setCondition K (ft_obj f) c s a b w4))"
            by (cases r4) (auto simp: requeue_snd)
          with wrote[OF _ eff] prepared_runs[OF hc] show ?thesis by blast
        qed
      qed
    qed
  qed
qed

end

section \<open>Example objects\<close>

definition demo_hosted_user :: HostedClusterSpec where
  "demo_hosted_user = zero_HostedClusterSpec\<lparr>hc_Release := \<lparr>rel_Image = ''old''\<rparr>, hc_InfraID := ''infra''\<rparr>"

definition demo_managed :: fetched where
  "demo_managed = \<lparr>ft_obj = \<lparr>mhc_TypeMeta = zero_TypeMeta, mhc_ObjectMeta = zero_meta\<lparr>om_name := ''c1'', om_namespace := ''ns''\<rparr>,
     mhc_Spec = \<lparr>mhs_ClusterID = ''id-1'', mhs_VersionStreamRef = \<lparr>vsr_Name = ''stable''\<rparr>,
       mhs_UpgradeScheduleRef = None, mhs_HostedCluster = demo_hosted_user\<rparr>,
     mhc_Status = zero_ManagedHostedClusterStatus\<rparr>, ft_nilServices = True\<rparr>"

definition demo_stream :: "string \<Rightarrow> string \<Rightarrow> VersionStream" where
  "demo_stream release channel = \<lparr>vs_TypeMeta = zero_TypeMeta, vs_ObjectMeta = zero_meta\<lparr>om_name := ''stable''\<rparr>,
     vs_Spec = \<lparr>vss_TargetVersion = ''4.16'', vss_ChannelGroup = ''stable'', vss_Arch = ''amd64''\<rparr>,
     vs_Status = \<lparr>vst_ReleaseImage = release, vst_ResolvedVersion = [], vst_Channel = channel, vst_Conditions = []\<rparr>\<rparr>"

text \<open>A cluster and its stream on the server, before or after the stream was resolved.\<close>

definition demo_cluster :: "string \<Rightarrow> sim" where
  "demo_cluster release = \<lparr>sm_mhcs = [((''ns'', ''c1''), demo_managed)],
     sm_streams = [(([], ''stable''), demo_stream release ''stable-4.16'')], sm_hosted = [], sm_clock = 0, sm_faults = []\<rparr>"

lemma demo_keys: "mhc_key (ft_obj demo_managed) = (''ns'', ''c1'')" "stream_key demo_managed = ([], ''stable'')"
  "vs_key (demo_stream r c) = ([], ''stable'')"
  by (simp_all add: mhc_key_def stream_key_def vs_key_def demo_managed_def demo_stream_def zero_meta_def)

lemma demo_objects:
  "ob_mhcs (sim_objects (demo_cluster r)) (''ns'', ''c1'') = Some demo_managed"
  "ob_streams (sim_objects (demo_cluster r)) ([], ''stable'') = Some (demo_stream r ''stable-4.16'')"
  "ob_hosted (sim_objects (demo_cluster r)) = (\<lambda>k. None)" "sim_up (demo_cluster r)"
  by (auto simp: sim_objects_def demo_cluster_def sim_up_def)

section \<open>Properties of the reconciliation\<close>

text \<open>C14: Reconciling a cluster writes a HostedCluster only when it has read the cluster and its
  version stream, and the stream has a release; then the HostedCluster of that cluster is set to
  the one built for it with that release, and no other HostedCluster and no stream is touched,
  whatever calls fail.\<close>

theorem reconcile_writes_built:
  assumes "kube K objs" and "hosted_Reconcile env K req w = (res, w')"
  shows "ob_streams (objs w') = ob_streams (objs w) \<and> (ob_hosted (objs w') = ob_hosted (objs w) \<or>
    (\<exists>f vs w1 w2 x. kb_get_mhc K req w = (Inr f, w1) \<and> kb_get_stream K (stream_key f) w1 = (Inr vs, w2) \<and>
      vst_ReleaseImage (vs_Status vs) \<noteq> [] \<and> runs f vs x \<and>
      ob_hosted (objs w') = (ob_hosted (objs w))(mhc_key (ft_obj f) \<mapsto> x)))"
  by (rule kube.hosted_Reconcile_writes[OF assms])

theorem reconcile_writes_built_witness:
  "\<exists>f vs w1 w2 x. kb_get_mhc sim_kube (''ns'', ''c1'') (demo_cluster ''img'') = (Inr f, w1) \<and>
     kb_get_stream sim_kube (stream_key f) w1 = (Inr vs, w2) \<and> runs f vs x \<and>
     ob_hosted (sim_objects (snd (hosted_Reconcile emu_env sim_kube (''ns'', ''c1'') (demo_cluster ''img'')))) =
       [mhc_key (ft_obj f) \<mapsto> x]"
proof -
  let ?r = "hosted_Reconcile emu_env sim_kube (''ns'', ''c1'') (demo_cluster ''img'')"
  have "vst_ReleaseImage (vs_Status (demo_stream ''img'' ''stable-4.16'')) \<noteq> []" by (simp add: demo_stream_def)
  with kube_up.hosted_Reconcile_up[OF sim_api_up.kube_up_axioms demo_objects(4)[of "''img''"], where f = demo_managed
      and vs = "demo_stream ''img'' ''stable-4.16''" and env = emu_env]
  have "ob_hosted (sim_objects (snd ?r)) (''ns'', ''c1'') \<noteq> None" by (auto simp: demo_keys demo_objects)
  then have "ob_hosted (sim_objects (snd ?r)) \<noteq> ob_hosted (sim_objects (demo_cluster ''img''))"
    by (auto simp: demo_objects(3))
  with reconcile_writes_built[OF sim_api.kube_axioms, of emu_env "(''ns'', ''c1'')" "demo_cluster ''img''" "fst ?r" "snd ?r"]
  show ?thesis by (simp add: demo_objects(3)) blast
qed

text \<open>The state after a number of reconciliations of one cluster.\<close>

fun reconcile_times :: "'e env \<Rightarrow> 'w kube \<Rightarrow> key \<Rightarrow> nat \<Rightarrow> 'w \<Rightarrow> 'w" where
  "reconcile_times env K k 0 w = w"
| "reconcile_times env K k (Suc n) w = snd (hosted_Reconcile env K k (reconcile_times env K k n w))"



text \<open>C17: A cluster that is gone, a stream that cannot be read, and a stream without a release are
  answered as the operator should: with success, with the error, and with another try after ten
  seconds, and in none of the cases any object is written.\<close>

theorem reconcile_waits:
  assumes "kube K objs" and "hosted_Reconcile env K req w = (res, w')"
  shows "(\<forall>e w1. kb_get_mhc K req w = (Inl e, w1) \<longrightarrow>
      objs w' = objs w \<and> res = (if err_code e = NotFound then Inr 0 else Inl e)) \<and>
    (\<forall>f w1 e w2. kb_get_mhc K req w = (Inr f, w1) \<longrightarrow> kb_get_stream K (stream_key f) w1 = (Inl e, w2) \<longrightarrow>
      objs w' = objs w \<and> res = Inl e) \<and>
    (\<forall>f w1 vs w2. kb_get_mhc K req w = (Inr f, w1) \<longrightarrow> kb_get_stream K (stream_key f) w1 = (Inr vs, w2) \<longrightarrow>
      vst_ReleaseImage (vs_Status vs) = [] \<longrightarrow> objs w' = objs w \<and> res = Inr (10 * 1000000000))"
proof -
  have o1: "objs w1 = objs w" if "kb_get_mhc K req w = (r, w1)" for r w1
    using kube.get_mhc_objs[OF assms(1), of req w] that by simp
  have o2: "objs w2 = objs w1" if "kb_get_stream K k w1 = (r, w2)" for r k w1 w2
    using kube.get_stream_objs[OF assms(1), of k w1] that by simp
  show ?thesis
    using assms(2) o1 o2 by (auto simp: hosted_Reconcile_def Let_def stream_key_def split: if_splits)
qed

theorem reconcile_waits_witness:
  "fst (hosted_Reconcile emu_env sim_kube (''ns'', ''c1'') (demo_cluster [])) = Inr (10 * 1000000000) \<and>
   fst (hosted_Reconcile emu_env sim_kube (''ns'', ''gone'') (demo_cluster [])) = Inr 0"
proof -
  have a: "kb_get_mhc sim_kube (''ns'', ''c1'') (demo_cluster []) = (Inr demo_managed, demo_cluster [])"
    "kb_get_stream sim_kube (stream_key demo_managed) (demo_cluster []) = (Inr (demo_stream [] ''stable-4.16''), demo_cluster [])"
    "kb_get_mhc sim_kube (''ns'', ''gone'') (demo_cluster []) = (Inl missing, demo_cluster [])"
    unfolding demo_keys by (simp_all add: sim_kube_def sim_get_mhc_def sim_get_stream_def sim_call_def demo_cluster_def)
  have empty: "vst_ReleaseImage (vs_Status (demo_stream [] ''stable-4.16'')) = []" by (simp add: demo_stream_def)
  note w = reconcile_waits[OF sim_api.kube_axioms prod.collapse[symmetric], where env = emu_env and w = "demo_cluster []"]
  from w[where req = "(''ns'', ''c1'')"] w[where req = "(''ns'', ''gone'')"] a empty show ?thesis by (simp add: missing_def)
qed

text \<open>A changed version stream triggers the reconciliation of exactly the clusters that
  refer to it, each by its key; a failed listing triggers none.\<close>

theorem watch_exact:
  "mapVersionStreamToManagedHostedClusters K (Some vs) w = (ks, w') \<Longrightarrow>
    (case kb_list_mhc K w of
       (Inr items, w1) \<Rightarrow> w' = w1 \<and> set ks = {mhc_key m | m. m \<in> set items \<and>
          vsr_Name (mhs_VersionStreamRef (mhc_Spec m)) = om_name (vs_ObjectMeta vs)}
     | (Inl e, w1) \<Rightarrow> w' = w1 \<and> ks = [])"
  by (auto simp: mapVersionStreamToManagedHostedClusters_def split: prod.splits sum.splits)

theorem watch_exact_witness:
  "set (fst (mapVersionStreamToManagedHostedClusters sim_kube (Some (demo_stream ''img'' [])) (demo_cluster ''img''))) =
     {(''ns'', ''c1'')}"
proof -
  have items: "kb_list_mhc sim_kube (demo_cluster ''img'') = (Inr [ft_obj demo_managed], demo_cluster ''img'')"
    by (simp add: sim_kube_def sim_list_mhc_def sim_call_def demo_cluster_def)
  have ref: "vsr_Name (mhs_VersionStreamRef (mhc_Spec (ft_obj demo_managed))) = om_name (vs_ObjectMeta (demo_stream ''img'' []))"
    by (simp add: demo_managed_def demo_stream_def)
  from watch_exact[OF prod.collapse[symmetric], of sim_kube "demo_stream ''img'' []" "demo_cluster ''img''"] items ref
  show ?thesis by (auto simp: demo_keys)
qed

end
