(* ===== verification/RolloutClaims.thy ===== *)
theory RolloutClaims
  imports ControllerClaims
begin

text \<open>
  Version streams, and the way of a release from the update service to a HostedCluster: what a
  reconciliation of a stream does to the objects, and the composition of the resolver, the
  reconciler of streams and the reconciler of clusters.
\<close>

section \<open>Reconciling a stream\<close>

text \<open>The release that a stream shows: image, version and channel.\<close>

definition shown :: "VersionStream \<Rightarrow> string \<times> string \<times> string" where
  "shown v = (vst_ReleaseImage (vs_Status v), vst_ResolvedVersion (vs_Status v), vst_Channel (vs_Status v))"

definition release_of :: "objects \<Rightarrow> key \<Rightarrow> (string \<times> string \<times> string) option" where
  "release_of B k = map_option shown (ob_streams B k)"

definition keeps_objects :: "('w \<Rightarrow> objects) \<Rightarrow> 'w resolver \<Rightarrow> bool" where
  "keeps_objects objs resolve \<longleftrightarrow> (\<forall>v g a w. objs (snd (resolve v g a w)) = objs w)"

definition resolve_spec :: "'w resolver \<Rightarrow> VersionStream \<Rightarrow> 'w \<Rightarrow> ('w, string \<times> string \<times> string) ret" where
  "resolve_spec resolve vs = resolve (vss_TargetVersion (vs_Spec vs)) (vss_ChannelGroup (vs_Spec vs)) (vss_Arch (vs_Spec vs))"

lemma release_put: "release_of (put_stream_status r v B) =
    (release_of B)(vs_key v := map_option (\<lambda>_. shown v) (release_of B (vs_key v)))"
  by (auto simp: fun_eq_iff release_of_def put_stream_status_def option.map_comp comp_def shown_def)

lemma put_stream_keeps [simp]:
  "ob_hosted (put_stream_status r v B) = ob_hosted B" "ob_mhcs (put_stream_status r v B) = ob_mhcs B"
  by (simp_all add: put_stream_status_def)

context kube
begin

text \<open>The write at the end of a reconciliation of a stream.\<close>

lemma status_write:
  assumes "kb_status_stream K v w = (r, w')"
  shows "ob_hosted (objs w') = ob_hosted (objs w) \<and> ob_mhcs (objs w') = ob_mhcs (objs w) \<and>
    (objs w' = objs w \<or> (\<exists>q. objs w' = put_stream_status q v (objs w)))"
  using status_stream_effect[of v w] assms by (cases r) (auto simp: effect_def)

lemma stream_step:
  assumes "stream_Reconcile K resolve req w = (res, w')" and "keeps_objects objs resolve"
  shows "objs w' = objs w \<or> (\<exists>vs w1 out w2 cs v q. kb_get_stream K req w = (Inr vs, w1) \<and>
    resolve_spec resolve vs w1 = (out, w2) \<and> objs w' = put_stream_status q v (objs w) \<and> vs_key v = vs_key vs \<and>
    vs_Status v = (case out of Inl e \<Rightarrow> (vs_Status vs)\<lparr>vst_Conditions := cs\<rparr>
      | Inr (img, ver, ch) \<Rightarrow> (vs_Status vs)\<lparr>vst_ReleaseImage := img, vst_ResolvedVersion := ver,
          vst_Channel := ch, vst_Conditions := cs\<rparr>))"
proof -
  obtain r1 w1 where g: "kb_get_stream K req w = (r1, w1)" by force
  with get_stream_objs[of req w] have o1: "objs w1 = objs w" by simp
  show ?thesis
  proof (cases r1)
    case (Inl e)
    with assms(1) g o1 show ?thesis by (auto simp: stream_Reconcile_def split: if_splits)
  next
    case (Inr vs)
    obtain out w2 where r: "resolve_spec resolve vs w1 = (out, w2)" by force
    with assms(2) o1 have o2: "objs w2 = objs w" by (auto simp: keeps_objects_def resolve_spec_def) (metis snd_conv)
    define c where "c = (case out of
        Inl e \<Rightarrow> resolved_condition ''False'' ''ResolutionFailed'' (err_text e) (kb_generation K (vs_ObjectMeta vs))
      | Inr (img, ver, ch) \<Rightarrow> resolved_condition ''True'' ''Resolved'' (''Resolved version '' @ ver @ '' to '' @ img)
          (kb_generation K (vs_ObjectMeta vs)))"
    obtain cs w3 where s: "kb_set_condition K (vst_Conditions (vs_Status vs)) c w2 = (cs, w3)" by force
    with condition_objs[of "vst_Conditions (vs_Status vs)" c w2] o2 have o3: "objs w3 = objs w" by simp
    define v where "v = vs\<lparr>vs_Status := (case out of Inl e \<Rightarrow> (vs_Status vs)\<lparr>vst_Conditions := cs\<rparr>
      | Inr (img, ver, ch) \<Rightarrow> (vs_Status vs)\<lparr>vst_ReleaseImage := img, vst_ResolvedVersion := ver,
          vst_Channel := ch, vst_Conditions := cs\<rparr>)\<rparr>"
    obtain r4 w4 where u: "kb_status_stream K v w3 = (r4, w4)" by force
    have "w' = w4"
      using assms(1) g Inr r s u
      by (cases out) (auto simp: stream_Reconcile_def Let_def resolve_spec_def c_def v_def requeue_def split: sum.splits)
    with status_write[OF u] o3 have "objs w' = objs w \<or> (\<exists>q. objs w' = put_stream_status q v (objs w))" by auto
    moreover have "vs_key v = vs_key vs" "vs_Status v = (case out of Inl e \<Rightarrow> (vs_Status vs)\<lparr>vst_Conditions := cs\<rparr>
      | Inr (img, ver, ch) \<Rightarrow> (vs_Status vs)\<lparr>vst_ReleaseImage := img, vst_ResolvedVersion := ver,
          vst_Channel := ch, vst_Conditions := cs\<rparr>)" by (simp_all add: v_def vs_key_def)
    ultimately show ?thesis using g Inr r by blast
  qed
qed

end

text \<open>C16: The release of a version stream only ever becomes what the resolver returned for the stream's
  specification; when the resolution fails the release that was read is written back, and when a
  read or the write fails nothing is written. So the clusters keep what they run through an outage
  of the update service, and no cluster and no HostedCluster is touched.\<close>

theorem stream_release_resolved:
  assumes "kube K objs" and "keeps_objects objs resolve" and "stream_Reconcile K resolve req w = (res, w')"
  shows "ob_hosted (objs w') = ob_hosted (objs w) \<and> ob_mhcs (objs w') = ob_mhcs (objs w) \<and>
    (release_of (objs w') = release_of (objs w) \<or>
     (\<exists>vs w1 out w2. kb_get_stream K req w = (Inr vs, w1) \<and> resolve_spec resolve vs w1 = (out, w2) \<and>
        release_of (objs w') = (release_of (objs w))(vs_key vs := map_option
          (\<lambda>_. case out of Inr release \<Rightarrow> release | Inl e \<Rightarrow> shown vs) (release_of (objs w) (vs_key vs)))))"
proof -
  have sh: "shown v = (case out of Inr release \<Rightarrow> release | Inl e \<Rightarrow> shown vs)"
    if "vs_Status v = (case out of Inl e \<Rightarrow> (vs_Status vs)\<lparr>vst_Conditions := cs\<rparr>
      | Inr (img, ver, ch) \<Rightarrow> (vs_Status vs)\<lparr>vst_ReleaseImage := img, vst_ResolvedVersion := ver,
          vst_Channel := ch, vst_Conditions := cs\<rparr>)" for v vs cs and out :: "gerr + string \<times> string \<times> string"
    using that by (cases out) (auto simp: shown_def)
  from kube.stream_step[OF assms(1,3,2)] show ?thesis
  proof (elim disjE exE conjE)
    fix vs w1 out w2 cs v q
    assume a: "kb_get_stream K req w = (Inr vs, w1)" "resolve_spec resolve vs w1 = (out, w2)"
      "objs w' = put_stream_status q v (objs w)" "vs_key v = vs_key vs" and st:
      "vs_Status v = (case out of Inl e \<Rightarrow> (vs_Status vs)\<lparr>vst_Conditions := cs\<rparr>
      | Inr (img, ver, ch) \<Rightarrow> (vs_Status vs)\<lparr>vst_ReleaseImage := img, vst_ResolvedVersion := ver,
          vst_Channel := ch, vst_Conditions := cs\<rparr>)"
    show ?thesis
      unfolding a(3) release_put sh[OF st] a(4) using a(1,2) by auto
  qed simp
qed

lemma demo_stream_read: "kb_get_stream sim_kube ([], ''stable'') (demo_cluster r) =
    (Inr (demo_stream r ''stable-4.16''), demo_cluster r)"
  by (simp add: sim_kube_def sim_get_stream_def sim_call_def demo_cluster_def)

text \<open>An update service that is not reachable.\<close>

definition demo_outage :: "'w resolver" where
  "demo_outage v g a w = (Inl (errorf ''request failed''), w)"

theorem stream_release_resolved_witness:
  "release_of (sim_objects (snd (stream_Reconcile sim_kube demo_outage ([], ''stable'') (demo_cluster ''img'')))) ([], ''stable'') =
     Some (''img'', [], ''stable-4.16'')"
proof -
  have "keeps_objects sim_objects demo_outage" by (simp add: keeps_objects_def demo_outage_def)
  note w = stream_release_resolved[OF sim_api.kube_axioms this prod.collapse[symmetric],
      where req = "([], ''stable'')" and w = "demo_cluster ''img''"]
  have shown: "shown (demo_stream r c) = (r, [], c)" for r c by (simp add: shown_def demo_stream_def)
  have "release_of (sim_objects (demo_cluster ''img'')) ([], ''stable'') = Some (''img'', [], ''stable-4.16'')"
    by (simp add: release_of_def demo_objects shown)
  with w show ?thesis by (auto simp: demo_stream_read resolve_spec_def demo_outage_def demo_keys shown)
qed

section \<open>The rollout of a release\<close>

lemma main_resolver_keeps:
  assumes "\<And>t u q w. objs (snd (http_get http t u q w)) = objs w"
  shows "keeps_objects objs (main_resolver http)"
proof -
  have f: "objs (snd (fetchGraph http c ch a w)) = objs w" for c ch a w
    using assms[of "cl_timeout c" "cl_baseURL c" "[(''arch'', a), (''channel'', ch)]" w]
    by (cases "http_get http (cl_timeout c) (cl_baseURL c) [(''arch'', a), (''channel'', ch)] w")
      (auto simp: fetchGraph_def split: option.split sum.split)
  have "objs (snd (ResolveVersion http c v g a w)) = objs w" for c v g a w
  proof -
    define ch where "ch = DeriveChannel v (if g = [] then ''stable'' else g)"
    define a' where "a' = (if a = [] then DefaultArch else a)"
    show ?thesis
      using f[of c ch a' w]
      by (cases "fetchGraph http c ch a' w") (auto simp: ResolveVersion_def Let_def ch_def a'_def split: option.split sum.split)
  qed
  then show ?thesis by (simp add: keeps_objects_def main_resolver_def)
qed

context kube_up
begin

lemma stream_Reconcile_up:
  assumes "up w" and "ob_streams (objs w) (vs_key vs) = Some vs"
    and "\<And>w1. up w1 \<Longrightarrow> objs w1 = objs w \<Longrightarrow> \<exists>w2. resolve_spec resolve vs w1 = (Inr (img, ver, ch), w2) \<and> up w2 \<and> objs w2 = objs w1"
  shows "\<exists>w' v. stream_Reconcile K resolve (vs_key vs) w = (Inr (5 * 60 * 1000000000), w') \<and> up w' \<and>
    ob_hosted (objs w') = ob_hosted (objs w) \<and> ob_mhcs (objs w') = ob_mhcs (objs w) \<and>
    ob_streams (objs w') (vs_key vs) = Some v \<and> shown v = (img, ver, ch) \<and> vs_key v = vs_key vs"
proof -
  obtain w1 where w1: "kb_get_stream K (vs_key vs) w = (Inr vs, w1)" "up w1"
    using get_stream_up[OF assms(1), of "vs_key vs"] assms(2) by auto
  with get_stream_objs[of "vs_key vs" w] have o1: "objs w1 = objs w" by simp
  from assms(3)[OF w1(2) o1] obtain w2 where w2: "resolve_spec resolve vs w1 = (Inr (img, ver, ch), w2)" "up w2" "objs w2 = objs w"
    using o1 by auto
  let ?c = "resolved_condition ''True'' ''Resolved'' (''Resolved version '' @ ver @ '' to '' @ img) (kb_generation K (vs_ObjectMeta vs))"
  obtain cs w3 where s: "kb_set_condition K (vst_Conditions (vs_Status vs)) ?c w2 = (cs, w3)" by force
  with condition_objs[of "vst_Conditions (vs_Status vs)" ?c w2] w2 condition_up[OF w2(2), of "vst_Conditions (vs_Status vs)" ?c]
  have w3: "objs w3 = objs w" "up w3" by simp_all
  let ?v = "vs\<lparr>vs_Status := (vs_Status vs)\<lparr>vst_ReleaseImage := img, vst_ResolvedVersion := ver, vst_Channel := ch, vst_Conditions := cs\<rparr>\<rparr>"
  have key: "vs_key ?v = vs_key vs" by (simp add: vs_key_def)
  obtain w4 where u: "kb_status_stream K ?v w3 = (Inr (), w4)" "up w4"
    using status_stream_up[OF w3(2), of ?v vs] assms(2) w3(1) key by auto
  from status_stream_effect[of ?v w3] u(1) w3(1) obtain q where q: "objs w4 = put_stream_status q ?v (objs w)"
    by (auto simp: effect_def)
  have "stream_Reconcile K resolve (vs_key vs) w = (Inr (5 * 60 * 1000000000), w4)"
    using w1(1) w2(1) s u(1) by (simp add: stream_Reconcile_def Let_def resolve_spec_def requeue_def)
  with u(2) q assms(2) show ?thesis by (simp add: put_stream_status_def key shown_def) (simp add: vs_key_def set_other_def)
qed

end

text \<open>The stream gets the release of a node of the graph that no node with the target's prefix is newer than.\<close>

lemma stream_newest:
  assumes "kube_up K objs up valid" and "up w" and "ob_streams (objs w) (vs_key vs) = Some vs"
    and "vss_TargetVersion (vs_Spec vs) = target" and "target \<noteq> []" and "vss_ChannelGroup (vs_Spec vs) \<noteq> []"
    and "vss_Arch (vs_Spec vs) \<noteq> []"
    and "\<And>w1. up w1 \<Longrightarrow> \<exists>w2. fetchGraph http (NewClient [] (30 * 1000000000))
      (DeriveChannel target (vss_ChannelGroup (vs_Spec vs))) (vss_Arch (vs_Spec vs)) w1 = (Inr graph, w2) \<and>
      up w2 \<and> objs w2 = objs w1"
    and "\<exists>n\<in>set (gr_Nodes graph). candidate target n"
    and "\<forall>n\<in>set (gr_Nodes graph). candidate target n \<longrightarrow> nd_Payload n \<noteq> [] \<and> plain_version (nd_Version n)"
  obtains n w1 v where "n \<in> set (gr_Nodes graph)" "candidate target n" "nd_Payload n \<noteq> []"
    "\<forall>m\<in>set (gr_Nodes graph). candidate target m \<longrightarrow> \<not> newer (nd_Version m) (nd_Version n)"
    "stream_Reconcile K (main_resolver http) (vs_key vs) w = (Inr (5 * 60 * 1000000000), w1)" "up w1"
    "ob_hosted (objs w1) = ob_hosted (objs w)" "ob_mhcs (objs w1) = ob_mhcs (objs w)"
    "ob_streams (objs w1) (vs_key vs) = Some v" "vst_ReleaseImage (vs_Status v) = nd_Payload n"
    "vs_key v = vs_key vs"
proof -
  let ?ch = "DeriveChannel target (vss_ChannelGroup (vs_Spec vs))"
  let ?pre = "target @ ''.''"
  from assms(9) have "best_node ?pre (gr_Nodes graph) None \<noteq> None"
    by (auto simp: best_node_None list_all_iff candidate_def)
  then obtain n where n: "best_node ?pre (gr_Nodes graph) None = Some n" by blast
  have "list_all (\<lambda>m. has_prefix (nd_Version m) ?pre \<longrightarrow> plain_version (nd_Version m)) (gr_Nodes graph)"
    using assms(10) by (auto simp: list_all_iff candidate_def)
  from best_node_max[OF this _ n] have best: "n \<in> set (gr_Nodes graph)" "candidate target n"
    "\<forall>m\<in>set (gr_Nodes graph). candidate target m \<longrightarrow> \<not> newer (nd_Version m) (nd_Version n)"
    by (auto simp: candidate_def)
  have "\<exists>w2. resolve_spec (main_resolver http) vs w1 = (Inr (nd_Payload n, nd_Version n, ?ch), w2) \<and> up w2 \<and> objs w2 = objs w1"
    if "up w1" for w1
    using assms(8)[OF that] n best(1,2) assms(4-7,10)
    by (auto simp: resolve_spec_def main_resolver_def ResolveVersion_def Let_def)
  from kube_up.stream_Reconcile_up[OF assms(1-3) this] best assms(10) show thesis
    by (auto simp: shown_def intro: that)
qed

text \<open>Rollout. While the Kubernetes API is up and the update service serves a graph with a
  version for the stream, one reconciliation of the stream and then one of a cluster that refers to
  it leave a HostedCluster whose specification, as HyperShift decodes it, names the payload of a node of
  the graph whose version extends the stream's target, such that no such node is newer.\<close>

theorem release_rollout:
  assumes "kube_up K objs up valid" and "up w"
    and "ob_streams (objs w) (vs_key vs) = Some vs" and "vs_key vs = stream_key f"
    and "ob_mhcs (objs w) (mhc_key (ft_obj f)) = Some f" and "\<And>v x. runs f v x \<Longrightarrow> valid x"
    and "vss_TargetVersion (vs_Spec vs) = target" and "target \<noteq> []" and "vss_ChannelGroup (vs_Spec vs) \<noteq> []"
    and "vss_Arch (vs_Spec vs) \<noteq> []"
    and "\<And>w1. up w1 \<Longrightarrow> \<exists>w2. fetchGraph http (NewClient [] (30 * 1000000000))
      (DeriveChannel target (vss_ChannelGroup (vs_Spec vs))) (vss_Arch (vs_Spec vs)) w1 = (Inr graph, w2) \<and>
      up w2 \<and> objs w2 = objs w1"
    and "\<exists>n\<in>set (gr_Nodes graph). candidate target n"
    and "\<forall>n\<in>set (gr_Nodes graph). candidate target n \<longrightarrow> nd_Payload n \<noteq> [] \<and> plain_version (nd_Version n)"
  shows "\<exists>w1 w2 x j s n. stream_Reconcile K (main_resolver http) (vs_key vs) w = (Inr (5 * 60 * 1000000000), w1) \<and>
    hosted_Reconcile env K (mhc_key (ft_obj f)) w1 = (Inr 0, w2) \<and>
    ob_hosted (objs w2) = (ob_hosted (objs w))(mhc_key (ft_obj f) \<mapsto> x) \<and>
    obj_get ''spec'' x = Some j \<and> dec_HostedClusterSpec j zero_HostedClusterSpec = Some s \<and>
    n \<in> set (gr_Nodes graph) \<and> candidate target n \<and> rel_Image (hc_Release s) = nd_Payload n \<and>
    (\<forall>m\<in>set (gr_Nodes graph). candidate target m \<longrightarrow> \<not> newer (nd_Version m) (nd_Version n))"
proof -
  obtain n w1 v where best: "n \<in> set (gr_Nodes graph)" "candidate target n" "nd_Payload n \<noteq> []"
      "\<forall>m\<in>set (gr_Nodes graph). candidate target m \<longrightarrow> \<not> newer (nd_Version m) (nd_Version n)"
    and w1: "stream_Reconcile K (main_resolver http) (vs_key vs) w = (Inr (5 * 60 * 1000000000), w1)" "up w1"
      "ob_hosted (objs w1) = ob_hosted (objs w)" "ob_mhcs (objs w1) = ob_mhcs (objs w)"
      "ob_streams (objs w1) (vs_key vs) = Some v" and v: "vst_ReleaseImage (vs_Status v) = nd_Payload n"
    by (rule stream_newest[OF assms(1-3,7-13)])
  have "ob_mhcs (objs w1) (mhc_key (ft_obj f)) = Some f" using assms(5) w1(4) by simp
  from kube_up.hosted_Reconcile_up[OF assms(1) w1(2) this w1(5)[unfolded assms(4)] _ assms(6)[of v], where env = env] v best(3)
  obtain w2 x where w2: "hosted_Reconcile env K (mhc_key (ft_obj f)) w1 = (Inr 0, w2)" "runs f v x"
    "ob_hosted (objs w2) = (ob_hosted (objs w1))(mhc_key (ft_obj f) \<mapsto> x)" by auto
  from w2(2) v obtain j s where "obj_get ''spec'' x = Some j" "dec_HostedClusterSpec j zero_HostedClusterSpec = Some s"
    "rel_Image (hc_Release s) = nd_Payload n" by (auto simp: runs_def hosted_spec_def)
  with w1(1,3) w2 best show ?thesis by metis
qed

theorem release_rollout_witness:
  "\<exists>w1 w2 x j s. stream_Reconcile sim_kube (main_resolver demo_http) ([], ''stable'') (demo_cluster []) =
       (Inr (5 * 60 * 1000000000), w1) \<and>
     hosted_Reconcile emu_env sim_kube (''ns'', ''c1'') w1 = (Inr 0, w2) \<and>
     ob_hosted (sim_objects w2) = [(''ns'', ''c1'') \<mapsto> x] \<and> obj_get ''spec'' x = Some j \<and>
     dec_HostedClusterSpec j zero_HostedClusterSpec = Some s \<and> rel_Image (hc_Release s) = ''img10''"
proof -
  let ?vs = "demo_stream [] ''stable-4.16''" and ?g = "\<lparr>gr_Nodes = demo_nodes, gr_Edges = [[0, 1]]\<rparr>"
  have "vs_key ?vs = stream_key demo_managed" by (simp add: demo_keys)
  moreover have spec: "vss_TargetVersion (vs_Spec ?vs) = ''4.16''" "vss_ChannelGroup (vs_Spec ?vs) \<noteq> []" "vss_Arch (vs_Spec ?vs) \<noteq> []"
    by (simp_all add: demo_stream_def)
  moreover have "\<exists>n\<in>set (gr_Nodes ?g). candidate ''4.16'' n" by (simp add: demo_nodes_def candidate_def)
  moreover have "\<forall>n\<in>set (gr_Nodes ?g). candidate ''4.16'' n \<longrightarrow> nd_Payload n \<noteq> [] \<and> plain_version (nd_Version n)"
    by (simp add: demo_nodes_def candidate_def plain_version_def)
  ultimately obtain w1 w2 x j s n where r:
    "stream_Reconcile sim_kube (main_resolver demo_http) (vs_key ?vs) (demo_cluster []) = (Inr (5 * 60 * 1000000000), w1)"
    "hosted_Reconcile emu_env sim_kube (mhc_key (ft_obj demo_managed)) w1 = (Inr 0, w2)"
    "ob_hosted (sim_objects w2) = (ob_hosted (sim_objects (demo_cluster [])))(mhc_key (ft_obj demo_managed) \<mapsto> x)"
    "obj_get ''spec'' x = Some j" "dec_HostedClusterSpec j zero_HostedClusterSpec = Some s"
    "n \<in> set demo_nodes" "candidate ''4.16'' n" "rel_Image (hc_Release s) = nd_Payload n"
    "\<forall>m\<in>set demo_nodes. candidate ''4.16'' m \<longrightarrow> \<not> newer (nd_Version m) (nd_Version n)"
    using release_rollout[OF sim_api_up.kube_up_axioms demo_objects(4)[of "[]"], where vs = ?vs and f = demo_managed
        and target = "''4.16''" and http = demo_http and graph = ?g and env = emu_env]
    by (auto simp: demo_fetched demo_objects demo_keys)
  have "newer ''4.16.10'' ''4.16.9''"
    by (subst newer_compare) (simp_all add: version_eval upt_rec)
  with r(6-9) have "rel_Image (hc_Release s) = ''img10''" by (auto simp: demo_nodes_def candidate_def)
  with r(1-5) show ?thesis by (auto simp: demo_keys demo_objects(3))
qed

end
