(* ===== verification/OperatorMain.thy ===== *)
theory OperatorMain
  imports RolloutClaims
begin

text \<open>
  \<open>cmd/main.go\<close> and the \<open>SetupWithManager\<close> methods of \<open>internal/controller\<close>: from the flags to the options
  of the two servers and of the manager, and the calls that set the controllers up and start the
  manager. The manager itself is the library controller-runtime, the record \<open>mgr\<close> of calls.
\<close>

section \<open>Flags and options\<close>

record op_flags =
  of_metricsAddr :: string
  of_probeAddr :: string
  of_enableLeaderElection :: bool
  of_secureMetrics :: bool
  of_webhookCertPath :: string
  of_webhookCertName :: string
  of_webhookCertKey :: string
  of_metricsCertPath :: string
  of_metricsCertName :: string
  of_metricsCertKey :: string
  of_enableHTTP2 :: bool

definition op_default_flags :: op_flags where
  "op_default_flags = \<lparr>of_metricsAddr = ''0'', of_probeAddr = '':8081'', of_enableLeaderElection = False,
     of_secureMetrics = True, of_webhookCertPath = [], of_webhookCertName = ''tls.crt'', of_webhookCertKey = ''tls.key'',
     of_metricsCertPath = [], of_metricsCertName = ''tls.crt'', of_metricsCertKey = ''tls.key'', of_enableHTTP2 = False\<rparr>"

text \<open>Of \<open>tls.Config\<close> only the protocols are used; \<open>tls_apply\<close> is what a server does with its options.\<close>

record tls_config = NextProtos :: "string list"

definition disableHTTP2 :: "tls_config \<Rightarrow> tls_config" where
  "disableHTTP2 c = c\<lparr>NextProtos := [''http/1.1'']\<rparr>"

definition tls_apply :: "(tls_config \<Rightarrow> tls_config) list \<Rightarrow> tls_config \<Rightarrow> tls_config" where
  "tls_apply opts c = fold (\<lambda>f. f) opts c"

record server_options =
  so_TLSOpts :: "(tls_config \<Rightarrow> tls_config) list"
  so_CertDir :: string
  so_CertName :: string
  so_KeyName :: string

text \<open>\<open>mo_Filter\<close>: \<open>FilterProvider\<close> is set to \<open>WithAuthenticationAndAuthorization\<close>.\<close>

record metrics_options = server_options +
  mo_BindAddress :: string
  mo_SecureServing :: bool
  mo_Filter :: bool

record manager_options =
  mg_Metrics :: metrics_options
  mg_WebhookServer :: server_options
  mg_HealthProbeBindAddress :: string
  mg_LeaderElection :: bool
  mg_LeaderElectionID :: string

definition tlsOpts :: "op_flags \<Rightarrow> (tls_config \<Rightarrow> tls_config) list" where
  "tlsOpts fl = (if \<not> of_enableHTTP2 fl then [disableHTTP2] else [])"

definition webhookServerOptions :: "op_flags \<Rightarrow> server_options" where
  "webhookServerOptions fl =
     (let opts = \<lparr>so_TLSOpts = tlsOpts fl, so_CertDir = [], so_CertName = [], so_KeyName = []\<rparr>
      in if of_webhookCertPath fl \<noteq> []
         then opts\<lparr>so_CertDir := of_webhookCertPath fl, so_CertName := of_webhookCertName fl, so_KeyName := of_webhookCertKey fl\<rparr>
         else opts)"

definition metricsServerOptions :: "op_flags \<Rightarrow> metrics_options" where
  "metricsServerOptions fl =
     (let opts = \<lparr>so_TLSOpts = tlsOpts fl, so_CertDir = [], so_CertName = [], so_KeyName = [],
            mo_BindAddress = of_metricsAddr fl, mo_SecureServing = of_secureMetrics fl, mo_Filter = False\<rparr>;
          opts1 = (if of_secureMetrics fl then opts\<lparr>mo_Filter := True\<rparr> else opts)
      in if of_metricsCertPath fl \<noteq> []
         then opts1\<lparr>so_CertDir := of_metricsCertPath fl, so_CertName := of_metricsCertName fl, so_KeyName := of_metricsCertKey fl\<rparr>
         else opts1)"

definition managerOptions :: "op_flags \<Rightarrow> manager_options" where
  "managerOptions fl = \<lparr>mg_Metrics = metricsServerOptions fl, mg_WebhookServer = webhookServerOptions fl,
     mg_HealthProbeBindAddress = of_probeAddr fl, mg_LeaderElection = of_enableLeaderElection fl,
     mg_LeaderElectionID = ''d3e5b460.gcp.hypershift.openshift.com''\<rparr>"

section \<open>The controllers\<close>

datatype op_kind = ManagedHostedClusters | VersionStreams | UpgradeSchedules

text \<open>
  What a \<open>SetupWithManager\<close> gives to \<open>Complete\<close>: the kind that it is for, the name, the number of workers
  (0 where it is left to the library), the further kinds with the map of their objects to requests, and the reconciler.
\<close>

record 'w op_controller =
  oc_For :: op_kind
  oc_Named :: string
  oc_Workers :: nat
  oc_Watches :: "(op_kind \<times> (VersionStream option \<Rightarrow> 'w \<Rightarrow> key list \<times> 'w)) list"
  oc_Reconcile :: "key \<Rightarrow> 'w \<Rightarrow> ('w, int) ret"

definition managed_SetupWithManager :: "'w kube \<Rightarrow> 'w op_controller" where
  "managed_SetupWithManager K = \<lparr>oc_For = ManagedHostedClusters, oc_Named = ''managedhostedcluster'',
     oc_Workers = 10, oc_Watches = [], oc_Reconcile = managed_Reconcile K\<rparr>"

definition stream_SetupWithManager :: "'w kube \<Rightarrow> 'w resolver \<Rightarrow> 'w op_controller" where
  "stream_SetupWithManager K resolve = \<lparr>oc_For = VersionStreams, oc_Named = ''versionstream'',
     oc_Workers = 0, oc_Watches = [], oc_Reconcile = stream_Reconcile K resolve\<rparr>"

definition schedule_SetupWithManager :: "'w kube \<Rightarrow> 'w op_controller" where
  "schedule_SetupWithManager K = \<lparr>oc_For = UpgradeSchedules, oc_Named = ''upgradeschedule'',
     oc_Workers = 0, oc_Watches = [], oc_Reconcile = schedule_Reconcile K\<rparr>"

definition hosted_SetupWithManager :: "'e env \<Rightarrow> 'w kube \<Rightarrow> 'w op_controller" where
  "hosted_SetupWithManager env K = \<lparr>oc_For = ManagedHostedClusters, oc_Named = ''hostedcluster'',
     oc_Workers = 10, oc_Watches = [(VersionStreams, mapVersionStreamToManagedHostedClusters K)],
     oc_Reconcile = hosted_Reconcile env K\<rparr>"

section \<open>main\<close>

text \<open>The library: each call returns its error.\<close>

record 'w mgr =
  mg_New :: "manager_options \<Rightarrow> 'w \<Rightarrow> gerr option \<times> 'w"
  mg_Complete :: "'w op_controller \<Rightarrow> 'w \<Rightarrow> gerr option \<times> 'w"
  mg_AddHealthzCheck :: "string \<Rightarrow> 'w \<Rightarrow> gerr option \<times> 'w"
  mg_AddReadyzCheck :: "string \<Rightarrow> 'w \<Rightarrow> gerr option \<times> 'w"
  mg_Start :: "'w \<Rightarrow> gerr option \<times> 'w"

text \<open>\<open>op_controllers\<close> in the order in which \<open>main\<close> sets them up.\<close>

definition op_controllers :: "'e env \<Rightarrow> 'w kube \<Rightarrow> 'w http \<Rightarrow> 'w op_controller list" where
  "op_controllers env K http = [managed_SetupWithManager K, stream_SetupWithManager K (main_resolver http),
     schedule_SetupWithManager K, hosted_SetupWithManager env K]"

text \<open>Each call is followed by \<open>os.Exit(1)\<close> when it failed: the exit code of a sequence of calls.\<close>

fun exit_code :: "('w \<Rightarrow> gerr option \<times> 'w) list \<Rightarrow> 'w \<Rightarrow> nat \<times> 'w" where
  "exit_code [] w = (0, w)"
| "exit_code (call # calls) w = (case call w of (Some e, w1) \<Rightarrow> (1, w1) | (None, w1) \<Rightarrow> exit_code calls w1)"

definition op_calls :: "'e env \<Rightarrow> 'w kube \<Rightarrow> 'w http \<Rightarrow> 'w mgr \<Rightarrow> op_flags \<Rightarrow> ('w \<Rightarrow> gerr option \<times> 'w) list" where
  "op_calls env K http M fl = mg_New M (managerOptions fl) # map (mg_Complete M) (op_controllers env K http) @
     [mg_AddHealthzCheck M ''healthz'', mg_AddReadyzCheck M ''readyz'', mg_Start M]"

definition op_main :: "'e env \<Rightarrow> 'w kube \<Rightarrow> 'w http \<Rightarrow> 'w mgr \<Rightarrow> op_flags \<Rightarrow> 'w \<Rightarrow> nat \<times> 'w" where
  "op_main env K http M fl w = exit_code (op_calls env K http M fl) w"

section \<open>Facts\<close>

lemma tls_protocols:
  "NextProtos (tls_apply (tlsOpts fl) c) = (if of_enableHTTP2 fl then NextProtos c else [''http/1.1''])"
  by (simp add: tls_apply_def tlsOpts_def disableHTTP2_def)

lemma server_TLSOpts [simp]:
  "so_TLSOpts (webhookServerOptions fl) = tlsOpts fl" "so_TLSOpts (metricsServerOptions fl) = tlsOpts fl"
  by (simp_all add: webhookServerOptions_def metricsServerOptions_def Let_def)

text \<open>Neither server offers HTTP/2 unless it is enabled, and the metrics are served without
  authentication only where they are served without TLS.\<close>

lemma managerOptions_safe:
  "NextProtos (tls_apply (so_TLSOpts (mg_WebhookServer (managerOptions fl))) c) =
     (if of_enableHTTP2 fl then NextProtos c else [''http/1.1''])"
  "NextProtos (tls_apply (so_TLSOpts (mg_Metrics (managerOptions fl))) c) =
     (if of_enableHTTP2 fl then NextProtos c else [''http/1.1''])"
  "mo_Filter (mg_Metrics (managerOptions fl)) \<longleftrightarrow> mo_SecureServing (mg_Metrics (managerOptions fl))"
  by (simp_all add: managerOptions_def tls_protocols) (simp add: metricsServerOptions_def Let_def)

text \<open>The calls stop at the first failure, which alone gives the exit code 1.\<close>

lemma exit_code_append:
  "exit_code (cs @ ds) w = (case exit_code cs w of (n, w1) \<Rightarrow> if n = 0 then exit_code ds w1 else (n, w1))"
  by (induction cs arbitrary: w) (auto split: prod.split option.split)

lemma exit_code_cases: "fst (exit_code cs w) \<in> {0, 1}"
  by (induction cs arbitrary: w) (auto split: prod.split option.split)

text \<open>The requests that an event of an object puts into the queue of a controller.\<close>

definition enqueue :: "'w op_controller \<Rightarrow> op_kind \<Rightarrow> key \<Rightarrow> VersionStream option \<Rightarrow> 'w \<Rightarrow> key list \<times> 'w" where
  "enqueue c kind k obj w = (case map_of (oc_Watches c) kind of
      Some f \<Rightarrow> f obj w
    | None \<Rightarrow> (if oc_For c = kind then [k] else [], w))"

text \<open>A worker takes the requests out of the queue one after the other.\<close>

fun work :: "'w op_controller \<Rightarrow> key list \<Rightarrow> 'w \<Rightarrow> 'w" where
  "work c [] w = w"
| "work c (k # ks) w = work c ks (snd (oc_Reconcile c k w))"

section \<open>An event of a version stream\<close>

text \<open>The list of the clusters, from the same caches.\<close>

locale kube_listing = kube_up +
  assumes list_up: "up w \<Longrightarrow> \<exists>items w'. kb_list_mhc K w = (Inr items, w') \<and> up w' \<and>
    set items = {ft_obj f | k f. ob_mhcs (objs w) k = Some f}"

interpretation sim_listing: kube_listing sim_kube sim_objects sim_up "\<lambda>x. True"
proof unfold_locales
  fix w :: sim assume up: "sim_up w"
  have entry: "map_of (sm_mhcs w) k = Some f \<longleftrightarrow> (k, f) \<in> set (AList.clearjunk (sm_mhcs w))" for k f
    using map_of_eq_Some_iff[OF distinct_clearjunk, of "sm_mhcs w" k f] by (simp add: map_of_clearjunk)
  have "(\<lambda>x. ft_obj (snd x)) ` set (AList.clearjunk (sm_mhcs w)) = {ft_obj f | k f. map_of (sm_mhcs w) k = Some f}"
    unfolding entry by force
  with up show "\<exists>items w'. kb_list_mhc sim_kube w = (Inr items, w') \<and> sim_up w' \<and>
      set items = {ft_obj f | k f. ob_mhcs (sim_objects w) k = Some f}"
    by (simp add: sim_kube_def sim_list_mhc_def sim_call_up sim_objects_def)
qed

context kube_up
begin

text \<open>A reconciliation touches the status of no other cluster.\<close>

lemma setCondition_others:
  assumes "k \<noteq> mhc_key m"
  shows "ob_mhcs (objs (snd (setCondition K m c s r t w))) k = ob_mhcs (objs w) k"
proof -
  obtain now w1 where n: "kb_now K w = (now, w1)" by force
  with now_objs[of w] have w1: "objs w1 = objs w" by simp
  show ?thesis
    unfolding setCondition_def n prod.case Let_def w1[symmetric]
    by (rule effect_same[OF status_mhc_effect, where g = "\<lambda>B. ob_mhcs B k"])
      (use assms in \<open>auto simp: put_mhc_status_def mhc_key_def\<close>)
qed

lemma hosted_others:
  assumes "up w" and "ob_mhcs (objs w) (mhc_key (ft_obj f)) = Some f" and "k \<noteq> mhc_key (ft_obj f)"
  shows "ob_mhcs (objs (snd (hosted_Reconcile env K (mhc_key (ft_obj f)) w))) k = ob_mhcs (objs w) k"
proof -
  obtain w1 where w1: "kb_get_mhc K (mhc_key (ft_obj f)) w = (Inr f, w1)"
    using get_mhc_up[OF assms(1), of "mhc_key (ft_obj f)"] assms(2) by auto
  have reads: "kb_get_stream K a v = (r, v') \<Longrightarrow> objs v' = objs v" "kb_get_hosted K b v = (q, v') \<Longrightarrow> objs v' = objs v"
    for a b v r q v' by (metis get_stream_objs snd_conv) (metis get_hosted_objs snd_conv)
  have writes: "kb_create K x v = (r, v') \<Longrightarrow> ob_mhcs (objs v') = ob_mhcs (objs v)"
    "kb_update K x v = (r, v') \<Longrightarrow> ob_mhcs (objs v') = ob_mhcs (objs v)" for x v r v'
    using effect_same[OF create_effect, of x ob_mhcs v] effect_same[OF update_effect, of x ob_mhcs v] by auto
  have "objs w1 = objs w" using get_mhc_objs[of "mhc_key (ft_obj f)" w] w1 by simp
  with w1 show ?thesis
    by (auto simp: hosted_Reconcile_def Let_def requeue_snd setCondition_others[OF assms(3)]
        split: prod.splits sum.splits dest!: reads writes)
qed

text \<open>The clusters of the queue, \<open>F\<close>, all refer to a stream with a release.\<close>

lemma work_hosted:
  assumes "up w" and "ob_streams (objs w) sk = Some vs" and "vst_ReleaseImage (vs_Status vs) \<noteq> []"
    and "\<forall>f x. runs f vs x \<longrightarrow> valid x"
    and "\<forall>k\<in>set ks. mhc_key (ft_obj (F k)) = k \<and> stream_key (F k) = sk \<and> (\<exists>g. stored (objs w) (F k) g)"
  shows "\<exists>w'. work (hosted_SetupWithManager env K) ks w = w' \<and> up w' \<and> ob_streams (objs w') = ob_streams (objs w) \<and>
    (\<forall>k\<in>set ks. \<exists>x. ob_hosted (objs w') k = Some x \<and> runs (F k) vs x) \<and>
    (\<forall>k. k \<notin> set ks \<longrightarrow> ob_hosted (objs w') k = ob_hosted (objs w) k)"
  using assms(1,2,5)
proof (induction ks arbitrary: w)
  case (Cons k ks)
  from Cons.prems(3) obtain g where k: "mhc_key (ft_obj (F k)) = k" "stream_key (F k) = sk" "stored (objs w) (F k) g" by auto
  have "valid x" if "runs (F k) vs x" for x using assms(4) that by blast
  from hosted_again[OF Cons.prems(1) k(3), unfolded k(2), OF Cons.prems(2) assms(3) this, where env = env] obtain w1 x g' where
    w1: "hosted_Reconcile env K k w = (Inr 0, w1)" "up w1" "ob_hosted (objs w1) = (ob_hosted (objs w))(k \<mapsto> x)"
      "runs (F k) vs x" "ob_streams (objs w1) = ob_streams (objs w)" "stored (objs w1) (F k) g'"
    unfolding k(1) by blast
  have g: "ob_mhcs (objs w) (mhc_key (ft_obj g)) = Some g" "mhc_key (ft_obj g) = k"
    using k(1,3) by (simp_all add: stored_def)
  have others: "ob_mhcs (objs w1) j = ob_mhcs (objs w) j" if "j \<noteq> k" for j
    using hosted_others[OF Cons.prems(1) g(1), of j env] that w1(1) g(2) by simp
  have "\<exists>g. stored (objs w1) (F j) g" if "j \<in> set ks" for j
  proof (cases "j = k")
    case True
    with w1(6) show ?thesis by blast
  next
    case False
    with others[OF False] Cons.prems(3) that show ?thesis by (auto simp: stored_def)
  qed
  with Cons.prems w1(5) have "\<forall>j\<in>set ks. mhc_key (ft_obj (F j)) = j \<and> stream_key (F j) = sk \<and> (\<exists>g. stored (objs w1) (F j) g)"
    "ob_streams (objs w1) sk = Some vs" by auto
  from Cons.IH[OF w1(2) this(2,1)] obtain w' where w': "work (hosted_SetupWithManager env K) ks w1 = w'" "up w'"
      "ob_streams (objs w') = ob_streams (objs w1)" "\<forall>j\<in>set ks. \<exists>x. ob_hosted (objs w') j = Some x \<and> runs (F j) vs x"
      "\<forall>j. j \<notin> set ks \<longrightarrow> ob_hosted (objs w') j = ob_hosted (objs w1) j" by blast
  have "\<exists>x. ob_hosted (objs w') k = Some x \<and> runs (F k) vs x"
  proof (cases "k \<in> set ks")
    case False
    then have "ob_hosted (objs w') k = ob_hosted (objs w1) k" using w'(5) by blast
    with w1(3,4) show ?thesis by simp
  qed (use w'(4) in blast)
  with w' w1(3,5) have "up w' \<and> ob_streams (objs w') = ob_streams (objs w) \<and>
      (\<forall>j\<in>set (k # ks). \<exists>x. ob_hosted (objs w') j = Some x \<and> runs (F j) vs x) \<and>
      (\<forall>j. j \<notin> set (k # ks) \<longrightarrow> ob_hosted (objs w') j = ob_hosted (objs w) j)" by simp
  moreover have "work (hosted_SetupWithManager env K) (k # ks) w = w'"
    using w'(1) w1(1) by (simp add: hosted_SetupWithManager_def)
  ultimately show ?case by blast
qed simp

end

text \<open>The event of a stream that has a release puts its clusters into the queue, and working them off
  leaves each of them with that release; the other clusters are left alone.\<close>

context kube_listing
begin

lemma event_rolls_out:
  assumes "up w" and "ob_streams (objs w) (vs_key vs) = Some vs" and "fst (vs_key vs) = []"
    and "vst_ReleaseImage (vs_Status vs) \<noteq> []" and "\<forall>f x. runs f vs x \<longrightarrow> valid x"
    and "\<forall>k f. ob_mhcs (objs w) k = Some f \<longrightarrow> mhc_key (ft_obj f) = k"
  shows "\<exists>ks w1 w'. enqueue (hosted_SetupWithManager env K) VersionStreams (vs_key vs) (Some vs) w = (ks, w1) \<and>
    work (hosted_SetupWithManager env K) ks w1 = w' \<and> up w' \<and>
    (\<forall>k f. ob_mhcs (objs w) k = Some f \<longrightarrow> (if stream_key f = vs_key vs
       then \<exists>x. ob_hosted (objs w') k = Some x \<and> runs f vs x else ob_hosted (objs w') k = ob_hosted (objs w) k))"
proof -
  from list_up[OF assms(1)] obtain items w1 where items: "kb_list_mhc K w = (Inr items, w1)" "up w1"
    "set items = {ft_obj f | k f. ob_mhcs (objs w) k = Some f}" by blast
  have o1: "objs w1 = objs w" using list_objs[of w] items(1) by simp
  let ?ks = "map mhc_key (filter (\<lambda>m. vsr_Name (mhs_VersionStreamRef (mhc_Spec m)) = om_name (vs_ObjectMeta vs)) items)"
  have q: "enqueue (hosted_SetupWithManager env K) VersionStreams (vs_key vs) (Some vs) w = (?ks, w1)"
    using items(1) by (simp add: enqueue_def hosted_SetupWithManager_def mapVersionStreamToManagedHostedClusters_def)
  have key: "stream_key f = vs_key vs \<longleftrightarrow> vsr_Name (mhs_VersionStreamRef (mhc_Spec (ft_obj f))) = om_name (vs_ObjectMeta vs)" for f
    using assms(3) by (auto simp: stream_key_def vs_key_def)
  define F where "F k = the (ob_mhcs (objs w) k)" for k
  have ks: "k \<in> set ?ks \<longleftrightarrow> (\<exists>f. ob_mhcs (objs w) k = Some f \<and> stream_key f = vs_key vs)" for k
  proof -
    have "k \<in> set ?ks \<longleftrightarrow> (\<exists>m\<in>set items. vsr_Name (mhs_VersionStreamRef (mhc_Spec m)) = om_name (vs_ObjectMeta vs) \<and> mhc_key m = k)"
      by auto
    also have "\<dots> \<longleftrightarrow> (\<exists>j f. ob_mhcs (objs w) j = Some f \<and> stream_key f = vs_key vs \<and> mhc_key (ft_obj f) = k)"
      unfolding key items(3) by blast
    also have "\<dots> \<longleftrightarrow> (\<exists>f. ob_mhcs (objs w) k = Some f \<and> stream_key f = vs_key vs)"
      using assms(6) by metis
    finally show ?thesis .
  qed
  have "\<forall>k\<in>set ?ks. mhc_key (ft_obj (F k)) = k \<and> stream_key (F k) = vs_key vs \<and> (\<exists>g. stored (objs w1) (F k) g)"
  proof
    fix k assume "k \<in> set ?ks"
    with ks obtain f where "ob_mhcs (objs w) k = Some f" "stream_key f = vs_key vs" by blast
    with assms(6)[rule_format, of k f] show "mhc_key (ft_obj (F k)) = k \<and> stream_key (F k) = vs_key vs \<and> (\<exists>g. stored (objs w1) (F k) g)"
      by (simp add: F_def o1 stored_def)
  qed
  then obtain w' where
    w': "work (hosted_SetupWithManager env K) ?ks w1 = w'" "up w'"
      "\<forall>k\<in>set ?ks. \<exists>x. ob_hosted (objs w') k = Some x \<and> runs (F k) vs x"
      "\<forall>k. k \<notin> set ?ks \<longrightarrow> ob_hosted (objs w') k = ob_hosted (objs w) k"
    using work_hosted[OF items(2) _ assms(4,5), where env = env and F = F and ks = ?ks] assms(2) unfolding o1 by blast
  have "if stream_key f = vs_key vs then \<exists>x. ob_hosted (objs w') k = Some x \<and> runs f vs x
      else ob_hosted (objs w') k = ob_hosted (objs w) k" if f: "ob_mhcs (objs w) k = Some f" for k f
  proof (cases "stream_key f = vs_key vs")
    case True
    with f have "k \<in> set ?ks" "F k = f" unfolding ks by (auto simp: F_def)
    with w'(3) True show ?thesis by auto
  next
    case False
    with f have "k \<notin> set ?ks" unfolding ks by auto
    with w'(4) have "ob_hosted (objs w') k = ob_hosted (objs w) k" by blast
    with False show ?thesis by simp
  qed
  with q w'(1,2) show ?thesis by blast
qed

end


text \<open>A cluster of another stream, beside the cluster of the demo.\<close>

definition demo_other :: fetched where
  "demo_other = demo_managed\<lparr>ft_obj := (ft_obj demo_managed)\<lparr>mhc_ObjectMeta := zero_meta\<lparr>om_name := ''c2'', om_namespace := ''ns''\<rparr>,
     mhc_Spec := (mhc_Spec (ft_obj demo_managed))\<lparr>mhs_VersionStreamRef := \<lparr>vsr_Name = ''fast''\<rparr>\<rparr>\<rparr>\<rparr>"

definition demo_fleet :: sim where
  "demo_fleet = (demo_cluster [])\<lparr>sm_mhcs := [((''ns'', ''c1''), demo_managed), ((''ns'', ''c2''), demo_other)]\<rparr>"


end
