(* ===== verification/GoTypes.thy ===== *)
theory GoTypes
  imports Json
begin

text \<open>
  The part of \<open>hack/crd-to-openapi/main.go\<close> that reads Go source: \<open>buildHiddenPaths\<close> collects the
  struct types of a directory and walks them for the JSON paths of the fields with the tag
  \<open>openapi:"hidden"\<close>. The syntax trees of \<open>go/ast\<close> are the data \<open>expr\<close> and \<open>decl\<close>, with the
  fields that the tool reads; \<open>parser.ParseDir\<close> is a parameter of the callers. The walk follows
  the types by name and need not end: it is a partial function, and \<open>None\<close> is a walk
  that does not return.
\<close>

section \<open>Struct tags\<close>

text \<open>
  \<open>strconv.Unquote\<close> of a text in double quotes, given without the opening quote. Go source is
  valid UTF-8, so other characters stand for themselves.
\<close>

fun hex_digits_val :: "nat \<Rightarrow> string \<Rightarrow> (nat \<times> string) option" where
  "hex_digits_val 0 s = Some (0, s)"
| "hex_digits_val (Suc n) [] = None"
| "hex_digits_val (Suc n) (c # cs) = (case hex_val c of
      None \<Rightarrow> None
    | Some v \<Rightarrow> map_option (apfst ((+) (v * 16 ^ n))) (hex_digits_val n cs))"

definition octal_val :: "char \<Rightarrow> nat option" where
  "octal_val c = (if 48 \<le> byte c \<and> byte c \<le> 55 then Some (byte c - 48) else None)"

definition tag_escape :: "char \<Rightarrow> char option" where
  "tag_escape c = map_of [(CHR ''a'', CHR 0x07), (CHR ''b'', CHR 0x08), (CHR ''f'', CHR 0x0C),
     (CHR ''n'', CHR 0x0A), (CHR ''r'', CHR 0x0D), (CHR ''t'', CHR 0x09), (CHR ''v'', CHR 0x0B),
     (backslash, backslash), (dquote, dquote)] c"

text \<open>One escape sequence after its backslash: its bytes and the rest.\<close>

definition unquote_escape :: "string \<Rightarrow> (string \<times> string) option" where
  "unquote_escape s = (case s of
      [] \<Rightarrow> None
    | c # r \<Rightarrow> (case tag_escape c of
        Some x \<Rightarrow> Some ([x], r)
      | None \<Rightarrow>
          if c = CHR ''x'' then map_option (apfst (\<lambda>n. [char_of n])) (hex_digits_val 2 r)
          else if c = CHR ''u'' \<or> c = CHR ''U''
          then (case hex_digits_val (if c = CHR ''u'' then 4 else 8) r of
              Some (n, r') \<Rightarrow> if n < 0xD800 \<or> 0xE000 \<le> n \<and> n < 0x110000 then Some (utf8 n, r') else None
            | None \<Rightarrow> None)
          else (case (octal_val c, r) of
              (Some a, d # e # r') \<Rightarrow> (case (octal_val d, octal_val e) of
                  (Some b, Some f) \<Rightarrow> if a * 64 + b * 8 + f < 256
                    then Some ([char_of (a * 64 + b * 8 + f)], r') else None
                | _ \<Rightarrow> None)
            | _ \<Rightarrow> None)))"

fun unquote_from :: "nat \<Rightarrow> string \<Rightarrow> string option" where
  "unquote_from 0 s = None"
| "unquote_from (Suc n) [] = None"
| "unquote_from (Suc n) (c # cs) =
     (if c = dquote then (if cs = [] then Some [] else None)
      else if c = newline then None
      else if c = backslash
      then (case unquote_escape cs of
          None \<Rightarrow> None
        | Some (x, r) \<Rightarrow> map_option ((@) x) (unquote_from n r))
      else map_option (Cons c) (unquote_from n cs))"

definition go_unquote :: "string \<Rightarrow> string option" where
  "go_unquote s = (case s of c # cs \<Rightarrow> if c = dquote then unquote_from (length s) cs else None | [] \<Rightarrow> None)"

text \<open>The scan of \<open>StructTag.Lookup\<close> over a quoted value: the value up to its closing quote, and the rest.\<close>

fun scan_quoted :: "string \<Rightarrow> (string \<times> string) option" where
  "scan_quoted [] = None"
| "scan_quoted (c # cs) =
     (if c = dquote then Some ([c], cs)
      else if c = backslash
      then (case cs of [] \<Rightarrow> None | d # ds \<Rightarrow> map_option (apfst (\<lambda>v. c # d # v)) (scan_quoted ds))
      else map_option (apfst (Cons c)) (scan_quoted cs))"

lemma scan_quoted_length: "scan_quoted s = Some (v, r) \<Longrightarrow> length r < length s"
  by (induction s arbitrary: v r rule: scan_quoted.induct)
    (fastforce split: if_splits list.splits)+

definition key_char :: "char \<Rightarrow> bool" where
  "key_char c \<longleftrightarrow> 32 < byte c \<and> c \<noteq> CHR '':'' \<and> c \<noteq> dquote \<and> byte c \<noteq> 127"

text \<open>\<open>reflect.StructTag.Lookup\<close>\<close>

function tag_lookup :: "string \<Rightarrow> string \<Rightarrow> string option" where
  "tag_lookup tag key =
     (let t = dropWhile (\<lambda>c. c = CHR '' '') tag; name = takeWhile key_char t
      in case dropWhile key_char t of
           c # d # r \<Rightarrow>
             if name = [] \<or> c \<noteq> CHR '':'' \<or> d \<noteq> dquote then None
             else (case scan_quoted r of
                 None \<Rightarrow> None
               | Some (v, rest) \<Rightarrow> if name = key then go_unquote (d # v) else tag_lookup rest key)
         | _ \<Rightarrow> None)"
  by pat_completeness auto
termination
proof (relation "measure (\<lambda>(tag, key). length tag)", goal_cases)
  case (2 tag key t name c ys d r s v rest)
  have "length (c # d # r) \<le> length tag"
    using 2 length_dropWhile_le[of key_char t] length_dropWhile_le[of "\<lambda>c. c = CHR '' ''" tag] by simp
  moreover have "length rest < length r" using 2 scan_quoted_length[of r v rest] by simp
  ultimately show ?case by simp
qed simp

declare tag_lookup.simps [simp del]

text \<open>\<open>strings.Trim(s, "`")\<close>\<close>

definition trim_ticks :: "string \<Rightarrow> string" where
  "trim_ticks s = rev (dropWhile (\<lambda>c. c = CHR 0x60) (rev (dropWhile (\<lambda>c. c = CHR 0x60) s)))"

definition jsonFieldName :: "string \<Rightarrow> string" where
  "jsonFieldName tag = (case tag_lookup tag ''json'' of
      None \<Rightarrow> []
    | Some jsonTag \<Rightarrow> takeWhile (\<lambda>c. c \<noteq> CHR '','') jsonTag)"

section \<open>Syntax trees\<close>

text \<open>
  The expressions of \<open>go/ast\<close>: a struct has its fields, a field its raw tag (with the back
  quotes) and its type; names of fields are not looked at.
\<close>

datatype expr = Ident string | StarExpr expr | ArrayType expr
  | StructType "(string option \<times> expr) list option" | OtherExpr

type_synonym field = "string option \<times> expr"
type_synonym struct_type = "field list option"

fun resolveTypeName :: "expr \<Rightarrow> string" where
  "resolveTypeName (Ident n) = n"
| "resolveTypeName (StarExpr t) = resolveTypeName t"
| "resolveTypeName (ArrayType t) = resolveTypeName t"
| "resolveTypeName _ = []"

text \<open>
  What the loop of \<open>walkStructFields\<close> does with a field under a prefix: it skips it, marks its path,
  or, with its path, goes into the struct type of a name.
\<close>

datatype visit = Skip | Hide string | Into string struct_type

definition visit_field :: "(string \<rightharpoonup> struct_type) \<Rightarrow> string \<Rightarrow> field \<Rightarrow> visit" where
  "visit_field typeMap prefix fld = (case fst fld of
      None \<Rightarrow> Skip
    | Some raw \<Rightarrow>
        (let tag = trim_ticks raw; jsonName = jsonFieldName tag; fieldPath = prefix @ ''.'' @ jsonName
         in if jsonName = [] \<or> jsonName = ''-'' then Skip
            else if tag_lookup tag ''openapi'' = Some ''hidden'' then Hide fieldPath
            else if resolveTypeName (snd fld) \<noteq> []
            then (case typeMap (resolveTypeName (snd fld)) of
                Some nestedSt \<Rightarrow> Into fieldPath nestedSt
              | None \<Rightarrow> Skip)
            else Skip))"

text \<open>
  \<open>walkStructFields\<close>, with its loop over the fields as the recursion on their list. The map of
  hidden paths is threaded through, as the list of its keys.
\<close>

partial_function (option) walk_fields ::
    "(string \<rightharpoonup> struct_type) \<Rightarrow> field list \<Rightarrow> string \<Rightarrow> string list \<Rightarrow> string list option" where
  "walk_fields typeMap fields prefix hidden = (case fields of
      [] \<Rightarrow> Some hidden
    | fld # rest \<Rightarrow> (case visit_field typeMap prefix fld of
        Skip \<Rightarrow> walk_fields typeMap rest prefix hidden
      | Hide p \<Rightarrow> walk_fields typeMap rest prefix (List.insert p hidden)
      | Into p nestedSt \<Rightarrow> (case nestedSt of
          None \<Rightarrow> walk_fields typeMap rest prefix hidden
        | Some nested \<Rightarrow> Option.bind (walk_fields typeMap nested p hidden)
            (\<lambda>h. walk_fields typeMap rest prefix h))))"

definition walkStructFields :: "struct_type \<Rightarrow> string \<Rightarrow> (string \<rightharpoonup> struct_type) \<Rightarrow> string list \<Rightarrow>
    string list option" where
  "walkStructFields st prefix typeMap hidden = (case st of
      None \<Rightarrow> Some hidden
    | Some fields \<Rightarrow> walk_fields typeMap fields prefix hidden)"

text \<open>
  Declarations, as far as the tool reads them: a \<open>GenDecl\<close> with the token \<open>type\<close> and its named
  types, or anything else. The packages of a directory are the list of their files' declarations,
  in the order in which the loops visit them, which for the maps of \<open>go/parser\<close> is any order.
\<close>

datatype decl = TypeDecl "(string \<times> expr) list" | OtherDecl

definition spec_structs :: "string \<times> expr \<Rightarrow> (string \<times> struct_type) list" where
  "spec_structs s = (case snd s of StructType st \<Rightarrow> [(fst s, st)] | _ \<Rightarrow> [])"

definition decl_structs :: "decl \<Rightarrow> (string \<times> struct_type) list" where
  "decl_structs d = (case d of TypeDecl specs \<Rightarrow> concat (map spec_structs specs) | OtherDecl \<Rightarrow> [])"

type_synonym go_packages = "decl list list list"

definition type_map :: "go_packages \<Rightarrow> (string \<rightharpoonup> struct_type)" where
  "type_map pkgs = map_of (rev (concat (map (\<lambda>files. concat (map (\<lambda>decls. concat (map decl_structs decls)) files)) pkgs)))"

text \<open>The body of the loop over the kinds: the paths of \<open><Kind>Spec\<close> and \<open><Kind>Status\<close>.\<close>

definition kind_hidden :: "(string \<rightharpoonup> struct_type) \<Rightarrow> string \<Rightarrow> string list option" where
  "kind_hidden typeMap kind = Option.bind
     (case typeMap (kind @ ''Spec'') of Some st \<Rightarrow> walkStructFields st ''spec'' typeMap [] | None \<Rightarrow> Some [])
     (\<lambda>h. case typeMap (kind @ ''Status'') of Some st \<Rightarrow> walkStructFields st ''status'' typeMap h | None \<Rightarrow> Some h)"

text \<open>
  The result maps a kind to its hidden paths; a kind without any has no entry, and a repeated
  kind gets the same entry again. \<open>None\<close>: the walk of some kind does not return.
\<close>

fun hidden_by_kind :: "(string \<rightharpoonup> struct_type) \<Rightarrow> string list \<Rightarrow> (string \<rightharpoonup> string list) \<Rightarrow>
    (string \<rightharpoonup> string list) option" where
  "hidden_by_kind typeMap [] result = Some result"
| "hidden_by_kind typeMap (kind # kinds) result = Option.bind (kind_hidden typeMap kind)
     (\<lambda>hidden. hidden_by_kind typeMap kinds (if hidden = [] then result else result(kind \<mapsto> hidden)))"

definition buildHiddenPaths :: "(string \<Rightarrow> gerr + go_packages) \<Rightarrow> string \<Rightarrow> string list \<Rightarrow>
    (gerr + (string \<rightharpoonup> string list)) option" where
  "buildHiddenPaths ParseDir typesDir kinds = (case ParseDir typesDir of
      Inl e \<Rightarrow> Some (Inl (wrap_err (''parsing directory '' @ typesDir @ '': '') e))
    | Inr pkgs \<Rightarrow> map_option Inr (hidden_by_kind (type_map pkgs) kinds (\<lambda>k. None)))"

end
