(* ===== verification/OpenApiGen.thy ===== *)
theory OpenApiGen
  imports GoTypes
begin

text \<open>
  \<open>hack/crd-to-openapi/main.go\<close>: the OpenAPI document of the REST API, made from the YAML of the
  CRDs, less the fields that the Go types hide. A \<open>map[string]any\<close> is the list of its entries,
  each key once; the order has no meaning, since \<open>yaml.Marshal\<close> sorts the keys. The file system,
  the YAML parser and the Go parser are the record \<open>gen_io\<close>. A panic is a result of its own.
\<close>

type_synonym entries = "(string \<times> json) list"

definition del_key :: "string \<Rightarrow> entries \<Rightarrow> entries" where
  "del_key k m = filter (\<lambda>(k', v). k' \<noteq> k) m"

definition set_key :: "string \<Rightarrow> json \<Rightarrow> entries \<Rightarrow> entries" where
  "set_key k v m = (k, v) # del_key k m"

text \<open>\<open>s, _ := m[k].(string)\<close>\<close>

definition text_of :: "json option \<Rightarrow> string" where
  "text_of j = (case j of Some (JStr s) \<Rightarrow> s | _ \<Rightarrow> [])"

definition mustMap :: "entries \<Rightarrow> string \<Rightarrow> entries" where
  "mustMap m key = (case get_field key m of Some (JObj v) \<Rightarrow> v | _ \<Rightarrow> [])"

definition getDescription :: "entries \<Rightarrow> string" where
  "getDescription schema = text_of (get_field ''description'' schema)"

record crdResource =
  cr_Kind :: string
  cr_ListKind :: string
  cr_Plural :: string
  cr_Scope :: string
  cr_Schema :: entries
  cr_HasStatus :: bool

section \<open>Cleaning of schemas\<close>

text \<open>The hidden paths of a kind: \<open>None\<close> is a nil map.\<close>

definition is_hidden :: "string list option \<Rightarrow> string \<Rightarrow> bool" where
  "is_hidden hiddenPaths p = (case hiddenPaths of None \<Rightarrow> False | Some h \<Rightarrow> p \<in> set h)"

definition sub_path :: "string \<Rightarrow> string \<Rightarrow> string" where
  "sub_path currentPath k = (if currentPath \<noteq> [] then currentPath @ ''.'' @ k else k)"

text \<open>The case \<open>required\<close>: with hidden paths the hidden names go, and an empty list goes as a whole.\<close>

definition clean_required :: "string list option \<Rightarrow> string \<Rightarrow> json \<Rightarrow> json option" where
  "clean_required hiddenPaths currentPath v =
     (if hiddenPaths = None then Some v
      else (case v of
          JArr req \<Rightarrow>
            (let filtered = filter (\<lambda>r. \<not> is_hidden hiddenPaths (sub_path currentPath (text_of (Some r)))) req
             in if filtered \<noteq> [] then Some (JArr filtered) else None)
        | _ \<Rightarrow> Some v))"

function (sequential) cleanSchema :: "entries \<Rightarrow> string list option \<Rightarrow> string \<Rightarrow> entries"
  and clean_entry :: "string \<Rightarrow> json \<Rightarrow> string list option \<Rightarrow> string \<Rightarrow> json option"
  and clean_props :: "entries \<Rightarrow> string list option \<Rightarrow> string \<Rightarrow> entries"
  and clean_value :: "json \<Rightarrow> string list option \<Rightarrow> string \<Rightarrow> json" where
  "cleanSchema [] hidden cur = []"
| "cleanSchema ((k, v) # schema) hidden cur = (case clean_entry k v hidden cur of
      Some x \<Rightarrow> (k, x) # cleanSchema schema hidden cur
    | None \<Rightarrow> cleanSchema schema hidden cur)"
| "clean_entry k v hidden cur =
     (if has_prefix k ''x-kubernetes-'' then None
      else if k = ''properties'' then (case v of JObj props \<Rightarrow> Some (JObj (clean_props props hidden cur)) | _ \<Rightarrow> None)
      else if k = ''required'' then clean_required hidden cur v
      else if k = ''items'' \<or> k = ''additionalProperties'' then Some (clean_value v hidden cur)
      else Some v)"
| "clean_props [] hidden cur = []"
| "clean_props ((pk, pv) # props) hidden cur =
     (if is_hidden hidden (sub_path cur pk) then clean_props props hidden cur
      else (pk, clean_value pv hidden (sub_path cur pk)) # clean_props props hidden cur)"
| "clean_value (JObj pm) hidden cur = JObj (cleanSchema pm hidden cur)"
| "clean_value v hidden cur = v"

  by pat_completeness auto
termination
proof (relation "measure (\<lambda>x. case x of
      Inl (Inl (m, h, c)) \<Rightarrow> 2 * size_list (size_prod (\<lambda>k. 0) size) m
    | Inl (Inr (k, v, h, c)) \<Rightarrow> 2 * size v + 1
    | Inr (Inl (m, h, c)) \<Rightarrow> 2 * size_list (size_prod (\<lambda>k. 0) size) m
    | Inr (Inr (v, h, c)) \<Rightarrow> 2 * size v)")
qed simp_all

section \<open>From CRDs to resources\<close>

datatype failure = Failed gerr | Panics

text \<open>
  \<open>extractResource\<close>. The type assertions on the first version and on the cleaned properties panic
  when they fail. The cleaned schema is a fresh map, so that its changes reach nothing else.
\<close>

definition object_keys :: "string list" where
  "object_keys = [''apiVersion'', ''kind'', ''metadata'']"

definition drop_object_keys :: "entries \<Rightarrow> entries \<Rightarrow> entries" where
  "drop_object_keys props cleaned =
     (let c = set_key ''properties'' (JObj (filter (\<lambda>(k, v). k \<notin> set object_keys) props)) cleaned
      in case get_field ''required'' c of
          Some (JArr req) \<Rightarrow>
            (let filtered = filter (\<lambda>r. text_of (Some r) \<notin> set object_keys) req
             in if filtered \<noteq> [] then set_key ''required'' (JArr filtered) c else del_key ''required'' c)
        | _ \<Rightarrow> c)"

definition extractResource :: "entries \<Rightarrow> failure + crdResource" where
  "extractResource crd =
     (let spec = mustMap crd ''spec''; names = mustMap spec ''names''
      in case get_field ''versions'' spec of
          Some (JArr (v0 # vs)) \<Rightarrow> (case v0 of
              JObj v \<Rightarrow>
                (let schema = mustMap (mustMap v ''schema'') ''openAPIV3Schema'';
                     hasStatus = (case get_field ''subresources'' v of
                       Some (JObj subs) \<Rightarrow> get_field ''status'' subs \<noteq> None | _ \<Rightarrow> False);
                     cleanedSchema = cleanSchema schema None []
                 in case get_field ''properties'' cleanedSchema of
                     Some (JObj props) \<Rightarrow> Inr \<lparr>cr_Kind = text_of (get_field ''kind'' names),
                       cr_ListKind = text_of (get_field ''listKind'' names),
                       cr_Plural = text_of (get_field ''plural'' names),
                       cr_Scope = text_of (get_field ''scope'' spec),
                       cr_Schema = drop_object_keys props cleanedSchema, cr_HasStatus = hasStatus\<rparr>
                   | _ \<Rightarrow> Inl Panics)
            | _ \<Rightarrow> Inl Panics)
        | _ \<Rightarrow> Inl (Failed (errorf ''no versions found'')))"

text \<open>
  The file system and the parsers: the entries of a directory with whether they are directories,
  the bytes of a file of a directory, \<open>yaml.Unmarshal\<close> into a map, and \<open>parser.ParseDir\<close>.
\<close>

record gen_io =
  gi_ReadDir :: "string \<Rightarrow> gerr + (string \<times> bool) list"
  gi_ReadFile :: "string \<Rightarrow> string \<Rightarrow> gerr + string"
  gi_Unmarshal :: "string \<Rightarrow> gerr + entries"
  gi_ParseDir :: "string \<Rightarrow> gerr + go_packages"

definition load_file :: "gen_io \<Rightarrow> string \<Rightarrow> string \<Rightarrow> failure + crdResource" where
  "load_file io dir name = (case gi_ReadFile io dir name of
      Inl e \<Rightarrow> Inl (Failed (wrap_err (''reading '' @ name @ '': '') e))
    | Inr data \<Rightarrow> (case gi_Unmarshal io data of
        Inl e \<Rightarrow> Inl (Failed (wrap_err (''parsing '' @ name @ '': '') e))
      | Inr crd \<Rightarrow> (case extractResource crd of
          Inl (Failed e) \<Rightarrow> Inl (Failed (wrap_err (''extracting from '' @ name @ '': '') e))
        | Inl Panics \<Rightarrow> Inl Panics
        | Inr res \<Rightarrow> Inr res)))"

fun load_entries :: "gen_io \<Rightarrow> string \<Rightarrow> (string \<times> bool) list \<Rightarrow> failure + crdResource list" where
  "load_entries io dir [] = Inr []"
| "load_entries io dir ((name, isDir) # entries) =
     (if isDir \<or> \<not> has_suffix name ''.yaml'' then load_entries io dir entries
      else (case load_file io dir name of
          Inl e \<Rightarrow> Inl e
        | Inr res \<Rightarrow> (case load_entries io dir entries of
            Inl e \<Rightarrow> Inl e
          | Inr resources \<Rightarrow> Inr (res # resources))))"

text \<open>
  \<open>sort.Slice\<close> by kind. It need not keep the order of equal kinds; for up to twelve elements it
  is an insertion sort, which does.
\<close>

definition loadCRDs :: "gen_io \<Rightarrow> string \<Rightarrow> failure + crdResource list" where
  "loadCRDs io dir = (case gi_ReadDir io dir of
      Inl e \<Rightarrow> Inl (Failed (wrap_err (''reading directory '' @ dir @ '': '') e))
    | Inr entries \<Rightarrow> (case load_entries io dir entries of
        Inl e \<Rightarrow> Inl e
      | Inr resources \<Rightarrow> Inr (sort_key cr_Kind resources)))"

section \<open>The document\<close>

definition schema_ref :: "string \<Rightarrow> json" where
  "schema_ref name = JObj [(''$ref'', JStr (''#/components/schemas/'' @ name))]"

definition json_content :: "string \<Rightarrow> json" where
  "json_content name = JObj [(''application/json'', JObj [(''schema'', schema_ref name)])]"

definition string_schema :: "(string \<times> json) list \<Rightarrow> json" where
  "string_schema attrs = JObj ((''type'', JStr ''string'') # attrs)"

definition described :: "string \<Rightarrow> string \<times> json" where
  "described d = (''description'', JStr d)"

definition conditionSchema :: json where
  "conditionSchema = JObj
     [(''type'', JStr ''object''), described ''Standard Kubernetes condition'',
      (''properties'', JObj
        [(''type'', string_schema [described ''Type of condition'']),
         (''status'', string_schema [(''enum'', JArr [JStr ''True'', JStr ''False'', JStr ''Unknown''])]),
         (''reason'', string_schema [described ''Programmatic reason for the condition'']),
         (''message'', string_schema [described ''Human-readable message'']),
         (''lastTransitionTime'', string_schema [(''format'', JStr ''date-time'')]),
         (''observedGeneration'', JObj [(''type'', JStr ''integer''), (''format'', JStr ''int64'')])]),
      (''required'', JArr (map JStr [''type'', ''status'', ''reason'', ''message'', ''lastTransitionTime'']))]"

definition metadataSchema :: json where
  "metadataSchema = JObj
     [(''type'', JStr ''object''), described ''Standard object metadata'',
      (''properties'', JObj
        [(''name'', string_schema [described ''Name of the resource'']),
         (''namespace'', string_schema [described ''Namespace of the resource'']),
         (''resourceVersion'', string_schema [described ''Resource version for optimistic concurrency'']),
         (''creationTimestamp'', string_schema [(''format'', JStr ''date-time''),
            described ''Creation timestamp'', (''readOnly'', JBool True)]),
         (''labels'', JObj [(''type'', JStr ''object''), (''additionalProperties'', string_schema [])]),
         (''annotations'', JObj [(''type'', JStr ''object''), (''additionalProperties'', string_schema [])])])]"

text \<open>\<open>maps.Copy\<close> puts the entries of its second argument over those of the first.\<close>

definition maps_Copy :: "entries \<Rightarrow> entries \<Rightarrow> entries" where
  "maps_Copy dst src = src @ filter (\<lambda>(k, v). k \<notin> fst ` set src) dst"

definition buildResourceSchema :: "crdResource \<Rightarrow> string list option \<Rightarrow> entries" where
  "buildResourceSchema res hiddenPaths =
     (let props = [(''metadata'', schema_ref ''ObjectMeta'')];
          props' = (case get_field ''properties'' (cr_Schema res) of
            Some (JObj srcProps) \<Rightarrow> maps_Copy props (map (\<lambda>(pk, pv). (pk, clean_value pv hiddenPaths pk)) srcProps)
          | _ \<Rightarrow> props)
      in [(''type'', JStr ''object''), described (getDescription (cr_Schema res)), (''properties'', JObj props')] @
         (case get_field ''required'' (cr_Schema res) of Some (JArr req) \<Rightarrow> [(''required'', JArr req)] | _ \<Rightarrow> []))"

definition buildListSchema :: "crdResource \<Rightarrow> entries" where
  "buildListSchema res =
     [(''type'', JStr ''object''), described (''A list of '' @ cr_Kind res @ '' resources''),
      (''properties'', JObj
        [(''metadata'', JObj
           [(''type'', JStr ''object''),
            (''properties'', JObj
              [(''continue'', string_schema [described ''Token for the next page of results'']),
               (''resourceVersion'', string_schema [])])]),
         (''items'', JObj [(''type'', JStr ''array''), (''items'', schema_ref (cr_Kind res))])]),
      (''required'', JArr [JStr ''items''])]"

text \<open>The responses and the parts of operations that repeat.\<close>

definition ok_with :: "string \<Rightarrow> string \<Rightarrow> json" where
  "ok_with d name = JObj [described d, (''content'', json_content name)]"

definition bare :: "string \<Rightarrow> json" where "bare d = JObj [described d]"

definition request_body :: "string \<Rightarrow> string \<times> json" where
  "request_body name = (''requestBody'', JObj [(''required'', JBool True), (''content'', json_content name)])"

definition operation_object :: "string \<Rightarrow> string \<Rightarrow> string \<Rightarrow> (string \<times> json) list \<Rightarrow> entries \<Rightarrow> json" where
  "operation_object summary operationId tag body responses = JObj ([(''summary'', JStr summary),
     (''operationId'', JStr operationId), (''tags'', JArr [JStr tag])] @ body @ [(''responses'', JObj responses)])"

definition path_param :: "string \<Rightarrow> string \<Rightarrow> json" where
  "path_param name d = JObj [(''name'', JStr name), (''in'', JStr ''path''), (''required'', JBool True), described d,
     (''schema'', string_schema [])]"

definition collectionPath :: "crdResource \<Rightarrow> string \<Rightarrow> string" where
  "collectionPath res version = (if cr_Scope res = ''Namespaced''
     then ''/'' @ version @ ''/namespaces/{namespace}/'' @ cr_Plural res
     else ''/'' @ version @ ''/'' @ cr_Plural res)"

definition itemPath :: "crdResource \<Rightarrow> string \<Rightarrow> string" where
  "itemPath res version = (if cr_Scope res = ''Namespaced''
     then ''/'' @ version @ ''/namespaces/{namespace}/'' @ cr_Plural res @ ''/{name}''
     else ''/'' @ version @ ''/'' @ cr_Plural res @ ''/{name}'')"

definition namespaceParam :: json where
  "namespaceParam = path_param ''namespace'' ''Namespace of the resource''"

definition nameParam :: "crdResource \<Rightarrow> json" where
  "nameParam res = path_param ''name'' (''Name of the '' @ cr_Kind res)"

definition itemParams :: "crdResource \<Rightarrow> json list" where
  "itemParams res = (if cr_Scope res = ''Namespaced'' then [namespaceParam, nameParam res] else [nameParam res])"

definition collectionOps :: "crdResource \<Rightarrow> entries" where
  "collectionOps res = (let k = cr_Kind res in
     [(''get'', operation_object (''List '' @ k @ '' resources'') (''list'' @ k) k []
        [(''200'', ok_with ''OK'' (cr_ListKind res))]),
      (''post'', operation_object (''Create a '' @ k) (''create'' @ k) k [request_body k]
        [(''201'', ok_with ''Created'' k), (''409'', bare ''Conflict - resource already exists'')])] @
     (if cr_Scope res = ''Namespaced'' then [(''parameters'', JArr [namespaceParam])] else []))"

definition itemOps :: "crdResource \<Rightarrow> entries" where
  "itemOps res = (let k = cr_Kind res in
     [(''parameters'', JArr (itemParams res)),
      (''get'', operation_object (''Get a '' @ k) (''get'' @ k) k []
        [(''200'', ok_with ''OK'' k), (''404'', bare ''Not found'')]),
      (''put'', operation_object (''Update a '' @ k) (''update'' @ k) k [request_body k]
        [(''200'', ok_with ''OK'' k), (''404'', bare ''Not found''),
         (''409'', bare ''Conflict - resource version mismatch'')]),
      (''delete'', operation_object (''Delete a '' @ k) (''delete'' @ k) k []
        [(''200'', bare ''OK''), (''404'', bare ''Not found'')])])"

definition statusOps :: "crdResource \<Rightarrow> entries" where
  "statusOps res = (let k = cr_Kind res in
     [(''parameters'', JArr (itemParams res)),
      (''get'', operation_object (''Get status of a '' @ k) (''get'' @ k @ ''Status'') k []
        [(''200'', ok_with ''OK'' k), (''404'', bare ''Not found'')]),
      (''put'', operation_object (''Update status of a '' @ k) (''update'' @ k @ ''Status'') k [request_body k]
        [(''200'', ok_with ''OK'' k), (''404'', bare ''Not found'')])])"

definition addPaths :: "entries \<Rightarrow> crdResource \<Rightarrow> string \<Rightarrow> entries" where
  "addPaths paths res version =
     (let paths' = set_key (itemPath res version) (JObj (itemOps res))
            (set_key (collectionPath res version) (JObj (collectionOps res)) paths)
      in if cr_HasStatus res
         then set_key (itemPath res version @ ''/status'') (JObj (statusOps res)) paths'
         else paths')"

text \<open>The loop of \<open>buildOpenAPISpec\<close> over the resources: the schemas and the paths.\<close>

fun add_resources :: "crdResource list \<Rightarrow> (string \<rightharpoonup> string list) \<Rightarrow> string \<Rightarrow> entries \<times> entries \<Rightarrow> entries \<times> entries" where
  "add_resources [] hiddenByKind version acc = acc"
| "add_resources (res # resources) hiddenByKind version (schemas, paths) =
     add_resources resources hiddenByKind version
       (set_key (cr_ListKind res) (JObj (buildListSchema res))
         (set_key (cr_Kind res) (JObj (buildResourceSchema res (hiddenByKind (cr_Kind res)))) schemas),
        addPaths paths res version)"

definition buildOpenAPISpec :: "crdResource list \<Rightarrow> (string \<rightharpoonup> string list) \<Rightarrow> string \<Rightarrow> string \<Rightarrow> entries" where
  "buildOpenAPISpec resources hiddenByKind title version =
     (case add_resources resources hiddenByKind version
        ([(''ObjectMeta'', metadataSchema), (''Condition'', conditionSchema)], []) of
      (schemas, paths) \<Rightarrow>
        [(''openapi'', JStr ''3.0.3''),
         (''info'', JObj [(''title'', JStr title), (''version'', JStr version),
            described ''REST API for managing HyperShift hosted clusters on GCP'']),
         (''paths'', JObj paths),
         (''components'', JObj [(''schemas'', JObj schemas)])])"

section \<open>main\<close>

text \<open>\<open>strings.TrimSpace\<close> on texts without white space beyond ASCII.\<close>

definition ascii_space :: "char \<Rightarrow> bool" where
  "ascii_space c \<longleftrightarrow> byte c \<in> {9, 10, 11, 12, 13, 32}"

definition TrimSpace :: "string \<Rightarrow> string" where
  "TrimSpace s = rev (dropWhile ascii_space (rev (dropWhile ascii_space s)))"

definition kind_list :: "string \<Rightarrow> string list" where
  "kind_list kinds = (if kinds \<noteq> [] then map TrimSpace (split_on (CHR '','') kinds) else [])"

definition filter_kinds :: "string list \<Rightarrow> crdResource list \<Rightarrow> crdResource list" where
  "filter_kinds kindList resources =
     (if kindList \<noteq> [] then filter (\<lambda>r. cr_Kind r \<in> set kindList) resources else resources)"

record gen_flags =
  gf_crdDir :: string
  gf_typesDir :: string
  gf_title :: string
  gf_version :: string
  gf_kinds :: string

text \<open>
  The document that \<open>main\<close> marshals; an error ends the program, and \<open>None\<close> is a walk of the
  types that does not return.
\<close>

definition generate :: "gen_io \<Rightarrow> gen_flags \<Rightarrow> (failure + entries) option" where
  "generate io fl =
     (let kindList = kind_list (gf_kinds fl)
      in case (if gf_typesDir fl \<noteq> [] then buildHiddenPaths (gi_ParseDir io) (gf_typesDir fl) kindList
               else Some (Inr (\<lambda>k. None))) of
          None \<Rightarrow> None
        | Some (Inl e) \<Rightarrow> Some (Inl (Failed e))
        | Some (Inr hiddenByKind) \<Rightarrow> (case loadCRDs io (gf_crdDir fl) of
            Inl e \<Rightarrow> Some (Inl e)
          | Inr resources \<Rightarrow> Some (Inr (buildOpenAPISpec (filter_kinds kindList resources) hiddenByKind
              (gf_title fl) (gf_version fl)))))"

end
