(* ===== verification/HiddenPaths.thy ===== *)
theory HiddenPaths
  imports GoTypes
begin

text \<open>
  What \<open>walkStructFields\<close> finds, and when it returns. The paths that a list of fields hides are the
  relation \<open>tagged\<close>; a list of fields leads to the fields of the struct types that the walk enters,
  and the walk returns if and only if no list on its way leads back to itself.
\<close>

section \<open>The hidden paths of a list of fields\<close>

definition field_named :: "field \<Rightarrow> string \<Rightarrow> bool" where
  "field_named f n \<longleftrightarrow> (\<exists>raw. fst f = Some raw \<and> n = jsonFieldName (trim_ticks raw) \<and> n \<noteq> [] \<and> n \<noteq> ''-'')"

definition field_marked :: "field \<Rightarrow> bool" where
  "field_marked f \<longleftrightarrow> (\<exists>raw. fst f = Some raw \<and> tag_lookup (trim_ticks raw) ''openapi'' = Some ''hidden'')"

definition field_struct :: "(string \<rightharpoonup> struct_type) \<Rightarrow> field \<Rightarrow> field list \<Rightarrow> bool" where
  "field_struct tm f nested \<longleftrightarrow> resolveTypeName (snd f) \<noteq> [] \<and> tm (resolveTypeName (snd f)) = Some (Some nested)"

inductive tagged :: "(string \<rightharpoonup> struct_type) \<Rightarrow> field list \<Rightarrow> string \<Rightarrow> string \<Rightarrow> bool" for tm where
  here: "f \<in> set fs \<Longrightarrow> field_named f n \<Longrightarrow> field_marked f \<Longrightarrow> tagged tm fs pre (pre @ ''.'' @ n)"
| inside: "f \<in> set fs \<Longrightarrow> field_named f n \<Longrightarrow> \<not> field_marked f \<Longrightarrow> field_struct tm f nested \<Longrightarrow>
    tagged tm nested (pre @ ''.'' @ n) p \<Longrightarrow> tagged tm fs pre p"

lemma tagged_iff: "tagged tm fs pre p \<longleftrightarrow> (\<exists>f\<in>set fs. \<exists>n. field_named f n \<and>
    (if field_marked f then p = pre @ ''.'' @ n
     else \<exists>nested. field_struct tm f nested \<and> tagged tm nested (pre @ ''.'' @ n) p))" (is "_ \<longleftrightarrow> ?r")
proof
  show "tagged tm fs pre p \<Longrightarrow> ?r" by (erule tagged.cases) fastforce+
next
  assume ?r
  then obtain f n where f: "f \<in> set fs" "field_named f n" "if field_marked f then p = pre @ ''.'' @ n
     else \<exists>nested. field_struct tm f nested \<and> tagged tm nested (pre @ ''.'' @ n) p" by blast
  show "tagged tm fs pre p"
  proof (cases "field_marked f")
    case True
    with f(3) show ?thesis using tagged.here[OF f(1,2), of tm pre] by simp
  next
    case False
    with f(3) show ?thesis using tagged.inside[OF f(1,2), of tm _ pre p] by auto
  qed
qed

definition leads :: "(string \<rightharpoonup> struct_type) \<Rightarrow> field list \<Rightarrow> field list \<Rightarrow> bool" where
  "leads tm fs nested \<longleftrightarrow> (\<exists>f\<in>set fs. (\<exists>n. field_named f n) \<and> \<not> field_marked f \<and> field_struct tm f nested)"

lemma visit_cases:
  obtains (Skip) "visit_field tm pre f = Skip" "\<And>n nested. field_named f n \<Longrightarrow> \<not> field_marked f \<and> \<not> field_struct tm f nested"
  | (Hide) n where "visit_field tm pre f = Hide (pre @ ''.'' @ n)" "\<And>m. field_named f m \<longleftrightarrow> m = n" "field_marked f"
  | (Empty) n where "visit_field tm pre f = Into (pre @ ''.'' @ n) None" "\<not> field_marked f"
      "\<And>nested. \<not> field_struct tm f nested"
  | (Into) n nested where "visit_field tm pre f = Into (pre @ ''.'' @ n) (Some nested)" "\<not> field_marked f"
      "\<And>m. field_named f m \<longleftrightarrow> m = n" "\<And>g. field_struct tm f g \<longleftrightarrow> g = nested"
proof (cases "fst f")
  case None
  with Skip show thesis by (simp add: visit_field_def field_named_def)
next
  case (Some raw)
  show thesis
  proof (cases "jsonFieldName (trim_ticks raw) \<in> {[], ''-''}")
    case True
    with Some Skip show thesis by (auto simp: visit_field_def field_named_def)
  next
    case False
    with Some have named: "field_named f m \<longleftrightarrow> m = jsonFieldName (trim_ticks raw)" for m by (auto simp: field_named_def)
    show thesis
    proof (cases "field_marked f")
      case True
      with Some False Hide[of "jsonFieldName (trim_ticks raw)"] named show thesis
        by (simp add: visit_field_def field_marked_def)
    next
      case unmarked: False
      then have v: "visit_field tm pre f = (if resolveTypeName (snd f) \<noteq> []
          then (case tm (resolveTypeName (snd f)) of Some st \<Rightarrow> Into (pre @ ''.'' @ jsonFieldName (trim_ticks raw)) st | None \<Rightarrow> Skip)
          else Skip)"
        using Some False by (auto simp: visit_field_def field_marked_def split: option.split)
      consider "resolveTypeName (snd f) = [] \<or> tm (resolveTypeName (snd f)) = None"
        | "resolveTypeName (snd f) \<noteq> []" "tm (resolveTypeName (snd f)) = Some None"
        | nested where "resolveTypeName (snd f) \<noteq> []" "tm (resolveTypeName (snd f)) = Some (Some nested)" by fastforce
      then show thesis
      proof cases
        case 1
        then have "visit_field tm pre f = Skip" "\<not> field_struct tm f g" for g using v by (auto simp: field_struct_def)
        with Skip unmarked show thesis by blast
      next
        case 2
        with v have "visit_field tm pre f = Into (pre @ ''.'' @ jsonFieldName (trim_ticks raw)) None" by simp
        moreover have "\<not> field_struct tm f g" for g using 2 by (simp add: field_struct_def)
        ultimately show thesis using Empty unmarked by blast
      next
        case 3
        with v have "visit_field tm pre f = Into (pre @ ''.'' @ jsonFieldName (trim_ticks raw)) (Some nested)" by simp
        moreover have "field_struct tm f g \<longleftrightarrow> g = nested" for g using 3 by (auto simp: field_struct_def)
        ultimately show thesis using Into unmarked named by blast
      qed
    qed
  qed
qed

text \<open>The step of the loop, for the paths and for the way of the walk.\<close>

lemma tagged_Nil: "\<not> tagged tm [] pre p"
  by (subst tagged_iff) simp

lemma tagged_Cons: "tagged tm (f # fs) pre p \<longleftrightarrow> tagged tm [f] pre p \<or> tagged tm fs pre p"
  by (simp add: tagged_iff[of tm "f # fs"] tagged_iff[of tm "[f]"] tagged_iff[of tm fs])

lemma tagged_one: "tagged tm [f] pre p \<longleftrightarrow> (\<exists>n. field_named f n \<and>
    (if field_marked f then p = pre @ ''.'' @ n else \<exists>nested. field_struct tm f nested \<and> tagged tm nested (pre @ ''.'' @ n) p))"
  by (simp add: tagged_iff[of tm "[f]"])

lemma leads_Cons: "leads tm (f # fs) g \<longleftrightarrow> leads tm [f] g \<or> leads tm fs g"
  by (auto simp: leads_def)

abbreviation returns :: "(string \<rightharpoonup> struct_type) \<Rightarrow> field list \<Rightarrow> bool" where
  "returns tm \<equiv> Wellfounded.accp (\<lambda>g f. leads tm f g)"

lemma returns_iff: "returns tm fs \<longleftrightarrow> (\<forall>g. leads tm fs g \<longrightarrow> returns tm g)"
  by (auto intro: accp.accI elim: accp_downward)

lemma returns_Cons: "returns tm (f # fs) \<longleftrightarrow> returns tm [f] \<and> returns tm fs"
  by (subst (1 2 3) returns_iff) (auto simp: leads_Cons[of tm f fs])

lemma walk_sound:
  assumes "walk_fields tm fs pre h = Some r"
  shows "returns tm fs \<and> set r = set h \<union> {p. tagged tm fs pre p}"
proof (rule walk_fields.raw_induct[where P = "\<lambda>tm fs pre h r. returns tm fs \<and> set r = set h \<union> {p. tagged tm fs pre p}", OF _ assms])
  fix walk tm fs pre h r
  assume IH: "\<And>tm fs pre h r. walk tm fs pre h = Some r \<Longrightarrow> returns tm fs \<and> set r = set h \<union> {p. tagged tm fs pre p}"
    and eq: "(case fs of [] \<Rightarrow> Some h
      | fld # rest \<Rightarrow> (case visit_field tm pre fld of
          Skip \<Rightarrow> walk tm rest pre h
        | Hide p \<Rightarrow> walk tm rest pre (List.insert p h)
        | Into p nestedSt \<Rightarrow> (case nestedSt of
            None \<Rightarrow> walk tm rest pre h
          | Some nested \<Rightarrow> Option.bind (walk tm nested p h) (walk tm rest pre)))) = Some r"
  show "returns tm fs \<and> set r = set h \<union> {p. tagged tm fs pre p}"
  proof (cases fs)
    case Nil
    with eq show ?thesis by (subst returns_iff) (auto simp: leads_def tagged_Nil)
  next
    case (Cons f rest)
    note split = returns_Cons[of tm f rest] tagged_Cons[of tm f rest]
    show ?thesis
    proof (cases rule: visit_cases[of tm pre f])
      case Skip
      then have "\<not> leads tm [f] g" "\<not> tagged tm [f] pre p" for g p by (auto simp: leads_def tagged_one)
      moreover have "walk tm rest pre h = Some r" using eq Cons Skip(1) by simp
      ultimately show ?thesis unfolding Cons split using IH[of tm rest pre h r] by (subst returns_iff) auto
    next
      case (Hide n)
      then have "\<not> leads tm [f] g" "tagged tm [f] pre p \<longleftrightarrow> p = pre @ ''.'' @ n" for g p by (auto simp: leads_def tagged_one)
      moreover have "walk tm rest pre (List.insert (pre @ ''.'' @ n) h) = Some r" using eq Cons Hide(1) by simp
      ultimately show ?thesis unfolding Cons split using IH[of tm rest pre "List.insert (pre @ ''.'' @ n) h" r]
        by (subst returns_iff) auto
    next
      case (Empty n)
      then have "\<not> leads tm [f] g" "\<not> tagged tm [f] pre p" for g p by (auto simp: leads_def tagged_one)
      moreover have "walk tm rest pre h = Some r" using eq Cons Empty(1) by simp
      ultimately show ?thesis unfolding Cons split using IH[of tm rest pre h r] by (subst returns_iff) auto
    next
      case (Into n nested)
      then have one: "leads tm [f] g \<longleftrightarrow> g = nested"
        "tagged tm [f] pre p \<longleftrightarrow> tagged tm nested (pre @ ''.'' @ n) p" for g p by (auto simp: leads_def tagged_one)
      from eq Cons Into(1) obtain h1 where h1: "walk tm nested (pre @ ''.'' @ n) h = Some h1" "walk tm rest pre h1 = Some r"
        by (auto split: bind_splits)
      show ?thesis unfolding Cons split using IH[OF h1(1)] IH[OF h1(2)] one by (subst returns_iff) auto
    qed
  qed
qed

lemma walk_complete: "returns tm fs \<Longrightarrow> \<exists>r. walk_fields tm fs pre h = Some r"
proof (induction fs arbitrary: pre h rule: accp_induct_rule)
  case (1 fs)
  have "\<exists>r. walk_fields tm gs pre h = Some r" if "set gs \<subseteq> set fs" for gs h
    using that
  proof (induction gs arbitrary: h)
    case Nil
    show ?case by (simp add: walk_fields.simps)
  next
    case (Cons f gs)
    then have ih: "\<exists>r. walk_fields tm gs pre h = Some r" for h by simp
    show ?case
    proof (cases rule: visit_cases[of tm pre f])
      case (Into n nested)
      with Cons.prems have "leads tm fs nested" by (auto simp: leads_def)
      with 1(2) obtain h1 where "walk_fields tm nested (pre @ ''.'' @ n) h = Some h1" by blast
      with ih[of h1] Into(1) show ?thesis by (subst walk_fields.simps) simp
    qed (use ih in \<open>subst walk_fields.simps; simp\<close>)+
  qed
  then show ?case by blast
qed

section \<open>When the walk returns\<close>

lemma returns_no_cycle: "returns tm fs \<Longrightarrow> \<not> (leads tm)\<^sup>+\<^sup>+ fs fs"
proof (induction rule: accp_induct_rule)
  case (1 fs)
  show ?case
  proof
    assume "(leads tm)\<^sup>+\<^sup>+ fs fs"
    then obtain g where g: "leads tm fs g" "(leads tm)\<^sup>*\<^sup>* g fs" by (meson tranclpD)
    then have "(leads tm)\<^sup>+\<^sup>+ g g" by simp
    with 1(2) g(1) show False by blast
  qed
qed

lemma returns_reach: "(leads tm)\<^sup>*\<^sup>* fs g \<Longrightarrow> returns tm fs \<Longrightarrow> returns tm g"
  by (induction rule: rtranclp_induct) (blast intro: accp_downward)+

lemma leads_range: "leads tm f g \<Longrightarrow> g \<in> {g. \<exists>k. tm k = Some (Some g)}"
  by (auto simp: leads_def field_struct_def)

lemma structs_finite: "finite (dom tm) \<Longrightarrow> finite {g. \<exists>k. tm k = Some (Some g)}"
proof -
  assume "finite (dom tm)"
  then have "finite (ran tm)" by (rule finite_ran)
  then have "finite (the ` (ran tm - {None}))" by blast
  then show ?thesis by (rule rev_finite_subset) (force simp: ran_def)
qed

text \<open>On the lists that can be reached, the relation is finite, so that no cycle means an end.\<close>

lemma acyclic_returns:
  assumes "finite (dom tm)" and "\<And>g. (leads tm)\<^sup>*\<^sup>* fs g \<Longrightarrow> \<not> (leads tm)\<^sup>+\<^sup>+ g g"
  shows "returns tm fs"
proof -
  let ?S = "insert fs {g. \<exists>k. tm k = Some (Some g)}"
  define R where "R = {(g, f). leads tm f g \<and> (leads tm)\<^sup>*\<^sup>* fs f}"
  have "f \<in> ?S" if "(leads tm)\<^sup>*\<^sup>* fs f" for f
    using that by (cases rule: rtranclp.cases) (auto dest: leads_range)
  then have "R \<subseteq> ?S \<times> ?S" using leads_range by (fastforce simp: R_def)
  then have fin: "finite R" using structs_finite[OF assms(1)] by (auto intro: finite_subset)
  have chain: "(g, f) \<in> R\<^sup>+ \<Longrightarrow> (leads tm)\<^sup>+\<^sup>+ f g \<and> (leads tm)\<^sup>*\<^sup>* fs f" for f g
    by (induction rule: trancl_induct) (auto simp: R_def)
  then have "acyclic R" using assms(2) by (auto simp: acyclic_def)
  with fin have "wf R" by (rule finite_acyclic_wf)
  then have "(leads tm)\<^sup>*\<^sup>* fs f \<longrightarrow> returns tm f" for f
  proof (induction f rule: wf_induct_rule)
    case (less f)
    show ?case
    proof
      assume f: "(leads tm)\<^sup>*\<^sup>* fs f"
      have "returns tm g" if "leads tm f g" for g
        using that less f by (auto simp: R_def intro: rtranclp.rtrancl_into_rtrancl)
      then show "returns tm f" by (subst returns_iff) blast
    qed
  qed
  then show ?thesis by blast
qed

lemma walk_returns_iff:
  assumes "finite (dom tm)"
  shows "(\<exists>r. walk_fields tm fs pre h = Some r) \<longleftrightarrow> (\<nexists>g. (leads tm)\<^sup>*\<^sup>* fs g \<and> (leads tm)\<^sup>+\<^sup>+ g g)"
proof
  assume "\<exists>r. walk_fields tm fs pre h = Some r"
  then have "returns tm fs" using walk_sound by blast
  then show "\<nexists>g. (leads tm)\<^sup>*\<^sup>* fs g \<and> (leads tm)\<^sup>+\<^sup>+ g g" using returns_reach returns_no_cycle by blast
next
  assume "\<nexists>g. (leads tm)\<^sup>*\<^sup>* fs g \<and> (leads tm)\<^sup>+\<^sup>+ g g"
  then have "returns tm fs" by (intro acyclic_returns[OF assms]) blast
  then show "\<exists>r. walk_fields tm fs pre h = Some r" by (rule walk_complete)
qed

section \<open>The hidden paths of the kinds\<close>

lemma type_map_finite: "finite (dom (type_map pkgs))"
  by (simp add: type_map_def finite_dom_map_of)

definition tagged_kind :: "(string \<rightharpoonup> struct_type) \<Rightarrow> string \<Rightarrow> string \<Rightarrow> bool" where
  "tagged_kind tm kind p \<longleftrightarrow>
     (\<exists>fs. tm (kind @ ''Spec'') = Some (Some fs) \<and> tagged tm fs ''spec'' p) \<or>
     (\<exists>fs. tm (kind @ ''Status'') = Some (Some fs) \<and> tagged tm fs ''status'' p)"

lemma walkStruct_set: "walkStructFields st pre tm h = Some r \<Longrightarrow>
    set r = set h \<union> {p. \<exists>fs. st = Some fs \<and> tagged tm fs pre p}"
  by (auto simp: walkStructFields_def dest: walk_sound split: option.splits)

lemma kind_hidden_set:
  assumes "kind_hidden tm kind = Some h"
  shows "set h = {p. tagged_kind tm kind p}"
proof -
  from assms obtain h1 where h1: "(case tm (kind @ ''Spec'') of Some st \<Rightarrow> walkStructFields st ''spec'' tm [] | None \<Rightarrow> Some []) = Some h1"
    "(case tm (kind @ ''Status'') of Some st \<Rightarrow> walkStructFields st ''status'' tm h1 | None \<Rightarrow> Some h1) = Some h"
    by (auto simp: kind_hidden_def split: bind_splits)
  from h1(1) have "set h1 = {p. \<exists>fs. tm (kind @ ''Spec'') = Some (Some fs) \<and> tagged tm fs ''spec'' p}"
    by (auto dest: walkStruct_set split: option.splits)
  with h1(2) show ?thesis
    by (auto simp: tagged_kind_def dest: walkStruct_set split: option.splits)
qed

definition hidden_paths :: "(string \<rightharpoonup> string list) \<Rightarrow> string \<Rightarrow> string set" where
  "hidden_paths result kind = (case result kind of Some h \<Rightarrow> set h | None \<Rightarrow> {})"

text \<open>A kind has its tagged paths when it is among the kinds, and what it had before otherwise.\<close>

lemma hidden_by_kind_set:
  "hidden_by_kind tm kinds start = Some result \<Longrightarrow>
    (\<forall>k\<in>set kinds. hidden_paths start k = {} \<or> hidden_paths start k = {p. tagged_kind tm k p}) \<Longrightarrow>
    hidden_paths result k = (if k \<in> set kinds then {p. tagged_kind tm k p} else hidden_paths start k)"
proof (induction kinds arbitrary: start)
  case (Cons kind kinds)
  then obtain h where h: "kind_hidden tm kind = Some h"
    "hidden_by_kind tm kinds (if h = [] then start else start(kind \<mapsto> h)) = Some result"
    by (auto split: bind_splits)
  let ?s = "if h = [] then start else start(kind \<mapsto> h)"
  note set = kind_hidden_set[OF h(1)]
  have s: "hidden_paths ?s x = (if x = kind \<and> h \<noteq> [] then {p. tagged_kind tm kind p} else hidden_paths start x)" for x
    using set by (auto simp: hidden_paths_def)
  have "\<forall>k\<in>set kinds. hidden_paths ?s k = {} \<or> hidden_paths ?s k = {p. tagged_kind tm k p}"
    using Cons.prems(2) by (auto simp: s)
  note ih = Cons.IH[OF h(2) this]
  show ?case
  proof (cases "k \<in> set kinds \<or> k \<noteq> kind \<or> h \<noteq> []")
    case True
    with ih show ?thesis by (auto simp: s)
  next
    case False
    with set Cons.prems(2) have "hidden_paths start k = {}" "{p. tagged_kind tm k p} = {}" by auto
    with False ih show ?thesis by (simp add: s)
  qed
qed simp

end
