(* ===== verification/SchemaFacts.thy ===== *)
theory SchemaFacts
  imports OpenApiGen HiddenPaths
begin

text \<open>
  What a schema describes: the paths of property names through \<open>properties\<close>, with array items and
  the values of maps standing at the path of their container. The lemmas say what cleaning
  does to these paths and to the required names, and what a document of the generator holds.
\<close>

section \<open>The paths of a schema\<close>

inductive describes :: "entries \<Rightarrow> string list \<Rightarrow> bool" where
  property: "(''properties'', JObj ps) \<in> set m \<Longrightarrow> (k, v) \<in> set ps \<Longrightarrow> describes m [k]"
| below: "(''properties'', JObj ps) \<in> set m \<Longrightarrow> (k, JObj pm) \<in> set ps \<Longrightarrow> describes pm q \<Longrightarrow> describes m (k # q)"
| through: "n \<in> {''items'', ''additionalProperties''} \<Longrightarrow> (n, JObj s) \<in> set m \<Longrightarrow> describes s q \<Longrightarrow> describes m q"

text \<open>No path on the way down is hidden.\<close>

fun visible :: "string list option \<Rightarrow> string \<Rightarrow> string list \<Rightarrow> bool" where
  "visible h c [] = True"
| "visible h c (k # q) = (\<not> is_hidden h (sub_path c k) \<and> visible h (sub_path c k) q)"

lemma visible_iff: "visible h c q \<longleftrightarrow> (\<forall>n<length q. \<not> is_hidden h (foldl sub_path c (take (Suc n) q)))"
  by (induction q arbitrary: c) (simp_all add: All_less_Suc2)

section \<open>Cleaning\<close>

lemma cleaned_entry: "(k, x) \<in> set (cleanSchema m h c) \<longleftrightarrow> (\<exists>v. (k, v) \<in> set m \<and> clean_entry k v h c = Some x)"
  by (induction m) (auto simp del: clean_entry.simps split: option.splits)

lemma cleaned_prop: "(k, x) \<in> set (clean_props ps h c) \<longleftrightarrow>
    (\<exists>v. (k, v) \<in> set ps \<and> \<not> is_hidden h (sub_path c k) \<and> x = clean_value v h (sub_path c k))"
  by (induction ps) (auto split: if_splits)

lemma cleaned_object: "clean_value v h c = JObj y \<longleftrightarrow> (\<exists>pm. v = JObj pm \<and> y = cleanSchema pm h c)"
  by (cases v) auto

lemma cleaned_properties: "(''properties'', JObj y) \<in> set (cleanSchema m h c) \<longleftrightarrow>
    (\<exists>ps. (''properties'', JObj ps) \<in> set m \<and> y = clean_props ps h c)"
proof -
  have "clean_entry ''properties'' v h c = Some (JObj y) \<longleftrightarrow> (\<exists>ps. v = JObj ps \<and> y = clean_props ps h c)" for v
    by (cases v) auto
  then show ?thesis by (auto simp: cleaned_entry simp del: clean_entry.simps)
qed

lemma cleaned_nested: "n \<in> {''items'', ''additionalProperties''} \<Longrightarrow> (n, JObj y) \<in> set (cleanSchema m h c) \<longleftrightarrow>
    (\<exists>s. (n, JObj s) \<in> set m \<and> y = cleanSchema s h c)"
proof -
  assume "n \<in> {''items'', ''additionalProperties''}"
  then have "clean_entry n v h c = Some (JObj y) \<longleftrightarrow> (\<exists>s. v = JObj s \<and> y = cleanSchema s h c)" for v
    by (elim insertE emptyE; cases v) auto
  then show ?thesis by (auto simp: cleaned_entry simp del: clean_entry.simps)
qed

lemma describes_cleaned: "describes m q \<Longrightarrow> visible h c q \<Longrightarrow> describes (cleanSchema m h c) q"
proof (induction arbitrary: c rule: describes.induct)
  case (property ps m k v)
  then have "(''properties'', JObj (clean_props ps h c)) \<in> set (cleanSchema m h c)" by (auto simp: cleaned_properties)
  moreover have "(k, clean_value v h (sub_path c k)) \<in> set (clean_props ps h c)" using property by (auto simp: cleaned_prop)
  ultimately show ?case by (rule describes.property)
next
  case (below ps m k pm q)
  then have "(''properties'', JObj (clean_props ps h c)) \<in> set (cleanSchema m h c)" by (auto simp: cleaned_properties)
  moreover have "(k, JObj (cleanSchema pm h (sub_path c k))) \<in> set (clean_props ps h c)" using below by (force simp: cleaned_prop)
  moreover have "describes (cleanSchema pm h (sub_path c k)) q" using below by simp
  ultimately show ?case by (rule describes.below)
next
  case (through n s m q)
  then have "(n, JObj (cleanSchema s h c)) \<in> set (cleanSchema m h c)" using cleaned_nested by blast
  with through show ?case by (blast intro: describes.through)
qed

lemma cleaned_describes: "describes y q \<Longrightarrow> y = cleanSchema m h c \<Longrightarrow> describes m q \<and> visible h c q"
proof (induction arbitrary: m c rule: describes.induct)
  case (property ys y k x)
  then obtain ps where "(''properties'', JObj ps) \<in> set m" "ys = clean_props ps h c" by (auto simp: cleaned_properties)
  with property show ?case by (auto simp: cleaned_prop intro: describes.property)
next
  case (below ys y k pm q)
  then obtain ps where ps: "(''properties'', JObj ps) \<in> set m" "ys = clean_props ps h c" by (auto simp: cleaned_properties)
  with below(2) obtain v where v: "(k, v) \<in> set ps" "\<not> is_hidden h (sub_path c k)" "JObj pm = clean_value v h (sub_path c k)"
    by (auto simp: cleaned_prop)
  then obtain s where s: "v = JObj s" "pm = cleanSchema s h (sub_path c k)" by (metis cleaned_object)
  with below.IH[OF s(2)] v ps show ?case by (auto intro: describes.below)
next
  case (through n y' y q)
  then obtain s where s: "(n, JObj s) \<in> set m" "y' = cleanSchema s h c" by (auto simp: cleaned_nested)
  with through.IH[OF s(2)] through(1) show ?case by (auto intro: describes.through)
qed

lemma describes_cleanSchema: "describes (cleanSchema m h c) q \<longleftrightarrow> describes m q \<and> visible h c q"
  using describes_cleaned cleaned_describes by blast

section \<open>Required names\<close>

text \<open>The schemas within a schema, and those whose required names are all properties.\<close>

inductive within :: "entries \<Rightarrow> entries \<Rightarrow> bool" where
  same: "within m m"
| property: "(''properties'', JObj ps) \<in> set m \<Longrightarrow> (k, JObj pm) \<in> set ps \<Longrightarrow> within pm s \<Longrightarrow> within m s"
| nested: "n \<in> {''items'', ''additionalProperties''} \<Longrightarrow> (n, JObj x) \<in> set m \<Longrightarrow> within x s \<Longrightarrow> within m s"

definition requires_known :: "entries \<Rightarrow> bool" where
  "requires_known m \<longleftrightarrow> (\<forall>req r. (''required'', JArr req) \<in> set m \<longrightarrow> r \<in> set req \<longrightarrow>
     (\<exists>ps. (''properties'', JObj ps) \<in> set m \<and> text_of (Some r) \<in> fst ` set ps))"

definition consistent :: "entries \<Rightarrow> bool" where
  "consistent m \<longleftrightarrow> (\<forall>s. within m s \<longrightarrow> requires_known s)"

lemma within_iff: "within m s \<longleftrightarrow> s = m \<or>
    (\<exists>ps k pm. (''properties'', JObj ps) \<in> set m \<and> (k, JObj pm) \<in> set ps \<and> within pm s) \<or>
    (\<exists>n x. n \<in> {''items'', ''additionalProperties''} \<and> (n, JObj x) \<in> set m \<and> within x s)"
  by (rule iffI, erule within.cases) (blast intro: within.intros)+

lemma within_cleaned: "within y s' \<Longrightarrow> y = cleanSchema m h c \<Longrightarrow> \<exists>s c'. within m s \<and> s' = cleanSchema s h c'"
proof (induction arbitrary: m c rule: within.induct)
  case (same y)
  then show ?case by (blast intro: within.same)
next
  case (property ys y k pm s')
  then obtain ps where ps: "(''properties'', JObj ps) \<in> set m" "ys = clean_props ps h c" by (auto simp: cleaned_properties)
  with property(2) obtain v where v: "(k, v) \<in> set ps" "JObj pm = clean_value v h (sub_path c k)" by (auto simp: cleaned_prop)
  then obtain x where x: "v = JObj x" "pm = cleanSchema x h (sub_path c k)" by (metis cleaned_object)
  with property.IH[OF x(2)] v ps show ?case by (blast intro: within.property)
next
  case (nested n y' y s')
  then obtain x where x: "(n, JObj x) \<in> set m" "y' = cleanSchema x h c" by (auto simp: cleaned_nested)
  with nested.IH[OF x(2)] nested(1) show ?case by (blast intro: within.nested)
qed

lemma cleaned_required:
  assumes "(''required'', JArr req) \<in> set (cleanSchema m h c)" and "r \<in> set req"
  shows "\<exists>old. (''required'', JArr old) \<in> set m \<and> r \<in> set old \<and> \<not> is_hidden h (sub_path c (text_of (Some r)))"
proof -
  from assms(1) obtain v where v: "(''required'', v) \<in> set m" "clean_required h c v = Some (JArr req)"
    by (auto simp: cleaned_entry)
  then obtain old where old: "v = JArr old" by (cases v) (auto simp: clean_required_def split: if_splits)
  have "r \<in> set old \<and> \<not> is_hidden h (sub_path c (text_of (Some r)))"
    using v(2) assms(2) unfolding old by (auto simp: clean_required_def Let_def is_hidden_def split: if_splits)
  with v(1) old show ?thesis by blast
qed

lemma requires_known_cleaned: "requires_known m \<Longrightarrow> requires_known (cleanSchema m h c)"
proof -
  assume m: "requires_known m"
  show ?thesis unfolding requires_known_def
  proof (intro allI impI)
    fix req r
    assume "(''required'', JArr req) \<in> set (cleanSchema m h c)" "r \<in> set req"
    from cleaned_required[OF this] m obtain ps where ps: "(''properties'', JObj ps) \<in> set m"
      "text_of (Some r) \<in> fst ` set ps" "\<not> is_hidden h (sub_path c (text_of (Some r)))"
      unfolding requires_known_def by blast
    then obtain v where "(text_of (Some r), v) \<in> set ps" by force
    with ps(3) have "(text_of (Some r), clean_value v h (sub_path c (text_of (Some r)))) \<in> set (clean_props ps h c)"
      by (auto simp: cleaned_prop)
    then have "text_of (Some r) \<in> fst ` set (clean_props ps h c)" by force
    with ps(1) show "\<exists>ps. (''properties'', JObj ps) \<in> set (cleanSchema m h c) \<and> text_of (Some r) \<in> fst ` set ps"
      by (auto simp: cleaned_properties)
  qed
qed

section \<open>The schema of a resource\<close>

text \<open>What a value of a property describes: itself, and the paths of its schema.\<close>

definition reaches :: "json \<Rightarrow> string list \<Rightarrow> bool" where
  "reaches v r \<longleftrightarrow> r = [] \<or> (\<exists>pm. v = JObj pm \<and> describes pm r)"

lemma describes_iff: "describes m q \<longleftrightarrow>
    (\<exists>ps k v r. (''properties'', JObj ps) \<in> set m \<and> q = k # r \<and> (k, v) \<in> set ps \<and> reaches v r) \<or>
    (\<exists>n s. n \<in> {''items'', ''additionalProperties''} \<and> (n, JObj s) \<in> set m \<and> describes s q)"
  unfolding reaches_def by (rule iffI, erule describes.cases) (blast intro: describes.intros)+

lemma reaches_cleaned: "reaches (clean_value v h k) r \<longleftrightarrow> reaches v r \<and> visible h k r"
  by (cases r) (auto simp: reaches_def cleaned_object describes_cleanSchema)

lemma reaches_ref: "reaches (schema_ref n) r \<longleftrightarrow> r = []"
  unfolding reaches_def schema_ref_def by (subst describes_iff) auto

definition source_props :: "crdResource \<Rightarrow> entries" where
  "source_props res = mustMap (cr_Schema res) ''properties''"

lemma resource_props: "(''properties'', JObj x) \<in> set (buildResourceSchema res h) \<longleftrightarrow>
    x = maps_Copy [(''metadata'', schema_ref ''ObjectMeta'')] (map (\<lambda>(pk, pv). (pk, clean_value pv h pk)) (source_props res))"
  by (auto simp: buildResourceSchema_def source_props_def mustMap_def maps_Copy_def Let_def described_def
      split: option.splits json.splits)

lemma resource_nested: "n \<in> {''items'', ''additionalProperties''} \<Longrightarrow> (n, JObj x) \<notin> set (buildResourceSchema res h)"
  by (auto simp: buildResourceSchema_def Let_def described_def split: option.splits json.splits)

text \<open>The metadata, which every object has, and the paths of the source that are not hidden.\<close>

definition source_describes :: "crdResource \<Rightarrow> string list \<Rightarrow> bool" where
  "source_describes res q \<longleftrightarrow> (\<exists>v. q \<noteq> [] \<and> (hd q, v) \<in> set (source_props res) \<and> reaches v (tl q))"

lemma in_maps_Copy: "(k, v) \<in> set (maps_Copy dst src) \<longleftrightarrow> (k, v) \<in> set src \<or> ((k, v) \<in> set dst \<and> k \<notin> fst ` set src)"
  by (auto simp: maps_Copy_def)

lemma describes_resource: "describes (buildResourceSchema res h) q \<longleftrightarrow>
    q = [''metadata''] \<or> (source_describes res q \<and> visible h (hd q) (tl q))"
proof (cases q)
  case Nil
  then show ?thesis by (subst describes_iff) (auto simp: resource_nested source_describes_def)
next
  case (Cons k r)
  let ?src = "map (\<lambda>(pk, pv). (pk, clean_value pv h pk)) (source_props res)"
  have nest: "\<not> (\<exists>n s. n \<in> {''items'', ''additionalProperties''} \<and> (n, JObj s) \<in> set (buildResourceSchema res h) \<and> describes s q)"
    using resource_nested by blast
  have src: "(k, v) \<in> set ?src \<longleftrightarrow> (\<exists>u. (k, u) \<in> set (source_props res) \<and> v = clean_value u h k)" for v by force
  have keys: "k \<notin> fst ` set ?src \<longleftrightarrow> (\<forall>v. (k, v) \<notin> set (source_props res))" by force
  have "describes (buildResourceSchema res h) q \<longleftrightarrow>
      (\<exists>v. (k, v) \<in> set (maps_Copy [(''metadata'', schema_ref ''ObjectMeta'')] ?src) \<and> reaches v r)"
    using nest by (subst describes_iff) (simp add: resource_props Cons del: insert_iff, blast)
  also have "\<dots> \<longleftrightarrow> (\<exists>u. (k, u) \<in> set (source_props res) \<and> reaches (clean_value u h k) r) \<or>
      (k = ''metadata'' \<and> (\<forall>v. (k, v) \<notin> set (source_props res)) \<and> reaches (schema_ref ''ObjectMeta'') r)"
    unfolding in_maps_Copy src keys by (simp only: list.set insert_iff empty_iff prod.inject) blast
  also have "\<dots> \<longleftrightarrow> (\<exists>u. (k, u) \<in> set (source_props res) \<and> reaches u r) \<and> visible h k r \<or>
      (k = ''metadata'' \<and> (\<forall>v. (k, v) \<notin> set (source_props res)) \<and> r = [])"
    by (simp only: reaches_cleaned reaches_ref) blast
  also have "\<dots> \<longleftrightarrow> q = [''metadata''] \<or> (source_describes res q \<and> visible h (hd q) (tl q))"
    by (auto simp: Cons source_describes_def) (auto simp: reaches_def)
  finally show ?thesis .
qed

section \<open>The schemas of a document\<close>

lemma reaches_flat: "\<forall>(k, v)\<in>set m. \<forall>x. v \<noteq> JObj x \<Longrightarrow> reaches (JObj m) r \<longleftrightarrow> r = []"
  unfolding reaches_def by (subst describes_iff) fastforce

lemma reaches_no_object: "\<forall>x. v \<noteq> JObj x \<Longrightarrow> reaches v r \<longleftrightarrow> r = []"
  by (auto simp: reaches_def)

lemma reaches_string: "\<forall>(k, v)\<in>set attrs. \<forall>x. v \<noteq> JObj x \<Longrightarrow> reaches (string_schema attrs) r \<longleftrightarrow> r = []"
  unfolding string_schema_def by (rule reaches_flat) auto

lemma condition_flat: "conditionSchema = JObj m \<Longrightarrow> describes m q \<Longrightarrow> tl q = []"
  by (subst (asm) describes_iff) (auto simp: conditionSchema_def described_def reaches_string reaches_flat)

lemma metadata_flat: "metadataSchema = JObj m \<Longrightarrow> describes m q \<Longrightarrow> tl q = []"
proof -
  have map: "reaches (JObj [(''type'', JStr ''object''), (''additionalProperties'', string_schema [])]) r \<longleftrightarrow> r = []" for r
    using reaches_string[of "[]" r] unfolding reaches_def by (subst describes_iff) (auto simp: string_schema_def)
  assume "metadataSchema = JObj m" "describes m q"
  then show ?thesis
    by (subst (asm) describes_iff) (auto simp: metadataSchema_def described_def reaches_string map)
qed

lemma list_paths: "describes (buildListSchema res) q \<Longrightarrow> tl q = [] \<or> hd q = ''metadata''"
proof -
  have items: "reaches (JObj [(''type'', JStr ''array''), (''items'', schema_ref k)]) r \<longleftrightarrow> r = []" for k r
    using reaches_ref[of k r] unfolding reaches_def by (subst describes_iff) auto
  assume "describes (buildListSchema res) q"
  then show ?thesis
    by (subst (asm) describes_iff) (auto simp: buildListSchema_def described_def items)
qed

lemma in_set_key: "(k, x) \<in> set (set_key k' v m) \<Longrightarrow> (k = k' \<and> x = v) \<or> (k, x) \<in> set m"
  by (auto simp: set_key_def del_key_def)

lemma added_schemas:
  "add_resources rs hid version (S, P) = (S', P') \<Longrightarrow> (k, x) \<in> set S' \<Longrightarrow>
    (k, x) \<in> set S \<or> (\<exists>res\<in>set rs. x = JObj (buildListSchema res) \<or>
      (k = cr_Kind res \<and> x = JObj (buildResourceSchema res (hid k))))"
proof (induction rs arbitrary: S P)
  case (Cons res rs)
  from Cons.IH[OF Cons.prems(1)[simplified] Cons.prems(2)] show ?case
    by (auto dest!: in_set_key)
qed simp

definition schemas_of :: "entries \<Rightarrow> entries" where
  "schemas_of doc = mustMap (mustMap doc ''components'') ''schemas''"

definition paths_of :: "entries \<Rightarrow> entries" where
  "paths_of doc = mustMap doc ''paths''"

lemma document_parts:
  "schemas_of (buildOpenAPISpec rs hid title version) =
     fst (add_resources rs hid version ([(''ObjectMeta'', metadataSchema), (''Condition'', conditionSchema)], []))"
  "paths_of (buildOpenAPISpec rs hid title version) =
     snd (add_resources rs hid version ([(''ObjectMeta'', metadataSchema), (''Condition'', conditionSchema)], []))"
  by (auto simp: schemas_of_def paths_of_def buildOpenAPISpec_def mustMap_def split: prod.split)

text \<open>Below the top level a schema of the document describes what a resource of that kind leaves visible.\<close>

lemma document_paths:
  assumes "(kind, JObj m) \<in> set (schemas_of (buildOpenAPISpec rs hid title version))"
    and "describes m (k # q)" and "q \<noteq> []" and "k \<noteq> ''metadata''"
  shows "visible (hid kind) k q"
proof -
  obtain S P where acc: "add_resources rs hid version ([(''ObjectMeta'', metadataSchema), (''Condition'', conditionSchema)], []) = (S, P)"
    by force
  from assms(1) acc have "(kind, JObj m) \<in> set S" by (simp add: document_parts)
  from added_schemas[OF acc this] consider "JObj m = metadataSchema" | "JObj m = conditionSchema"
    | res where "m = buildListSchema res" | res where "m = buildResourceSchema res (hid kind)" by auto
  then show ?thesis
  proof cases
    case 1
    from metadata_flat[OF this[symmetric] assms(2)] assms(3) show ?thesis by simp
  next
    case 2
    from condition_flat[OF this[symmetric] assms(2)] assms(3) show ?thesis by simp
  next
    case 3
    with list_paths[of res "k # q"] assms show ?thesis by simp
  next
    case 4
    with describes_resource[of res "hid kind" "k # q"] assms show ?thesis by simp
  qed
qed

lemma tagged_prefix: "tagged tm fs pre p \<Longrightarrow> \<exists>s. p = pre @ ''.'' @ s"
  by (induction rule: tagged.induct) auto

section \<open>The properties of an extracted resource\<close>

lemma get_field_in: "get_field k m = Some v \<Longrightarrow> (k, v) \<in> set m"
  by (induction k m rule: get_field.induct) (auto split: if_splits)

lemma get_set_key: "get_field k (set_key k' v m) = (if k = k' then Some v else get_field k m)"
proof -
  have "get_field k (del_key k' m) = (if k = k' then None else get_field k m)"
    by (induction m) (auto simp: del_key_def)
  then show ?thesis by (simp add: set_key_def)
qed

lemma get_del_key: "k \<noteq> k' \<Longrightarrow> get_field k (del_key k' m) = get_field k m"
  by (induction m) (auto simp: del_key_def)

lemma dropped_props: "(case get_field ''properties'' (drop_object_keys props m) of Some (JObj v) \<Rightarrow> v | _ \<Rightarrow> []) =
    filter (\<lambda>(k, v). k \<notin> set object_keys) props"
  by (simp add: drop_object_keys_def Let_def get_set_key get_del_key split: option.split json.split)

lemma visible_nil: "visible None c q"
  by (induction q arbitrary: c) (auto simp: is_hidden_def)

text \<open>Tagged paths lie below \<open>spec\<close> and \<open>status\<close>.\<close>

lemma sub_paths_prefix: "k \<noteq> [] \<Longrightarrow> \<exists>s. foldl sub_path k q = k @ s"
proof (induction q arbitrary: k)
  case (Cons a q)
  have "sub_path k a = k @ ''.'' @ a" using Cons.prems by (simp add: sub_path_def)
  with Cons.IH[of "sub_path k a"] show ?case by auto
qed simp

lemma tagged_kind_metadata: "\<not> tagged_kind tm kind (foldl sub_path ''metadata'' q)"
  using sub_paths_prefix[of "''metadata''" q] by (auto simp: tagged_kind_def dest!: tagged_prefix)

end
