(* ===== verification/OpenApiClaims.thy ===== *)
theory OpenApiClaims
  imports SchemaFacts Mediation
begin

text \<open>
  The properties of the OpenAPI generator: the walk of the Go types returns exactly when the types
  are not recursive, the schemas of the document describe the CRD less the hidden fields,
  and the paths of the document are those that the API server serves.
\<close>

section \<open>An example: two types and a CRD in the shape of the repository's\<close>

definition demo_tag :: "string \<Rightarrow> bool \<Rightarrow> string" where
  "demo_tag name hide = CHR 0x60 # ''json:'' @ go_quote name @ (if hide then '' openapi:'' @ go_quote ''hidden'' else []) @ [CHR 0x60]"

definition demo_cluster_fields :: "field list" where
  "demo_cluster_fields = [(Some (demo_tag ''release'' False), Ident ''ReleaseSpec''),
     (Some (demo_tag ''platform'' True), Ident ''PlatformSpec''),
     (Some (demo_tag ''services,omitempty'' True), ArrayType (Ident ''Mapping''))]"

definition demo_packages :: go_packages where
  "demo_packages = [[[TypeDecl [(''ManagedHostedClusterSpec'', StructType (Some
       [(Some (demo_tag ''clusterID'' False), Ident ''string''),
        (Some (demo_tag ''hostedCluster'' False), StarExpr (Ident ''HostedClusterSpec''))]))], OtherDecl,
     TypeDecl [(''HostedClusterSpec'', StructType (Some demo_cluster_fields))]]]]"

definition demo_object :: "entries \<Rightarrow> json list \<Rightarrow> json" where
  "demo_object props req = JObj [(''type'', JStr ''object''), (''properties'', JObj props), (''required'', JArr req)]"

definition demo_crd :: entries where
  "demo_crd =
     [(''kind'', JStr ''CustomResourceDefinition''),
      (''spec'', JObj
        [(''names'', JObj [(''kind'', JStr ''ManagedHostedCluster''), (''listKind'', JStr ''ManagedHostedClusterList''),
           (''plural'', JStr ''managedhostedclusters'')]),
         (''scope'', JStr ''Namespaced''),
         (''versions'', JArr [JObj
           [(''schema'', JObj [(''openAPIV3Schema'', demo_object
              [(''kind'', string_schema []), (''metadata'', JObj [(''type'', JStr ''object'')]),
               (''spec'', demo_object
                 [(''clusterID'', string_schema []),
                  (''hostedCluster'', demo_object
                    [(''release'', string_schema []), (''platform'', string_schema []),
                     (''services'', JObj [(''type'', JStr ''array''), (''items'', string_schema [])])]
                    [JStr ''platform'', JStr ''release''])]
                 [JStr ''clusterID''])]
              [JStr ''metadata'', JStr ''spec''])]),
            (''subresources'', JObj [(''status'', JObj [])])]])])]"

definition demo_io :: gen_io where
  "demo_io = \<lparr>gi_ReadDir = (\<lambda>d. Inr [(''clusters.yaml'', False), (''old'', True)]),
     gi_ReadFile = (\<lambda>d n. Inr []), gi_Unmarshal = (\<lambda>b. Inr demo_crd), gi_ParseDir = (\<lambda>d. Inr demo_packages)\<rparr>"

definition demo_flags :: gen_flags where
  "demo_flags = \<lparr>gf_crdDir = ''crd'', gf_typesDir = ''types'', gf_title = ''API'', gf_version = ''v1alpha1'',
     gf_kinds = ''ManagedHostedCluster''\<rparr>"

declare walk_fields.simps [code]

lemma demo_kind_hidden: "kind_hidden (type_map demo_packages) ''ManagedHostedCluster'' =
    Some [''spec.hostedCluster.services'', ''spec.hostedCluster.platform'']"
  by code_simp

section \<open>The walk of the types\<close>

text \<open>C22: The walk of the types returns exactly when no list of fields that it enters leads back to
  itself: on recursive struct types the generator does not end, and otherwise it returns the
  paths that it was given together with every path that is tagged as hidden, and no other.\<close>

theorem walk_terminates:
  "((\<exists>r. walkStructFields (Some fs) pre (type_map pkgs) h = Some r) \<longleftrightarrow>
     (\<nexists>g. (leads (type_map pkgs))\<^sup>*\<^sup>* fs g \<and> (leads (type_map pkgs))\<^sup>+\<^sup>+ g g)) \<and>
   (case walkStructFields (Some fs) pre (type_map pkgs) h of
      Some r \<Rightarrow> set r = set h \<union> {p. tagged (type_map pkgs) fs pre p} | None \<Rightarrow> True)"
  using walk_returns_iff[OF type_map_finite, of pkgs fs pre h] walk_sound[of "type_map pkgs" fs pre h]
  by (auto simp: walkStructFields_def split: option.split)

section \<open>The schemas\<close>

text \<open>C19: The schema of a resource describes, apart from the metadata of every object, exactly the
  paths of the CRD's schema below the properties that are not \<open>apiVersion\<close>, \<open>kind\<close> or
  \<open>metadata\<close> for which no path on the way down is hidden.\<close>

theorem schema_exposes:
  assumes "extractResource crd = Inr res"
    and "schema = mustMap (mustMap v ''schema'') ''openAPIV3Schema''" and "distinct (map fst schema)"
    and "get_field ''versions'' (mustMap crd ''spec'') = Some (JArr (JObj v # vs))"
  shows "describes (buildResourceSchema res h) (k # q) \<longleftrightarrow> (k = ''metadata'' \<and> q = []) \<or>
    (k \<notin> set object_keys \<and> (\<exists>x. (k, x) \<in> set (mustMap schema ''properties'') \<and> reaches x q) \<and> visible h k q)"
proof -
  from assms(1,2,4) obtain props where props: "get_field ''properties'' (cleanSchema schema None []) = Some (JObj props)"
    and res: "cr_Schema res = drop_object_keys props (cleanSchema schema None [])"
    by (auto simp: extractResource_def Let_def split: option.splits json.splits)
  have src: "source_props res = filter (\<lambda>(k, v). k \<notin> set object_keys) props"
    unfolding source_props_def mustMap_def res by (rule dropped_props)
  obtain ps where ps: "(''properties'', JObj ps) \<in> set schema" "props = clean_props ps None []"
    using get_field_in[OF props] by (auto simp: cleaned_properties)
  then have "get_field ''properties'' schema = Some (JObj ps)" using get_field_Some[OF assms(3)] by blast
  then have "mustMap schema ''properties'' = ps" by (simp add: mustMap_def)
  then have "(k, x) \<in> set props \<longleftrightarrow> (\<exists>y. (k, y) \<in> set (mustMap schema ''properties'') \<and> x = clean_value y None (sub_path [] k))" for x
    by (simp add: ps(2) cleaned_prop is_hidden_def)
  then have "source_describes res (k # q) \<longleftrightarrow> k \<notin> set object_keys \<and>
      (\<exists>x. (k, x) \<in> set (mustMap schema ''properties'') \<and> reaches x q)"
    by (auto simp: source_describes_def src reaches_cleaned visible_nil)
  with describes_resource[of res h "k # q"] show ?thesis by auto
qed

definition demo_version :: entries where
  "demo_version = [(''schema'', JObj [(''openAPIV3Schema'', demo_object
     [(''kind'', string_schema []), (''spec'', demo_object [(''a'', string_schema []), (''b'', string_schema [])] [JStr ''b''])]
     [JStr ''spec''])])]"

theorem schema_exposes_witness:
  "\<exists>res. extractResource [(''spec'', JObj [(''versions'', JArr [JObj demo_version])])] = Inr res \<and>
     describes (buildResourceSchema res (Some [''spec.b''])) [''spec'', ''a''] \<and>
     \<not> describes (buildResourceSchema res (Some [''spec.b''])) [''spec'', ''b''] \<and>
     \<not> describes (buildResourceSchema res (Some [''spec.b''])) [''kind'']"
proof -
  let ?crd = "[(''spec'', JObj [(''versions'', JArr [JObj demo_version])])]"
  let ?schema = "mustMap (mustMap demo_version ''schema'') ''openAPIV3Schema''"
  obtain res where res: "extractResource ?crd = Inr res" by (cases "extractResource ?crd") (code_simp, blast)
  have "distinct (map fst ?schema)" "get_field ''versions'' (mustMap ?crd ''spec'') = Some (JArr (JObj demo_version # []))"
    by code_simp+
  note x = schema_exposes[OF res refl this, where h = "Some [''spec.b'']"]
  have props: "mustMap ?schema ''properties'' = [(''kind'', string_schema []),
      (''spec'', demo_object [(''a'', string_schema []), (''b'', string_schema [])] [JStr ''b''])]" by code_simp
  have "reaches (demo_object [(''a'', string_schema []), (''b'', string_schema [])] [JStr ''b'']) [''a'']"
    unfolding reaches_def demo_object_def by (subst describes_iff) (auto simp: reaches_def)
  moreover have "visible (Some [''spec.b'']) ''spec'' [''a'']" "\<not> visible (Some [''spec.b'']) ''spec'' [''b'']" by code_simp+
  ultimately show ?thesis
    using res x[of "''spec''" "[''a'']"] x[of "''spec''" "[''b'']"] x[of "''kind''" "[]"] props by (auto simp: object_keys_def)
qed

text \<open>C39: Cleaning keeps schemas consistent: when every required name of a schema and of all schemas
  within it is one of the properties beside it, this is so after the hidden fields are taken
  out, so that no hidden field stays required.\<close>

theorem cleaned_consistent:
  assumes "consistent m"
  shows "consistent (cleanSchema m h c)"
  unfolding consistent_def
proof (intro allI impI)
  fix s'
  assume "within (cleanSchema m h c) s'"
  from within_cleaned[OF this refl] obtain s c' where "within m s" "s' = cleanSchema s h c'" by blast
  with assms requires_known_cleaned show "requires_known s'" by (auto simp: consistent_def)
qed

theorem cleaned_consistent_witness:
  "consistent [(''type'', JStr ''object''), (''properties'', JObj [(''release'', string_schema [])]),
     (''required'', JArr [JStr ''release''])]"
proof -
  let ?m = "[(''type'', JStr ''object''), (''properties'', JObj [(''release'', string_schema []), (''platform'', string_schema [])]),
     (''required'', JArr [JStr ''platform'', JStr ''release''])]"
  have leaf: "within [(''type'', JStr ''string'')] s \<longleftrightarrow> s = [(''type'', JStr ''string'')]" for s
    by (subst within_iff) auto
  have "within ?m s \<Longrightarrow> s = ?m \<or> s = [(''type'', JStr ''string'')]" for s
    by (subst (asm) within_iff) (auto simp: string_schema_def leaf)
  then have "consistent ?m" by (force simp: consistent_def requires_known_def text_of_def)
  from cleaned_consistent[OF this, of "Some [''spec.platform'']" "''spec''"]
  have "consistent (cleanSchema ?m (Some [''spec.platform'']) ''spec'')" .
  moreover have "cleanSchema ?m (Some [''spec.platform'']) ''spec'' = [(''type'', JStr ''object''),
     (''properties'', JObj [(''release'', string_schema [])]), (''required'', JArr [JStr ''release''])]" by code_simp
  ultimately show ?thesis by simp
qed

section \<open>The document\<close>

lemma is_hidden_paths: "is_hidden (hid kind) p \<longleftrightarrow> p \<in> hidden_paths hid kind"
  by (simp add: is_hidden_def hidden_paths_def split: option.split)

lemma generated_document:
  assumes "generate io fl = Some (Inr doc)" and "gf_typesDir fl \<noteq> []" and "gi_ParseDir io (gf_typesDir fl) = Inr pkgs"
  obtains rs hid where "doc = buildOpenAPISpec rs hid (gf_title fl) (gf_version fl)"
    "hidden_by_kind (type_map pkgs) (kind_list (gf_kinds fl)) (\<lambda>k. None) = Some hid"
  using assms by (auto simp: generate_def buildHiddenPaths_def Let_def split: option.splits sum.splits)


lemma one_resource:
  assumes "case x of Inr [r] \<Rightarrow> P r | _ \<Rightarrow> False"
  obtains r where "x = Inr [r]" "P r"
  using assms by (cases x) (auto split: list.splits)

lemma demo_generated: "\<exists>doc m. generate demo_io demo_flags = Some (Inr doc) \<and>
    (''ManagedHostedCluster'', JObj m) \<in> set (schemas_of doc)"
proof -
  have flags: "gf_typesDir demo_flags \<noteq> []" "gf_crdDir demo_flags = ''crd''"
    "kind_list (gf_kinds demo_flags) = [''ManagedHostedCluster'']" by code_simp+
  have "case loadCRDs demo_io ''crd'' of
      Inr [r] \<Rightarrow> cr_Kind r = ''ManagedHostedCluster'' \<and> cr_ListKind r = ''ManagedHostedClusterList'' | _ \<Rightarrow> False" by code_simp
  then obtain r where r: "loadCRDs demo_io ''crd'' = Inr [r]"
    "cr_Kind r = ''ManagedHostedCluster''" "cr_ListKind r = ''ManagedHostedClusterList''" by (rule one_resource) blast
  have "buildHiddenPaths (gi_ParseDir demo_io) (gf_typesDir demo_flags) [''ManagedHostedCluster''] =
      Some (Inr [''ManagedHostedCluster'' \<mapsto> [''spec.hostedCluster.services'', ''spec.hostedCluster.platform'']])"
    by (simp add: buildHiddenPaths_def demo_io_def demo_kind_hidden)
  then have "generate demo_io demo_flags = Some (Inr (buildOpenAPISpec [r]
      [''ManagedHostedCluster'' \<mapsto> [''spec.hostedCluster.services'', ''spec.hostedCluster.platform'']]
      (gf_title demo_flags) (gf_version demo_flags)))"
    using r flags by (simp add: generate_def filter_kinds_def)
  moreover have "\<exists>m. (''ManagedHostedCluster'', JObj m) \<in> set (schemas_of (buildOpenAPISpec [r] hid title version))" for hid title version
    using r(2,3) by (simp add: document_parts set_key_def del_key_def)
  ultimately show ?thesis by blast
qed


text \<open>Without kinds, which the usage text calls \<open>all\<close>, nothing is hidden although the types are given.\<close>

lemma no_kinds_nothing_hidden:
  assumes "gf_kinds fl = []" and "gf_typesDir fl \<noteq> []" and "gi_ParseDir io (gf_typesDir fl) = Inr pkgs"
    and "loadCRDs io (gf_crdDir fl) = Inr rs"
  shows "generate io fl = Some (Inr (buildOpenAPISpec rs (\<lambda>k. None) (gf_title fl) (gf_version fl)))"
  using assms by (simp add: generate_def kind_list_def buildHiddenPaths_def filter_kinds_def)

section \<open>The document and the server\<close>

text \<open>The operations of a document, and the segments of a request for a path of it.\<close>

definition http_methods :: "(string \<times> string) list" where
  "http_methods = [(''get'', ''GET''), (''put'', ''PUT''), (''post'', ''POST''), (''delete'', ''DELETE'')]"

definition path_operations :: "string \<times> json \<Rightarrow> (string \<times> string) list" where
  "path_operations pv = (case snd pv of
      JObj ops \<Rightarrow> map (Pair (fst pv)) (filter (\<lambda>m. m \<in> fst ` set http_methods) (map fst ops))
    | _ \<Rightarrow> [])"

definition operations :: "entries \<Rightarrow> (string \<times> string) list" where
  "operations doc = concat (map path_operations (paths_of doc))"

definition request_segments :: "string \<Rightarrow> string \<Rightarrow> string \<Rightarrow> string list" where
  "request_segments ns name p = map (\<lambda>seg. if seg = ''{namespace}'' then ns else if seg = ''{name}'' then name else seg)
     (path_segments p)"

definition routed :: "string \<Rightarrow> string \<Rightarrow> string \<times> string \<Rightarrow> (endpoint \<times> string list) option" where
  "routed ns name pm = mux_find mux_routes (the (map_of http_methods (snd pm))) (request_segments ns name (fst pm))"

abbreviation "all_path \<equiv> ''/v1alpha1/namespaces/{namespace}/managedhostedclusters''"
abbreviation "one_path \<equiv> ''/v1alpha1/namespaces/{namespace}/managedhostedclusters/{name}''"
abbreviation "one_status_path \<equiv> ''/v1alpha1/namespaces/{namespace}/managedhostedclusters/{name}/status''"

lemma operation_lists:
  "path_operations (p, JObj (collectionOps res)) = [(p, ''get''), (p, ''post'')]"
  "path_operations (p, JObj (itemOps res)) = [(p, ''get''), (p, ''put''), (p, ''delete'')]"
  "path_operations (p, JObj (statusOps res)) = [(p, ''get''), (p, ''put'')]"
  by (simp_all add: path_operations_def collectionOps_def itemOps_def statusOps_def http_methods_def Let_def)

lemma cluster_operations:
  assumes "cr_Plural res = ''managedhostedclusters''" and "cr_Scope res = ''Namespaced''"
  shows "set (operations (buildOpenAPISpec [res] hid title ''v1alpha1'')) =
    {(all_path, ''get''), (all_path, ''post''), (one_path, ''get''), (one_path, ''put''), (one_path, ''delete'')} \<union>
        (if cr_HasStatus res then {(one_status_path, ''get''), (one_status_path, ''put'')} else {})"
proof -
  have c: "collectionPath res ''v1alpha1'' = all_path" "itemPath res ''v1alpha1'' = one_path"
    using assms by (simp_all add: collectionPath_def itemPath_def)
  have "paths_of (buildOpenAPISpec [res] hid title ''v1alpha1'') =
      (if cr_HasStatus res then [(one_status_path, JObj (statusOps res))] else []) @
      [(one_path, JObj (itemOps res)), (all_path, JObj (collectionOps res))]"
    by (simp add: document_parts addPaths_def c set_key_def del_key_def Let_def)
  then show ?thesis by (auto simp: operations_def operation_lists)
qed

lemma cluster_segments:
  "request_segments ns name all_path = [''v1alpha1'', ''namespaces'', ns, ''managedhostedclusters'']"
  "request_segments ns name one_path = [''v1alpha1'', ''namespaces'', ns, ''managedhostedclusters'', name]"
  "request_segments ns name one_status_path = [''v1alpha1'', ''namespaces'', ns, ''managedhostedclusters'', name, ''status'']"
  by (simp_all add: request_segments_def path_segments_def)

lemma cluster_served:
  assumes "ns \<noteq> []" and "name \<noteq> []"
  shows "routed ns name (all_path, ''get'') = Some (E_List, [ns])"
    "routed ns name (all_path, ''post'') = Some (E_Create, [ns])"
    "routed ns name (one_path, ''get'') = Some (E_Get, [ns, name])"
    "routed ns name (one_path, ''put'') = Some (E_Update, [ns, name])"
    "routed ns name (one_path, ''delete'') = Some (E_Delete, [ns, name])"
    "routed ns name (one_status_path, ''get'') = None" "routed ns name (one_status_path, ''put'') = None"
  unfolding routed_def fst_conv snd_conv cluster_segments using assms
  by (simp_all add: http_methods_def mux_routes_def clusters_pat_def authz_pat_def method_matches_def)

lemma routed_sets:
  "{e. \<exists>pm vs. pm \<in> insert a A \<and> routed ns name pm = Some (e, vs)} =
     (case routed ns name a of Some (e, vs) \<Rightarrow> {e} | None \<Rightarrow> {}) \<union> {e. \<exists>pm vs. pm \<in> A \<and> routed ns name pm = Some (e, vs)}"
  "{pm. pm \<in> insert a A \<and> routed ns name pm = None} =
     (if routed ns name a = None then {a} else {}) \<union> {pm. pm \<in> A \<and> routed ns name pm = None}"
  by (auto split: option.split simp del: split_paired_Ex split_paired_All)

text \<open>C20: The document of the cluster resource and the multiplexer agree up to the status paths: the
  documented operations reach exactly the endpoints List, Create, Get, Update and Delete, and
  the only documented operations without a route are those of the status path, which the
  document has when the CRD has a status subresource. The endpoint for the kubeconfig is not documented.\<close>

theorem documented_served:
  assumes "cr_Plural res = ''managedhostedclusters''" and "cr_Scope res = ''Namespaced''" and "ns \<noteq> []" and "name \<noteq> []"
    and "ops = set (operations (buildOpenAPISpec [res] hid title ''v1alpha1''))"
  shows "{e. \<exists>pm vs. pm \<in> ops \<and> routed ns name pm = Some (e, vs)} = {E_List, E_Create, E_Get, E_Update, E_Delete} \<and>
    {pm. pm \<in> ops \<and> routed ns name pm = None} =
      (if cr_HasStatus res then {(one_status_path, ''get''), (one_status_path, ''put'')} else {})"
proof -
  note sets = routed_sets Un_insert_left Un_empty_left cluster_served[OF assms(3,4)] option.case prod.case
  show ?thesis unfolding assms(5) cluster_operations[OF assms(1,2)]
    by (cases "cr_HasStatus res") (simp_all only: sets if_True if_False, auto)
qed

theorem documented_served_witness:
  "{pm. pm \<in> set (operations (buildOpenAPISpec [\<lparr>cr_Kind = ''ManagedHostedCluster'', cr_ListKind = ''ManagedHostedClusterList'',
       cr_Plural = ''managedhostedclusters'', cr_Scope = ''Namespaced'', cr_Schema = [], cr_HasStatus = True\<rparr>] (\<lambda>k. None) ''API'' ''v1alpha1'')) \<and>
     routed ''ns'' ''c1'' pm = None} = {(one_status_path, ''get''), (one_status_path, ''put'')}"
  by (subst documented_served[THEN conjunct2, OF _ _ _ _ refl]) simp_all

end
