(* ===== verification/Responses.thy ===== *)
theory Responses
  imports Server ApiFacts
begin

text \<open>
  The types of the responses: what an endpoint answers with when it succeeds, and with which codes
  it refuses. The rules follow the steps that the handlers are made of.
\<close>

definition cluster_type :: "ManagedHostedCluster \<Rightarrow> bool" where
  "cluster_type c \<longleftrightarrow> mhc_TypeMeta c = mhcTypeMeta"

definition success_body :: "endpoint \<Rightarrow> string list \<Rightarrow> payload \<Rightarrow> bool" where
  "success_body e vals b = (case e of
      E_List \<Rightarrow> (\<exists>l. b = PList l \<and> mhl_TypeMeta l = mhcListTypeMeta \<and> list_all (\<lambda>i. cluster_type (mhr_Cluster i)) (mhl_Items l))
    | E_Create \<Rightarrow> (\<exists>c. b = PCluster c \<and> cluster_type c \<and> om_namespace (mhc_ObjectMeta c) = vals ! 0)
    | E_Get \<Rightarrow> (\<exists>r. b = PResponse r \<and> cluster_type (mhr_Cluster r))
    | E_Update \<Rightarrow> (\<exists>c. b = PCluster c \<and> cluster_type c \<and> om_namespace (mhc_ObjectMeta c) = vals ! 0 \<and>
        om_name (mhc_ObjectMeta c) = vals ! 1)
    | E_ListTemplates \<Rightarrow> (\<exists>xs. b = PJson (JArr xs))
    | E_ListAttachments \<Rightarrow> (\<exists>xs. b = PJson (JArr xs))
    | E_ListRoles \<Rightarrow> (\<exists>xs. b = PJson (JArr xs))
    | E_OpenAPI \<Rightarrow> (\<exists>t. b = PBytes t)
    | _ \<Rightarrow> (\<exists>m. b = PJson (JObj m)))"

definition success_code :: "endpoint \<Rightarrow> nat" where
  "success_code e = (if e = E_CreateAttachment then 201 else 200)"

definition error_codes :: "endpoint \<Rightarrow> nat list" where
  "error_codes e = (case e of
      E_Create \<Rightarrow> [400, 404, 409, 500] | E_Update \<Rightarrow> [400, 404, 409, 500]
    | E_List \<Rightarrow> [404, 409, 500] | E_Get \<Rightarrow> [404, 409, 500] | E_Delete \<Rightarrow> [404, 409, 500] | E_KubeConfig \<Rightarrow> [404, 409, 500]
    | E_GetTemplate \<Rightarrow> [404] | E_ListAttachments \<Rightarrow> [500] | E_CreateAttachment \<Rightarrow> [400] | E_DeleteAttachment \<Rightarrow> [404]
    | E_ListRoles \<Rightarrow> [500] | E_GetRole \<Rightarrow> [404]
    | _ \<Rightarrow> [])"

text \<open>A response is a success of the endpoint's type, or an error that carries its own code.\<close>

definition typed :: "endpoint \<Rightarrow> string list \<Rightarrow> response \<Rightarrow> bool" where
  "typed e vals r \<longleftrightarrow> (rs_code r = success_code e \<and> success_body e vals (rs_body r)) \<or>
     (rs_code r \<in> set (error_codes e) \<and> (\<exists>m. rs_body r = PError m (rs_code r)))"

section \<open>Rules\<close>

named_theorems typing \<open>rules for typed responses\<close>

lemma typed_success [typing]: "rs_code r = success_code e \<Longrightarrow> success_body e vals (rs_body r) \<Longrightarrow> typed e vals r"
  by (simp add: typed_def)

lemma typed_error [typing]: "c \<in> set (error_codes e) \<Longrightarrow> typed e vals (writeErrorMsg c m)"
  by (simp add: typed_def)

lemma writeError_typed [typing]: "{404, 409, 500} \<subseteq> set (error_codes e) \<Longrightarrow> typed e vals (writeError x)"
  by (auto simp: typed_def writeError_def Let_def writeErrorMsg_def)

lemma or_error_typed [typing]:
  assumes "{404, 409, 500} \<subseteq> set (error_codes e)" and "\<And>a w'. typed e vals (fst (k a w'))"
  shows "typed e vals (fst (or_error r k))"
  using assms writeError_typed by (auto simp: or_error_def split: prod.split sum.split)

lemma or_missing_typed [typing]:
  assumes "{404, 409, 500} \<subseteq> set (error_codes e)" and "\<And>a w'. typed e vals (fst (k a w'))"
  shows "typed e vals (fst (or_missing r k))"
  using assms writeError_typed by (auto simp: or_missing_def split: prod.split sum.split)

lemma typed_prod [typing]: "(\<And>a w'. typed e vals (fst (f a w'))) \<Longrightarrow> typed e vals (fst (case r of (a, w') \<Rightarrow> f a w'))"
  by (cases r) simp

lemma typed_sum [typing]: "(\<And>x. typed e vals (fst (f x))) \<Longrightarrow> (\<And>y. typed e vals (fst (g y))) \<Longrightarrow>
    typed e vals (fst (case r of Inl x \<Rightarrow> f x | Inr y \<Rightarrow> g y))"
  by (cases r) simp_all

lemma typed_option [typing]: "typed e vals (fst f) \<Longrightarrow> (\<And>y. typed e vals (fst (g y))) \<Longrightarrow>
    typed e vals (fst (case r of None \<Rightarrow> f | Some y \<Rightarrow> g y))"
  by (cases r) simp_all

lemma typed_if [typing]: "typed e vals (fst f) \<Longrightarrow> typed e vals (fst g) \<Longrightarrow> typed e vals (fst (if b then f else g))"
  by simp

lemma typed_fst [typing]: "typed e vals r \<Longrightarrow> typed e vals (fst (r, w))"
  by simp

section \<open>The handlers of clusters\<close>

lemma error_code_sets [simp]:
  "set (error_codes E_Create) = {400, 404, 409, 500}" "set (error_codes E_Update) = {400, 404, 409, 500}"
  "set (error_codes E_List) = {404, 409, 500}" "set (error_codes E_Get) = {404, 409, 500}"
  "set (error_codes E_Delete) = {404, 409, 500}" "set (error_codes E_KubeConfig) = {404, 409, 500}"
  by (simp_all add: error_codes_def)

lemma create_desires_typed: "cluster_type obj \<Longrightarrow> om_namespace (mhc_ObjectMeta obj) = vals ! 0 \<Longrightarrow>
    typed E_Create vals (fst (create_desires env h ns obj kc mc w))"
  unfolding create_desires_def
  by (intro typing) (auto simp: success_code_def success_body_def)

lemma h_Create_typed: "typed E_Create vals (fst (h_Create env h (vals ! 0) body w))"
  unfolding h_Create_def Let_def
  by (intro typing create_desires_typed) (auto simp: created_def cluster_type_def)

lemma h_Get_typed: "typed E_Get vals (fst (h_Get env h ns name w))"
  unfolding h_Get_def Let_def
  by (intro typing) (auto simp: success_code_def success_body_def cluster_type_def)

lemma list_names_typed: "list_all (\<lambda>i. cluster_type (mhr_Cluster i)) (fst (list_names env ns db names w))"
  by (induction env ns db names w rule: list_names.induct)
    (auto simp: Let_def cluster_type_def split: prod.splits sum.splits option.splits)

lemma list_clusters_typed: "list_clusters env h ns ms mcs w = (Inr items, w') \<Longrightarrow>
    list_all (\<lambda>i. cluster_type (mhr_Cluster i)) items"
proof (induction env h ns ms mcs w arbitrary: items w' rule: list_clusters.induct)
  case (2 env h ns ms mc mcs w)
  then obtain db w1 xs w2 rest where r: "h_StatusDB h mc w = (Inr db, w1)"
    "list_names env ns db (map_order env (names_of ms mc)) w1 = (xs, w2)"
    "list_clusters env h ns ms mcs w2 = (Inr rest, w')" "items = xs @ rest"
    by (auto split: prod.splits sum.splits)
  from 2(1)[OF r(1)[symmetric] refl r(2)[symmetric] r(3)] list_names_typed[of env ns db "map_order env (names_of ms mc)" w1] r(2,4)
  show ?case by simp
qed simp

lemma h_List_typed: "typed E_List vals (fst (h_List env h ns w))"
proof -
  have all: "typed E_List vals (fst (or_error (list_clusters env h ns ms mcs w1) (\<lambda>items w2.
      (writeJSON 200 (PList \<lparr>mhl_TypeMeta = mhcListTypeMeta, mhl_Items = items\<rparr>), w2))))" for ms mcs w1
    using list_clusters_typed[of env h ns ms mcs w1]
    by (auto simp: or_error_def success_code_def success_body_def intro!: typing split: prod.split sum.split)
  show ?thesis unfolding h_List_def by (rule or_error_typed) (simp, rule all)
qed

lemma h_Update_typed: "typed E_Update vals (fst (h_Update env h (vals ! 0) (vals ! 1) body w))"
  unfolding h_Update_def Let_def
  by (intro typing) (auto simp: success_code_def success_body_def updated_def cluster_type_def)

lemma h_Delete_typed: "typed E_Delete vals (fst (h_Delete env h ns name w))"
  unfolding h_Delete_def Let_def
  by (intro typing) (auto simp: success_code_def success_body_def)

lemma h_GetKubeConfig_typed: "typed E_KubeConfig vals (fst (h_GetKubeConfig env h ns name w))"
  unfolding h_GetKubeConfig_def
  by (intro typing) (auto simp: success_code_def success_body_def)

section \<open>The handlers of the policy API\<close>

lemma writeAuthz_typed [typing]:
  "c \<in> set (error_codes e) \<Longrightarrow> typed e vals (writeAuthzError c m)"
  by (simp add: typed_def writeAuthzError_def)

lemma writeAuthzJSON_sel [simp]: "rs_code (writeAuthzJSON c v) = c" "rs_body (writeAuthzJSON c v) = PJson v"
  by (simp_all add: writeAuthzJSON_def)

lemmas authz_types = error_codes_def success_code_def success_body_def json_Template_def json_Role_def enc_Attachment_def

lemma authz_typed:
  "typed E_ListTemplates vals (fst (h_ListTemplates env s w))"
  "typed E_GetTemplate vals (fst (h_GetTemplate s n w))"
  "typed E_ListAttachments vals (fst (h_ListAttachments env s n w))"
  "typed E_CreateAttachment vals (fst (h_CreateAttachment env s n body w))"
  "typed E_DeleteAttachment vals (fst (h_DeleteAttachment env s n i w))"
  "typed E_ListRoles vals (fst (h_ListRoles env s n w))"
  "typed E_GetRole vals (fst (h_GetRole env s n i w))"
  unfolding h_ListTemplates_def h_GetTemplate_def h_ListAttachments_def h_CreateAttachment_def h_DeleteAttachment_def
    h_ListRoles_def h_GetRole_def
  by ((intro typing; simp add: authz_types), (intro typing; simp add: authz_types), (intro typing; simp add: authz_types),
    (intro typing; simp add: authz_types), (intro typing; simp add: authz_types), (intro typing; simp add: authz_types),
    (intro typing; simp add: authz_types))

text \<open>C21: Every endpoint answers with a response of its type, whatever the state, the body and the
  database do: on success with its code and with the body of the endpoint's kind, where clusters
  carry their type and the namespace and name of the path, and otherwise with one of its
  error codes, where the error body carries the code of the response.\<close>

theorem responses_typed: "typed e vals (fst (run_endpoint env h s spec e vals body w))"
  unfolding run_endpoint_def
  by (cases e) (simp_all del: One_nat_def add: h_Create_typed h_Get_typed h_List_typed h_Update_typed h_Delete_typed
    h_GetKubeConfig_typed authz_typed, simp_all add: typed_def success_code_def success_body_def)

end
