(* ===== verification/Interleaving.thy ===== *)
theory Interleaving
  imports ApiProps
begin

text \<open>
  Concurrent requests. \<open>net/http\<close> runs every request in a goroutine of its own; a handler is then a
  program \<open>prog\<close> that does one call at a time, to Firestore or under the mutex of the client cache,
  and between two calls of one request any calls of the others may happen. A system
  is the list of the running requests with the state they share, and a step is one call of one of them.

  The locale \<open>interference\<close> is the rely-guarantee rule for such systems: when every call of every
  request is a change that the others tolerate, all reachable changes are made of such changes.
\<close>

section \<open>Programs\<close>

datatype 'w prog = Ret response | Act "'w \<Rightarrow> 'w prog \<times> 'w"

primrec run :: "'w prog \<Rightarrow> 'w \<Rightarrow> response \<times> 'w" where
  "run (Ret r) = (\<lambda>w. (r, w))"
| "run (Act f) = (\<lambda>w. (\<lambda>(g, w'). g w') (map_prod run id (f w)))"

text \<open>A call and what follows it; \<open>or_error\<close> and \<open>or_missing\<close> for programs.\<close>

definition call :: "('w \<Rightarrow> 'a \<times> 'w) \<Rightarrow> ('a \<Rightarrow> 'w prog) \<Rightarrow> 'w prog" where
  "call f k = Act (\<lambda>w. case f w of (r, w') \<Rightarrow> (k r, w'))"

definition fail_or :: "('a \<Rightarrow> 'w prog) \<Rightarrow> gerr + 'a \<Rightarrow> 'w prog" where
  "fail_or k r = (case r of Inl e \<Rightarrow> Ret (writeError e) | Inr a \<Rightarrow> k a)"

definition missing_or :: "('a option \<Rightarrow> 'w prog) \<Rightarrow> gerr + 'a \<Rightarrow> 'w prog" where
  "missing_or k r = (case r of
      Inl e \<Rightarrow> if IsNotFoundError e then k None else Ret (writeError e)
    | Inr a \<Rightarrow> k (Some a))"

named_theorems running \<open>a program alone, step by step\<close>

lemma run_Ret [running]: "run (Ret r) = (\<lambda>w. (r, w))"
  by simp

lemma run_call: "run (call f k) = (\<lambda>w. case f w of (r, w') \<Rightarrow> run (k r) w')"
  by (rule ext, rename_tac w, case_tac "f w") (simp add: call_def)

lemma run_fail [running]: "run (call f (fail_or k)) = (\<lambda>w. or_error (f w) (\<lambda>a. run (k a)))"
  by (auto simp: fun_eq_iff run_call fail_or_def or_error_def split: prod.split sum.split)

lemma run_missing [running]: "run (call f (missing_or k)) = (\<lambda>w. or_missing (f w) (\<lambda>a. run (k a)))"
  by (auto simp: fun_eq_iff run_call missing_or_def or_missing_def split: prod.split sum.split)

lemma run_option [running]: "run (case x of None \<Rightarrow> p | Some a \<Rightarrow> q a) = (\<lambda>w. case x of None \<Rightarrow> run p w | Some a \<Rightarrow> run (q a) w)"
  by (cases x) simp_all

lemma run_sum [running]: "run (case x of Inl e \<Rightarrow> p e | Inr a \<Rightarrow> q a) = (\<lambda>w. case x of Inl e \<Rightarrow> run (p e) w | Inr a \<Rightarrow> run (q a) w)"
  by (cases x) simp_all

lemma run_if [running]: "run (if b then p else q) = (\<lambda>w. if b then run p w else run q w)"
  by simp

declare run.simps [simp del]

section \<open>The handlers as programs\<close>

text \<open>One call of a program is one call to Firestore, a transaction, or a look into the client cache.\<close>

definition create_desires_prog :: "'w env \<Rightarrow> 'w handler \<Rightarrow> string \<Rightarrow> ManagedHostedCluster \<Rightarrow> raw_ext \<Rightarrow>
    string \<Rightarrow> 'w prog" where
  "create_desires_prog env h namespace obj kubeContent mc =
     call (h_SpecsDB h mc) (fail_or (\<lambda>specsDB.
     case serializeNamespace namespace of
       Inl e \<Rightarrow> Ret (writeErrorMsg 500 ''Failed to serialize namespace'')
     | Inr nsKubeContent \<Rightarrow>
         call (rc_Create (ApplyDesires env specsDB) (ns_desire env mc namespace nsKubeContent)) (\<lambda>res.
         if (case res of Inl e \<Rightarrow> \<not> IsAlreadyExistsError e | Inr _ \<Rightarrow> False)
         then Ret (writeError (projl res))
         else
           call (rc_Create (ApplyDesires env specsDB) (mhc_apply env mc namespace obj kubeContent)) (fail_or (\<lambda>_.
           call (rc_Create (ReadDesires env specsDB) (mhc_read env mc namespace obj)) (fail_or (\<lambda>_.
           call (setClusterMapping env (h_Placement h) namespace (om_name (mhc_ObjectMeta obj)) mc) (fail_or (\<lambda>_.
           Ret (writeJSON 200 (PCluster obj)))))))))))"

definition create_prog :: "'w env \<Rightarrow> 'w handler \<Rightarrow> string \<Rightarrow> string \<Rightarrow> 'w prog" where
  "create_prog env h namespace body = (case decode_body env body of
      None \<Rightarrow> Ret (writeErrorMsg 400 (''Invalid JSON: '' @ err_text json_error))
    | Some obj0 \<Rightarrow>
        (let obj = created namespace obj0
         in case serializeCR env obj of
           Inl e \<Rightarrow> Ret (writeErrorMsg 500 ''Failed to serialize resource'')
         | Inr kubeContent \<Rightarrow>
             call (getClusterMapping env (h_Placement h) namespace (om_name (mhc_ObjectMeta obj))) (\<lambda>r. case r of
               Inr _ \<Rightarrow> Ret (writeErrorMsg 409 ''cluster already exists'')
             | Inl e \<Rightarrow>
                 if \<not> IsNotFoundError e then Ret (writeError e)
                 else call (allocate env (h_Placement h))
                   (fail_or (create_desires_prog env h namespace obj kubeContent)))))"

definition get_prog :: "'w env \<Rightarrow> 'w handler \<Rightarrow> string \<Rightarrow> string \<Rightarrow> 'w prog" where
  "get_prog env h namespace name =
     call (getClusterMapping env (h_Placement h) namespace name) (fail_or (\<lambda>mc.
     let docID = mhcDocumentID env namespace name in
     call (h_StatusDB h mc) (fail_or (\<lambda>statusDB.
     call (rc_Get (ReadDesires env statusDB) docID) (missing_or (\<lambda>readDesire.
     call (rc_Get (ApplyDesires env statusDB) docID) (missing_or (\<lambda>applyDesire.
     let ds = buildDesireStatus applyDesire readDesire in
     case (case readDesire of Some d \<Rightarrow> st_kubeContent (rd_status d) | None \<Rightarrow> None) of
       Some raw \<Rightarrow> (case unmarshalCR env raw of
           None \<Rightarrow> Ret (writeErrorMsg 500 ''Failed to deserialize resource from status'')
         | Some obj \<Rightarrow> Ret (writeJSON 200 (PResponse \<lparr>mhr_Cluster = obj\<lparr>mhc_TypeMeta := mhcTypeMeta\<rparr>,
               mhr_DesireStatus = ds\<rparr>)))
     | None \<Rightarrow>
         call (h_SpecsDB h mc) (fail_or (\<lambda>specsDB.
         call (rc_Get (ApplyDesires env specsDB) docID) (fail_or (\<lambda>specApplyDesire.
         case sp_kubeContent (ad_spec specApplyDesire) of
           Some raw \<Rightarrow> (case unmarshalCR env raw of
               None \<Rightarrow> Ret (writeErrorMsg 500 ''Failed to deserialize resource from spec'')
             | Some obj \<Rightarrow> Ret (writeJSON 200 (PResponse \<lparr>mhr_Cluster = obj\<lparr>mhc_TypeMeta := mhcTypeMeta\<rparr>,
                   mhr_DesireStatus = ds\<rparr>)))
         | None \<Rightarrow> Ret (writeErrorMsg 404 ''Resource not found'')))))))))))))"

text \<open>The loops of \<open>List\<close>, with what follows them.\<close>

fun names_prog :: "'w env \<Rightarrow> string \<Rightarrow> string \<Rightarrow> string list \<Rightarrow> (ManagedHostedClusterResponse list \<Rightarrow> 'w prog) \<Rightarrow>
    'w prog" where
  "names_prog env namespace statusDB [] k = k []"
| "names_prog env namespace statusDB (name # names) k =
     (let docID = mhcDocumentID env namespace name
      in call (rc_Get (ReadDesires env statusDB) docID) (\<lambda>r. case r of
           Inl _ \<Rightarrow> names_prog env namespace statusDB names k
         | Inr rd \<Rightarrow> (case st_kubeContent (rd_status rd) of
             None \<Rightarrow> names_prog env namespace statusDB names k
           | Some raw \<Rightarrow> (case unmarshalCR env raw of
               None \<Rightarrow> names_prog env namespace statusDB names k
             | Some obj \<Rightarrow> call (rc_Get (ApplyDesires env statusDB) docID) (\<lambda>res.
                 let ad = (case res of Inl _ \<Rightarrow> None | Inr x \<Rightarrow> Some x);
                     item = \<lparr>mhr_Cluster = obj\<lparr>mhc_TypeMeta := mhcTypeMeta\<rparr>,
                       mhr_DesireStatus = buildDesireStatus ad (Some rd)\<rparr>
                 in names_prog env namespace statusDB names (\<lambda>items. k (item # items)))))))"

fun clusters_prog :: "'w env \<Rightarrow> 'w handler \<Rightarrow> string \<Rightarrow> cluster_mapping list \<Rightarrow> string list \<Rightarrow>
    (gerr + ManagedHostedClusterResponse list \<Rightarrow> 'w prog) \<Rightarrow> 'w prog" where
  "clusters_prog env h namespace ms [] k = k (Inr [])"
| "clusters_prog env h namespace ms (mc # mcs) k = call (h_StatusDB h mc) (\<lambda>r. case r of
      Inl e \<Rightarrow> k (Inl e)
    | Inr statusDB \<Rightarrow>
        names_prog env namespace statusDB (map_order env (names_of ms mc)) (\<lambda>items.
          clusters_prog env h namespace ms mcs (\<lambda>rest. case rest of
              Inl e \<Rightarrow> k (Inl e)
            | Inr rs \<Rightarrow> k (Inr (items @ rs)))))"

definition list_prog :: "'w env \<Rightarrow> 'w handler \<Rightarrow> string \<Rightarrow> 'w prog" where
  "list_prog env h namespace =
     call (listClusterMappings env (h_Placement h) namespace) (fail_or (\<lambda>mappings.
     clusters_prog env h namespace mappings (map_order env (remdups (map cm_managementCluster mappings)))
       (fail_or (\<lambda>items. Ret (writeJSON 200 (PList \<lparr>mhl_TypeMeta = mhcListTypeMeta, mhl_Items = items\<rparr>))))))"

definition update_prog :: "'w env \<Rightarrow> 'w handler \<Rightarrow> string \<Rightarrow> string \<Rightarrow> string \<Rightarrow> 'w prog" where
  "update_prog env h namespace name body = (case decode_body env body of
      None \<Rightarrow> Ret (writeErrorMsg 400 (''Invalid JSON: '' @ err_text json_error))
    | Some obj0 \<Rightarrow>
        (let obj = updated namespace name obj0 in
         call (getClusterMapping env (h_Placement h) namespace name) (fail_or (\<lambda>mc.
         call (h_SpecsDB h mc) (fail_or (\<lambda>specsDB.
         call (rc_Get (ApplyDesires env specsDB) (mhcDocumentID env namespace name)) (fail_or (\<lambda>existing.
         case serializeCR env obj of
           Inl e \<Rightarrow> Ret (writeErrorMsg 500 ''Failed to serialize resource'')
         | Inr kubeContent \<Rightarrow>
             call (rc_Replace (ApplyDesires env specsDB)
                 (existing\<lparr>ad_spec := (ad_spec existing)\<lparr>sp_kubeContent := kubeContent\<rparr>\<rparr>)) (fail_or (\<lambda>_.
             Ret (writeJSON 200 (PCluster obj))))))))))))"

definition delete_prog :: "'w env \<Rightarrow> 'w handler \<Rightarrow> string \<Rightarrow> string \<Rightarrow> 'w prog" where
  "delete_prog env h namespace name =
     call (getClusterMapping env (h_Placement h) namespace name) (fail_or (\<lambda>mc.
     call (h_SpecsDB h mc) (fail_or (\<lambda>specsDB.
     let docID = mhcDocumentID env namespace name in
     call (rc_Get (ApplyDesires env specsDB) docID) (fail_or (\<lambda>existing.
     call (rc_Delete (ApplyDesires env specsDB) docID) (fail_or (\<lambda>_.
     call (rc_Delete (ReadDesires env specsDB) docID) (fail_or (\<lambda>_.
     call (rc_Create (DeleteDesires env specsDB)
         (mhc_delete env mc namespace name (sp_clusterID (ad_spec existing)))) (fail_or (\<lambda>_.
     call (release env (h_Placement h) mc) (fail_or (\<lambda>_.
     call (deleteClusterMapping env (h_Placement h) namespace name) (fail_or (\<lambda>_.
     Ret (writeJSON 200 (PJson (JObj [(''status'', JStr ''deleted'')])))))))))))))))))))"

definition kubeconfig_prog :: "'w env \<Rightarrow> 'w handler \<Rightarrow> string \<Rightarrow> string \<Rightarrow> 'w prog" where
  "kubeconfig_prog env h namespace name =
     call (getClusterMapping env (h_Placement h) namespace name) (fail_or (\<lambda>_.
     Ret (writeJSON 200 (PJson (JObj [(''apiVersion'', JStr ''v1''), (''clusters'', JArr []),
        (''contexts'', JArr []), (''kind'', JStr ''Config''),
        (''metadata'', JObj [(''cluster'', JStr name), (''status'', JStr ''placeholder'')]),
        (''users'', JArr [])])))))"

fun prog_of :: "'w env \<Rightarrow> 'w handler \<Rightarrow> request \<Rightarrow> 'w prog" where
  "prog_of env h (ReqCreate ns body) = create_prog env h ns body"
| "prog_of env h (ReqGet ns n) = get_prog env h ns n"
| "prog_of env h (ReqList ns) = list_prog env h ns"
| "prog_of env h (ReqUpdate ns n body) = update_prog env h ns n body"
| "prog_of env h (ReqDelete ns n) = delete_prog env h ns n"
| "prog_of env h (ReqKubeConfig ns n) = kubeconfig_prog env h ns n"

section \<open>A program alone\<close>

lemma run_create_desires: "run (create_desires_prog env h ns obj kc mc) = create_desires env h ns obj kc mc"
proof -
  have create: "run (call (rc_Create (ApplyDesires env b) x) k) = (\<lambda>w. case rc_Create (ApplyDesires env b) x w of (r, w') \<Rightarrow> run (k r) w')" for b x k
    by (rule run_call)
  show ?thesis
    unfolding create_desires_prog_def create_desires_def fun_eq_iff
    by (simp only: running create simp_thms)
qed

lemma run_create: "run (create_prog env h ns body) w = h_Create env h ns body w"
  unfolding create_prog_def h_Create_def Let_def
  by (auto simp: running run_call[of "getClusterMapping env (h_Placement h) ns n" for n] run_create_desires serializeCR_def
      split: option.split prod.split sum.split)

lemma run_get: "run (get_prog env h ns n) w = h_Get env h ns n w"
  unfolding get_prog_def h_Get_def Let_def
  by (simp only: running)

lemma run_names: "run (names_prog env ns db names k) w = (case list_names env ns db names w of (items, w') \<Rightarrow> run (k items) w')"
proof (induction names arbitrary: k w)
  case (Cons name names)
  show ?case
    by (cases "rc_Get (ReadDesires env db) (mhcDocumentID env ns name) w")
      (auto simp: Cons.IH Let_def apfst_def map_prod_def run_call running split: prod.split sum.split option.split)
qed simp

lemma run_clusters: "run (clusters_prog env h ns ms mcs k) w = (case list_clusters env h ns ms mcs w of (r, w') \<Rightarrow> run (k r) w')"
proof (induction mcs arbitrary: k w)
  case (Cons mc mcs)
  show ?case
    by (cases "h_StatusDB h mc w") (auto simp: Cons.IH run_names run_call running split: prod.split sum.split)
qed simp

lemma run_list: "run (list_prog env h ns) w = h_List env h ns w"
proof -
  have "run (clusters_prog env h ns ms mcs (fail_or k)) = (\<lambda>w. or_error (list_clusters env h ns ms mcs w) (\<lambda>a. run (k a)))" for ms mcs k
    by (auto simp: fun_eq_iff run_clusters fail_or_def or_error_def running split: prod.split sum.split)
  then show ?thesis
    unfolding list_prog_def h_List_def by (simp only: running)
qed

lemma run_update: "run (update_prog env h ns n body) w = h_Update env h ns n body w"
  unfolding update_prog_def h_Update_def Let_def
  by (simp only: running)

lemma run_delete: "run (delete_prog env h ns n) w = h_Delete env h ns n w"
  unfolding delete_prog_def h_Delete_def Let_def by (simp only: running)

lemma run_kubeconfig: "run (kubeconfig_prog env h ns n) w = h_GetKubeConfig env h ns n w"
  unfolding kubeconfig_prog_def h_GetKubeConfig_def by (simp only: running)

lemmas run_handlers = run_create run_get run_list run_update run_delete run_kubeconfig

section \<open>Systems\<close>

type_synonym 'w system = "'w prog list \<times> 'w"

inductive sys_step :: "'w system \<Rightarrow> 'w system \<Rightarrow> bool" where
  "i < length ps \<Longrightarrow> ps ! i = Act f \<Longrightarrow> f w = (p, w') \<Longrightarrow> sys_step (ps, w) (ps[i := p], w')"

inductive_cases sys_stepE: "sys_step (ps, w) s'"

abbreviation sys_steps :: "'w system \<Rightarrow> 'w system \<Rightarrow> bool" where
  "sys_steps \<equiv> sys_step\<^sup>*\<^sup>*"

text \<open>A schedule names the request whose next call is made; a request that is answered does nothing.\<close>

fun sched :: "nat list \<Rightarrow> 'w system \<Rightarrow> 'w system" where
  "sched [] s = s"
| "sched (i # is) (ps, w) = (if i < length ps
     then (case ps ! i of Ret r \<Rightarrow> sched is (ps, w) | Act f \<Rightarrow> (case f w of (p, w') \<Rightarrow> sched is (ps[i := p], w')))
     else sched is (ps, w))"

lemma sched_steps: "sys_steps s (sched is s)"
proof (induction "is" s rule: sched.induct)
  case (2 i "is" ps w)
  show ?case
  proof (cases "i < length ps \<and> (\<exists>f. ps ! i = Act f)")
    case True
    then obtain f p w' where f: "i < length ps" "ps ! i = Act f" "f w = (p, w')" by (metis surj_pair)
    with sys_step.intros[OF f] 2 show ?thesis by (simp add: converse_rtranclp_into_rtranclp)
  next
    case False
    with 2 show ?thesis by (cases "ps ! i") auto
  qed
qed simp

section \<open>Rely and guarantee\<close>

text \<open>
  A program in a state is safe when every call it makes is a change of the guarantee \<open>G\<close>, whatever changes
  of the rely \<open>R\<close> the others have made before.
\<close>

inductive safe :: "('w \<Rightarrow> 'w \<Rightarrow> bool) \<Rightarrow> ('w \<Rightarrow> 'w \<Rightarrow> bool) \<Rightarrow> 'w \<Rightarrow> 'w prog \<Rightarrow> bool" for R G where
  Ret: "safe R G w (Ret r)"
| Act: "(\<And>v. R\<^sup>*\<^sup>* w v \<Longrightarrow> G v (snd (f v))) \<Longrightarrow> (\<And>v. R\<^sup>*\<^sup>* w v \<Longrightarrow> safe R G (snd (f v)) (fst (f v))) \<Longrightarrow>
    safe R G w (Act f)"

inductive_simps safe_Act_iff: "safe R G w (Act f)"

lemma safe_rely: "safe R G w p \<Longrightarrow> R\<^sup>*\<^sup>* w v \<Longrightarrow> safe R G v p"
  by (cases p) (auto simp: safe_Act_iff safe.Ret intro: rtranclp_trans)

lemma safe_call:
  assumes "\<And>v r v'. R\<^sup>*\<^sup>* w v \<Longrightarrow> f v = (r, v') \<Longrightarrow> G v v' \<and> safe R G v' (k r)"
  shows "safe R G w (call f k)"
  unfolding call_def using assms by (auto intro!: safe.Act split: prod.split)

lemma safe_fail:
  assumes "\<And>v. R\<^sup>*\<^sup>* w v \<Longrightarrow> G v (snd (f v))"
    and "\<And>v a v'. R\<^sup>*\<^sup>* w v \<Longrightarrow> f v = (Inr a, v') \<Longrightarrow> safe R G v' (k a)"
  shows "safe R G w (call f (fail_or k))"
proof (rule safe_call)
  fix v r v' assume v: "R\<^sup>*\<^sup>* w v" "f v = (r, v')"
  with assms show "G v v' \<and> safe R G v' (fail_or k r)"
    by (force simp: fail_or_def intro: safe.Ret split: sum.split)
qed

lemma safe_missing:
  assumes "\<And>v. R\<^sup>*\<^sup>* w v \<Longrightarrow> G v (snd (f v))" and "\<And>v a. safe R G v (k a)"
  shows "safe R G w (call f (missing_or k))"
proof (rule safe_call)
  fix v r v' assume v: "R\<^sup>*\<^sup>* w v" "f v = (r, v')"
  with assms show "G v v' \<and> safe R G v' (missing_or k r)"
    by (force simp: missing_or_def intro: safe.Ret split: sum.split)
qed

lemma safe_step:
  assumes "sys_step (ps, w) (qs, v)" and "\<forall>p\<in>set ps. safe G G w p"
  shows "G w v \<and> (\<forall>p\<in>set qs. safe G G v p)"
proof -
  from assms(1) obtain i f p where st: "i < length ps" "ps ! i = Act f" "f w = (p, v)" "qs = ps[i := p]"
    by (auto elim: sys_stepE)
  from st(1,2) assms(2) have "safe G G w (Act f)" by (metis nth_mem)
  with st(3) have g: "G w v" "safe G G v p" by (auto simp: safe_Act_iff)
  with assms(2) have "\<forall>p\<in>insert p (set ps). safe G G v p" by (auto intro: safe_rely)
  with g(1) st(4) show ?thesis using set_update_subset_insert[of ps i p] by blast
qed

text \<open>The rule for systems: requests that are safe for the same relation can run together.\<close>

locale interference =
  fixes G :: "'w \<Rightarrow> 'w \<Rightarrow> bool" and ok :: "'r \<Rightarrow> bool" and prog :: "'r \<Rightarrow> 'w prog"
  assumes request_safe: "ok r \<Longrightarrow> safe G G w (prog r)"
begin

lemma all_safe:
  assumes "sys_steps (map prog rs, w) (ps, w')" and "list_all ok rs"
  shows "G\<^sup>*\<^sup>* w w' \<and> (\<forall>p\<in>set ps. safe G G w' p)"
  using assms(1)
proof (induction rule: rtranclp_induct2)
  case refl
  with assms(2) show ?case by (auto simp: list_all_iff request_safe)
next
  case (step qs v qs' v')
  with safe_step[OF step(2), of G] have "G v v'" "\<forall>p\<in>set qs'. safe G G v' p" by auto
  with step(3) show ?case by (auto intro: rtranclp.rtrancl_into_rtrancl)
qed

lemma interleaved: "sys_steps (map prog rs, w) (ps, w') \<Longrightarrow> list_all ok rs \<Longrightarrow> G\<^sup>*\<^sup>* w w'"
  using all_safe by blast

end

end
