(* ===== verification/InterleavingClaims.thy ===== *)
theory InterleavingClaims
  imports Interleaving ApiClaims2
begin

text \<open>
  Requests that run together keep the counts within the capacities and the cluster map backed, and
  what two of them can do to each other.
\<close>

section \<open>The programs are the handlers\<close>


section \<open>Requests that read\<close>

text \<open>A reading request is safe for every relation that allows to change no document.\<close>

context api_server
begin

lemma safe_get:
  assumes same: "\<And>w v. db w = db v \<Longrightarrow> G w v"
  shows "safe R G w (get_prog env h ns n)"
  unfolding get_prog_def Let_def desires_sel
  by (intro safe_fail safe_missing) (auto intro!: same safe.Ret safe_fail split: option.split)

lemma safe_kubeconfig:
  assumes same: "\<And>w v. db w = db v \<Longrightarrow> G w v"
  shows "safe R G w (kubeconfig_prog env h ns n)"
  unfolding kubeconfig_prog_def by (intro safe_fail safe.Ret) (simp add: same)

lemma safe_names:
  assumes same: "\<And>w v. db w = db v \<Longrightarrow> G w v" and "\<And>v items. safe R G v (k items)"
  shows "safe R G w (names_prog env ns b names k)"
  using assms(2)
proof (induction names arbitrary: k w)
  case (Cons n names)
  show ?case
    unfolding names_prog.simps Let_def desires_sel
    by (rule safe_call) (auto intro!: same Cons safe_call dest!: ret_db[OF _ rd.crud_get_db] ret_db[OF _ ap.crud_get_db]
        split: sum.split option.split)
qed simp

lemma safe_clusters:
  assumes same: "\<And>w v. db w = db v \<Longrightarrow> G w v" and "\<And>v r. safe R G v (k r)"
  shows "safe R G w (clusters_prog env h ns ms mcs k)"
  using assms(2)
proof (induction mcs arbitrary: k w)
  case (Cons mc mcs)
  show ?case
    unfolding clusters_prog.simps
    by (rule safe_call) (auto intro!: same Cons safe_names dest!: ret_db[OF _ status.factory_db] split: sum.split)
qed simp

lemma safe_list:
  assumes same: "\<And>w v. db w = db v \<Longrightarrow> G w v"
  shows "safe R G w (list_prog env h ns)"
  unfolding list_prog_def
  by (intro safe_fail safe_clusters) (auto intro!: same safe.Ret simp: listClusterMappings_db fail_or_def split: sum.split)

lemmas safe_reads = safe_get safe_kubeconfig safe_list

end

section \<open>Requests that write\<close>

text \<open>
  A relation that the handlers keep to: what a created document means, \<open>K\<close>, lasts under it, and
  allows the mapping of a cluster in the namespaces \<open>ok_ns\<close>.
\<close>

locale handler_rely = api_server env db h
  for env :: "'w env" and db :: "'w \<Rightarrow> database" and h :: "'w handler" +
  fixes G :: "'w \<Rightarrow> 'w \<Rightarrow> bool" and K :: "docref \<Rightarrow> 'w \<Rightarrow> bool" and ok_ns :: "string \<Rightarrow> bool"
  assumes same: "db w = db v \<Longrightarrow> G w v"
    and lasts: "K r w \<Longrightarrow> G w v \<Longrightarrow> K r v"
    and allocates: "G v (snd (allocate env (h_Placement h) v))"
    and applies: "G v (snd (crud_create env apply_ops (specs_db mc) CollectionApplyDesires x v))"
    and reads: "G v (snd (crud_create env read_ops (specs_db mc) CollectionReadDesires y v))"
    and replaces: "G v (snd (crud_replace env apply_ops (specs_db mc) CollectionApplyDesires x v))"
    and applied: "crud_create env apply_ops (specs_db mc) CollectionApplyDesires x v = (Inr x', v') \<Longrightarrow>
      K (doc_ref (specs_db mc) CollectionApplyDesires (md_documentID (ad_meta x))) v'"
    and created: "crud_create env read_ops (specs_db mc) CollectionReadDesires y v = (Inr y', v') \<Longrightarrow>
      K (doc_ref (specs_db mc) CollectionReadDesires (md_documentID (rd_meta y))) v'"
    and mapped: "ok_ns ns \<Longrightarrow> K (aRef env mc ns n) v \<Longrightarrow> K (rRef env mc ns n) v \<Longrightarrow>
      G v (snd (setClusterMapping env (h_Placement h) ns n mc v))"
begin

lemma safe_update: "safe G G w (update_prog env h ns n body)"
proof (cases "decode_body env body")
  case (Some obj0)
  show ?thesis
    unfolding update_prog_def Some option.case Let_def desires_sel serializeCR_def sum.case
    by (intro safe_fail safe.Ret) (auto elim!: specs_cases simp: same replaces)
qed (simp add: update_prog_def safe.Ret)

lemma safe_create_desires:
  assumes "ok_ns ns"
  shows "safe G G w (create_desires_prog env h ns obj kc mc)"
proof -
  have last: "K r v" if "G\<^sup>*\<^sup>* w v" "K r w" for r w v
    using that by (induction rule: rtranclp_induct) (auto intro: lasts)
  let ?n = "om_name (mhc_ObjectMeta obj)"
  have mapping: "safe G G v (call (setClusterMapping env (h_Placement h) ns ?n mc) (fail_or (\<lambda>_. Ret (writeJSON 200 (PCluster obj)))))"
    if "K (aRef env mc ns ?n) v" "K (rRef env mc ns ?n) v" for v
    using that by (intro safe_fail mapped[OF assms] safe.Ret) (auto dest: last)
  have reading: "safe G G v (call (crud_create env read_ops (specs_db mc) CollectionReadDesires (mhc_read env mc ns obj))
      (fail_or (\<lambda>_. call (setClusterMapping env (h_Placement h) ns ?n mc) (fail_or (\<lambda>_. Ret (writeJSON 200 (PCluster obj)))))))"
    if a: "K (aRef env mc ns ?n) v" for v
  proof (rule safe_fail, rule reads, rule mapping)
    fix u y u' assume u: "G\<^sup>*\<^sup>* v u" and c: "crud_create env read_ops (specs_db mc) CollectionReadDesires (mhc_read env mc ns obj) u = (Inr y, u')"
    with last[OF u a] reads[where v = u and mc = mc and y = "mhc_read env mc ns obj"] show "K (aRef env mc ns ?n) u'" by (auto intro: lasts)
    from created[OF c] show "K (rRef env mc ns ?n) u'" by (simp add: rRef_def)
  qed
  show ?thesis
    unfolding create_desires_prog_def
  proof (rule safe_fail, simp add: same)
    fix v b v' assume "h_SpecsDB h mc v = (Inr b, v')"
    then have b: "b = specs_db mc" by (auto elim: specs_cases)
    obtain k where k: "serializeNamespace ns = Inr k" by (simp add: serializeNamespace_def)
    have cluster: "safe G G v (call (crud_create env apply_ops (specs_db mc) CollectionApplyDesires (mhc_apply env mc ns obj kc))
        (fail_or (\<lambda>_. call (crud_create env read_ops (specs_db mc) CollectionReadDesires (mhc_read env mc ns obj))
        (fail_or (\<lambda>_. call (setClusterMapping env (h_Placement h) ns ?n mc) (fail_or (\<lambda>_. Ret (writeJSON 200 (PCluster obj)))))))))" for v
      by (rule safe_fail, rule applies, rule reading) (use applied[where x = "mhc_apply env mc ns obj kc"] in \<open>simp add: aRef_def\<close>)
    show "safe G G v' (case serializeNamespace ns of
       Inl e \<Rightarrow> Ret (writeErrorMsg 500 ''Failed to serialize namespace'')
     | Inr nsKubeContent \<Rightarrow>
         call (rc_Create (ApplyDesires env b) (ns_desire env mc ns nsKubeContent)) (\<lambda>res.
         if (case res of Inl e \<Rightarrow> \<not> IsAlreadyExistsError e | Inr _ \<Rightarrow> False)
         then Ret (writeError (projl res))
         else
           call (rc_Create (ApplyDesires env b) (mhc_apply env mc ns obj kc)) (fail_or (\<lambda>_.
           call (rc_Create (ReadDesires env b) (mhc_read env mc ns obj)) (fail_or (\<lambda>_.
           call (setClusterMapping env (h_Placement h) ns ?n mc) (fail_or (\<lambda>_.
           Ret (writeJSON 200 (PCluster obj))))))))))"
      unfolding b desires_sel k sum.case
    proof (rule safe_call, intro conjI)
      fix v r v' assume "crud_create env apply_ops (specs_db mc) CollectionApplyDesires
         (ns_desire env mc ns k) v = (r, v')"
      with applies show "G v v'" by (metis snd_conv)
    qed (simp add: cluster safe.Ret)
  qed
qed

lemma safe_create:
  assumes "ok_ns ns"
  shows "safe G G w (create_prog env h ns body)"
proof (cases "decode_body env body")
  case (Some obj0)
  have "safe G G v (call (allocate env (h_Placement h)) (fail_or (create_desires_prog env h ns obj kc)))" for v obj kc
    by (intro safe_fail allocates safe_create_desires assms)
  then show ?thesis
    unfolding create_prog_def Some option.case Let_def serializeCR_def sum.case
    by (intro safe_call) (auto intro: same safe.Ret dest!: ret_db[OF _ mapping_read] split: sum.split)
qed (simp add: create_prog_def safe.Ret)

end

section \<open>The counts\<close>

sublocale api_server \<subseteq> counts: handler_rely env db h
    "\<lambda>w w'. db_steps env (h_Placement h) (db w) (db w')" "\<lambda>_ _. True" "\<lambda>_. True"
  by unfold_locales (simp_all add: steps_allocate steps_create ap.desire_crud_axioms rd.desire_crud_axioms
      steps_replace steps_set_mapping)

context api_server
begin

lemma safe_delete: "safe (\<lambda>w w'. db_steps env (h_Placement h) (db w) (db w')) (\<lambda>w w'. db_steps env (h_Placement h) (db w) (db w')) w (delete_prog env h ns n)"
  unfolding delete_prog_def Let_def
proof (rule safe_fail, simp, rule safe_fail, simp)
  fix mc v b v' assume "h_SpecsDB h mc v = (Inr b, v')"
  then have b: "b = specs_db mc" by (auto elim: specs_cases)
  show "safe (\<lambda>w w'. db_steps env (h_Placement h) (db w) (db w')) (\<lambda>w w'. db_steps env (h_Placement h) (db w) (db w')) v'
    (call (rc_Get (ApplyDesires env b) (mhcDocumentID env ns n)) (fail_or (\<lambda>existing.
     call (rc_Delete (ApplyDesires env b) (mhcDocumentID env ns n)) (fail_or (\<lambda>_.
     call (rc_Delete (ReadDesires env b) (mhcDocumentID env ns n)) (fail_or (\<lambda>_.
     call (rc_Create (DeleteDesires env b)
         (mhc_delete env mc ns n (sp_clusterID (ad_spec existing)))) (fail_or (\<lambda>_.
     call (release env (h_Placement h) mc) (fail_or (\<lambda>_.
     call (deleteClusterMapping env (h_Placement h) ns n) (fail_or (\<lambda>_.
     Ret (writeJSON 200 (PJson (JObj [(''status'', JStr ''deleted'')]))))))))))))))))"
    unfolding b desires_sel
    by (intro safe_fail safe.Ret steps_create dl.desire_crud_axioms steps_delete steps_release
        steps_delete_mapping) simp
qed

lemma counts_safe: "safe (\<lambda>w w'. db_steps env (h_Placement h) (db w) (db w')) (\<lambda>w w'. db_steps env (h_Placement h) (db w) (db w')) w (prog_of env h r)"
  by (cases r) (simp_all add: counts.safe_create counts.safe_update safe_delete safe_reads)

end

sublocale api_server \<subseteq> counting: interference
    "\<lambda>w w'. db_steps env (h_Placement h) (db w) (db w')" "\<lambda>_. True" "prog_of env h"
  by unfold_locales (rule counts_safe)

section \<open>The cluster map\<close>

text \<open>The changes that requests without a Delete make: quiet ones, and mappings of a cluster that has both desires.\<close>

definition backing :: "'w env \<Rightarrow> string \<Rightarrow> database \<Rightarrow> database \<Rightarrow> bool" where
  "backing env p D D' \<longleftrightarrow> quiet p D D' \<or> (\<exists>ns n mc t. CHR '':'' \<notin> set ns \<and>
     D (aRef env mc ns n) \<noteq> None \<and> D (rRef env mc ns n) \<noteq> None \<and>
     D' = put_doc (mapRef p ns n) (mapping_doc ns n mc) t D)"

lemma backing_keeps: "backing env p D D' \<Longrightarrow> D r \<noteq> None \<Longrightarrow> D' r \<noteq> None"
  by (auto simp: backing_def quiet_def put_doc_apply)

context api_server
begin

lemma backing_backed: "backing env (h_Placement h) D D' \<Longrightarrow> backed env (h_Placement h) D \<Longrightarrow> backed env (h_Placement h) D'"
  unfolding backing_def using backed_quiet backed_put by blast

lemma backing_create:
  assumes "desire_crud env db D"
  shows "backing env (h_Placement h) (db v) (db (snd (crud_create env D (specs_db mc) c x v)))"
  using quiet_create[OF assms, of mc c x v] by (cases "crud_create env D (specs_db mc) c x v") (simp add: backing_def)

lemma backing_created:
  assumes "desire_crud env db D" and "crud_create env D (specs_db mc) c x v = (Inr y, v')"
  shows "db v' (doc_ref (specs_db mc) c (d_GetDocumentID D x)) \<noteq> None"
  using quiet_create[OF assms] by simp

lemma backing_mapping:
  assumes "CHR '':'' \<notin> set ns" and "db v (aRef env mc ns n) \<noteq> None" and "db v (rRef env mc ns n) \<noteq> None"
  shows "backing env (h_Placement h) (db v) (db (snd (setClusterMapping env (h_Placement h) ns n mc v)))"
  using set_mapping[of "h_Placement h" ns n mc v "fst (setClusterMapping env (h_Placement h) ns n mc v)"
      "snd (setClusterMapping env (h_Placement h) ns n mc v)"] assms
  by (auto simp: backing_def)

end

sublocale api_server \<subseteq> backs: handler_rely env db h "\<lambda>w w'. backing env (h_Placement h) (db w) (db w')"
    "\<lambda>r w. db w r \<noteq> None" "\<lambda>ns. CHR '':'' \<notin> set ns"
proof (unfold_locales, goal_cases)
  case (2 r w v)
  then show ?case using backing_keeps by blast
next
  case (3 v)
  show ?case using quiet_allocate[of v] by (cases "allocate env (h_Placement h) v") (simp add: backing_def)
next
  case (6 v mc x)
  show ?case using quiet_replace[of mc CollectionApplyDesires x v]
    by (cases "crud_replace env apply_ops (specs_db mc) CollectionApplyDesires x v") (simp add: backing_def)
next
  case (7 mc x v x' v')
  then show ?case using backing_created[OF ap.desire_crud_axioms] by simp
next
  case (8 mc y v y' v')
  then show ?case using backing_created[OF rd.desire_crud_axioms] by simp
qed (simp_all add: backing_create ap.desire_crud_axioms rd.desire_crud_axioms backing_mapping, simp add: backing_def)

sublocale api_server \<subseteq> backed_map: interference "\<lambda>w w'. backing env (h_Placement h) (db w) (db w')"
    keeps_backing "prog_of env h"
proof unfold_locales
  fix r w assume "keeps_backing r"
  then show "safe (\<lambda>w w'. backing env (h_Placement h) (db w) (db w')) (\<lambda>w w'. backing env (h_Placement h) (db w) (db w')) w (prog_of env h r)"
    by (cases r) (simp_all add: keeps_backing_def backs.safe_create backs.safe_update safe_reads backs.same)
qed

context api_server
begin

lemma interleaved_within:
  assumes "sys_steps (map (prog_of env h) rs, w) (ps, w')" and "within_capacity env (h_Placement h) (db w)"
  shows "within_capacity env (h_Placement h) (db w')"
proof -
  have "(\<lambda>w w'. db_steps env (h_Placement h) (db w) (db w'))\<^sup>*\<^sup>* w w'"
    by (rule counting.interleaved[OF assms(1)]) (simp add: list_all_iff)
  then show ?thesis using assms(2) by (induction rule: rtranclp_induct) (auto dest: db_steps_within)
qed

lemma interleaved_backed_map:
  assumes "sys_steps (map (prog_of env h) rs, w) (ps, w')" and "list_all keeps_backing rs"
    and "backed env (h_Placement h) (db w)"
  shows "backed env (h_Placement h) (db w')"
proof -
  have "(\<lambda>w w'. backing env (h_Placement h) (db w) (db w'))\<^sup>*\<^sup>* w w'"
    by (rule backed_map.interleaved[OF assms(1,2)])
  then show ?thesis using assms(3) by (induction rule: rtranclp_induct) (auto dest: backing_backed)
qed

end

text \<open>The handler that \<open>main\<close> builds, on the emulator.\<close>

interpretation emulator_counting: interference
    "\<lambda>w w'. db_steps emu_env ''placement'' (emu_db w) (emu_db w')" "\<lambda>_. True" "prog_of emu_env demo_h"
  using emulator_api.counting.interference_axioms by (simp add: main_handler_def)

section \<open>Properties\<close>

text \<open>C7: CX: however the calls of any number of requests interleave, and whatever fails in them,
  every management cluster of the placement database has a count between zero and its capacity.\<close>

theorem interleaved_within_capacity:
  assumes "api_server env db h" and "sys_steps (map (prog_of env h) rs, w) (ps, w')"
    and "within_capacity env (h_Placement h) (db w)"
  shows "within_capacity env (h_Placement h) (db w')"
  by (rule api_server.interleaved_within[OF assms])


text \<open>The state of a system of demo requests after a schedule, and the answers so far.\<close>

definition demo_system :: "request list \<Rightarrow> nat list \<Rightarrow> emu system" where
  "demo_system rs schedule = sched schedule (map (prog_of emu_env demo_h) rs, demo_placement)"

lemma demo_system_steps:
  "sys_steps (map (prog_of emu_env demo_h) rs, demo_placement) (fst (demo_system rs sch), snd (demo_system rs sch))"
  by (simp add: demo_system_def sched_steps)

theorem interleaved_within_capacity_witness:
  "within_capacity emu_env ''placement'' (emu_db (snd (demo_system
     [ReqCreate ''ns'' demo_body, ReqDelete ''ns'' ''c1'', ReqCreate ''ns'' demo_body] [0, 1, 2, 0, 2, 1])))"
  using interleaved_within_capacity[OF emulator_api.api_server_axioms demo_system_steps] demo_placement_within
  by (simp add: main_handler_def)

lemma demo_placement_backed: "backed emu_env (h_Placement demo_h) (emu_db demo_placement)"
  by (auto simp: backed_def emu_db_def demo_placement_def main_handler_def)


section \<open>Two requests to create one cluster\<close>

text \<open>
  The look at the mapping and its write are separate calls, so the conflict of a second Create is
  found only when the first is complete: two that overlap both answer 200, both take
  a place, and leave desires in two management clusters, of which the map has the last.
\<close>

definition answer :: "'w prog \<Rightarrow> nat" where
  "answer p = (case p of Ret r \<Rightarrow> rs_code r | Act f \<Rightarrow> 0)"

lemma create_race:
  "case demo_system [ReqCreate ''ns'' demo_body, ReqCreate ''ns'' demo_body] [0,1,0,1,0,1,0,1,0,1,0,1,0,1] of
     (ps, w) \<Rightarrow> map answer ps = [200, 200] \<and>
       emu_db w (aRef emu_env ''mc-01'' ''ns'' ''c1'') \<noteq> None \<and>
       emu_db w (aRef emu_env ''mc-02'' ''ns'' ''c1'') \<noteq> None \<and>
       fst (getClusterMapping emu_env ''placement'' ''ns'' ''c1'' w) = Inr ''mc-01''"
  by code_simp

end
