(* ===== verification/Seed.thy ===== *)
theory Seed
  imports InterleavingClaims CedarPolicies
begin

text \<open>
  \<open>hack/seed-e2e.go\<close>, which prepares the databases of an emulator for the end-to-end tests: it clears
  the cluster map and the desires of two management clusters, gives both an empty place of ten
  clusters, and stores a policy for one user. The properties say that it sets up what the
  properties of the server start from. The lines that it prints, the closing of its clients and the texts
  around the errors are left out.
\<close>

section \<open>The program\<close>

text \<open>\<open>log.Fatalf\<close> ends the program: \<open>Inl\<close> with the error, after the effects so far.\<close>

definition or_fatal :: "('w, 'a) ret \<Rightarrow> ('a \<Rightarrow> 'w \<Rightarrow> ('w, 'b) ret) \<Rightarrow> ('w, 'b) ret" where
  "or_fatal r k = (case r of (Inl e, w) \<Rightarrow> (Inl e, w) | (Inr a, w) \<Rightarrow> k a w)"

fun each :: "('x \<Rightarrow> 'w \<Rightarrow> ('w, unit) ret) \<Rightarrow> 'x list \<Rightarrow> 'w \<Rightarrow> ('w, unit) ret" where
  "each f [] w = (Inr (), w)"
| "each f (x # xs) w = or_fatal (f x w) (\<lambda>_. each f xs)"

definition open_client :: "'w env \<Rightarrow> string \<Rightarrow> 'w \<Rightarrow> ('w, unit) ret" where
  "open_client env b w = (case fs_open env b w of (None, w1) \<Rightarrow> (Inr (), w1) | (Some e, w1) \<Rightarrow> (Inl e, w1))"

text \<open>
  The loops over \<open>Documents(ctx)\<close> end at the first error of \<open>Next\<close>, the end of the documents or
  not. \<open>breaks b c\<close> is the number of documents after which the stream of a collection breaks, if it does.
\<close>

definition next_docs :: "'w env \<Rightarrow> (string \<Rightarrow> string \<Rightarrow> nat option) \<Rightarrow> string \<Rightarrow> string \<Rightarrow> 'w \<Rightarrow> snapshot list \<times> 'w" where
  "next_docs env breaks b c w = (case fs_query env b c None w of
      (Inl e, w1) \<Rightarrow> ([], w1)
    | (Inr ss, w1) \<Rightarrow> ((case breaks b c of None \<Rightarrow> ss | Some n \<Rightarrow> take n ss), w1))"

definition delete_ref :: "'w env \<Rightarrow> docref \<Rightarrow> 'w \<Rightarrow> ('w, unit) ret" where
  "delete_ref env r w = or_fatal (fs_write env (DeleteDoc r) w) (\<lambda>_ w1. (Inr (), w1))"

definition clear_collection :: "'w env \<Rightarrow> (string \<Rightarrow> string \<Rightarrow> nat option) \<Rightarrow> string \<Rightarrow> string \<Rightarrow> 'w \<Rightarrow> ('w, unit) ret" where
  "clear_collection env breaks b c w = (case next_docs env breaks b c w of
      (ss, w1) \<Rightarrow> each (\<lambda>s. delete_ref env (snap_ref s)) ss w1)"

definition clear_desires :: "'w env \<Rightarrow> (string \<Rightarrow> string \<Rightarrow> nat option) \<Rightarrow> string \<Rightarrow> 'w \<Rightarrow> ('w, unit) ret" where
  "clear_desires env breaks mc = each (\<lambda>suffix w.
     let dbID = ''mc-'' @ mc @ ''-'' @ suffix
     in or_fatal (open_client env dbID w) (\<lambda>_.
        each (clear_collection env breaks dbID) [''applydesires'', ''deletedesires'', ''readdesires'']))
     [''specs'', ''status'']"

definition seed_mcs :: "string list" where
  "seed_mcs = [''mc-01'', ''mc-02'']"

definition seed_place :: "'w env \<Rightarrow> string \<Rightarrow> 'w \<Rightarrow> ('w, unit) ret" where
  "seed_place env mc w = or_fatal (fs_write env (SetDoc (doc_ref ''placement'' ''managementclusters'' mc)
     [''capacity'' \<mapsto> FInt 10, ''allocated'' \<mapsto> FInt 0]) w) (\<lambda>_ w1. (Inr (), w1))"

definition seed_policy :: "string \<Rightarrow> string" where
  "seed_policy userID = join [newline] [''permit ('', ''    principal == HCP::User::'' @ dquote # userID @ dquote # '','',
     ''    action,'', ''    resource'', '');'']"

definition seed_main :: "'w env \<Rightarrow> (string \<Rightarrow> string \<Rightarrow> nat option) \<Rightarrow> string \<Rightarrow> string \<Rightarrow> 'w \<Rightarrow> ('w, unit) ret" where
  "seed_main env breaks emulator userID w =
     (if emulator = [] then (Inl (errorf ''FIRESTORE_EMULATOR_HOST must be set''), w)
      else or_fatal (open_client env ''placement'' w) (\<lambda>_ w1.
        or_fatal (clear_collection env breaks ''placement'' ''clustermap'' w1) (\<lambda>_ w2.
        or_fatal (each (clear_desires env breaks) seed_mcs w2) (\<lambda>_ w3.
        or_fatal (each (seed_place env) seed_mcs w3) (\<lambda>_ w4.
        if userID = [] then (Inr (), w4)
        else or_fatal (open_client env ''cedar'' w4) (\<lambda>_ w5.
          or_fatal (fs_write env (SetDoc (doc_ref ''cedar'' ''global-policies'' ''default'')
              [''policies.cedar'' \<mapsto> FStr (seed_policy userID)]) w5) (\<lambda>_ w6. (Inr (), w6))))))))"

section \<open>Runs that complete\<close>

context firestore_up
begin

text \<open>While Firestore is up a step completes and leaves documents with \<open>P\<close>.\<close>

definition completes :: "(database \<Rightarrow> bool) \<Rightarrow> ('w, 'a) ret \<Rightarrow> bool" where
  "completes P r \<longleftrightarrow> (\<exists>a w. r = (Inr a, w) \<and> up w \<and> P (db w))"

lemma completes_then:
  assumes "completes P r" and "\<And>a w. up w \<Longrightarrow> P (db w) \<Longrightarrow> completes Q (k a w)"
  shows "completes Q (or_fatal r k)"
  using assms by (auto simp: completes_def or_fatal_def)

lemma completes_imp: "completes P r \<Longrightarrow> (\<And>D. P D \<Longrightarrow> Q D) \<Longrightarrow> completes Q r"
  by (auto simp: completes_def)

text \<open>A loop whose body turns \<open>P done\<close> into \<open>P (x # done)\<close>.\<close>

lemma completes_each:
  assumes "\<And>x w done. x \<in> set xs \<Longrightarrow> up w \<Longrightarrow> P done (db w) \<Longrightarrow> completes (P (insert x done)) (f x w)"
    and "up w" and "P done (db w)"
  shows "completes (P (set xs \<union> done)) (each f xs w)"
  using assms
proof (induction xs arbitrary: w "done")
  case (Cons x xs)
  have "completes (P (set xs \<union> insert x done)) (or_fatal (f x w) (\<lambda>_. each f xs))"
  proof (rule completes_then)
    show "completes (P (insert x done)) (f x w)" by (rule Cons.prems) (use Cons.prems in simp_all)
    show "completes (P (set xs \<union> insert x done)) (each f xs v)" if "up v" "P (insert x done) (db v)" for v
      by (rule Cons.IH) (use that Cons.prems in simp_all)
  qed
  then show ?case by simp
qed (simp add: completes_def)

lemma completes_write:
  assumes "up w" and "\<And>t. \<exists>D'. apply_wop op t (db w) = Some D' \<and> P D'"
  shows "completes P (or_fatal (fs_write env op w) (\<lambda>_ w1. (Inr (), w1)))"
proof -
  obtain t w' where "fs_write env op w = (Inr t, w')" "up w'"
    using write_possible[OF assms(1)] assms(2) by blast
  with assms(2)[of t] write_ok show ?thesis by (fastforce simp: completes_def or_fatal_def)
qed

lemma completes_open: "up w \<Longrightarrow> P (db w) \<Longrightarrow> completes P (open_client env b w)"
  using open_up[of w b] open_db[of b w]
  by (cases "fs_open env b w") (auto simp: completes_def open_client_def simp del: open_db)

section \<open>What seeding leaves\<close>

definition wiped :: "(docref \<Rightarrow> bool) \<Rightarrow> database \<Rightarrow> database" where
  "wiped A D = (\<lambda>r. if A r then None else D r)"

lemma wiped_none [simp]: "wiped (\<lambda>_. False) D = D"
  by (simp add: wiped_def)

lemma wiped_wiped: "wiped A (wiped B D) = wiped (\<lambda>r. A r \<or> B r) D"
  by (auto simp: wiped_def)

lemma completes_wipes:
  assumes "\<And>x w. x \<in> set xs \<Longrightarrow> up w \<Longrightarrow> completes (\<lambda>D. D = wiped (A x) (db w)) (f x w)" and "up w"
  shows "completes (\<lambda>D. D = wiped (\<lambda>r. \<exists>x\<in>set xs. A x r) (db w)) (each f xs w)"
proof -
  have "completes (\<lambda>D. D = wiped (\<lambda>r. \<exists>x\<in>set xs \<union> {}. A x r) (db w)) (each f xs w)"
  proof (rule completes_each)
    fix x v don assume v: "x \<in> set xs" "up v" "db v = wiped (\<lambda>r. \<exists>x\<in>don. A x r) (db w)"
    show "completes (\<lambda>D. D = wiped (\<lambda>r. \<exists>x\<in>insert x don. A x r) (db w)) (f x v)"
      by (rule completes_imp[OF assms(1)[OF v(1,2)]]) (simp add: v(3) wiped_wiped)
  qed (simp_all add: assms(2))
  then show ?thesis by simp
qed

lemma completes_clear:
  assumes "up w" and "breaks b c = None"
  shows "completes (\<lambda>D. D = wiped (\<lambda>r. ref_db r = b \<and> ref_coll r = c) (db w)) (clear_collection env breaks b c w)"
proof -
  obtain ss w1 where q: "fs_query env b c None w = (Inr ss, w1)" and up1: "up w1"
    using query_up[OF assms(1), of b c None] by (cases "fs_query env b c None w") auto
  from q have ss: "set ss = listing b c None (db w)" and db1: "db w1 = db w"
    using query_ok[of b c None w ss] query_db[of b c None w] by simp_all
  have "completes (\<lambda>D. D = wiped (\<lambda>r. \<exists>s\<in>set ss. r = snap_ref s) (db w1)) (each (\<lambda>s. delete_ref env (snap_ref s)) ss w1)"
    by (rule completes_wipes) (auto simp: delete_ref_def wiped_def fun_upd_def up1 intro!: completes_write)
  moreover have "wiped (\<lambda>r. \<exists>s\<in>set ss. r = snap_ref s) (db w1) = wiped (\<lambda>r. ref_db r = b \<and> ref_coll r = c) (db w)"
  proof (rule ext)
    fix r
    have "(\<exists>s\<in>set ss. r = snap_ref s) \<longleftrightarrow> db w r \<noteq> None \<and> ref_db r = b \<and> ref_coll r = c"
      by (auto simp: ss listing_def matches_def) force
    then show "wiped (\<lambda>r. \<exists>s\<in>set ss. r = snap_ref s) (db w1) r = wiped (\<lambda>r. ref_db r = b \<and> ref_coll r = c) (db w) r"
      by (auto simp: wiped_def db1)
  qed
  ultimately show ?thesis by (simp add: clear_collection_def next_docs_def q assms(2))
qed

end

definition desire_collection :: "string \<Rightarrow> bool" where
  "desire_collection c \<longleftrightarrow> c \<in> {CollectionApplyDesires, CollectionDeleteDesires, CollectionReadDesires}"

text \<open>The documents that are gone after seeding.\<close>

definition stale :: "docref \<Rightarrow> bool" where
  "stale r \<longleftrightarrow> ref_db r = ''placement'' \<and> ref_coll r = collectionClusterMap \<or>
     (\<exists>mc\<in>set seed_mcs. ref_db r = specs_db mc \<or> ref_db r = status_db mc) \<and> desire_collection (ref_coll r)"

text \<open>The two places.\<close>

definition seeded_place :: "database \<Rightarrow> string \<Rightarrow> bool" where
  "seeded_place D mc \<longleftrightarrow> (\<exists>d. D (mcRef ''placement'' mc) = Some d \<and>
     sd_data d = [fieldCapacity \<mapsto> FInt 10, fieldAllocated \<mapsto> FInt 0])"

text \<open>The databases after seeding: two empty places, no cluster and no desire, the policy of the user.\<close>

definition policy_ref :: docref where
  "policy_ref = doc_ref ''cedar'' ''global-policies'' ''default''"

definition seeded :: "string \<Rightarrow> database \<Rightarrow> database \<Rightarrow> bool" where
  "seeded userID D D' \<longleftrightarrow> (\<forall>mc\<in>set seed_mcs. seeded_place D' mc) \<and> (\<forall>r. stale r \<longrightarrow> D' r = None) \<and>
     (userID \<noteq> [] \<longrightarrow> map_option sd_data (D' policy_ref) = Some [''policies.cedar'' \<mapsto> FStr (seed_policy userID)]) \<and>
     (\<forall>r. \<not> stale r \<longrightarrow> r \<notin> mcRef ''placement'' ` set seed_mcs \<longrightarrow> userID = [] \<or> r \<noteq> policy_ref \<longrightarrow> D' r = D r)"

lemma not_stale [simp]: "\<not> stale (mcRef ''placement'' mc)" "\<not> stale policy_ref"
    "policy_ref \<noteq> mcRef ''placement'' mc" "mcRef ''placement'' mc \<noteq> policy_ref"
  by (auto simp: stale_def placement_names specs_db_def status_db_def mcRef_def policy_ref_def)

lemma stale_no_place: "stale r \<Longrightarrow> r \<notin> mcRef ''placement'' ` S"
  by auto

context firestore_up
begin

lemma completes_desires:
  assumes "up w"
  shows "completes (\<lambda>D. D = wiped (\<lambda>r. (ref_db r = specs_db mc \<or> ref_db r = status_db mc) \<and>
     desire_collection (ref_coll r)) (db w)) (clear_desires env (\<lambda>_ _. None) mc w)"
proof -
  have "completes (\<lambda>D. D = wiped (\<lambda>r. \<exists>s\<in>set [''specs'', ''status'']. ref_db r = ''mc-'' @ mc @ ''-'' @ s \<and>
      desire_collection (ref_coll r)) (db w)) (clear_desires env (\<lambda>_ _. None) mc w)"
    unfolding clear_desires_def Let_def
  proof (rule completes_wipes, rule completes_then)
    fix s v assume "up v"
    then show "completes (\<lambda>D. D = db v) (open_client env (''mc-'' @ mc @ ''-'' @ s) v)" by (simp add: completes_open)
    fix u assume u: "up u" "db u = db v"
    have "completes (\<lambda>D. D = wiped (\<lambda>r. \<exists>c\<in>set [''applydesires'', ''deletedesires'', ''readdesires''].
        ref_db r = ''mc-'' @ mc @ ''-'' @ s \<and> ref_coll r = c) (db u))
      (each (clear_collection env (\<lambda>_ _. None) (''mc-'' @ mc @ ''-'' @ s)) [''applydesires'', ''deletedesires'', ''readdesires''] u)"
      by (rule completes_wipes) (simp_all add: completes_clear u(1))
    then show "completes (\<lambda>D. D = wiped (\<lambda>r. ref_db r = ''mc-'' @ mc @ ''-'' @ s \<and> desire_collection (ref_coll r)) (db v))
      (each (clear_collection env (\<lambda>_ _. None) (''mc-'' @ mc @ ''-'' @ s)) [''applydesires'', ''deletedesires'', ''readdesires''] u)"
      by (rule completes_imp) (auto simp: wiped_def fun_eq_iff u(2) desire_collection_def desire_collections)
  qed (rule assms)
  then show ?thesis
    by (rule completes_imp) (auto simp: wiped_def fun_eq_iff specs_db_def status_db_def)
qed

lemma completes_places:
  assumes "up w"
  shows "completes (\<lambda>D. (\<forall>mc\<in>set mcs. seeded_place D mc) \<and>
     (\<forall>r. r \<notin> mcRef ''placement'' ` set mcs \<longrightarrow> D r = db w r)) (each (seed_place env) mcs w)"
proof -
  have "completes (\<lambda>D. (\<forall>mc\<in>set mcs \<union> {}. seeded_place D mc) \<and>
     (\<forall>r. r \<notin> mcRef ''placement'' ` (set mcs \<union> {}) \<longrightarrow> D r = db w r)) (each (seed_place env) mcs w)"
  proof (rule completes_each)
    fix mc v don
    assume v: "up v" "(\<forall>mc\<in>don. seeded_place (db v) mc) \<and> (\<forall>r. r \<notin> mcRef ''placement'' ` don \<longrightarrow> db v r = db w r)"
    show "completes (\<lambda>D. (\<forall>m\<in>insert mc don. seeded_place D m) \<and>
        (\<forall>r. r \<notin> mcRef ''placement'' ` insert mc don \<longrightarrow> D r = db w r)) (seed_place env mc v)"
      unfolding seed_place_def
      by (rule completes_write)
        (use v in \<open>auto simp: seeded_place_def put_doc_apply mcRef_def placement_names\<close>)
  qed (simp_all add: assms)
  then show ?thesis by simp
qed

lemma seed_completes:
  assumes "up w" and "emulator \<noteq> []"
  shows "completes (seeded userID (db w)) (seed_main env (\<lambda>_ _. None) emulator userID w)"
proof -
  let ?D0 = "wiped stale (db w)"
  let ?placed = "\<lambda>D. (\<forall>mc\<in>set seed_mcs. seeded_place D mc) \<and> (\<forall>r. r \<notin> mcRef ''placement'' ` set seed_mcs \<longrightarrow> D r = ?D0 r)"
  let ?store = "\<lambda>w5. or_fatal (fs_write env (SetDoc policy_ref [''policies.cedar'' \<mapsto> FStr (seed_policy userID)]) w5)
      (\<lambda>_ w6. (Inr (), w6))"
  have desires: "completes (\<lambda>D. D = ?D0) (each (clear_desires env (\<lambda>_ _. None)) seed_mcs v)"
    if "up v" "db v = wiped (\<lambda>r. ref_db r = ''placement'' \<and> ref_coll r = collectionClusterMap) (db w)" for v
    by (rule completes_imp[OF completes_wipes[OF completes_desires that(1)]])
      (auto simp: that(2) wiped_def stale_def fun_eq_iff)
  have places: "completes ?placed (each (seed_place env) seed_mcs v)" if "up v" "db v = ?D0" for v
    using completes_places[OF that(1), of seed_mcs] by (simp add: that(2))
  have placed: "seeded [] (db w) D" if "?placed D" for D
    using that by (simp add: seeded_def wiped_def stale_no_place)
  have policy: "seeded userID (db w) (put_doc policy_ref [''policies.cedar'' \<mapsto> FStr (seed_policy userID)] t D)"
    if "?placed D" "userID \<noteq> []" for D t
    unfolding seeded_def
  proof (intro conjI ballI allI impI)
    fix r assume "stale r"
    then have "r \<noteq> policy_ref" "r \<notin> mcRef ''placement'' ` set seed_mcs" by auto
    with \<open>stale r\<close> that show "put_doc policy_ref [''policies.cedar'' \<mapsto> FStr (seed_policy userID)] t D r = None"
      by (simp add: wiped_def)
  next
    fix r assume "\<not> stale r" "r \<notin> mcRef ''placement'' ` set seed_mcs" "userID = [] \<or> r \<noteq> policy_ref"
    with that show "put_doc policy_ref [''policies.cedar'' \<mapsto> FStr (seed_policy userID)] t D r = db w r"
      by (simp add: wiped_def)
  qed (use that in \<open>simp_all add: seeded_place_def\<close>)
  have rest: "completes (seeded userID (db w)) (if userID = [] then (Inr (), v)
      else or_fatal (open_client env ''cedar'' v) (\<lambda>_. ?store))" if v: "up v" "?placed (db v)" for v
  proof (cases "userID = []")
    case True
    with placed[OF v(2)] v(1) show ?thesis by (simp add: completes_def)
  next
    case False
    have "completes (seeded userID (db w)) (or_fatal (open_client env ''cedar'' v) (\<lambda>_. ?store))"
    proof (rule completes_then, rule completes_open, rule v(1), rule v(2))
      show "completes (seeded userID (db w)) (?store u)" if "up u" "?placed (db u)" for u
        by (rule completes_write) (use that policy False in simp_all)
    qed
    with False show ?thesis by simp
  qed
  show ?thesis
    unfolding seed_main_def if_not_P[OF assms(2)] policy_ref_def[symmetric] collectionClusterMap_def[symmetric]
  proof (rule completes_then)
    show "completes (\<lambda>D. D = db w) (open_client env ''placement'' w)" by (simp add: completes_open assms(1))
    fix w1 assume w1: "up w1" "db w1 = db w"
    show "completes (seeded userID (db w)) (or_fatal (clear_collection env (\<lambda>_ _. None) ''placement'' collectionClusterMap w1) (\<lambda>_ w2.
        or_fatal (each (clear_desires env (\<lambda>_ _. None)) seed_mcs w2) (\<lambda>_ w3.
        or_fatal (each (seed_place env) seed_mcs w3) (\<lambda>_ w4.
        if userID = [] then (Inr (), w4) else or_fatal (open_client env ''cedar'' w4) (\<lambda>_. ?store)))))"
    proof (rule completes_then[OF completes_clear[OF w1(1) refl]], rule completes_then[OF desires])
      fix w2 assume "db w2 = wiped (\<lambda>r. ref_db r = ''placement'' \<and> ref_coll r = collectionClusterMap) (db w1)"
      then show "db w2 = wiped (\<lambda>r. ref_db r = ''placement'' \<and> ref_coll r = collectionClusterMap) (db w)"
        by (simp add: w1(2))
    qed (auto intro: completes_then[OF places] rest)
  qed
qed

end

section \<open>Properties\<close>

lemma seeded_within:
  assumes "seeded userID D D'"
    and "\<And>mc d. mc \<notin> set seed_mcs \<Longrightarrow> D (mcRef ''placement'' mc) = Some d \<Longrightarrow>
      0 \<le> loadOf env (sd_data d) \<and> loadOf env (sd_data d) \<le> capOf env (sd_data d)"
  shows "within_capacity env ''placement'' D'"
  unfolding within_capacity_def
proof (intro allI impI)
  fix mc d assume d: "D' (mcRef ''placement'' mc) = Some d"
  show "0 \<le> loadOf env (sd_data d) \<and> loadOf env (sd_data d) \<le> capOf env (sd_data d)"
  proof (cases "mc \<in> set seed_mcs")
    case True
    with assms(1) d have "sd_data d = [fieldCapacity \<mapsto> FInt 10, fieldAllocated \<mapsto> FInt 0]"
      by (auto simp: seeded_def seeded_place_def)
    then show ?thesis by (simp add: loadOf_def capOf_def toInt64_def placement_names)
  next
    case False
    then have "mcRef ''placement'' mc \<notin> mcRef ''placement'' ` set seed_mcs" by (auto simp: mcRef_def)
    moreover have "\<forall>r. \<not> stale r \<longrightarrow> r \<notin> mcRef ''placement'' ` set seed_mcs \<longrightarrow> userID = [] \<or> r \<noteq> policy_ref \<longrightarrow> D' r = D r"
      using assms(1) by (simp add: seeded_def)
    ultimately have "D (mcRef ''placement'' mc) = Some d" using d by (metis not_stale(1,4))
    with False assms(2) show ?thesis by blast
  qed
qed

lemma seeded_backed: "seeded userID D D' \<Longrightarrow> backed env ''placement'' D'"
  by (simp add: seeded_def backed_def stale_def mapRef_def)

lemma seeded_global: "seeded userID D D' \<Longrightarrow> userID \<noteq> [] \<Longrightarrow> global_of (NewStore ''cedar'') D' = seed_policy userID"
  by (auto simp: seeded_def global_of_def NewStore_def policy_ref_def cedar_names)



text \<open>A stream that breaks is taken for its end: seeding reports success, and the old mapping is still there.\<close>

lemma seed_keeps_stale:
  "case seed_main emu_env (\<lambda>b c. if c = ''clustermap'' then Some 0 else None) ''localhost:9090'' [] (snd demo_created) of
     (r, w) \<Rightarrow> r = Inr () \<and> emu_db w (mapRef ''placement'' ''ns'' ''c1'') \<noteq> None \<and>
       emu_db w (aRef emu_env ''mc-02'' ''ns'' ''c1'') = None"
  by code_simp

end
